(* ===== verification/Prelude.thy ===== *)
theory Prelude
  imports Main "HOL-Library.AList" "HOL-Library.Multiset"
begin

text \<open>
  Shared vocabulary of the development: Go maps, the loops the sources run over them, the
  stable sort of the standard library, and the lemmas every component uses.

  A Go \<^verbatim>\<open>map[K]V\<close> is an association list with distinct keys (\<open>gm_ok\<close>).  The order of the
  list stands for the order in which one \<^verbatim>\<open>range\<close> visits the map; Go leaves it unspecified, so
  results about a loop over a map are stated for every list.  Reading a missing key of a
  \<^verbatim>\<open>map[K]int\<close> gives zero (\<open>gm_get\<close>), of a \<^verbatim>\<open>map[K][]V\<close> the empty slice (\<open>gm_list\<close>).
\<close>

named_theorems gomap_simps \<open>reading a Go map after an update\<close>
named_theorems gomap_ok \<open>operations on Go maps keep the keys distinct\<close>

type_synonym ('k, 'v) gomap = "('k \<times> 'v) list"

section \<open>Go maps\<close>

definition gm_ok :: "('k, 'v) gomap \<Rightarrow> bool" where
  "gm_ok m \<longleftrightarrow> distinct (map fst m)"

definition gm_get :: "('k, int) gomap \<Rightarrow> 'k \<Rightarrow> int" where
  "gm_get m k = (case map_of m k of None \<Rightarrow> 0 | Some v \<Rightarrow> v)"

definition gm_list :: "('k, 'v list) gomap \<Rightarrow> 'k \<Rightarrow> 'v list" where
  "gm_list m k = (case map_of m k of None \<Rightarrow> [] | Some v \<Rightarrow> v)"

definition gm_has :: "('k, 'v) gomap \<Rightarrow> 'k \<Rightarrow> bool" where
  "gm_has m k \<longleftrightarrow> map_of m k \<noteq> None"

text \<open>\<^verbatim>\<open>m[k] = v\<close>, \<^verbatim>\<open>delete(m, k)\<close> and \<^verbatim>\<open>m[k] += v\<close>.\<close>

definition gm_put :: "'k \<Rightarrow> 'v \<Rightarrow> ('k, 'v) gomap \<Rightarrow> ('k, 'v) gomap" where
  "gm_put k v m = AList.update k v m"

definition gm_del :: "'k \<Rightarrow> ('k, 'v) gomap \<Rightarrow> ('k, 'v) gomap" where
  "gm_del k m = AList.delete k m"

definition gm_add :: "'k \<Rightarrow> int \<Rightarrow> ('k, int) gomap \<Rightarrow> ('k, int) gomap" where
  "gm_add k v m = gm_put k (gm_get m k + v) m"

text \<open>\<^verbatim>\<open>for k, v := range l { m[k] += v }\<close> and \<^verbatim>\<open>for k, v := range l { m[k] = v }\<close>.\<close>

fun gm_add_all :: "('k, int) gomap \<Rightarrow> ('k \<times> int) list \<Rightarrow> ('k, int) gomap" where
  "gm_add_all m [] = m"
| "gm_add_all m ((k, v) # l) = gm_add_all (gm_add k v m) l"

fun gm_put_all :: "('k, 'v) gomap \<Rightarrow> ('k \<times> 'v) list \<Rightarrow> ('k, 'v) gomap" where
  "gm_put_all m [] = m"
| "gm_put_all m ((k, v) # l) = gm_put_all (gm_put k v m) l"

text \<open>\<^verbatim>\<open>m[k] = append(m[k], v)\<close>, and the grouping loop built on it.\<close>

definition gm_push :: "'k \<Rightarrow> 'v \<Rightarrow> ('k, 'v list) gomap \<Rightarrow> ('k, 'v list) gomap" where
  "gm_push k v m = gm_put k (gm_list m k @ [v]) m"

fun group_into :: "('v \<Rightarrow> 'k) \<Rightarrow> ('k, 'v list) gomap \<Rightarrow> 'v list \<Rightarrow> ('k, 'v list) gomap" where
  "group_into f m [] = m"
| "group_into f m (x # xs) = group_into f (gm_push (f x) x m) xs"

definition group_by :: "('v \<Rightarrow> 'k) \<Rightarrow> 'v list \<Rightarrow> ('k, 'v list) gomap" where
  "group_by f xs = group_into f [] xs"

text \<open>Two maps with the same entries, whatever the order.\<close>

definition gm_equal :: "('k, 'v) gomap \<Rightarrow> ('k, 'v) gomap \<Rightarrow> bool" where
  "gm_equal a b \<longleftrightarrow>
     list_all (\<lambda>(k, _). map_of a k = map_of b k) a \<and> list_all (\<lambda>(k, _). map_of a k = map_of b k) b"

subsection \<open>Reading after writing\<close>

lemma map_of_gm_put [gomap_simps]: "map_of (gm_put k v m) = (map_of m)(k \<mapsto> v)"
  by (simp add: gm_put_def update_conv')

lemma map_of_gm_del [gomap_simps]: "map_of (gm_del k m) = (map_of m)(k := None)"
  by (simp add: gm_del_def delete_conv')

lemma gm_get_Nil [simp]: "gm_get [] k = 0"
  by (simp add: gm_get_def)

lemma gm_get_Cons: "gm_get ((a, v) # m) k = (if a = k then v else gm_get m k)"
  by (simp add: gm_get_def)

lemma gm_list_Nil [simp]: "gm_list [] k = []"
  by (simp add: gm_list_def)

lemma gm_get_put [gomap_simps]: "gm_get (gm_put k v m) k' = (if k' = k then v else gm_get m k')"
  by (simp add: gm_get_def gomap_simps)

lemma gm_get_del [gomap_simps]: "gm_get (gm_del k m) k' = (if k' = k then 0 else gm_get m k')"
  by (simp add: gm_get_def gomap_simps)

lemma gm_get_add [gomap_simps]:
  "gm_get (gm_add k v m) k' = (if k' = k then gm_get m k' + v else gm_get m k')"
  by (simp add: gm_add_def gomap_simps)

lemma gm_list_put [gomap_simps]:
  "gm_list (gm_put k v m) k' = (if k' = k then v else gm_list m k')"
  by (simp add: gm_list_def gomap_simps)

lemma gm_list_push [gomap_simps]:
  "gm_list (gm_push k v m) k' = (if k' = k then gm_list m k' @ [v] else gm_list m k')"
  by (simp add: gm_push_def gomap_simps)

lemma gm_has_put [gomap_simps]: "gm_has (gm_put k v m) k' \<longleftrightarrow> k' = k \<or> gm_has m k'"
  by (simp add: gm_has_def gomap_simps)

lemma gm_has_del [gomap_simps]: "gm_has (gm_del k m) k' \<longleftrightarrow> k' \<noteq> k \<and> gm_has m k'"
  by (simp add: gm_has_def gomap_simps)

lemma gm_has_iff: "gm_has m k \<longleftrightarrow> k \<in> fst ` set m"
  by (simp add: gm_has_def map_of_eq_None_iff)

lemma gm_has_Nil [simp]: "\<not> gm_has [] k"
  by (simp add: gm_has_def)

lemma gm_has_Cons: "gm_has ((a, v) # m) k \<longleftrightarrow> a = k \<or> gm_has m k"
  by (simp add: gm_has_def)

lemma gm_get_not_has: "\<not> gm_has m k \<Longrightarrow> gm_get m k = 0"
  by (simp add: gm_has_def gm_get_def)

lemma gm_list_not_has: "\<not> gm_has m k \<Longrightarrow> gm_list m k = []"
  by (simp add: gm_has_def gm_list_def)

lemma keys_gm_put: "fst ` set (gm_put k v m) = insert k (fst ` set m)"
  by (simp add: gm_put_def dom_update)

subsection \<open>Distinct keys\<close>

lemma gm_ok_Nil [simp, gomap_ok]: "gm_ok []"
  by (simp add: gm_ok_def)

lemma gm_ok_Cons: "gm_ok ((k, v) # m) \<longleftrightarrow> k \<notin> fst ` set m \<and> gm_ok m"
  by (simp add: gm_ok_def)

lemma gm_ok_put [gomap_ok]: "gm_ok m \<Longrightarrow> gm_ok (gm_put k v m)"
  by (simp add: gm_ok_def gm_put_def distinct_update)

lemma gm_ok_del [gomap_ok]: "gm_ok m \<Longrightarrow> gm_ok (gm_del k m)"
  by (simp add: gm_ok_def gm_del_def distinct_delete)

lemma gm_ok_add [gomap_ok]: "gm_ok m \<Longrightarrow> gm_ok (gm_add k v m)"
  by (simp add: gm_add_def gomap_ok)

lemma gm_ok_add_all [gomap_ok]: "gm_ok m \<Longrightarrow> gm_ok (gm_add_all m l)"
  by (induction m l rule: gm_add_all.induct) (simp_all add: gomap_ok)

lemma gm_ok_put_all [gomap_ok]: "gm_ok m \<Longrightarrow> gm_ok (gm_put_all m l)"
  by (induction m l rule: gm_put_all.induct) (simp_all add: gomap_ok)

lemma gm_ok_push [gomap_ok]: "gm_ok m \<Longrightarrow> gm_ok (gm_push k v m)"
  by (simp add: gm_push_def gomap_ok)

lemma gm_ok_filter [gomap_ok]: "gm_ok m \<Longrightarrow> gm_ok (filter P m)"
  by (simp add: gm_ok_def distinct_map_filter)

lemma gm_ok_get_iff: "gm_ok m \<Longrightarrow> (k, v) \<in> set m \<longleftrightarrow> map_of m k = Some v"
  by (simp add: gm_ok_def)

lemma gm_get_entry: "gm_ok m \<Longrightarrow> (k, v) \<in> set m \<Longrightarrow> gm_get m k = v"
  by (simp add: gm_ok_get_iff gm_get_def)

lemma gm_list_entry: "gm_ok m \<Longrightarrow> (k, v) \<in> set m \<Longrightarrow> gm_list m k = v"
  by (simp add: gm_ok_get_iff gm_list_def)

lemma gm_has_entry: "gm_has m k \<Longrightarrow> \<exists>v. map_of m k = Some v"
  by (simp add: gm_has_def)

subsection \<open>Loops that add into a map\<close>

lemma gm_get_add_all:
  "gm_get (gm_add_all m l) k = gm_get m k + (\<Sum>(k', v)\<leftarrow>l. if k' = k then v else 0)"
  by (induction m l rule: gm_add_all.induct) (simp_all add: gomap_simps)

lemma sum_entries_gm_get:
  "gm_ok l \<Longrightarrow> (\<Sum>(k', v)\<leftarrow>l. if k' = k then v else 0) = gm_get l k"
proof (induction l)
  case (Cons a l)
  obtain k' v where a: "a = (k', v)" by (cases a)
  show ?case
  proof (cases "k' = k")
    case True
    with Cons.prems a have "\<not> gm_has l k" by (simp add: gm_ok_Cons gm_has_iff)
    with Cons a True show ?thesis by (simp add: gm_ok_Cons gm_get_Cons gm_get_not_has)
  next
    case False
    with Cons a show ?thesis by (simp add: gm_ok_Cons gm_get_Cons)
  qed
qed simp

lemma gm_get_add_all_ok [gomap_simps]:
  "gm_ok l \<Longrightarrow> gm_get (gm_add_all m l) k = gm_get m k + gm_get l k"
  by (simp add: gm_get_add_all sum_entries_gm_get)

lemma gm_has_add [gomap_simps]: "gm_has (gm_add k v m) k' \<longleftrightarrow> k' = k \<or> gm_has m k'"
  by (simp add: gm_add_def gomap_simps)

lemma gm_has_add_all [gomap_simps]: "gm_has (gm_add_all m l) k \<longleftrightarrow> gm_has m k \<or> gm_has l k"
  by (induction m l rule: gm_add_all.induct) (auto simp: gomap_simps gm_has_Cons)

lemma map_of_gm_put_all [gomap_simps]:
  "gm_ok l \<Longrightarrow> map_of (gm_put_all m l) k = (case map_of l k of None \<Rightarrow> map_of m k | Some v \<Rightarrow> Some v)"
proof (induction m l rule: gm_put_all.induct)
  case (2 m k' v l)
  then have "k' \<notin> fst ` set l" and "gm_ok l" by (simp_all add: gm_ok_Cons)
  then have "map_of l k' = None" by (simp add: map_of_eq_None_iff)
  with "2.IH" \<open>gm_ok l\<close> show ?case by (auto simp: gomap_simps split: option.splits)
qed simp

lemma gm_put_fresh: "\<not> gm_has m k \<Longrightarrow> gm_put k v m = m @ [(k, v)]"
  by (induction m) (auto simp: gm_put_def gm_has_Cons)

lemma gm_put_all_fresh:
  "gm_ok l \<Longrightarrow> \<forall>k. gm_has l k \<longrightarrow> \<not> gm_has m k \<Longrightarrow> gm_put_all m l = m @ l"
proof (induction l arbitrary: m)
  case (Cons e l)
  obtain k v where e: "e = (k, v)" by fastforce
  from Cons.prems e have k: "\<not> gm_has m k" "k \<notin> fst ` set l" by (simp_all add: gm_has_Cons gm_ok_Cons)
  have "gm_put_all (m @ [(k, v)]) l = (m @ [(k, v)]) @ l"
    using Cons.prems e k(2) by (intro Cons.IH) (auto simp: gm_has_iff gm_ok_Cons)
  with k e show ?case by (simp add: gm_put_fresh)
qed simp

lemma gm_put_all_self: "gm_ok l \<Longrightarrow> gm_put_all [] l = l"
  by (simp add: gm_put_all_fresh)

lemma gm_put_all_copy: "gm_ok l \<Longrightarrow> map_of (gm_put_all [] l) = map_of l"
  by (rule ext) (simp add: gomap_simps split: option.splits)

lemma gm_get_cong: "map_of a = map_of b \<Longrightarrow> gm_get a = gm_get b"
  by (rule ext) (simp add: gm_get_def)

lemma gm_get_copy [gomap_simps]: "gm_ok l \<Longrightarrow> gm_get (gm_put_all [] l) k = gm_get l k"
  by (simp add: gm_get_cong [OF gm_put_all_copy])

lemma gm_equal_iff: "gm_equal a b \<longleftrightarrow> map_of a = map_of b"
proof
  assume e: "gm_equal a b"
  show "map_of a = map_of b"
  proof (rule ext)
    fix k
    show "map_of a k = map_of b k"
    proof (cases "k \<in> fst ` set a \<union> fst ` set b")
      case True
      with e show ?thesis by (fastforce simp: gm_equal_def list_all_iff)
    next
      case False
      then show ?thesis by (simp add: map_of_eq_None_iff [symmetric])
    qed
  qed
qed (simp add: gm_equal_def list_all_iff split: prod.splits)

subsection \<open>Grouping\<close>

lemma gm_ok_group_into [gomap_ok]: "gm_ok m \<Longrightarrow> gm_ok (group_into f m xs)"
  by (induction f m xs rule: group_into.induct) (simp_all add: gomap_ok)

lemma gm_ok_group_by [simp, gomap_ok]: "gm_ok (group_by f xs)"
  by (simp add: group_by_def gomap_ok)

lemma gm_list_group_into: "gm_list (group_into f m xs) k = gm_list m k @ filter (\<lambda>x. f x = k) xs"
  by (induction f m xs rule: group_into.induct) (auto simp: gomap_simps)

lemma gm_list_group_by [simp]: "gm_list (group_by f xs) k = filter (\<lambda>x. f x = k) xs"
  by (simp add: group_by_def gm_list_group_into)

lemma keys_group_into: "fst ` set (group_into f m xs) = fst ` set m \<union> f ` set xs"
  by (induction f m xs rule: group_into.induct) (auto simp: gm_push_def keys_gm_put)

lemma keys_group_by [simp]: "fst ` set (group_by f xs) = f ` set xs"
  by (simp add: group_by_def keys_group_into)

lemma group_by_entry:
  assumes "(k, ys) \<in> set (group_by f xs)"
  shows "ys = filter (\<lambda>x. f x = k) xs" "k \<in> f ` set xs"
proof -
  from assms have "gm_list (group_by f xs) k = ys" by (rule gm_list_entry [OF gm_ok_group_by])
  then show "ys = filter (\<lambda>x. f x = k) xs" by simp
  from assms have "fst (k, ys) \<in> fst ` set (group_by f xs)" by (rule imageI)
  then show "k \<in> f ` set xs" by simp
qed

lemma group_by_entry_iff:
  "(k, ys) \<in> set (group_by f xs) \<longleftrightarrow> k \<in> f ` set xs \<and> ys = filter (\<lambda>x. f x = k) xs"
proof
  assume r: "k \<in> f ` set xs \<and> ys = filter (\<lambda>x. f x = k) xs"
  then have "k \<in> fst ` set (group_by f xs)" by simp
  then obtain zs where z: "(k, zs) \<in> set (group_by f xs)" by force
  with group_by_entry(1) [OF z] r show "(k, ys) \<in> set (group_by f xs)" by simp
next
  assume e: "(k, ys) \<in> set (group_by f xs)"
  show "k \<in> f ` set xs \<and> ys = filter (\<lambda>x. f x = k) xs"
    using group_by_entry [OF e] by simp
qed

lemma map_of_group_by:
  "map_of (group_by f xs) k = (if k \<in> f ` set xs then Some (filter (\<lambda>x. f x = k) xs) else None)"
  using gm_ok_get_iff [OF gm_ok_group_by, of k _ f xs] group_by_entry_iff [of k _ f xs]
  by (cases "map_of (group_by f xs) k") auto

lemma ball_group_by:
  "(\<forall>(k, ys)\<in>set (group_by f xs). P k ys) \<longleftrightarrow> (\<forall>x\<in>set xs. P (f x) (filter (\<lambda>y. f y = f x) xs))"
  by (auto simp: Ball_def group_by_entry_iff)

lemma distinct_keys_group_by: "distinct (map fst (group_by f xs))"
  using gm_ok_group_by [of f xs] by (simp add: gm_ok_def)

text \<open>Flattening the groups gives back the grouped slice, up to order.\<close>

lemma mset_concat_put:
  "gm_ok m \<Longrightarrow> mset (concat (map snd (gm_push k v m))) = add_mset v (mset (concat (map snd m)))"
proof (induction m)
  case Nil
  show ?case by (simp add: gm_push_def gm_put_def gm_list_def)
next
  case (Cons a m)
  obtain k' ys where a: "a = (k', ys)" by (cases a)
  show ?case
  proof (cases "k' = k")
    case True
    with a show ?thesis by (simp add: gm_push_def gm_put_def gm_list_def)
  next
    case False
    with a have "gm_push k v (a # m) = a # gm_push k v m"
      by (simp add: gm_push_def gm_put_def gm_list_def)
    with Cons a show ?thesis by (simp add: gm_ok_Cons)
  qed
qed

lemma mset_concat_group_into:
  "gm_ok m \<Longrightarrow> mset (concat (map snd (group_into f m xs))) = mset (concat (map snd m)) + mset xs"
  by (induction f m xs rule: group_into.induct) (simp_all add: mset_concat_put gomap_ok)

lemma length_group_by: "length (group_by f xs) = card (f ` set xs)"
  by (metis distinct_card distinct_keys_group_by keys_group_by length_map list.set_map)

lemma mset_concat_group_by [simp]: "mset (concat (map snd (group_by f xs))) = mset xs"
  by (simp add: group_by_def mset_concat_group_into)

lemma set_concat_group_by [simp]: "(\<Union>g\<in>set (group_by f xs). set (snd g)) = set xs"
proof -
  have "set (concat (map snd (group_by f xs))) = set xs"
    using mset_concat_group_by [of f xs] by (metis set_mset_mset)
  then show ?thesis by simp
qed

section \<open>The stable sort of the standard library\<close>

text \<open>
  \<^verbatim>\<open>sort.SliceStable(xs, lt)\<close> sorts by a strict weak order \<open>lt\<close> and keeps the relative order
  of elements neither of which is less than the other.  Insertion from the right, before the
  first element that is not smaller, is that function.
\<close>

fun insert_stable :: "('a \<Rightarrow> 'a \<Rightarrow> bool) \<Rightarrow> 'a \<Rightarrow> 'a list \<Rightarrow> 'a list" where
  "insert_stable lt x [] = [x]"
| "insert_stable lt x (y # ys) = (if lt y x then y # insert_stable lt x ys else x # y # ys)"

fun sliceStable :: "('a \<Rightarrow> 'a \<Rightarrow> bool) \<Rightarrow> 'a list \<Rightarrow> 'a list" where
  "sliceStable lt [] = []"
| "sliceStable lt (x # xs) = insert_stable lt x (sliceStable lt xs)"

lemma mset_insert_stable [simp]: "mset (insert_stable lt x xs) = add_mset x (mset xs)"
  by (induction xs) auto

lemma mset_sliceStable [simp]: "mset (sliceStable lt xs) = mset xs"
  by (induction xs) auto

lemma set_insert_stable [simp]: "set (insert_stable lt x xs) = insert x (set xs)"
  by (induction xs) auto

lemma set_sliceStable [simp]: "set (sliceStable lt xs) = set xs"
  by (induction xs) auto

lemma length_sliceStable [simp]: "length (sliceStable lt xs) = length xs"
  by (metis mset_sliceStable size_mset)

lemma distinct_sliceStable [simp]: "distinct (sliceStable lt xs) = distinct xs"
  by (metis mset_sliceStable mset_eq_imp_distinct_iff)

text \<open>A strict weak order, the contract of the comparison function the callers pass.\<close>

locale strict_weak_order =
  fixes lt :: "'a \<Rightarrow> 'a \<Rightarrow> bool"
  assumes lt_asym: "lt x y \<Longrightarrow> \<not> lt y x"
    and lt_negtrans: "\<not> lt x y \<Longrightarrow> \<not> lt y z \<Longrightarrow> \<not> lt x z"
begin

lemma sorted_insert_stable:
  "sorted_wrt (\<lambda>x y. \<not> lt y x) xs \<Longrightarrow> sorted_wrt (\<lambda>x y. \<not> lt y x) (insert_stable lt x xs)"
proof (induction xs)
  case (Cons y ys)
  show ?case
  proof (cases "lt y x")
    case True
    with Cons show ?thesis using lt_asym by auto
  next
    case False
    with Cons.prems show ?thesis using lt_negtrans by auto
  qed
qed simp

lemma sliceStable_sorted: "sorted_wrt (\<lambda>x y. \<not> lt y x) (sliceStable lt xs)"
  by (induction xs) (simp_all add: sorted_insert_stable)

text \<open>Stability: elements equivalent to a given one keep their order.\<close>

lemma filter_insert_stable:
  assumes "\<And>y. P y \<Longrightarrow> P x \<Longrightarrow> \<not> lt y x"
  shows "filter P (insert_stable lt x xs) = (if P x then x # filter P xs else filter P xs)"
  using assms by (induction xs) auto

lemma sliceStable_stable:
  "filter (\<lambda>y. \<not> lt y z \<and> \<not> lt z y) (sliceStable lt xs) =
   filter (\<lambda>y. \<not> lt y z \<and> \<not> lt z y) xs"
proof (induction xs)
  case (Cons x xs)
  have "\<not> lt y x" if "\<not> lt y z \<and> \<not> lt z y" "\<not> lt x z \<and> \<not> lt z x" for y
    using that lt_negtrans [of y z x] by blast
  then show ?case using Cons.IH by (simp add: filter_insert_stable)
qed simp

end

section \<open>Generic lemmas\<close>

lemma sum_list_nonneg_int: "\<forall>x\<in>set xs. 0 \<le> f x \<Longrightarrow> (0::int) \<le> (\<Sum>x\<leftarrow>xs. f x)"
  by (induction xs) auto

lemma filter_map_of_gm: "gm_ok m \<Longrightarrow> map_of (filter (\<lambda>(k, _). P k) m) k = (if P k then map_of m k else None)"
  by (induction m) (auto simp: gm_ok_def)

lemma gm_get_filter [gomap_simps]:
  "gm_ok m \<Longrightarrow> gm_get (filter (\<lambda>(k, _). P k) m) k = (if P k then gm_get m k else 0)"
  by (simp add: gm_get_def filter_map_of_gm)

lemma distinct_subseteq_mset:
  assumes "distinct xs" "set xs \<subseteq> set ys"
  shows "mset xs \<subseteq># mset ys"
proof (rule mset_subset_eqI)
  fix a
  have "count (mset xs) a = (if a \<in> set xs then 1 else 0)"
    using assms(1) by (simp add: distinct_count_atmost_1)
  moreover have "0 < count (mset ys) a" if "a \<in> set xs" using that assms(2) by auto
  ultimately show "count (mset xs) a \<le> count (mset ys) a" by auto
qed

end
