(* ===== verification/GoStrings.thy ===== *)
theory GoStrings
  imports Prelude
begin

text \<open>
  What the sources use of Go's \<^verbatim>\<open>strings\<close>, \<^verbatim>\<open>strconv\<close>, \<^verbatim>\<open>fmt\<close> and \<^verbatim>\<open>regexp\<close> packages, as executable
  functions on \<open>string\<close>, with the facts about them that the components need: decimal printing and
  parsing are inverse on 64-bit integers, splitting at a separator is inverse to joining.
\<close>

section \<open>Package strings\<close>

definition HasPrefix :: "string \<Rightarrow> string \<Rightarrow> bool" where
  "HasPrefix s p \<longleftrightarrow> take (length p) s = p"

definition HasSuffix :: "string \<Rightarrow> string \<Rightarrow> bool" where
  "HasSuffix s p \<longleftrightarrow> length p \<le> length s \<and> drop (length s - length p) s = p"

definition TrimPrefix :: "string \<Rightarrow> string \<Rightarrow> string" where
  "TrimPrefix s p = (if HasPrefix s p then drop (length p) s else s)"

definition TrimSuffix :: "string \<Rightarrow> string \<Rightarrow> string" where
  "TrimSuffix s p = (if HasSuffix s p then take (length s - length p) s else s)"

text \<open>\<^verbatim>\<open>strings.Split(s, sep)\<close> for a one-byte separator: never empty.\<close>

fun Split :: "string \<Rightarrow> char \<Rightarrow> string list" where
  "Split [] sep = [[]]"
| "Split (c # s) sep =
     (if c = sep then [] # Split s sep
      else (case Split s sep of [] \<Rightarrow> [[c]] | w # ws \<Rightarrow> (c # w) # ws))"

text \<open>\<^verbatim>\<open>strings.ToLower\<close> on ASCII strings.\<close>

definition to_lower :: "char \<Rightarrow> char" where
  "to_lower c = (let n = (of_char c :: nat) in if 65 \<le> n \<and> n \<le> 90 then char_of (n + 32) else c)"

definition ToLower :: "string \<Rightarrow> string" where
  "ToLower s = map to_lower s"

text \<open>Byte-wise string order, the \<^verbatim>\<open><\<close> of Go strings.\<close>

fun str_less :: "string \<Rightarrow> string \<Rightarrow> bool" where
  "str_less _ [] = False"
| "str_less [] (_ # _) = True"
| "str_less (a # s) (b # t) =
     (let x = (of_char a :: nat); y = (of_char b :: nat) in x < y \<or> (x = y \<and> str_less s t))"

lemma HasPrefix_append [simp]: "HasPrefix (p @ s) p"
  by (simp add: HasPrefix_def)

lemma HasPrefix_iff: "HasPrefix s p \<longleftrightarrow> (\<exists>t. s = p @ t)"
  by (metis HasPrefix_append HasPrefix_def append_take_drop_id)

lemma TrimPrefix_append [simp]: "TrimPrefix (p @ s) p = s"
  by (simp add: TrimPrefix_def)

lemma TrimSuffix_append [simp]: "TrimSuffix (s @ p) p = s"
  by (simp add: TrimSuffix_def HasSuffix_def)

lemma Split_not_Nil [simp]: "Split s sep \<noteq> []"
  by (induction s) (auto split: list.splits)

lemma Split_no_sep: "sep \<notin> set s \<Longrightarrow> Split s sep = [s]"
  by (induction s) auto

lemma Split_append: "sep \<notin> set s \<Longrightarrow> Split (s @ sep # t) sep = s # Split t sep"
  by (induction s) auto

lemma str_less_irrefl [simp]: "\<not> str_less s s"
  by (induction s) (auto simp: Let_def)

lemma str_less_asym: "str_less s t \<Longrightarrow> \<not> str_less t s"
  by (induction s t rule: str_less.induct) (auto simp: Let_def)

lemma str_less_total: "\<not> str_less s t \<Longrightarrow> \<not> str_less t s \<Longrightarrow> s = t"
  by (induction s t rule: str_less.induct) (auto simp: Let_def neq_iff elim: str_less.elims)

lemma str_less_trans: "str_less s t \<Longrightarrow> str_less t u \<Longrightarrow> str_less s u"
proof (induction s t arbitrary: u rule: str_less.induct)
  case (2 b t)
  then show ?case by (cases u) auto
next
  case (3 a s b t)
  then show ?case by (cases u) (auto simp: Let_def)
qed auto

interpretation str_order: strict_weak_order str_less
proof
  fix s t u
  show "str_less s t \<Longrightarrow> \<not> str_less t s" by (rule str_less_asym)
  show "\<not> str_less s t \<Longrightarrow> \<not> str_less t u \<Longrightarrow> \<not> str_less s u"
    using str_less_total [of s t] str_less_total [of t u] str_less_trans [of t s u] str_less_trans [of s u t]
      str_less_irrefl str_less_asym by metis
qed

section \<open>Package strconv\<close>

definition is_digit :: "char \<Rightarrow> bool" where
  "is_digit c \<longleftrightarrow> 48 \<le> (of_char c :: nat) \<and> (of_char c :: nat) \<le> 57"

definition digit_val :: "char \<Rightarrow> nat" where
  "digit_val c = (of_char c :: nat) - 48"

definition digit_char :: "nat \<Rightarrow> char" where
  "digit_char n = char_of (48 + n)"

fun format_nat :: "nat \<Rightarrow> string" where
  "format_nat n = (if n < 10 then [digit_char n] else format_nat (n div 10) @ [digit_char (n mod 10)])"

declare format_nat.simps [simp del]

text \<open>\<^verbatim>\<open>fmt.Sprintf("%d", n)\<close> and \<^verbatim>\<open>strconv.Itoa(n)\<close>.\<close>

definition Itoa :: "int \<Rightarrow> string" where
  "Itoa n = (if n < 0 then CHR ''-'' # format_nat (nat (- n)) else format_nat (nat n))"

fun parse_digits :: "nat \<Rightarrow> string \<Rightarrow> nat option" where
  "parse_digits acc [] = Some acc"
| "parse_digits acc (c # s) = (if is_digit c then parse_digits (10 * acc + digit_val c) s else None)"

definition parse_nat :: "string \<Rightarrow> nat option" where
  "parse_nat s = (if s = [] then None else parse_digits 0 s)"

text \<open>
  \<^verbatim>\<open>strconv.Atoi\<close>: an optional sign, at least one decimal digit, nothing else, and a value that
  fits the 64-bit \<^verbatim>\<open>int\<close>; every other input is an error (\<open>None\<close>).
\<close>

definition int64_range :: "int \<Rightarrow> bool" where
  "int64_range n \<longleftrightarrow> - (2 ^ 63) \<le> n \<and> n < 2 ^ 63"

definition parse_int :: "string \<Rightarrow> int option" where
  "parse_int s =
     (case s of
        [] \<Rightarrow> None
      | c # r \<Rightarrow> (if c = CHR ''-'' then map_option (\<lambda>n. - int n) (parse_nat r)
                  else if c = CHR ''+'' then map_option int (parse_nat r)
                  else map_option int (parse_nat s)))"

definition Atoi :: "string \<Rightarrow> int option" where
  "Atoi s =
     (case parse_int s of
        None \<Rightarrow> None
      | Some n \<Rightarrow> (if int64_range n then Some n else None))"

text \<open>
  The number \<^verbatim>\<open>strconv.Atoi\<close> returns beside the error, for callers that drop the error: zero on a
  syntax error, the nearest 64-bit integer on a range error.
\<close>

definition Atoi_value :: "string \<Rightarrow> int" where
  "Atoi_value s =
     (case parse_int s of None \<Rightarrow> 0 | Some n \<Rightarrow> max (- (2 ^ 63)) (min (2 ^ 63 - 1) n))"

lemma of_char_digit_char [simp]: "n < 10 \<Longrightarrow> (of_char (digit_char n) :: nat) = 48 + n"
  by (simp add: digit_char_def)

lemma is_digit_digit_char [simp]: "n < 10 \<Longrightarrow> is_digit (digit_char n)"
  by (simp add: is_digit_def)

lemma digit_val_digit_char [simp]: "n < 10 \<Longrightarrow> digit_val (digit_char n) = n"
  by (simp add: digit_val_def)

lemma digit_not_minus [simp]: "\<not> is_digit (CHR ''-'')" "\<not> is_digit (CHR ''+'')"
  by (simp_all add: is_digit_def)

lemma format_nat_not_Nil [simp]: "format_nat n \<noteq> []"
  by (subst format_nat.simps) simp

lemma format_nat_digits: "\<forall>c\<in>set (format_nat n). is_digit c"
proof (induction n rule: format_nat.induct)
  case (1 n)
  show ?case
  proof (cases "n < 10")
    case True
    then show ?thesis by (subst format_nat.simps) simp
  next
    case False
    with "1.IH" show ?thesis by (subst format_nat.simps) auto
  qed
qed

lemma parse_digits_append:
  "parse_digits a (s @ t) = (case parse_digits a s of None \<Rightarrow> None | Some b \<Rightarrow> parse_digits b t)"
  by (induction a s rule: parse_digits.induct) auto

lemma parse_format_nat: "parse_digits 0 (format_nat n) = Some n"
proof (induction n rule: format_nat.induct)
  case (1 n)
  show ?case
  proof (cases "n < 10")
    case True
    then show ?thesis by (subst format_nat.simps) simp
  next
    case False
    with "1.IH" show ?thesis by (subst format_nat.simps) (simp add: parse_digits_append)
  qed
qed

lemma parse_nat_format_nat [simp]: "parse_nat (format_nat n) = Some n"
  by (simp add: parse_nat_def parse_format_nat)

lemma format_nat_Cons_digit: "format_nat n = c # r \<Longrightarrow> is_digit c"
  using format_nat_digits [of n] by auto

lemma Atoi_Itoa: "int64_range n \<Longrightarrow> Atoi (Itoa n) = Some n"
proof (cases "n < 0")
  case True
  then show "int64_range n \<Longrightarrow> ?thesis" by (simp add: Atoi_def parse_int_def Itoa_def)
next
  case False
  obtain c r where f: "format_nat (nat n) = c # r" by (cases "format_nat (nat n)") auto
  then have "c \<noteq> CHR ''-''" "c \<noteq> CHR ''+''" using format_nat_Cons_digit digit_not_minus by blast+
  moreover have "parse_nat (c # r) = Some (nat n)" using parse_nat_format_nat [of "nat n"] f by simp
  ultimately show "int64_range n \<Longrightarrow> ?thesis" using False f by (simp add: Atoi_def parse_int_def Itoa_def)
qed

lemma Atoi_range: "Atoi s = Some n \<Longrightarrow> int64_range n"
  by (auto simp: Atoi_def split: option.splits if_splits list.splits)

lemma Atoi_value_Some: "Atoi s = Some n \<Longrightarrow> Atoi_value s = n"
  by (auto simp: Atoi_def Atoi_value_def int64_range_def split: option.splits if_splits)

lemma Itoa_no_minus: "0 \<le> n \<Longrightarrow> CHR ''-'' \<notin> set (Itoa n)"
  using format_nat_digits [of "nat n"] by (auto simp: Itoa_def)

lemma format_nat_inject: "format_nat m = format_nat n \<Longrightarrow> m = n"
  by (metis option.inject parse_format_nat)

text \<open>
  The keys \<^verbatim>\<open>fmt.Sprintf("%d-%s", i, s)\<close> determine the number and the string.
\<close>

lemma span_digits_inject:
  assumes "\<forall>c\<in>set ds. is_digit c" "\<forall>c\<in>set es. is_digit c"
    "ds @ CHR ''-'' # s = es @ CHR ''-'' # t"
  shows "ds = es \<and> s = t"
  using assms
proof (induction ds arbitrary: es)
  case Nil
  then show ?case by (cases es) auto
next
  case (Cons d ds)
  then show ?case by (cases es) auto
qed

lemma index_key_inject:
  "Itoa i @ CHR ''-'' # s = Itoa j @ CHR ''-'' # t \<longleftrightarrow> i = j \<and> s = t"
proof
  assume e: "Itoa i @ CHR ''-'' # s = Itoa j @ CHR ''-'' # t"
  have hd_i: "i < 0 \<longleftrightarrow> hd (Itoa i @ CHR ''-'' # s) = CHR ''-''" for i s
    using format_nat_Cons_digit [of "nat i"] digit_not_minus(1)
    by (cases "format_nat (nat i)") (auto simp: Itoa_def)
  from hd_i [of i s] hd_i [of j t] e have "i < 0 \<longleftrightarrow> j < 0" by simp
  show "i = j \<and> s = t"
  proof (cases "i < 0")
    case True
    with e \<open>i < 0 \<longleftrightarrow> j < 0\<close>
    have "format_nat (nat (- i)) @ CHR ''-'' # s = format_nat (nat (- j)) @ CHR ''-'' # t"
      by (simp add: Itoa_def)
    then have "format_nat (nat (- i)) = format_nat (nat (- j)) \<and> s = t"
      by (rule span_digits_inject [OF format_nat_digits format_nat_digits])
    with True \<open>i < 0 \<longleftrightarrow> j < 0\<close> show ?thesis by (auto dest: format_nat_inject)
  next
    case False
    with e \<open>i < 0 \<longleftrightarrow> j < 0\<close>
    have "format_nat (nat i) @ CHR ''-'' # s = format_nat (nat j) @ CHR ''-'' # t"
      by (simp add: Itoa_def)
    then have "format_nat (nat i) = format_nat (nat j) \<and> s = t"
      by (rule span_digits_inject [OF format_nat_digits format_nat_digits])
    with False \<open>i < 0 \<longleftrightarrow> j < 0\<close> show ?thesis by (auto dest: format_nat_inject)
  qed
qed simp

section \<open>Package regexp\<close>

text \<open>
  The expressions of the sources are sequences of literals and of \<^verbatim>\<open>\d+\<close>.  In each of them \<^verbatim>\<open>\d+\<close> is
  followed by a literal that starts with a letter, so the match at a position takes the whole
  run of digits and needs no backtracking.  \<open>MatchString\<close> looks for a match at any position:
  the expressions are not anchored.
\<close>

datatype rx = Lit string | Digits

fun rx_match :: "rx list \<Rightarrow> string \<Rightarrow> string option" where
  "rx_match [] s = Some []"
| "rx_match (Lit p # r) s =
     (if HasPrefix s p then map_option (\<lambda>m. p @ m) (rx_match r (drop (length p) s)) else None)"
| "rx_match (Digits # r) s =
     (let ds = takeWhile is_digit s in
      if ds = [] then None else map_option (\<lambda>m. ds @ m) (rx_match r (dropWhile is_digit s)))"

fun FindString :: "rx list \<Rightarrow> string \<Rightarrow> string option" where
  "FindString r [] = rx_match r []"
| "FindString r (c # s) = (case rx_match r (c # s) of Some m \<Rightarrow> Some m | None \<Rightarrow> FindString r s)"

definition MatchString :: "rx list \<Rightarrow> string \<Rightarrow> bool" where
  "MatchString r s \<longleftrightarrow> FindString r s \<noteq> None"

text \<open>
  \<^verbatim>\<open>FindAllString(s, -1)\<close>: the successive non-overlapping matches (the expressions used with
  it never match the empty string).
\<close>

function FindAllString :: "rx list \<Rightarrow> string \<Rightarrow> string list" where
  "FindAllString r s =
     (case s of [] \<Rightarrow> []
      | c # t \<Rightarrow> (case rx_match r s of
                   Some m \<Rightarrow> (if m = [] then FindAllString r t else m # FindAllString r (drop (length m) s))
                 | None \<Rightarrow> FindAllString r t))"
  by pat_completeness auto
termination
  by (relation "measure (\<lambda>(r, s). length s)") auto

declare FindAllString.simps [simp del]

lemma MatchString_prefix: "rx_match r s \<noteq> None \<Longrightarrow> MatchString r s"
  by (cases s) (auto simp: MatchString_def)

lemma MatchString_Cons: "MatchString r s \<Longrightarrow> MatchString r (c # s)"
  by (auto simp: MatchString_def split: option.splits)

lemma MatchString_append: "MatchString r s \<Longrightarrow> MatchString r (t @ s)"
  by (induction t) (simp_all add: MatchString_Cons)

lemma rx_match_Lit_append [simp]: "rx_match (Lit p # r) (p @ s) = map_option (\<lambda>m. p @ m) (rx_match r s)"
  by simp

lemma rx_match_Digits_append:
  assumes "ds \<noteq> []" "\<forall>c\<in>set ds. is_digit c" "s = [] \<or> \<not> is_digit (hd s)"
  shows "rx_match (Digits # r) (ds @ s) = map_option (\<lambda>m. ds @ m) (rx_match r s)"
proof -
  have "takeWhile is_digit (ds @ s) = ds" "dropWhile is_digit (ds @ s) = s"
    using assms(2,3) by (cases s; simp add: takeWhile_append dropWhile_append)+
  with assms(1) show ?thesis by (simp add: Let_def)
qed

end
