(* ===== verification/Util.thy ===== *)
theory Util
  imports GoStrings
begin

text \<open>
  Package \<^verbatim>\<open>pkg/util\<close>: the generic helpers every other package calls.  Where the code compares
  values with \<^verbatim>\<open>cmp.Equal\<close> (go-cmp, a third-party package) the comparison is an argument of the
  definition; \<open>cmp_equal\<close> states what is used of it.
\<close>

section \<open>Definitions\<close>

definition Min_go :: "'a::linorder \<Rightarrow> 'a \<Rightarrow> 'a" where
  "Min_go v1 v2 = (if v1 < v2 then v1 else v2)"

definition Max_go :: "'a::linorder \<Rightarrow> 'a \<Rightarrow> 'a" where
  "Max_go v1 v2 = (if v1 > v2 then v1 else v2)"

definition Abs :: "int \<Rightarrow> int" where
  "Abs n = (if n < 0 then - n else n)"

fun InSlice :: "'a \<Rightarrow> 'a list \<Rightarrow> bool" where
  "InSlice item [] = False"
| "InSlice item (i # slice) = (if i = item then True else InSlice item slice)"

fun Filter_go :: "'a list \<Rightarrow> ('a \<Rightarrow> bool) \<Rightarrow> 'a list" where
  "Filter_go [] keep = []"
| "Filter_go (k # slice) keep = (if keep k then k # Filter_go slice keep else Filter_go slice keep)"

definition CopyMap :: "('k, 'v) gomap \<Rightarrow> ('k, 'v) gomap" where
  "CopyMap m = gm_put_all [] m"

text \<open>The \<^verbatim>\<open>Set\<close> type: a map to the empty struct.\<close>

definition Set_Add :: "'k \<Rightarrow> ('k, unit) gomap \<Rightarrow> ('k, unit) gomap" where
  "Set_Add item s = gm_put item () s"

definition Set_Items :: "('k, unit) gomap \<Rightarrow> 'k list" where
  "Set_Items s = map fst s"

fun getKeys_fill :: "('k, unit) gomap \<Rightarrow> ('k, 'v) gomap list \<Rightarrow> ('k, unit) gomap" where
  "getKeys_fill s [] = s"
| "getKeys_fill s (m # maps) = getKeys_fill (fold Set_Add (map fst m) s) maps"

definition GetKeys :: "('k, 'v) gomap list \<Rightarrow> 'k list" where
  "GetKeys maps = map fst (getKeys_fill [] maps)"

text \<open>
  \<^verbatim>\<open>UnorderedEqual\<close>: the inner loop looks for the first unvisited equal element of the second
  slice and marks it; the outer loop stops at the first element with none.
\<close>

fun unordered_find :: "('a \<Rightarrow> 'a \<Rightarrow> bool) \<Rightarrow> 'a \<Rightarrow> 'a list \<Rightarrow> bool list \<Rightarrow> bool list option" where
  "unordered_find eq element (y # second) (v # visited) =
     (if v then map_option (\<lambda>vs. v # vs) (unordered_find eq element second visited)
      else if eq element y then Some (True # visited)
      else map_option (\<lambda>vs. v # vs) (unordered_find eq element second visited))"
| "unordered_find eq element _ _ = None"

fun unordered_loop :: "('a \<Rightarrow> 'a \<Rightarrow> bool) \<Rightarrow> 'a list \<Rightarrow> 'a list \<Rightarrow> bool list \<Rightarrow> bool" where
  "unordered_loop eq [] second visited = True"
| "unordered_loop eq (element # first) second visited =
     (case unordered_find eq element second visited of
        None \<Rightarrow> False
      | Some visited' \<Rightarrow> unordered_loop eq first second visited')"

definition UnorderedEqual :: "('a \<Rightarrow> 'a \<Rightarrow> bool) \<Rightarrow> 'a list \<Rightarrow> 'a list \<Rightarrow> bool" where
  "UnorderedEqual eq first second =
     (if length first \<noteq> length second then False
      else unordered_loop eq first second (replicate (length first) False))"

text \<open>Environment variables: \<open>env\<close> is the process environment.\<close>

definition GetEnv :: "(string, string) gomap \<Rightarrow> string \<Rightarrow> string \<Rightarrow> string" where
  "GetEnv env key fallback = (case map_of env key of Some v \<Rightarrow> v | None \<Rightarrow> fallback)"

definition GetEnvOrError :: "(string, string) gomap \<Rightarrow> string \<Rightarrow> string + string" where
  "GetEnvOrError env key =
     (case map_of env key of Some v \<Rightarrow> Inr v | None \<Rightarrow> Inl (''missing env variable '' @ key))"

section \<open>Facts\<close>

lemma Min_go_eq [simp]: "Min_go a b = min a b"
  by (auto simp: Min_go_def min_def)

lemma Max_go_eq [simp]: "Max_go a b = max a b"
  by (auto simp: Max_go_def max_def)

lemma Abs_eq [simp]: "Abs n = \<bar>n\<bar>"
  by (simp add: Abs_def)

lemma InSlice_iff [simp]: "InSlice x xs \<longleftrightarrow> x \<in> set xs"
  by (induction xs) auto

lemma Filter_go_eq [simp]: "Filter_go xs P = filter P xs"
  by (induction xs) auto

lemma map_of_CopyMap: "gm_ok m \<Longrightarrow> map_of (CopyMap m) = map_of m"
  by (simp add: CopyMap_def gm_put_all_copy)

lemma gm_ok_fold_Set_Add: "gm_ok s \<Longrightarrow> gm_ok (fold Set_Add ks s)"
  by (induction ks arbitrary: s) (simp_all add: Set_Add_def gomap_ok)

lemma keys_fold_Set_Add: "fst ` set (fold Set_Add ks s) = fst ` set s \<union> set ks"
  by (induction ks arbitrary: s) (auto simp: Set_Add_def keys_gm_put)

lemma getKeys_fill_ok: "gm_ok s \<Longrightarrow> gm_ok (getKeys_fill s maps)"
  by (induction s maps rule: getKeys_fill.induct) (simp_all add: gm_ok_fold_Set_Add)

lemma keys_getKeys_fill: "fst ` set (getKeys_fill s maps) = fst ` set s \<union> (\<Union>m\<in>set maps. fst ` set m)"
  by (induction s maps rule: getKeys_fill.induct) (auto simp: keys_fold_Set_Add)

lemma GetKeys_set: "set (GetKeys maps) = (\<Union>m\<in>set maps. fst ` set m)"
  using keys_getKeys_fill [of "[]" maps] by (simp add: GetKeys_def)

lemma GetKeys_distinct: "distinct (GetKeys maps)"
  using getKeys_fill_ok [of "[]" maps] by (simp add: GetKeys_def gm_ok_def)

subsection \<open>Comparison of slices up to order\<close>

definition unvisited :: "'a list \<Rightarrow> bool list \<Rightarrow> 'a list" where
  "unvisited ys vs = map fst (filter (\<lambda>p. \<not> snd p) (zip ys vs))"

lemma unvisited_Cons: "unvisited (y # ys) (v # vs) = (if v then unvisited ys vs else y # unvisited ys vs)"
  by (simp add: unvisited_def)

lemma unvisited_Nil [simp]: "unvisited [] vs = []" "unvisited ys [] = []"
  by (simp_all add: unvisited_def)

lemma unvisited_replicate: "unvisited ys (replicate (length ys) False) = ys"
  by (induction ys) (simp_all add: unvisited_Cons)

lemma unordered_find_None:
  "unordered_find eq e ys vs = None \<longleftrightarrow> (\<forall>y\<in>set (unvisited ys vs). \<not> eq e y)"
  by (induction eq e ys vs rule: unordered_find.induct) (auto simp: unvisited_Cons)

lemma unordered_find_Some:
  "unordered_find eq e ys vs = Some vs' \<Longrightarrow>
     \<exists>y as bs. unvisited ys vs = as @ y # bs \<and> eq e y \<and> unvisited ys vs' = as @ bs"
proof (induction eq e ys vs arbitrary: vs' rule: unordered_find.induct)
  case (1 eq e y ys v vs)
  show ?case
  proof (cases "\<not> v \<and> eq e y")
    case True
    with "1.prems" have "unvisited (y # ys) (v # vs) = [] @ y # unvisited ys vs"
      "unvisited (y # ys) vs' = [] @ unvisited ys vs"
      by (auto simp: unvisited_Cons)
    with True show ?thesis by blast
  next
    case False
    with "1.prems" obtain ws where w: "unordered_find eq e ys vs = Some ws" "vs' = v # ws"
      by (auto split: if_splits)
    from False w(1) "1.IH" obtain z as bs where
      "unvisited ys vs = as @ z # bs" "eq e z" "unvisited ys ws = as @ bs"
      by (metis (full_types))
    with w(2) show ?thesis
      by (cases v) (fastforce simp: unvisited_Cons intro: exI [of _ z] exI [of _ as] exI [of _ "y # as"])+
  qed
qed auto

locale cmp_equal =
  fixes eq :: "'a \<Rightarrow> 'a \<Rightarrow> bool"
  assumes eq_refl: "eq x x"
    and eq_sym: "eq x y \<Longrightarrow> eq y x"
    and eq_trans: "eq x y \<Longrightarrow> eq y z \<Longrightarrow> eq x z"
begin

lemma eq_class: "eq x y \<Longrightarrow> eq z x \<longleftrightarrow> eq z y"
  using eq_sym eq_trans by blast

lemma unordered_loop_iff:
  "length first = length (unvisited second vs) \<Longrightarrow>
   unordered_loop eq first second vs \<longleftrightarrow>
   (\<forall>z. length (filter (eq z) first) = length (filter (eq z) (unvisited second vs)))"
proof (induction first arbitrary: vs)
  case (Cons x xs)
  show ?case
  proof (cases "unordered_find eq x second vs")
    case None
    then have "filter (eq x) (unvisited second vs) = []"
      by (simp add: unordered_find_None filter_empty_conv)
    with None eq_refl show ?thesis by (auto intro!: exI [of _ x])
  next
    case (Some vs')
    then obtain y as bs where s: "unvisited second vs = as @ y # bs" "eq x y"
      "unvisited second vs' = as @ bs"
      using unordered_find_Some by metis
    with Cons.prems have "length xs = length (unvisited second vs')" by simp
    then have "unordered_loop eq xs second vs' \<longleftrightarrow>
        (\<forall>z. length (filter (eq z) xs) = length (filter (eq z) (as @ bs)))"
      using Cons.IH s(3) by simp
    moreover have "eq z x \<longleftrightarrow> eq z y" for z using s(2) by (rule eq_class)
    ultimately show ?thesis using Some s(1) by auto
  qed
qed simp

theorem UnorderedEqual_iff:
  "UnorderedEqual eq first second \<longleftrightarrow>
     length first = length second \<and>
     (\<forall>z. length (filter (eq z) first) = length (filter (eq z) second))"
  by (simp add: UnorderedEqual_def unordered_loop_iff unvisited_replicate)

lemma UnorderedEqual_refl: "UnorderedEqual eq xs xs"
  by (simp add: UnorderedEqual_iff)

lemma UnorderedEqual_sym: "UnorderedEqual eq xs ys \<Longrightarrow> UnorderedEqual eq ys xs"
  by (simp add: UnorderedEqual_iff)

lemma UnorderedEqual_trans: "UnorderedEqual eq xs ys \<Longrightarrow> UnorderedEqual eq ys zs \<Longrightarrow> UnorderedEqual eq xs zs"
  by (simp add: UnorderedEqual_iff)

text \<open>The comparison of slices is again an equality in the sense of \<open>cmp_equal\<close>.\<close>

lemma slices_cmp_equal: "cmp_equal (UnorderedEqual eq)"
  by unfold_locales (blast intro: UnorderedEqual_refl UnorderedEqual_sym UnorderedEqual_trans)+

end

interpretation struct_eq: cmp_equal "(=)"
  by unfold_locales simp_all

interpretation map_eq: cmp_equal gm_equal
  by unfold_locales (simp_all add: gm_equal_iff)

text \<open>
  What go-cmp documents of \<^verbatim>\<open>cmp.Equal\<close> on maps (equal when they have the same keys with equal values)
  and on structs without an \<^verbatim>\<open>Equal\<close> method (equal when the fields are).
\<close>

definition cmp_map_law :: "(('k, 'v) gomap \<Rightarrow> ('k, 'v) gomap \<Rightarrow> bool) \<Rightarrow> bool" where
  "cmp_map_law cmp \<longleftrightarrow> (\<forall>a b. cmp a b \<longleftrightarrow> map_of a = map_of b)"

definition cmp_struct_law :: "('a \<Rightarrow> 'a \<Rightarrow> bool) \<Rightarrow> bool" where
  "cmp_struct_law cmp \<longleftrightarrow> (\<forall>a b. cmp a b \<longleftrightarrow> a = b)"

lemma cmp_map_lawD: "cmp_map_law cmp \<Longrightarrow> cmp = gm_equal"
  by (intro ext) (simp add: cmp_map_law_def gm_equal_iff)

lemma cmp_struct_lawD: "cmp_struct_law cmp \<Longrightarrow> cmp = (=)"
  by (intro ext) (simp add: cmp_struct_law_def)

lemma cmp_laws [simp]: "cmp_map_law gm_equal" "cmp_struct_law (=)"
  by (simp_all add: cmp_map_law_def cmp_struct_law_def gm_equal_iff)

lemma UnorderedEqual_mset: "UnorderedEqual (=) xs ys \<longleftrightarrow> mset xs = mset ys"
proof
  assume "UnorderedEqual (=) xs ys"
  then have "count (mset xs) z = count (mset ys) z" for z
    by (simp add: struct_eq.UnorderedEqual_iff count_mset count_list_eq_length_filter)
  then show "mset xs = mset ys" by (rule multiset_eqI)
next
  assume m: "mset xs = mset ys"
  then have "mset (filter ((=) z) xs) = mset (filter ((=) z) ys)" for z by simp
  then have "length (filter ((=) z) xs) = length (filter ((=) z) ys)" for z
    by (rule mset_eq_length)
  moreover from m have "length xs = length ys" by (rule mset_eq_length)
  ultimately show "UnorderedEqual (=) xs ys" by (simp add: struct_eq.UnorderedEqual_iff)
qed

section \<open>Property\<close>

text \<open>C32: The quadratic comparison of two slices, which marks the elements already matched, decides equality as
  multisets: the same elements, each as often, in any order.\<close>

theorem unordered_equal_mset:
  assumes "cmp_struct_law cmp"
  shows "UnorderedEqual cmp first second \<longleftrightarrow> mset first = mset second"
  unfolding cmp_struct_lawD [OF assms] by (rule UnorderedEqual_mset)

theorem unordered_equal_mset_witness:
  "UnorderedEqual (=) [1, 2, 1 :: int] [1, 1, 2] \<and> \<not> UnorderedEqual (=) [1, 2, 2 :: int] [1, 1, 2]"
  by (simp add: unordered_equal_mset [OF cmp_laws(2)])

end
