(* ===== verification/K8s.thy ===== *)
theory K8s
  imports Util
begin

text \<open>
  The Kubernetes objects the sources read and write, as records of the fields they use, and the
  third-party operations on them as a record of functions that the definitions take as an
  argument: \<^verbatim>\<open>quota.Add\<close>, \<^verbatim>\<open>quota.Max\<close>, \<^verbatim>\<open>Quantity.Value\<close>, the \<^verbatim>\<open>PodOverhead\<close> feature gate, and
  \<^verbatim>\<open>framework.NodeInfo\<close> of the scheduler.  A quantity is a value of the type \<open>'q\<close> of the
  \<^verbatim>\<open>resource\<close> package, a node info a value of the type \<open>'ni\<close> of the \<^verbatim>\<open>framework\<close> package.
\<close>

type_synonym ResourceName = string
type_synonym 'q ResourceList = "(ResourceName, 'q) gomap"

text \<open>Instants in nanoseconds.\<close>

type_synonym Time = int

record OwnerReference =
  APIVersion :: string
  Kind :: string

record PodCondition =
  ConditionType :: string
  ConditionReason :: string

record 'q Container =
  Requests :: "'q ResourceList"

record ContainerState =
  WaitingReason :: "string option"
  TerminatedState :: "(string \<times> Time option) option"
  RunningState :: bool

record ContainerStatus =
  State :: ContainerState
  LastTerminatedState :: "(string \<times> Time option) option"

record 'q Pod =
  PodName :: string
  PodNamespace :: string
  CreationTimestamp :: Time
  DeletionTimestamp :: "Time option"
  OwnerReferences :: "OwnerReference list"
  NodeName :: string
  Priority :: "int option"
  Containers :: "'q Container list"
  InitContainers :: "'q Container list"
  Overhead :: "'q ResourceList option"
  Phase :: string
  NominatedNodeName :: string
  Conditions :: "PodCondition list"

record Taint =
  TaintKey :: string
  TaintValue :: string
  TaintEffect :: string

record 'q Node =
  Name :: string
  Labels :: "(string, string) gomap"
  Annotations :: "(string, string) gomap"
  Taints :: "Taint list"
  Capacity :: "'q ResourceList"
  Allocatable :: "'q ResourceList"

record ('ni, 'q) k8sLib =
  quotaAdd :: "'q ResourceList \<Rightarrow> 'q ResourceList \<Rightarrow> 'q ResourceList"
  quotaMax :: "'q ResourceList \<Rightarrow> 'q ResourceList \<Rightarrow> 'q ResourceList"
  quantityValue :: "'q \<Rightarrow> int"
  podOverheadEnabled :: bool
  newNodeInfo :: "'q Node \<Rightarrow> 'ni"
    \<comment> \<open>\<^verbatim>\<open>NewNodeInfo\<close> followed by \<^verbatim>\<open>SetNode\<close>\<close>
  nodeInfoNode :: "'ni \<Rightarrow> 'q Node option"
  allocatableScalarResources :: "'ni \<Rightarrow> (ResourceName, int) gomap"
  setAllocatableScalarResources :: "(ResourceName, int) gomap \<Rightarrow> 'ni \<Rightarrow> 'ni"
  nodeInfoAddPod :: "'q Pod \<Rightarrow> 'ni \<Rightarrow> 'ni"
    \<comment> \<open>the node info after \<^verbatim>\<open>AddPod\<close> was called on a copy of it\<close>
  nodeInfoClone :: "'ni \<Rightarrow> 'ni"

text \<open>
  What the documentation of the \<^verbatim>\<open>framework\<close> package says of a node info, as far as it is used:
  \<^verbatim>\<open>Node()\<close> returns the node that was set, a clone holds the same node, and the scalar resources of
  the allocatable resources are a field.
\<close>

definition nodeInfo_law :: "('ni, 'q) k8sLib \<Rightarrow> bool" where
  "nodeInfo_law K \<longleftrightarrow>
     (\<forall>n. nodeInfoNode K (newNodeInfo K n) = Some n) \<and>
     (\<forall>ni. nodeInfoNode K (nodeInfoClone K ni) = nodeInfoNode K ni) \<and>
     (\<forall>r ni. allocatableScalarResources K (setAllocatableScalarResources K r ni) = r)"

text \<open>
  A concrete instance with integer quantities, for evaluation: a node info is a node with its
  scalar resources and the number of pods added.
\<close>

definition rl_zip :: "(int \<Rightarrow> int \<Rightarrow> int) \<Rightarrow> int ResourceList \<Rightarrow> int ResourceList \<Rightarrow> int ResourceList" where
  "rl_zip f a b =
     map (\<lambda>(k, v). (k, case map_of b k of None \<Rightarrow> v | Some w \<Rightarrow> f v w)) a @
     filter (\<lambda>(k, _). \<not> gm_has a k) b"

definition int_k8s :: "(int Node \<times> (ResourceName, int) gomap \<times> nat, int) k8sLib" where
  "int_k8s =
     \<lparr>quotaAdd = rl_zip (+), quotaMax = rl_zip max, quantityValue = (\<lambda>q. q), podOverheadEnabled = True,
      newNodeInfo = (\<lambda>n. (n, Allocatable n, 0)), nodeInfoNode = (\<lambda>(n, _). Some n),
      allocatableScalarResources = (\<lambda>(_, r, _). r),
      setAllocatableScalarResources = (\<lambda>r (n, _, k). (n, r, k)),
      nodeInfoAddPod = (\<lambda>_ (n, r, k). (n, r, Suc k)), nodeInfoClone = (\<lambda>ni. ni)\<rparr>"

lemma nodeInfo_law_int_k8s [simp]: "nodeInfo_law int_k8s"
  by (simp add: nodeInfo_law_def int_k8s_def)

text \<open>A pending pod with one container and the given requests, for evaluation.\<close>

definition pod_requesting :: "string \<Rightarrow> 'q ResourceList \<Rightarrow> 'q Pod" where
  "pod_requesting name reqs =
     \<lparr>PodName = name, PodNamespace = ''default'', CreationTimestamp = 0, DeletionTimestamp = None,
      OwnerReferences = [], NodeName = '''', Priority = None, Containers = [\<lparr>Requests = reqs\<rparr>],
      InitContainers = [], Overhead = None, Phase = ''Pending'', NominatedNodeName = '''',
      Conditions = [\<lparr>ConditionType = ''PodScheduled'', ConditionReason = ''Unschedulable''\<rparr>]\<rparr>"

text \<open>
  The arithmetic of \<^verbatim>\<open>quota.Add\<close> and \<^verbatim>\<open>quota.Max\<close>: entry by entry, for the resources named by
  either list.  \<open>amt\<close> is the exact amount of a quantity.
\<close>

definition amount :: "('q \<Rightarrow> int) \<Rightarrow> 'q ResourceList \<Rightarrow> ResourceName \<Rightarrow> int" where
  "amount amt l r = (case map_of l r of None \<Rightarrow> 0 | Some q \<Rightarrow> amt q)"

locale quota =
  fixes Add Max :: "'q ResourceList \<Rightarrow> 'q ResourceList \<Rightarrow> 'q ResourceList"
    and amt :: "'q \<Rightarrow> int"
  assumes amount_Add: "amount amt (Add a b) r = amount amt a r + amount amt b r"
    and amount_Max: "gm_has a r \<Longrightarrow> gm_has b r \<Longrightarrow> amount amt (Max a b) r = max (amount amt a r) (amount amt b r)"
    and amount_Max_left: "\<not> gm_has b r \<Longrightarrow> amount amt (Max a b) r = amount amt a r"
    and amount_Max_right: "\<not> gm_has a r \<Longrightarrow> amount amt (Max a b) r = amount amt b r"
    and has_Add: "gm_has (Add a b) r \<longleftrightarrow> gm_has a r \<or> gm_has b r"
    and has_Max: "gm_has (Max a b) r \<longleftrightarrow> gm_has a r \<or> gm_has b r"
begin

lemma amount_fold_Add: "amount amt (foldl Add a ls) r = amount amt a r + (\<Sum>l\<leftarrow>ls. amount amt l r)"
  by (induction ls arbitrary: a) (simp_all add: amount_Add)

lemma amount_Max_nonneg:
  assumes "0 \<le> amount amt a r" "0 \<le> amount amt b r"
  shows "amount amt (Max a b) r = max (amount amt a r) (amount amt b r)"
proof -
  have "amount amt l r = 0" if "\<not> gm_has l r" for l
    using that by (simp add: amount_def gm_has_def)
  then show ?thesis
    using assms amount_Max [of a r b] amount_Max_left [of b r a] amount_Max_right [of a r b]
    by (cases "gm_has a r"; cases "gm_has b r") auto
qed

lemma amount_fold_Max:
  assumes "0 \<le> amount amt a r" "\<forall>l\<in>set ls. 0 \<le> amount amt l r"
  shows "amount amt (foldl Max a ls) r = foldl max (amount amt a r) (map (\<lambda>l. amount amt l r) ls)"
  using assms
proof (induction ls arbitrary: a)
  case (Cons l ls)
  from Cons.prems have m: "amount amt (Max a l) r = max (amount amt a r) (amount amt l r)"
    by (simp add: amount_Max_nonneg)
  moreover from this Cons.prems have "0 \<le> amount amt (Max a l) r" by simp
  ultimately show ?case using Cons by simp
qed simp

end

lemma map_of_rl_zip:
  "map_of (rl_zip f a b) r =
     (case map_of a r of None \<Rightarrow> map_of b r
      | Some v \<Rightarrow> Some (case map_of b r of None \<Rightarrow> v | Some w \<Rightarrow> f v w))"
proof -
  have "map_of (filter (\<lambda>(k, _). \<not> gm_has a k) b) r = (if gm_has a r then None else map_of b r)"
    by (induction b) auto
  moreover have "map_of (map (\<lambda>(k, v). (k, case map_of b k of None \<Rightarrow> v | Some w \<Rightarrow> f v w)) a) r =
      map_option (\<lambda>v. case map_of b r of None \<Rightarrow> v | Some w \<Rightarrow> f v w) (map_of a r)"
    by (induction a) (auto split: option.splits)
  ultimately show ?thesis
    by (auto simp: rl_zip_def map_add_def gm_has_def split: option.splits)
qed

interpretation int_quota: quota "rl_zip (+)" "rl_zip max" "\<lambda>q. q"
  by unfold_locales (auto simp: amount_def gm_has_def map_of_rl_zip split: option.splits)

section \<open>Package pkg/util/pod\<close>

definition PodPending :: string where "PodPending = ''Pending''"
definition PodScheduled :: string where "PodScheduled = ''PodScheduled''"
definition PodReasonUnschedulable :: string where "PodReasonUnschedulable = ''Unschedulable''"

definition IsPending :: "'q Pod \<Rightarrow> bool" where
  "IsPending pod \<longleftrightarrow> Phase pod = PodPending"

definition IsScheduled :: "'q Pod \<Rightarrow> bool" where
  "IsScheduled pod \<longleftrightarrow> NodeName pod \<noteq> ''''"

definition IsPreempting :: "'q Pod \<Rightarrow> bool" where
  "IsPreempting pod \<longleftrightarrow> NominatedNodeName pod \<noteq> ''''"

definition IsUnschedulable :: "'q Pod \<Rightarrow> bool" where
  "IsUnschedulable pod \<longleftrightarrow>
     list_ex (\<lambda>c. ConditionType c = PodScheduled \<and> ConditionReason c = PodReasonUnschedulable) (Conditions pod)"

text \<open>\<^verbatim>\<open>schema.GroupVersion.String\<close>: the group and the version, or the version alone.\<close>

definition IsOwnedBy :: "'q Pod \<Rightarrow> string \<Rightarrow> string \<Rightarrow> string \<Rightarrow> bool" where
  "IsOwnedBy pod grp version kind \<longleftrightarrow>
     (let gv = (if grp = '''' then version else grp @ ''/'' @ version) in
      list_ex (\<lambda>owner. APIVersion owner = gv \<and> Kind owner = kind) (OwnerReferences pod))"

definition IsOwnedByDaemonSet :: "'q Pod \<Rightarrow> bool" where
  "IsOwnedByDaemonSet pod = IsOwnedBy pod ''apps'' ''v1'' ''DaemonSet''"

definition IsOwnedByNode :: "'q Pod \<Rightarrow> bool" where
  "IsOwnedByNode pod = IsOwnedBy pod '''' ''v1'' ''Node''"

definition ExtraResourcesCouldHelpScheduling :: "'q Pod \<Rightarrow> bool" where
  "ExtraResourcesCouldHelpScheduling pod \<longleftrightarrow>
     \<not> IsScheduled pod \<and> IsPending pod \<and> IsUnschedulable pod \<and> \<not> IsPreempting pod \<and>
     \<not> IsOwnedByDaemonSet pod \<and> \<not> IsOwnedByNode pod"

end
