(* ===== verification/Resources.thy ===== *)
theory Resources
  imports K8s
begin

text \<open>
  Package \<^verbatim>\<open>pkg/resource\<close>: devices and their status, the request of a pod, and the client that
  reads devices from the kubelet's pod-resources endpoint (a third-party service, so its answers
  are arguments).
\<close>

section \<open>Devices\<close>

datatype Status = StatusUsed | StatusFree | StatusUnknown

text \<open>The string constants behind \<^verbatim>\<open>Status\<close>.\<close>

fun Status_String :: "Status \<Rightarrow> string" where
  "Status_String StatusUsed = ''used''"
| "Status_String StatusFree = ''free''"
| "Status_String StatusUnknown = ''unknown''"

definition ParseStatus :: "string \<Rightarrow> Status option" where
  "ParseStatus status =
     (if ToLower status = ''free'' then Some StatusFree
      else if ToLower status = ''used'' then Some StatusUsed
      else if ToLower status = ''unknown'' then Some StatusUnknown
      else None)"

record resDevice =
  ResourceName :: ResourceName
  DeviceId :: string
  DeviceStatus :: Status

definition Device_IsUsed :: "('a) resDevice_scheme \<Rightarrow> bool" where
  "Device_IsUsed d \<longleftrightarrow> DeviceStatus d = StatusUsed"

definition Device_IsFree :: "('a) resDevice_scheme \<Rightarrow> bool" where
  "Device_IsFree d \<longleftrightarrow> DeviceStatus d = StatusFree"

definition NvidiaResourcePrefix :: string where
  "NvidiaResourcePrefix = ''nvidia.com/''"

definition IsNvidiaResource :: "('a) resDevice_scheme \<Rightarrow> bool" where
  "IsNvidiaResource d = HasPrefix (ResourceName d) NvidiaResourcePrefix"

lemma ParseStatus_String: "ParseStatus (Status_String s) = Some s"
  by (cases s) (simp_all add: ParseStatus_def ToLower_def to_lower_def Let_def)

section \<open>The request of a pod\<close>

text \<open>
  The source calls \<^verbatim>\<open>quota.Add(containersRes, pod.Spec.Overhead)\<close> and drops the result, so the
  branch leaves the request of the containers unchanged.
\<close>

definition ComputePodRequest :: "('ni, 'q) k8sLib \<Rightarrow> 'q Pod \<Rightarrow> 'q ResourceList" where
  "ComputePodRequest K pod =
     (let containersRes = foldl (\<lambda>acc c. quotaAdd K acc (Requests c)) [] (Containers pod);
          initRes = foldl (\<lambda>acc c. quotaMax K acc (Requests c)) [] (InitContainers pod);
          containersRes' =
            (case Overhead pod of
               Some ov \<Rightarrow> (if podOverheadEnabled K then (let _ = quotaAdd K containersRes ov in containersRes)
                           else containersRes)
             | None \<Rightarrow> containersRes)
      in quotaMax K containersRes' initRes)"

section \<open>The client of the pod-resources endpoint\<close>

record containerDevices =
  cdResourceName :: string
  cdDeviceIds :: "string list"

text \<open>A response is the error of the call or the listed devices (per pod, per container).\<close>

fun devices_of :: "Status \<Rightarrow> containerDevices list \<Rightarrow> resDevice list" where
  "devices_of st [] = []"
| "devices_of st (d # ds) =
     map (\<lambda>i. \<lparr>ResourceName = cdResourceName d, DeviceId = i, DeviceStatus = st\<rparr>) (cdDeviceIds d) @ devices_of st ds"

definition GetAllocatableDevices :: "string + containerDevices list \<Rightarrow> string + resDevice list" where
  "GetAllocatableDevices resp =
     (case resp of
        Inl err \<Rightarrow> Inl (''unable to get allocatable resources from Kubelet gRPC socket: '' @ err)
      | Inr ds \<Rightarrow> Inr (devices_of StatusUnknown ds))"

definition GetUsedDevices :: "string + containerDevices list list list \<Rightarrow> string + resDevice list" where
  "GetUsedDevices resp =
     (case resp of
        Inl err \<Rightarrow> Inl (''unable to list resources used by running Pods from Kubelet gRPC socket: '' @ err)
      | Inr pods \<Rightarrow> Inr (concat (map (\<lambda>cs. concat (map (devices_of StatusUsed) cs)) pods)))"

section \<open>Facts\<close>

lemma devices_of_status: "d \<in> set (devices_of st ds) \<Longrightarrow> DeviceStatus d = st"
  by (induction st ds rule: devices_of.induct) auto

lemma GetUsedDevices_used: "GetUsedDevices resp = Inr ds \<Longrightarrow> d \<in> set ds \<Longrightarrow> Device_IsUsed d"
  by (auto simp: GetUsedDevices_def Device_IsUsed_def devices_of_status split: sum.splits)

lemma GetAllocatableDevices_unknown:
  "GetAllocatableDevices resp = Inr ds \<Longrightarrow> d \<in> set ds \<Longrightarrow> DeviceStatus d = StatusUnknown"
  by (auto simp: GetAllocatableDevices_def devices_of_status split: sum.splits)

lemma ComputePodRequest_unfold:
  "ComputePodRequest K pod =
     quotaMax K (foldl (quotaAdd K) [] (map Requests (Containers pod)))
                (foldl (quotaMax K) [] (map Requests (InitContainers pod)))"
  by (simp add: ComputePodRequest_def Let_def foldl_map split: option.splits)

text \<open>The overhead of a pod never counts, with or without the feature gate.\<close>

lemma overhead_ignored: "ComputePodRequest K (pod\<lparr>Overhead := overhead\<rparr>) = ComputePodRequest K pod"
  by (simp add: ComputePodRequest_unfold)

end
