(* ===== verification/GpuCore.thy ===== *)
theory GpuCore
  imports Resources
begin

text \<open>
  Package \<^verbatim>\<open>pkg/gpu\<close>: GPU errors, devices, the annotations that carry the desired (spec) and the
  reported (status) partitioning of a node, slices and geometries, and the readers of node labels.
\<close>

section \<open>Errors (errors.go)\<close>

datatype errorCode = errorCodeNotFound | errorCodeGeneric

record gpuError =
  code :: errorCode
  err :: string

definition NotFoundErr :: "string \<Rightarrow> gpuError" where
  "NotFoundErr msg = \<lparr>code = errorCodeNotFound, err = msg\<rparr>"

definition GenericErr :: "string \<Rightarrow> gpuError" where
  "GenericErr msg = \<lparr>code = errorCodeGeneric, err = msg\<rparr>"

definition NewGenericError :: "string \<Rightarrow> gpuError" where
  "NewGenericError e = \<lparr>code = errorCodeGeneric, err = e\<rparr>"

text \<open>A nil error is \<open>None\<close>.\<close>

definition IsNotFound :: "gpuError option \<Rightarrow> bool" where
  "IsNotFound e = (case e of None \<Rightarrow> False | Some x \<Rightarrow> code x = errorCodeNotFound)"

definition IgnoreNotFound :: "gpuError option \<Rightarrow> gpuError option" where
  "IgnoreNotFound e =
     (case e of None \<Rightarrow> None | Some x \<Rightarrow> (if code x = errorCodeNotFound then None else Some x))"

fun errorCode_String :: "errorCode \<Rightarrow> string" where
  "errorCode_String errorCodeNotFound = ''resource-not-found''"
| "errorCode_String errorCodeGeneric = ''generic''"

definition gpuError_Error :: "gpuError \<Rightarrow> string" where
  "gpuError_Error e = ''[code: '' @ errorCode_String (code e) @ ''  err: '' @ err e @ '']''"

definition ErrorList_Error :: "gpuError list \<Rightarrow> string" where
  "ErrorList_Error l =
     (if l = [] then ''no errors''
      else ''errors: '' @ concat (map (\<lambda>e. ''{ '' @ gpuError_Error e @ '' } '') l))"

section \<open>Annotations (annotation.go)\<close>

definition AnnotationGpuSpecPrefix :: string where
  "AnnotationGpuSpecPrefix = ''nos.nebuly.com/spec-gpu''"

definition AnnotationGpuStatusPrefix :: string where
  "AnnotationGpuStatusPrefix = ''nos.nebuly.com/status-gpu''"

definition AnnotationPartitioningPlan :: string where
  "AnnotationPartitioningPlan = ''nos.nebuly.com/spec-partitioning-plan''"

definition AnnotationReportedPartitioningPlan :: string where
  "AnnotationReportedPartitioningPlan = ''nos.nebuly.com/status-partitioning-plan''"

definition LabelGpuPartitioning :: string where
  "LabelGpuPartitioning = ''nos.nebuly.com/gpu-partitioning''"

record SpecAnnotation =
  spProfileName :: string
  spIndex :: int
  spQuantity :: int

record StatusAnnotation =
  stProfileName :: string
  stIndex :: int
  stStatus :: Status
  stQuantity :: int

datatype annotationError =
    InvalidPrefix string
  | InvalidKey string
  | InvalidQuantity string
  | InvalidIndex string
  | InvalidStatus string

definition ParseSpecAnnotation :: "string \<Rightarrow> string \<Rightarrow> annotationError + SpecAnnotation" where
  "ParseSpecAnnotation key value =
     (if \<not> HasPrefix key AnnotationGpuSpecPrefix then Inl (InvalidPrefix key)
      else let parts = Split key (CHR ''-'') in
        if length parts \<noteq> 4 then Inl (InvalidKey key)
        else case Atoi value of
          None \<Rightarrow> Inl (InvalidQuantity value)
        | Some quantity \<Rightarrow>
            (case Atoi (parts ! 2) of
               None \<Rightarrow> Inl (InvalidIndex (parts ! 2))
             | Some idx \<Rightarrow>
                 Inr \<lparr>spProfileName = parts ! (length parts - 1), spIndex = idx, spQuantity = quantity\<rparr>))"

definition ParseStatusAnnotation :: "string \<Rightarrow> string \<Rightarrow> annotationError + StatusAnnotation" where
  "ParseStatusAnnotation key value =
     (if \<not> HasPrefix key AnnotationGpuStatusPrefix then Inl (InvalidPrefix key)
      else let parts = Split key (CHR ''-'') in
        if length parts \<noteq> 5 then Inl (InvalidKey key)
        else case Atoi value of
          None \<Rightarrow> Inl (InvalidQuantity value)
        | Some quantity \<Rightarrow>
            (case Atoi (parts ! 2) of
               None \<Rightarrow> Inl (InvalidIndex (parts ! 2))
             | Some idx \<Rightarrow>
                 (case ParseStatus (parts ! (length parts - 1)) of
                    None \<Rightarrow> Inl (InvalidStatus (parts ! (length parts - 1)))
                  | Some status \<Rightarrow>
                      Inr \<lparr>stProfileName = parts ! 3, stIndex = idx, stStatus = status, stQuantity = quantity\<rparr>)))"

fun parseAnnotations ::
  "(string, string) gomap \<Rightarrow> StatusAnnotation list \<times> SpecAnnotation list \<Rightarrow>
   StatusAnnotation list \<times> SpecAnnotation list" where
  "parseAnnotations [] (st, sp) = (st, sp)"
| "parseAnnotations ((k, v) # as) (st, sp) =
     (case ParseSpecAnnotation k v of
        Inr a \<Rightarrow> parseAnnotations as (st, sp @ [a])
      | Inl _ \<Rightarrow>
          (case ParseStatusAnnotation k v of
             Inr a \<Rightarrow> parseAnnotations as (st @ [a], sp)
           | Inl _ \<Rightarrow> parseAnnotations as (st, sp)))"

definition ParseNodeAnnotations :: "'q Node \<Rightarrow> StatusAnnotation list \<times> SpecAnnotation list" where
  "ParseNodeAnnotations node = parseAnnotations (Annotations node) ([], [])"

definition SpecAnnotation_String :: "SpecAnnotation \<Rightarrow> string" where
  "SpecAnnotation_String a = AnnotationGpuSpecPrefix @ ''-'' @ Itoa (spIndex a) @ ''-'' @ spProfileName a"

definition SpecAnnotation_GetValue :: "SpecAnnotation \<Rightarrow> string" where
  "SpecAnnotation_GetValue a = Itoa (spQuantity a)"

definition SpecAnnotation_GetIndexWithProfile :: "SpecAnnotation \<Rightarrow> string" where
  "SpecAnnotation_GetIndexWithProfile a = Itoa (spIndex a) @ ''-'' @ spProfileName a"

definition StatusAnnotation_String :: "StatusAnnotation \<Rightarrow> string" where
  "StatusAnnotation_String a =
     AnnotationGpuStatusPrefix @ ''-'' @ Itoa (stIndex a) @ ''-'' @ stProfileName a @ ''-'' @ Status_String (stStatus a)"

definition StatusAnnotation_GetValue :: "StatusAnnotation \<Rightarrow> string" where
  "StatusAnnotation_GetValue a = Itoa (stQuantity a)"

definition StatusAnnotation_GetIndexWithProfile :: "StatusAnnotation \<Rightarrow> string" where
  "StatusAnnotation_GetIndexWithProfile a = Itoa (stIndex a) @ ''-'' @ stProfileName a"

definition StatusAnnotation_IsUsed :: "StatusAnnotation \<Rightarrow> bool" where
  "StatusAnnotation_IsUsed a \<longleftrightarrow> stStatus a = StatusUsed"

definition StatusAnnotation_IsFree :: "StatusAnnotation \<Rightarrow> bool" where
  "StatusAnnotation_IsFree a \<longleftrightarrow> stStatus a = StatusFree"

definition SpecAnnotationList_GroupByGpuIndex :: "SpecAnnotation list \<Rightarrow> (int, SpecAnnotation list) gomap" where
  "SpecAnnotationList_GroupByGpuIndex l = group_by spIndex l"

definition StatusAnnotationList_GroupByGpuIndex :: "StatusAnnotation list \<Rightarrow> (int, StatusAnnotation list) gomap" where
  "StatusAnnotationList_GroupByGpuIndex l = group_by stIndex l"

fun StatusAnnotationList_Filter :: "StatusAnnotation list \<Rightarrow> (StatusAnnotation \<Rightarrow> bool) \<Rightarrow> StatusAnnotation list" where
  "StatusAnnotationList_Filter [] keep = []"
| "StatusAnnotationList_Filter (a # l) keep =
     (if keep a then a # StatusAnnotationList_Filter l keep else StatusAnnotationList_Filter l keep)"

definition StatusAnnotationList_GetUsed :: "StatusAnnotation list \<Rightarrow> StatusAnnotation list" where
  "StatusAnnotationList_GetUsed l = StatusAnnotationList_Filter l StatusAnnotation_IsUsed"

definition StatusAnnotationList_GetFree :: "StatusAnnotation list \<Rightarrow> StatusAnnotation list" where
  "StatusAnnotationList_GetFree l = StatusAnnotationList_Filter l StatusAnnotation_IsFree"

definition StatusAnnotationList_Equal ::
  "(StatusAnnotation \<Rightarrow> StatusAnnotation \<Rightarrow> bool) \<Rightarrow> StatusAnnotation list \<Rightarrow> StatusAnnotation list \<Rightarrow> bool" where
  "StatusAnnotationList_Equal cmp l other = UnorderedEqual cmp l other"

section \<open>Devices (device.go)\<close>

record Device = resDevice +
  GpuIndex :: int

definition Device_FullResourceName :: "Device \<Rightarrow> string" where
  "Device_FullResourceName m = Itoa (GpuIndex m) @ ''/'' @ ResourceName m"

definition Device_String :: "Device \<Rightarrow> string" where
  "Device_String m =
     Itoa (GpuIndex m) @ ''/'' @ ResourceName m @ ''/'' @ DeviceId m @ ''/'' @ Status_String (DeviceStatus m)"

definition DeviceList_GroupBy :: "Device list \<Rightarrow> (Device \<Rightarrow> string) \<Rightarrow> (string, Device list) gomap" where
  "DeviceList_GroupBy l keyFunc = group_by keyFunc l"

definition DeviceList_SortByDeviceId :: "Device list \<Rightarrow> Device list" where
  "DeviceList_SortByDeviceId l = sliceStable (\<lambda>a b. str_less (DeviceId a) (DeviceId b)) l"

definition DeviceList_GroupByGpuIndex :: "Device list \<Rightarrow> (int, Device list) gomap" where
  "DeviceList_GroupByGpuIndex l = group_by GpuIndex l"

fun DeviceList_GetFree :: "Device list \<Rightarrow> Device list" where
  "DeviceList_GetFree [] = []"
| "DeviceList_GetFree (r # l) = (if Device_IsFree r then r # DeviceList_GetFree l else DeviceList_GetFree l)"

fun DeviceList_GetUsed :: "Device list \<Rightarrow> Device list" where
  "DeviceList_GetUsed [] = []"
| "DeviceList_GetUsed (r # l) = (if Device_IsUsed r then r # DeviceList_GetUsed l else DeviceList_GetUsed l)"

definition DeviceList_GroupByStatus :: "Device list \<Rightarrow> (Status, Device list) gomap" where
  "DeviceList_GroupByStatus l = group_by DeviceStatus l"

definition DeviceList_GroupByResourceName :: "Device list \<Rightarrow> (ResourceName, Device list) gomap" where
  "DeviceList_GroupByResourceName l = group_by ResourceName l"

text \<open>The three nested loops of \<^verbatim>\<open>AsStatusAnnotation\<close>; \<open>getProfile\<close> returns \<open>None\<close> on error.\<close>

definition DeviceList_AsStatusAnnotation ::
  "Device list \<Rightarrow> (ResourceName \<Rightarrow> string option) \<Rightarrow> StatusAnnotation list" where
  "DeviceList_AsStatusAnnotation l getProfile =
     concat (map (\<lambda>(gpuIndex, devices).
       concat (map (\<lambda>(resourceName, devices).
         concat (map (\<lambda>(status, devices).
           (case getProfile resourceName of
              Some profileName \<Rightarrow>
                [\<lparr>stProfileName = profileName, stIndex = gpuIndex, stStatus = status,
                  stQuantity = int (length devices)\<rparr>]
            | None \<Rightarrow> []))
         (DeviceList_GroupByStatus devices)))
       (DeviceList_GroupByResourceName devices)))
     (DeviceList_GroupByGpuIndex l))"

section \<open>Node labels and free devices (util.go)\<close>

type_synonym Model = string

definition GPUModel_A30 :: Model where "GPUModel_A30 = ''A30''"
definition GPUModel_A100_SXM4_40GB :: Model where "GPUModel_A100_SXM4_40GB = ''NVIDIA-A100-40GB-SXM4''"
definition GPUModel_A100_PCIe_80GB :: Model where "GPUModel_A100_PCIe_80GB = ''NVIDIA-A100-80GB-PCIe''"

definition LabelNvidiaProduct :: string where "LabelNvidiaProduct = ''nvidia.com/gpu.product''"
definition LabelNvidiaCount :: string where "LabelNvidiaCount = ''nvidia.com/gpu.count''"
definition LabelNvidiaMemory :: string where "LabelNvidiaMemory = ''nvidia.com/gpu.memory''"

datatype labelError = MissingLabel string | InvalidLabelValue string

definition GetModel :: "'q Node \<Rightarrow> labelError + Model" where
  "GetModel node =
     (case map_of (Labels node) LabelNvidiaProduct of
        None \<Rightarrow> Inl (MissingLabel LabelNvidiaProduct)
      | Some val \<Rightarrow> Inr val)"

definition GetCount :: "'q Node \<Rightarrow> labelError + int" where
  "GetCount node =
     (case map_of (Labels node) LabelNvidiaCount of
        None \<Rightarrow> Inl (MissingLabel LabelNvidiaCount)
      | Some val \<Rightarrow> (case Atoi val of None \<Rightarrow> Inl (InvalidLabelValue val) | Some n \<Rightarrow> Inr n))"

text \<open>\<^verbatim>\<open>math.Ceil(float64(m) / 1000)\<close>, exact for the memory sizes a label can hold.\<close>

definition GetMemoryGB :: "'q Node \<Rightarrow> labelError + int" where
  "GetMemoryGB node =
     (case map_of (Labels node) LabelNvidiaMemory of
        None \<Rightarrow> Inl (MissingLabel LabelNvidiaMemory)
      | Some val \<Rightarrow>
          (case Atoi val of None \<Rightarrow> Inl (InvalidLabelValue val) | Some m \<Rightarrow> Inr (- ((- m) div 1000))))"

definition ComputeFreeDevicesAndUpdateStatus :: "Device list \<Rightarrow> Device list \<Rightarrow> Device list" where
  "ComputeFreeDevicesAndUpdateStatus used allocatable =
     (let usedLookup = gm_put_all [] (map (\<lambda>u. (DeviceId u, u)) used) in
      map (\<lambda>a. a\<lparr>DeviceStatus := StatusFree\<rparr>)
        (filter (\<lambda>a. \<not> gm_has usedLookup (DeviceId a)) allocatable))"

section \<open>Slices and geometries (partitioning.go)\<close>

text \<open>
  \<^verbatim>\<open>gpu.Slice\<close> is an interface with two implementations, the profile names of the packages
  \<^verbatim>\<open>mig\<close> and \<^verbatim>\<open>slicing\<close>; a type assertion is a case distinction.
\<close>

datatype Slice = MigProfile string | SlicingProfile string

fun Slice_String :: "Slice \<Rightarrow> string" where
  "Slice_String (MigProfile p) = p"
| "Slice_String (SlicingProfile p) = p"

type_synonym Geometry = "(Slice, int) gomap"

definition Geometry_String :: "Geometry \<Rightarrow> string" where
  "Geometry_String g =
     (let orderedProfiles = sliceStable (\<lambda>a b. str_less (Slice_String a) (Slice_String b)) (map fst g) in
      concat (map (\<lambda>p. Slice_String p @ '':'' @ Itoa (gm_get g p) @ '', '') orderedProfiles))"

text \<open>The map is encoded with the names of its slices as keys; \<open>marshal\<close> is the encoder.\<close>

definition Geometry_MarshalJSON :: "((string, int) gomap \<Rightarrow> 'j) \<Rightarrow> Geometry \<Rightarrow> 'j" where
  "Geometry_MarshalJSON marshal g = marshal (gm_put_all [] (map (\<lambda>(k, v). (Slice_String k, v)) g))"

text \<open>The first geometry with the fewest entries; the nil map of an empty list is \<open>None\<close>.\<close>

fun fewestSlices :: "Geometry option \<Rightarrow> Geometry list \<Rightarrow> Geometry option" where
  "fewestSlices m [] = m"
| "fewestSlices None (g # gs) = fewestSlices (Some g) gs"
| "fewestSlices (Some m) (g # gs) =
     (if length g < length m then fewestSlices (Some g) gs else fewestSlices (Some m) gs)"

definition GetFewestSlicesGeometry :: "Geometry list \<Rightarrow> Geometry option" where
  "GetFewestSlicesGeometry geometries = fewestSlices None geometries"

datatype PartitioningKind = PartitioningKindMig

fun PartitioningKind_String :: "PartitioningKind \<Rightarrow> string" where
  "PartitioningKind_String PartitioningKindMig = ''mig''"

definition asPartitioningKind :: "string \<Rightarrow> PartitioningKind option" where
  "asPartitioningKind kind =
     (if kind = PartitioningKind_String PartitioningKindMig then Some PartitioningKindMig else None)"

definition GetPartitioningKind :: "'q Node \<Rightarrow> PartitioningKind option" where
  "GetPartitioningKind node =
     (case map_of (Labels node) LabelGpuPartitioning of None \<Rightarrow> None | Some s \<Rightarrow> asPartitioningKind s)"

definition IsMigPartitioningEnabled :: "'q Node \<Rightarrow> bool" where
  "IsMigPartitioningEnabled node =
     (case map_of (Labels node) LabelGpuPartitioning of
        None \<Rightarrow> False
      | Some s \<Rightarrow> s = PartitioningKind_String PartitioningKindMig)"

section \<open>Facts\<close>

subsection \<open>Errors\<close>

lemma IgnoreNotFound_None: "IgnoreNotFound e = None \<longleftrightarrow> e = None \<or> IsNotFound e"
  by (auto simp: IgnoreNotFound_def IsNotFound_def split: option.splits)

lemma IsNotFound_simps [simp]:
  "\<not> IsNotFound None" "IsNotFound (Some (NotFoundErr m))" "\<not> IsNotFound (Some (GenericErr m))"
  "\<not> IsNotFound (Some (NewGenericError m))"
  by (simp_all add: IsNotFound_def NotFoundErr_def GenericErr_def NewGenericError_def)

subsection \<open>Annotations\<close>

lemma dash_Status_String [simp]: "CHR ''-'' \<notin> set (Status_String s)"
  by (cases s) simp_all

lemma Split_spec_key:
  assumes "0 \<le> i" "CHR ''-'' \<notin> set p"
  shows "Split (AnnotationGpuSpecPrefix @ ''-'' @ Itoa i @ ''-'' @ p) (CHR ''-'') =
         [''nos.nebuly.com/spec'', ''gpu'', Itoa i, p]"
proof -
  have "AnnotationGpuSpecPrefix @ ''-'' @ Itoa i @ ''-'' @ p =
      ''nos.nebuly.com/spec'' @ CHR ''-'' # ''gpu'' @ CHR ''-'' # Itoa i @ CHR ''-'' # p"
    by (simp add: AnnotationGpuSpecPrefix_def)
  then show ?thesis
    using assms by (simp only: Split_append Split_no_sep Itoa_no_minus) (simp add: Split_append Split_no_sep Itoa_no_minus)
qed

lemma Split_status_key:
  assumes "0 \<le> i" "CHR ''-'' \<notin> set p" "CHR ''-'' \<notin> set s"
  shows "Split (AnnotationGpuStatusPrefix @ ''-'' @ Itoa i @ ''-'' @ p @ ''-'' @ s) (CHR ''-'') =
         [''nos.nebuly.com/status'', ''gpu'', Itoa i, p, s]"
proof -
  have "AnnotationGpuStatusPrefix @ ''-'' @ Itoa i @ ''-'' @ p @ ''-'' @ s =
      ''nos.nebuly.com/status'' @ CHR ''-'' # ''gpu'' @ CHR ''-'' # Itoa i @ CHR ''-'' # p @ CHR ''-'' # s"
    by (simp add: AnnotationGpuStatusPrefix_def)
  then show ?thesis
    using assms by (simp only: Split_append Split_no_sep Itoa_no_minus) (simp add: Split_append Split_no_sep Itoa_no_minus)
qed

definition spec_printable :: "SpecAnnotation \<Rightarrow> bool" where
  "spec_printable a \<longleftrightarrow> 0 \<le> spIndex a \<and> int64_range (spIndex a) \<and> int64_range (spQuantity a) \<and>
     CHR ''-'' \<notin> set (spProfileName a)"

definition status_printable :: "StatusAnnotation \<Rightarrow> bool" where
  "status_printable a \<longleftrightarrow> 0 \<le> stIndex a \<and> int64_range (stIndex a) \<and> int64_range (stQuantity a) \<and>
     CHR ''-'' \<notin> set (stProfileName a)"

lemma parse_spec_print:
  "spec_printable a \<Longrightarrow> ParseSpecAnnotation (SpecAnnotation_String a) (SpecAnnotation_GetValue a) = Inr a"
  by (simp add: spec_printable_def ParseSpecAnnotation_def SpecAnnotation_String_def SpecAnnotation_GetValue_def
      Split_spec_key Atoi_Itoa Let_def del: append_Cons)

lemma parse_status_print:
  "status_printable a \<Longrightarrow> ParseStatusAnnotation (StatusAnnotation_String a) (StatusAnnotation_GetValue a) = Inr a"
  by (simp add: status_printable_def ParseStatusAnnotation_def StatusAnnotation_String_def
      StatusAnnotation_GetValue_def Split_status_key Atoi_Itoa Let_def ParseStatus_String del: append_Cons)

lemma prefixes_disjoint: "HasPrefix k AnnotationGpuSpecPrefix \<Longrightarrow> \<not> HasPrefix k AnnotationGpuStatusPrefix"
  by (auto simp: HasPrefix_iff AnnotationGpuSpecPrefix_def AnnotationGpuStatusPrefix_def)

lemma spec_key_prefix: "ParseSpecAnnotation k v = Inr a \<Longrightarrow> HasPrefix k AnnotationGpuSpecPrefix"
  by (simp add: ParseSpecAnnotation_def split: if_splits)

lemma status_key_prefix: "ParseStatusAnnotation k v = Inr a \<Longrightarrow> HasPrefix k AnnotationGpuStatusPrefix"
  by (simp add: ParseStatusAnnotation_def split: if_splits)

lemma spec_not_status: "ParseSpecAnnotation k v = Inr a \<Longrightarrow> ParseStatusAnnotation k v \<noteq> Inr b"
  using spec_key_prefix status_key_prefix prefixes_disjoint by blast

definition spec_of :: "string \<times> string \<Rightarrow> SpecAnnotation option" where
  "spec_of e = (case ParseSpecAnnotation (fst e) (snd e) of Inr a \<Rightarrow> Some a | Inl _ \<Rightarrow> None)"

definition status_of :: "string \<times> string \<Rightarrow> StatusAnnotation option" where
  "status_of e = (case ParseStatusAnnotation (fst e) (snd e) of Inr a \<Rightarrow> Some a | Inl _ \<Rightarrow> None)"

lemma parseAnnotations_eq:
  "parseAnnotations as (st, sp) = (st @ List.map_filter status_of as, sp @ List.map_filter spec_of as)"
proof (induction as arbitrary: st sp)
  case (Cons e as)
  obtain k v where e: "e = (k, v)" by (cases e)
  show ?case
    using spec_not_status [of k v]
    by (auto simp: e Cons.IH map_filter_simps spec_of_def status_of_def split: sum.splits)
qed (simp add: map_filter_simps)

lemma ParseNodeAnnotations_eq:
  "ParseNodeAnnotations node =
     (List.map_filter status_of (Annotations node), List.map_filter spec_of (Annotations node))"
  by (simp add: ParseNodeAnnotations_def parseAnnotations_eq)

lemma spec_of_other: "\<not> HasPrefix (fst e) AnnotationGpuSpecPrefix \<Longrightarrow> spec_of e = None"
  by (simp add: spec_of_def ParseSpecAnnotation_def)

lemma status_of_spec: "HasPrefix (fst e) AnnotationGpuSpecPrefix \<Longrightarrow> status_of e = None"
  using prefixes_disjoint by (simp add: status_of_def ParseStatusAnnotation_def)

lemma map_filter_append: "List.map_filter f (xs @ ys) = List.map_filter f xs @ List.map_filter f ys"
  by (simp add: List.map_filter_def)

lemma map_filter_None: "\<forall>x\<in>set xs. f x = None \<Longrightarrow> List.map_filter f xs = []"
  by (simp add: List.map_filter_def filter_empty_conv)

lemma map_filter_Some: "\<forall>x\<in>set xs. f (g x) = Some (h x) \<Longrightarrow> List.map_filter f (map g xs) = map h xs"
  by (induction xs) (auto simp: map_filter_simps)

lemma map_filter_put:
  "\<forall>v. f (k, v) = None \<Longrightarrow> List.map_filter f (gm_put k v m) = List.map_filter f m"
  by (induction m) (auto simp: gm_put_def map_filter_simps split: option.splits)

lemma map_filter_filter:
  "\<forall>x\<in>set xs. \<not> P x \<longrightarrow> f x = None \<Longrightarrow> List.map_filter f (filter P xs) = List.map_filter f xs"
  by (induction xs) (auto simp: map_filter_simps split: option.splits)

lemma StatusAnnotationList_Filter_eq [simp]: "StatusAnnotationList_Filter l P = filter P l"
  by (induction l) auto

lemma index_with_profile_inject:
  "Itoa i @ ''-'' @ p = Itoa j @ ''-'' @ q \<longleftrightarrow> i = j \<and> p = q"
  using index_key_inject [of i p j q] by simp

subsection \<open>Devices\<close>

lemma DeviceList_GetFree_eq [simp]: "DeviceList_GetFree l = filter Device_IsFree l"
  by (induction l) auto

lemma DeviceList_GetUsed_eq [simp]: "DeviceList_GetUsed l = filter Device_IsUsed l"
  by (induction l) auto

lemma mset_SortByDeviceId [simp]: "mset (DeviceList_SortByDeviceId l) = mset l"
  by (simp add: DeviceList_SortByDeviceId_def)

lemma set_SortByDeviceId [simp]: "set (DeviceList_SortByDeviceId l) = set l"
  by (simp add: DeviceList_SortByDeviceId_def)

interpretation device_order: strict_weak_order "\<lambda>a b. str_less (DeviceId a) (DeviceId b)"
  using str_order.lt_asym str_order.lt_negtrans by unfold_locales blast+

lemma SortByDeviceId_sorted:
  "sorted_wrt (\<lambda>a b. \<not> str_less (DeviceId b) (DeviceId a)) (DeviceList_SortByDeviceId l)"
  unfolding DeviceList_SortByDeviceId_def by (rule device_order.sliceStable_sorted)

lemma keys_gm_put_all: "fst ` set (gm_put_all m l) = fst ` set m \<union> fst ` set l"
  by (induction m l rule: gm_put_all.induct) (auto simp: keys_gm_put)

lemma ComputeFree_eq:
  "ComputeFreeDevicesAndUpdateStatus used allocatable =
     map (\<lambda>a. a\<lparr>DeviceStatus := StatusFree\<rparr>)
       (filter (\<lambda>a. DeviceId a \<notin> DeviceId ` set used) allocatable)"
proof -
  have "gm_has (gm_put_all [] (map (\<lambda>u. (DeviceId u, u)) used)) i \<longleftrightarrow> i \<in> DeviceId ` set used" for i
    by (simp add: gm_has_iff keys_gm_put_all image_image)
  then show ?thesis by (simp add: ComputeFreeDevicesAndUpdateStatus_def)
qed

subsection \<open>Geometries\<close>

lemma fewestSlices_Some:
  "\<exists>r. fewestSlices (Some m) gs = Some r \<and> r \<in> insert m (set gs) \<and> (\<forall>g\<in>insert m (set gs). length r \<le> length g)"
proof (induction gs arbitrary: m)
  case (Cons g gs)
  let ?m = "if length g < length m then g else m"
  obtain r where r: "fewestSlices (Some ?m) gs = Some r" "r \<in> insert ?m (set gs)"
    "\<forall>x\<in>insert ?m (set gs). length r \<le> length x"
    using Cons.IH [of ?m] by auto
  then have "length r \<le> length ?m" by simp
  then have "length r \<le> length m" "length r \<le> length g" by (auto split: if_splits)
  with r show ?case by (auto split: if_splits)
qed simp

lemma GetFewestSlicesGeometry_Nil [simp]: "GetFewestSlicesGeometry [] = None"
  by (simp add: GetFewestSlicesGeometry_def)

lemma GetFewestSlicesGeometry_min:
  "gs \<noteq> [] \<Longrightarrow> \<exists>r. GetFewestSlicesGeometry gs = Some r \<and> r \<in> set gs \<and> (\<forall>g\<in>set gs. length r \<le> length g)"
  using fewestSlices_Some by (cases gs) (auto simp: GetFewestSlicesGeometry_def)

end
