(* ===== verification/MigProfiles.thy ===== *)
theory MigProfiles
  imports GpuCore
begin

text \<open>
  Package \<^verbatim>\<open>pkg/gpu/mig\<close>, profiles: names of MIG profiles and of the resources they are exposed
  as (profile.go, util.go), the comparison and grouping of annotations (annotation.go), and the
  tables of geometries a GPU model allows (known_configs.go, allowed_geometries.go).
\<close>

section \<open>Profiles (profile.go)\<close>

type_synonym ProfileName = string

definition Profile1g6gb :: ProfileName where "Profile1g6gb = ''1g.6gb''"
definition Profile2g12gb :: ProfileName where "Profile2g12gb = ''2g.12gb''"
definition Profile4g24gb :: ProfileName where "Profile4g24gb = ''4g.24gb''"
definition Profile1g5gb :: ProfileName where "Profile1g5gb = ''1g.5gb''"
definition Profile2g10gb :: ProfileName where "Profile2g10gb = ''2g.10gb''"
definition Profile3g20gb :: ProfileName where "Profile3g20gb = ''3g.20gb''"
definition Profile4g20gb :: ProfileName where "Profile4g20gb = ''4g.20gb''"
definition Profile7g40gb :: ProfileName where "Profile7g40gb = ''7g.40gb''"
definition Profile1g10gb :: ProfileName where "Profile1g10gb = ''1g.10gb''"
definition Profile2g20gb :: ProfileName where "Profile2g20gb = ''2g.20gb''"
definition Profile3g40gb :: ProfileName where "Profile3g40gb = ''3g.40gb''"
definition Profile4g40gb :: ProfileName where "Profile4g40gb = ''4g.40gb''"
definition Profile7g79gb :: ProfileName where "Profile7g79gb = ''7g.79gb''"

lemmas profile_consts = Profile1g6gb_def Profile2g12gb_def Profile4g24gb_def Profile1g5gb_def
  Profile2g10gb_def Profile3g20gb_def Profile4g20gb_def Profile7g40gb_def Profile1g10gb_def
  Profile2g20gb_def Profile3g40gb_def Profile4g40gb_def Profile7g79gb_def

text \<open>The regular expressions of \<^verbatim>\<open>pkg/constant\<close> and of the package.\<close>

definition RegexNvidiaMigResource :: "rx list" where
  "RegexNvidiaMigResource = [Lit ''nvidia.com/mig-'', Digits, Lit ''g.'', Digits, Lit ''gb'']"

definition RegexNvidiaMigProfile :: "rx list" where
  "RegexNvidiaMigProfile = [Digits, Lit ''g.'', Digits, Lit ''gb'']"

definition RegexNvidiaMigFormatMemory :: "rx list" where
  "RegexNvidiaMigFormatMemory = [Digits, Lit ''gb'']"

definition migGiRegex :: "rx list" where
  "migGiRegex = [Digits, Lit ''g'']"

definition NvidiaMigResourcePrefix :: string where
  "NvidiaMigResourcePrefix = ''nvidia.com/mig-''"

definition ProfileName_isValid :: "ProfileName \<Rightarrow> bool" where
  "ProfileName_isValid p = MatchString RegexNvidiaMigProfile p"

definition AsResourceName :: "ProfileName \<Rightarrow> ResourceName" where
  "AsResourceName p = NvidiaMigResourcePrefix @ p"

text \<open>\<^verbatim>\<open>FindString\<close> returns the empty string where nothing matches.\<close>

definition getMemorySlices :: "ProfileName \<Rightarrow> int" where
  "getMemorySlices p =
     (let asString = (case FindString RegexNvidiaMigFormatMemory p of None \<Rightarrow> '''' | Some m \<Rightarrow> m) in
      Atoi_value (TrimSuffix asString ''gb''))"

definition getGiSlices :: "ProfileName \<Rightarrow> int" where
  "getGiSlices p =
     (let asString = (case FindString migGiRegex p of None \<Rightarrow> '''' | Some m \<Rightarrow> m) in
      Atoi_value (TrimSuffix asString ''g''))"

fun SmallerThan :: "ProfileName \<Rightarrow> Slice \<Rightarrow> bool" where
  "SmallerThan p (SlicingProfile _) = False"
| "SmallerThan p (MigProfile other) =
     (if getMemorySlices p < getMemorySlices other then True
      else if getGiSlices p < getGiSlices other then True
      else False)"

record Profile =
  prGpuIndex :: int
  prName :: ProfileName

definition ProfileList_GroupByGPU :: "Profile list \<Rightarrow> (int, Profile list) gomap" where
  "ProfileList_GroupByGPU p = group_by prGpuIndex p"

section \<open>Resources (util.go)\<close>

definition IsNvidiaMigDevice :: "ResourceName \<Rightarrow> bool" where
  "IsNvidiaMigDevice resourceName = MatchString RegexNvidiaMigResource resourceName"

definition ExtractProfileName :: "ResourceName \<Rightarrow> ProfileName option" where
  "ExtractProfileName resourceName =
     (if \<not> MatchString RegexNvidiaMigResource resourceName then None
      else Some (TrimPrefix resourceName ''nvidia.com/mig-''))"

definition ExtractProfileNameStr :: "ResourceName \<Rightarrow> string option" where
  "ExtractProfileNameStr resourceName =
     (case ExtractProfileName resourceName of None \<Rightarrow> None | Some profileName \<Rightarrow> Some profileName)"

text \<open>The memory size in a resource name; \<open>None\<close> stands for an error.\<close>

definition ExtractMemoryGBFromMigFormat :: "ResourceName \<Rightarrow> int option" where
  "ExtractMemoryGBFromMigFormat r =
     (if \<not> MatchString RegexNvidiaMigResource r then None
      else let matches = FindAllString RegexNvidiaMigFormatMemory r in
        if length matches \<noteq> 1 then None
        else Atoi (case FindString [Digits] (matches ! 0) of None \<Rightarrow> '''' | Some m \<Rightarrow> m))"

fun requestedProfiles_loop ::
  "('q \<Rightarrow> int) \<Rightarrow> (ProfileName, int) gomap \<Rightarrow> 'q ResourceList \<Rightarrow> (ProfileName, int) gomap" where
  "requestedProfiles_loop val res [] = res"
| "requestedProfiles_loop val res ((r, quantity) # l) =
     (case ExtractProfileName r of
        Some migProfile \<Rightarrow> requestedProfiles_loop val (gm_add migProfile (val quantity) res) l
      | None \<Rightarrow> requestedProfiles_loop val res l)"

definition GetRequestedProfiles :: "('ni, 'q) k8sLib \<Rightarrow> 'q Pod \<Rightarrow> (ProfileName, int) gomap" where
  "GetRequestedProfiles K pod = requestedProfiles_loop (quantityValue K) [] (ComputePodRequest K pod)"

definition GetMigProfileName :: "Device \<Rightarrow> ProfileName" where
  "GetMigProfileName device =
     (case ExtractProfileName (ResourceName device) of Some profile \<Rightarrow> profile | None \<Rightarrow> '''')"

definition device_profile :: "Device \<Rightarrow> Profile" where
  "device_profile r = \<lparr>prGpuIndex = GpuIndex r, prName = GetMigProfileName r\<rparr>"

definition GroupDevicesByMigProfile :: "Device list \<Rightarrow> (Profile, Device list) gomap" where
  "GroupDevicesByMigProfile l = group_by device_profile l"

fun asResources_loop :: "(ResourceName, int) gomap \<Rightarrow> Geometry \<Rightarrow> (ResourceName, int) gomap" where
  "asResources_loop res [] = res"
| "asResources_loop res ((p, v) # g) =
     asResources_loop (gm_add (NvidiaMigResourcePrefix @ Slice_String p) v res) g"

definition AsResources :: "Geometry \<Rightarrow> (ResourceName, int) gomap" where
  "AsResources g = asResources_loop [] g"

section \<open>Annotations (annotation.go)\<close>

text \<open>\<open>cmp\<close> is \<^verbatim>\<open>cmp.Equal\<close> on \<^verbatim>\<open>map[string]int\<close>.\<close>

definition SpecMatchesStatus ::
  "((string, int) gomap \<Rightarrow> (string, int) gomap \<Rightarrow> bool) \<Rightarrow>
   SpecAnnotation list \<Rightarrow> StatusAnnotation list \<Rightarrow> bool" where
  "SpecMatchesStatus cmp specAnnotations statusAnnotations =
     (let specMigProfilesWithQuantity =
            gm_add_all [] (map (\<lambda>a. (SpecAnnotation_GetIndexWithProfile a, spQuantity a)) specAnnotations);
          statusMigProfilesWithQuantity =
            gm_add_all [] (map (\<lambda>a. (StatusAnnotation_GetIndexWithProfile a, stQuantity a)) statusAnnotations)
      in cmp specMigProfilesWithQuantity statusMigProfilesWithQuantity)"

definition annotation_profile :: "SpecAnnotation \<Rightarrow> Profile" where
  "annotation_profile a = \<lparr>prGpuIndex = spIndex a, prName = spProfileName a\<rparr>"

definition GroupSpecAnnotationsByMigProfile :: "SpecAnnotation list \<Rightarrow> (Profile, SpecAnnotation list) gomap" where
  "GroupSpecAnnotationsByMigProfile annotations = group_by annotation_profile annotations"

section \<open>Known geometries (known_configs.go, allowed_geometries.go)\<close>

abbreviation geo :: "(ProfileName \<times> int) list \<Rightarrow> Geometry" where
  "geo ps \<equiv> map (\<lambda>(p, q). (MigProfile p, q)) ps"

definition knownMigGeometries :: "(Model, Geometry list) gomap" where
  "knownMigGeometries =
    [(GPUModel_A30,
       [geo [(Profile4g24gb, 1)],
        geo [(Profile2g12gb, 2)],
        geo [(Profile2g12gb, 1), (Profile1g6gb, 2)],
        geo [(Profile1g6gb, 4)]]),
     (GPUModel_A100_SXM4_40GB,
       [geo [(Profile7g40gb, 1)],
        geo [(Profile4g20gb, 1), (Profile2g10gb, 1), (Profile1g5gb, 1)],
        geo [(Profile4g20gb, 1), (Profile1g5gb, 3)],
        geo [(Profile3g20gb, 2)],
        geo [(Profile3g20gb, 1), (Profile2g10gb, 1), (Profile1g5gb, 1)],
        geo [(Profile3g20gb, 1), (Profile1g5gb, 3)],
        geo [(Profile2g10gb, 2), (Profile3g20gb, 1)],
        geo [(Profile2g10gb, 1), (Profile1g5gb, 2), (Profile3g20gb, 1)],
        geo [(Profile2g10gb, 3), (Profile1g5gb, 1)],
        geo [(Profile2g10gb, 2), (Profile1g5gb, 3)],
        geo [(Profile2g10gb, 1), (Profile1g5gb, 5)],
        geo [(Profile1g5gb, 7)]]),
     (GPUModel_A100_PCIe_80GB,
       [geo [(Profile7g79gb, 1)],
        geo [(Profile4g40gb, 1), (Profile2g20gb, 1), (Profile1g10gb, 1)],
        geo [(Profile4g40gb, 1), (Profile1g10gb, 3)],
        geo [(Profile3g40gb, 2)],
        geo [(Profile3g40gb, 1), (Profile2g20gb, 1), (Profile1g10gb, 1)],
        geo [(Profile3g40gb, 1), (Profile1g10gb, 3)],
        geo [(Profile2g20gb, 2), (Profile3g20gb, 1)],
        geo [(Profile2g10gb, 1), (Profile1g10gb, 2), (Profile3g40gb, 1)],
        geo [(Profile2g20gb, 3), (Profile1g10gb, 1)],
        geo [(Profile2g20gb, 2), (Profile1g10gb, 3)],
        geo [(Profile2g20gb, 1), (Profile1g10gb, 5)],
        geo [(Profile1g10gb, 7)]])]"

datatype configError =
    NoKnownConfigs
  | InvalidProfileType Slice
  | InvalidProfile ProfileName
  | InvalidProfileQuantity int ProfileName

text \<open>The package variable is the state; the nil map is \<open>None\<close>.\<close>

type_synonym knownState = "(Model, Geometry list) gomap option"

definition GetKnownGeometries :: "knownState \<Rightarrow> (Model, Geometry list) gomap" where
  "GetKnownGeometries known = (case known of None \<Rightarrow> [] | Some m \<Rightarrow> m)"

definition GetAllowedGeometries :: "knownState \<Rightarrow> Model \<Rightarrow> Geometry list option" where
  "GetAllowedGeometries known model = map_of (GetKnownGeometries known) model"

fun validateGeometry :: "Geometry \<Rightarrow> configError option" where
  "validateGeometry [] = None"
| "validateGeometry ((profile, quantity) # g) =
     (case profile of
        SlicingProfile _ \<Rightarrow> Some (InvalidProfileType profile)
      | MigProfile migProfile \<Rightarrow>
          (if \<not> ProfileName_isValid migProfile then Some (InvalidProfile migProfile)
           else if quantity < 1 then Some (InvalidProfileQuantity quantity migProfile)
           else validateGeometry g))"

fun validateGeometries :: "Geometry list \<Rightarrow> configError option" where
  "validateGeometries [] = None"
| "validateGeometries (g # gs) =
     (case validateGeometry g of Some e \<Rightarrow> Some e | None \<Rightarrow> validateGeometries gs)"

fun validateModels :: "(Model, Geometry list) gomap \<Rightarrow> configError option" where
  "validateModels [] = None"
| "validateModels ((_, gs) # cs) =
     (case validateGeometries gs of Some e \<Rightarrow> Some e | None \<Rightarrow> validateModels cs)"

definition ValidateConfigs :: "(Model, Geometry list) gomap \<Rightarrow> configError option" where
  "ValidateConfigs configs = (if length configs = 0 then Some NoKnownConfigs else validateModels configs)"

definition SetKnownGeometries ::
  "(Model, Geometry list) gomap \<Rightarrow> knownState \<Rightarrow> configError option \<times> knownState" where
  "SetKnownGeometries configs known =
     (case ValidateConfigs configs of Some e \<Rightarrow> (Some e, known) | None \<Rightarrow> (None, Some configs))"

record AllowedMigGeometries =
  amModels :: "Model list"
  amGeometries :: "Geometry list"

fun migGeometriesToGpuGeometries :: "(ProfileName, int) gomap list \<Rightarrow> Geometry list" where
  "migGeometriesToGpuGeometries [] = []"
| "migGeometriesToGpuGeometries (g # gs) =
     gm_put_all [] (map (\<lambda>(p, q). (MigProfile p, q)) g) # migGeometriesToGpuGeometries gs"

fun groupByModel_loop ::
  "(Model, Geometry list) gomap \<Rightarrow> AllowedMigGeometries list \<Rightarrow> (Model, Geometry list) gomap" where
  "groupByModel_loop res [] = res"
| "groupByModel_loop res (ag # a) =
     groupByModel_loop (fold (\<lambda>model r. gm_put model (amGeometries ag) r) (amModels ag) res) a"

definition AllowedMigGeometriesList_GroupByModel ::
  "AllowedMigGeometries list \<Rightarrow> (Model, Geometry list) gomap" where
  "AllowedMigGeometriesList_GroupByModel a = groupByModel_loop [] a"

section \<open>Facts\<close>

subsection \<open>Names\<close>

text \<open>A profile name of the form \<^verbatim>\<open><n>g.<m>gb\<close>, as the hardware names them.\<close>

definition canonical_profile :: "ProfileName \<Rightarrow> bool" where
  "canonical_profile p \<longleftrightarrow> rx_match RegexNvidiaMigProfile p = Some p"

lemma canonical_valid: "canonical_profile p \<Longrightarrow> ProfileName_isValid p"
  by (simp add: canonical_profile_def ProfileName_isValid_def MatchString_prefix)

lemma rx_match_resource:
  "rx_match RegexNvidiaMigResource (AsResourceName p) =
     map_option (\<lambda>m. NvidiaMigResourcePrefix @ m) (rx_match RegexNvidiaMigProfile p)"
  by (simp only: RegexNvidiaMigResource_def AsResourceName_def NvidiaMigResourcePrefix_def
      RegexNvidiaMigProfile_def rx_match_Lit_append)

lemma IsNvidiaMigDevice_AsResourceName:
  "rx_match RegexNvidiaMigProfile p \<noteq> None \<Longrightarrow> IsNvidiaMigDevice (AsResourceName p)"
  by (simp add: IsNvidiaMigDevice_def MatchString_prefix rx_match_resource)

lemma ExtractProfileName_AsResourceName:
  assumes "rx_match RegexNvidiaMigProfile p \<noteq> None"
  shows "ExtractProfileName (AsResourceName p) = Some p"
proof -
  from assms have "MatchString RegexNvidiaMigResource (AsResourceName p)"
    by (intro MatchString_prefix) (simp add: rx_match_resource)
  moreover have "TrimPrefix (AsResourceName p) ''nvidia.com/mig-'' = p"
    by (simp only: AsResourceName_def NvidiaMigResourcePrefix_def TrimPrefix_append)
  ultimately show ?thesis by (simp add: ExtractProfileName_def)
qed

lemma AsResourceName_inject [simp]: "AsResourceName p = AsResourceName q \<longleftrightarrow> p = q"
  by (simp add: AsResourceName_def)

lemma rx_match_chars:
  "rx_match r s = Some m \<Longrightarrow> c \<in> set m \<Longrightarrow> is_digit c \<or> (\<exists>p. Lit p \<in> set r \<and> c \<in> set p)"
proof (induction r s arbitrary: m rule: rx_match.induct)
  case (2 p r s)
  then obtain m' where "rx_match r (drop (length p) s) = Some m'" "m = p @ m'"
    by (auto split: if_splits)
  with "2" show ?case by (auto split: if_splits)
next
  case (3 r s)
  then obtain m' where "rx_match r (dropWhile is_digit s) = Some m'" "m = takeWhile is_digit s @ m'"
    by (auto simp: Let_def split: if_splits)
  with "3" show ?case by (auto simp: Let_def dest: set_takeWhileD split: if_splits)
qed simp

lemma canonical_no_dash: "canonical_profile p \<Longrightarrow> CHR ''-'' \<notin> set p"
  using rx_match_chars [of RegexNvidiaMigProfile p p "CHR ''-''"]
  by (auto simp: canonical_profile_def RegexNvidiaMigProfile_def)

subsection \<open>Requests\<close>

lemma requestedProfiles_ok: "gm_ok res \<Longrightarrow> gm_ok (requestedProfiles_loop val res l)"
  by (induction val res l rule: requestedProfiles_loop.induct) (simp_all add: gomap_ok split: option.splits)

lemma GetRequestedProfiles_ok [simp]: "gm_ok (GetRequestedProfiles K pod)"
  by (simp add: GetRequestedProfiles_def requestedProfiles_ok)

lemma requestedProfiles_nonneg:
  "\<forall>(r, q)\<in>set l. 0 \<le> val q \<Longrightarrow> \<forall>p. 0 \<le> gm_get res p \<Longrightarrow> 0 \<le> gm_get (requestedProfiles_loop val res l) p"
proof (induction val res l rule: requestedProfiles_loop.induct)
  case (2 val res r q l)
  have "\<forall>p. 0 \<le> gm_get (gm_add m (val q) res) p" for m
    using "2.prems" by (auto simp: gomap_simps)
  with "2" show ?case by (auto split: option.splits)
qed simp

subsection \<open>Comparison of spec and status\<close>

lemma gm_add_all_sum:
  "gm_get (gm_add_all [] (map (\<lambda>a. (f a, q a)) l)) k = (\<Sum>a\<leftarrow>filter (\<lambda>a. f a = k) l. q a)"
proof -
  have "(\<Sum>a\<leftarrow>l. if f a = k then q a else 0) = (\<Sum>a\<leftarrow>filter (\<lambda>a. f a = k) l. q a)"
    by (induction l) auto
  then show ?thesis by (simp add: gm_get_add_all comp_def)
qed

lemma gm_has_add_all_map: "gm_has (gm_add_all [] (map (\<lambda>a. (f a, q a)) l)) k \<longleftrightarrow> k \<in> f ` set l"
  by (simp add: gomap_simps) (simp add: gm_has_iff image_image)

lemma map_of_eq_gm: "map_of a = map_of b \<longleftrightarrow> (\<forall>k. gm_has a k = gm_has b k \<and> gm_get a k = gm_get b k)"
proof
  assume r: "\<forall>k. gm_has a k = gm_has b k \<and> gm_get a k = gm_get b k"
  show "map_of a = map_of b"
  proof (rule ext)
    fix k show "map_of a k = map_of b k"
      using r [rule_format, of k] by (auto simp: gm_has_def gm_get_def split: option.splits)
  qed
next
  assume "map_of a = map_of b"
  then show "\<forall>k. gm_has a k = gm_has b k \<and> gm_get a k = gm_get b k"
    by (simp add: gm_has_def gm_get_def)
qed

text \<open>Equal totals per key, and the same keys.\<close>

lemma totals_equal_iff:
  "map_of (gm_add_all [] (map (\<lambda>a. (f a, q a)) l)) = map_of (gm_add_all [] (map (\<lambda>a. (g a, r a)) l')) \<longleftrightarrow>
   (\<forall>k. (k \<in> f ` set l) = (k \<in> g ` set l') \<and>
        (\<Sum>a\<leftarrow>filter (\<lambda>a. f a = k) l. q a) = (\<Sum>a\<leftarrow>filter (\<lambda>a. g a = k) l'. r a))"
  by (simp add: map_of_eq_gm gm_has_add_all_map gm_add_all_sum)

subsection \<open>Known geometries\<close>

definition geometry_ok :: "Geometry \<Rightarrow> bool" where
  "geometry_ok g \<longleftrightarrow> (\<forall>(s, q)\<in>set g. (\<exists>p. s = MigProfile p \<and> ProfileName_isValid p) \<and> 1 \<le> q)"

lemma geometry_ok_code [code]:
  "geometry_ok g = list_all (\<lambda>(s, q). (case s of MigProfile p \<Rightarrow> ProfileName_isValid p | SlicingProfile _ \<Rightarrow> False) \<and> 1 \<le> q) g"
  by (auto simp: geometry_ok_def list_all_iff split: Slice.splits)

lemma validateGeometry_None: "validateGeometry g = None \<longleftrightarrow> geometry_ok g"
  by (induction g rule: validateGeometry.induct) (auto simp: geometry_ok_def split: Slice.splits)

lemma validateGeometries_None: "validateGeometries gs = None \<longleftrightarrow> (\<forall>g\<in>set gs. geometry_ok g)"
  by (induction gs rule: validateGeometries.induct)
    (auto simp: validateGeometry_None [symmetric] split: option.splits)

lemma validateModels_None: "validateModels cs = None \<longleftrightarrow> (\<forall>(m, gs)\<in>set cs. \<forall>g\<in>set gs. geometry_ok g)"
  by (induction cs rule: validateModels.induct)
    (auto simp: validateGeometries_None [symmetric] split: option.splits)

text \<open>What a validated table guarantees: maps with distinct keys, MIG profiles, positive quantities.\<close>

definition known_ok :: "knownState \<Rightarrow> bool" where
  "known_ok known \<longleftrightarrow> (\<forall>(m, gs)\<in>set (GetKnownGeometries known). \<forall>g\<in>set gs. gm_ok g \<and> geometry_ok g)"

lemma known_ok_allowed:
  "known_ok known \<Longrightarrow> GetAllowedGeometries known model = Some gs \<Longrightarrow> g \<in> set gs \<Longrightarrow> gm_ok g \<and> geometry_ok g"
  unfolding known_ok_def GetAllowedGeometries_def by (fastforce dest: map_of_SomeD)

lemma geometry_ok_nonneg: "geometry_ok g \<Longrightarrow> 0 \<le> gm_get g s"
proof -
  assume g: "geometry_ok g"
  show ?thesis
  proof (cases "map_of g s")
    case (Some q)
    then have "(s, q) \<in> set g" by (rule map_of_SomeD)
    with g have "1 \<le> q" by (auto simp: geometry_ok_def)
    with Some show ?thesis by (simp add: gm_get_def)
  qed (simp add: gm_get_def)
qed

lemma geometry_ok_mig: "geometry_ok g \<Longrightarrow> gm_has g s \<Longrightarrow> \<exists>p. s = MigProfile p"
  by (auto simp: geometry_ok_def gm_has_iff)

lemma geo_ok: "gm_ok (geo l) \<longleftrightarrow> gm_ok l"
proof -
  have "map fst (geo l) = map MigProfile (map fst l)" by (induction l) auto
  moreover have "distinct (map MigProfile ps) \<longleftrightarrow> distinct ps" for ps
    by (simp add: distinct_map inj_on_def)
  ultimately show ?thesis by (simp only: gm_ok_def)
qed

lemma known_default_valid: "ValidateConfigs knownMigGeometries = None"
  by code_simp

lemma known_default_keys: "\<forall>(m, gs)\<in>set knownMigGeometries. \<forall>g\<in>set gs. gm_ok g"
  by (simp add: knownMigGeometries_def gm_ok_def profile_consts)

lemma known_default_ok: "known_ok (Some knownMigGeometries)"
proof -
  have "validateModels knownMigGeometries = None"
    using known_default_valid by (simp add: ValidateConfigs_def split: if_splits)
  with known_default_keys show ?thesis
    by (fastforce simp: known_ok_def GetKnownGeometries_def validateModels_None)
qed

end
