(* ===== verification/MigPlan.thy ===== *)
theory MigPlan
  imports MigProfiles
begin

text \<open>
  Package \<^verbatim>\<open>internal/controllers/migagent/plan\<close>: the state of a node's MIG devices per GPU (mig_state.go),
  the operations of a plan (operation.go) and the plan that takes the devices from the actual state
  to the one the spec annotations ask for (plan.go).
\<close>

section \<open>The state (mig_state.go)\<close>

type_synonym MigState = "(int, Device list) gomap"

definition NewMigState :: "Device list \<Rightarrow> MigState" where
  "NewMigState resources = group_by GpuIndex resources"

definition MigState_Flatten :: "MigState \<Rightarrow> Device list" where
  "MigState_Flatten s = concat (map snd s)"

definition state_key :: "ProfileName \<Rightarrow> int \<Rightarrow> string" where
  "state_key name gpuIdx = Itoa gpuIdx @ ''-'' @ name"

definition MigState_Matches ::
  "((string, int) gomap \<Rightarrow> (string, int) gomap \<Rightarrow> bool) \<Rightarrow> MigState \<Rightarrow> SpecAnnotation list \<Rightarrow> bool" where
  "MigState_Matches cmp s specAnnotations =
     (let specQuantities = gm_add_all [] (map (\<lambda>a. (state_key (spProfileName a) (spIndex a), spQuantity a)) specAnnotations);
          groupedBy = DeviceList_GroupBy (MigState_Flatten s) (\<lambda>r. state_key (GetMigProfileName r) (GpuIndex r));
          stateQuantities = gm_put_all [] (map (\<lambda>(k, v). (k, int (length v))) groupedBy)
      in cmp specQuantities stateQuantities)"

definition MigState_DeepCopy :: "MigState \<Rightarrow> MigState" where
  "MigState_DeepCopy s = NewMigState (MigState_Flatten s)"

definition WithoutMigProfiles :: "MigState \<Rightarrow> int \<Rightarrow> ProfileName list \<Rightarrow> MigState" where
  "WithoutMigProfiles s gpuIdx migProfiles =
     gm_put gpuIdx (filter (\<lambda>r. \<not> InSlice (GetMigProfileName r) migProfiles) (gm_list s gpuIdx)) (MigState_DeepCopy s)"

section \<open>Operations (operation.go)\<close>

record CreateOperation =
  coMigProfile :: Profile
  coQuantity :: int

record DeleteOperation =
  doResources :: "Device list"

definition DeleteOperation_GetMigProfileName :: "DeleteOperation \<Rightarrow> ProfileName" where
  "DeleteOperation_GetMigProfileName op = (case doResources op of [] \<Rightarrow> '''' | r # _ \<Rightarrow> GetMigProfileName r)"

text \<open>\<open>cmpDevice\<close> and \<open>cmpCreate\<close> are \<^verbatim>\<open>cmp.Equal\<close>, which calls an \<^verbatim>\<open>Equal\<close> method where a type has one.\<close>

definition DeleteOperation_Equal :: "(Device \<Rightarrow> Device \<Rightarrow> bool) \<Rightarrow> DeleteOperation \<Rightarrow> DeleteOperation \<Rightarrow> bool" where
  "DeleteOperation_Equal cmpDevice op other = UnorderedEqual cmpDevice (doResources op) (doResources other)"

text \<open>A loop from 0 to the quantity; nothing for a negative quantity.\<close>

fun CreateOperationList_Flatten :: "CreateOperation list \<Rightarrow> Profile list" where
  "CreateOperationList_Flatten [] = []"
| "CreateOperationList_Flatten (op # ops) =
     replicate (nat (coQuantity op)) (coMigProfile op) @ CreateOperationList_Flatten ops"

definition CreateOperationList_Equal ::
  "(CreateOperation \<Rightarrow> CreateOperation \<Rightarrow> bool) \<Rightarrow> CreateOperation list \<Rightarrow> CreateOperation list \<Rightarrow> bool" where
  "CreateOperationList_Equal cmpCreate c other =
     (if length c \<noteq> length other then False else UnorderedEqual cmpCreate c other)"

definition DeleteOperationList_Equal ::
  "(Device \<Rightarrow> Device \<Rightarrow> bool) \<Rightarrow> DeleteOperation list \<Rightarrow> DeleteOperation list \<Rightarrow> bool" where
  "DeleteOperationList_Equal cmpDevice l other =
     (if length l \<noteq> length other then False else UnorderedEqual (DeleteOperation_Equal cmpDevice) l other)"

section \<open>The plan (plan.go)\<close>

record MigConfigPlan =
  DeleteOperations :: "DeleteOperation list"
  CreateOperations :: "CreateOperation list"

definition addDeleteOp :: "DeleteOperation \<Rightarrow> MigConfigPlan \<Rightarrow> MigConfigPlan" where
  "addDeleteOp op p = p\<lparr>DeleteOperations := DeleteOperations p @ [op]\<rparr>"

definition addCreateOp :: "CreateOperation \<Rightarrow> MigConfigPlan \<Rightarrow> MigConfigPlan" where
  "addCreateOp op p = p\<lparr>CreateOperations := CreateOperations p @ [op]\<rparr>"

definition getResourcesToDelete :: "MigConfigPlan \<Rightarrow> Device list" where
  "getResourcesToDelete p = concat (map doResources (DeleteOperations p))"

definition MigConfigPlan_IsEmpty :: "MigConfigPlan \<Rightarrow> bool" where
  "MigConfigPlan_IsEmpty p \<longleftrightarrow> length (DeleteOperations p) = 0 \<and> length (CreateOperations p) = 0"

definition MigConfigPlan_Equal ::
  "(Device \<Rightarrow> Device \<Rightarrow> bool) \<Rightarrow> (CreateOperation \<Rightarrow> CreateOperation \<Rightarrow> bool) \<Rightarrow> MigConfigPlan \<Rightarrow> MigConfigPlan option \<Rightarrow> bool" where
  "MigConfigPlan_Equal cmpDevice cmpCreate p other =
     (case other of
        None \<Rightarrow> False
      | Some q \<Rightarrow>
          (if \<not> DeleteOperationList_Equal cmpDevice (DeleteOperations q) (DeleteOperations p) then False
           else if \<not> CreateOperationList_Equal cmpCreate (CreateOperations q) (CreateOperations p) then False
           else True))"

fun without_annotated :: "MigState \<Rightarrow> (int, SpecAnnotation list) gomap \<Rightarrow> MigState" where
  "without_annotated updatedState [] = updatedState"
| "without_annotated updatedState ((gpuIdx, annotations) # lookup) =
     without_annotated (WithoutMigProfiles updatedState gpuIdx (map spProfileName annotations)) lookup"

definition getResourcesNotIncludedInSpec :: "MigState \<Rightarrow> SpecAnnotation list \<Rightarrow> Device list" where
  "getResourcesNotIncludedInSpec state specAnnotations =
     MigState_Flatten (without_annotated state (SpecAnnotationList_GroupByGpuIndex specAnnotations))"

text \<open>The loop that takes devices with the given status until there are enough.\<close>

fun take_candidates :: "(Device \<Rightarrow> bool) \<Rightarrow> int \<Rightarrow> Device list \<Rightarrow> Device list \<Rightarrow> Device list" where
  "take_candidates P nToDelete deleteCandidates [] = deleteCandidates"
| "take_candidates P nToDelete deleteCandidates (r # resources) =
     (let deleteCandidates' = (if P r then deleteCandidates @ [r] else deleteCandidates) in
      if int (length deleteCandidates') = Abs nToDelete then deleteCandidates'
      else take_candidates P nToDelete deleteCandidates' resources)"

definition extractCandidatesForDeletion :: "Device list \<Rightarrow> int \<Rightarrow> Device list" where
  "extractCandidatesForDeletion resources nToDelete =
     (let deleteCandidates = take_candidates Device_IsFree nToDelete [] resources in
      if int (length deleteCandidates) < nToDelete
      then take_candidates (\<lambda>r. \<not> Device_IsFree r) nToDelete deleteCandidates resources
      else deleteCandidates)"

definition extractResourcesToRecreate :: "Device list \<Rightarrow> MigConfigPlan \<Rightarrow> Device list" where
  "extractResourcesToRecreate resources currentPlan =
     (let alreadyToBeDeletedLookup = gm_put_all [] (map (\<lambda>r. (DeviceId r, r)) (getResourcesToDelete currentPlan)) in
      filter (\<lambda>r. \<not> gm_has alreadyToBeDeletedLookup (DeviceId r)) (DeviceList_GetFree resources))"

fun plan_profiles ::
  "(Profile, Device list) gomap \<Rightarrow> MigConfigPlan \<times> nat \<Rightarrow> (Profile, SpecAnnotation list) gomap \<Rightarrow> MigConfigPlan \<times> nat" where
  "plan_profiles gpuStateResources (p, nCreateOp) [] = (p, nCreateOp)"
| "plan_profiles gpuStateResources (p, nCreateOp) ((migProfile, migProfileAnnotations) # groups) =
     (let actual = gm_list gpuStateResources migProfile;
          totalDesiredQuantity = (\<Sum>a\<leftarrow>migProfileAnnotations. spQuantity a);
          diff = totalDesiredQuantity - int (length actual);
          (p1, n1) =
            (if diff > 0 then (addCreateOp \<lparr>coMigProfile = migProfile, coQuantity = diff\<rparr> p, Suc nCreateOp) else (p, nCreateOp));
          p2 = (if diff < 0 then addDeleteOp \<lparr>doResources = extractCandidatesForDeletion actual (Abs diff)\<rparr> p1 else p1)
      in plan_profiles gpuStateResources (p2, n1) groups)"

fun add_recreate_ops :: "MigConfigPlan \<Rightarrow> (Profile, Device list) gomap \<Rightarrow> MigConfigPlan" where
  "add_recreate_ops p [] = p"
| "add_recreate_ops p ((profile, resources) # groups) =
     add_recreate_ops (addCreateOp \<lparr>coMigProfile = profile, coQuantity = int (length resources)\<rparr> p) groups"

fun plan_gpus ::
  "(int, Device list) gomap \<Rightarrow> MigConfigPlan \<Rightarrow> (int, SpecAnnotation list) gomap \<Rightarrow> MigConfigPlan" where
  "plan_gpus stateResourcesByGpu p [] = p"
| "plan_gpus stateResourcesByGpu p ((gpuIdx, gpuAnnotations) # groups) =
     (let gpuStateResources = GroupDevicesByMigProfile (gm_list stateResourcesByGpu gpuIdx);
          (p1, nCreateOp) = plan_profiles gpuStateResources (p, 0) (GroupSpecAnnotationsByMigProfile gpuAnnotations) in
      if nCreateOp = 0 then plan_gpus stateResourcesByGpu p1 groups
      else
        let resourcesToRecreate = extractResourcesToRecreate (gm_list stateResourcesByGpu gpuIdx) p1 in
        if length resourcesToRecreate > 0
        then plan_gpus stateResourcesByGpu
          (add_recreate_ops (addDeleteOp \<lparr>doResources = resourcesToRecreate\<rparr> p1) (GroupDevicesByMigProfile resourcesToRecreate)) groups
        else plan_gpus stateResourcesByGpu p1 groups)"

fun add_delete_ops :: "MigConfigPlan \<Rightarrow> (Profile, Device list) gomap \<Rightarrow> MigConfigPlan" where
  "add_delete_ops p [] = p"
| "add_delete_ops p ((_, resourceList) # groups) = add_delete_ops (addDeleteOp \<lparr>doResources = resourceList\<rparr> p) groups"

definition NewMigConfigPlan :: "MigState \<Rightarrow> SpecAnnotation list \<Rightarrow> MigConfigPlan" where
  "NewMigConfigPlan state desired =
     (let p0 = \<lparr>DeleteOperations = [], CreateOperations = []\<rparr>;
          p1 = add_delete_ops p0 (GroupDevicesByMigProfile (getResourcesNotIncludedInSpec state desired));
          stateResourcesByGpu = DeviceList_GroupByGpuIndex (DeviceList_SortByDeviceId (MigState_Flatten state))
      in plan_gpus stateResourcesByGpu p1 (SpecAnnotationList_GroupByGpuIndex desired))"

section \<open>Well-formed states\<close>

definition wf_state :: "MigState \<Rightarrow> bool" where
  "wf_state s \<longleftrightarrow> gm_ok s \<and> (\<forall>(i, ds)\<in>set s. \<forall>d\<in>set ds. GpuIndex d = i)"

lemma wf_state_map_of:
  "wf_state s \<longleftrightarrow> gm_ok s \<and> (\<forall>i ds. map_of s i = Some ds \<longrightarrow> (\<forall>d\<in>set ds. GpuIndex d = i))"
  using gm_ok_get_iff [of s] by (auto simp: wf_state_def Ball_def)

lemma NewMigState_wf [simp]: "wf_state (NewMigState ds)"
  by (auto simp: wf_state_def NewMigState_def group_by_entry_iff)

lemma NewMigState_Flatten [simp]: "mset (MigState_Flatten (NewMigState ds)) = mset ds"
  by (simp add: MigState_Flatten_def NewMigState_def)

lemma Flatten_on_gpu: "wf_state s \<Longrightarrow> filter (\<lambda>d. GpuIndex d = i) (MigState_Flatten s) = gm_list s i"
proof (induction s)
  case (Cons e s)
  obtain j ds where e: "e = (j, ds)" by fastforce
  from Cons.prems e have wf: "wf_state s" and j: "j \<notin> fst ` set s" and ds: "\<forall>d\<in>set ds. GpuIndex d = j"
    by (auto simp: wf_state_def gm_ok_Cons)
  have "filter (\<lambda>d. GpuIndex d = i) ds = (if j = i then ds else [])"
    using ds by (auto simp: filter_id_conv filter_empty_conv)
  moreover have "gm_list s j = []" using j by (simp add: gm_list_not_has gm_has_iff)
  ultimately show ?case using Cons.IH [OF wf] by (auto simp: MigState_Flatten_def e gm_list_def)
qed (simp add: MigState_Flatten_def)

lemma mset_put:
  "gm_ok m \<Longrightarrow> mset (concat (map snd (gm_put k v m))) + mset (gm_list m k) = mset (concat (map snd m)) + mset v"
proof (induction m)
  case (Cons e m)
  obtain j w where e: "e = (j, w)" by fastforce
  with Cons.prems have ok: "gm_ok m" "j \<notin> fst ` set m" by (simp_all add: gm_ok_Cons)
  show ?case
  proof (cases "j = k")
    case True
    with ok have "gm_list m k = []" by (simp add: gm_list_not_has gm_has_iff)
    with True e show ?thesis by (simp add: gm_put_def gm_list_def)
  next
    case False
    with Cons.IH [OF ok(1)] e show ?thesis by (simp add: gm_put_def gm_list_def ac_simps)
  qed
qed (simp add: gm_put_def)

lemma WithoutMigProfiles_wf: "wf_state s \<Longrightarrow> wf_state (WithoutMigProfiles s i ps)"
proof -
  assume s: "wf_state s"
  have "\<forall>d\<in>set (gm_list s i). GpuIndex d = i"
    using Flatten_on_gpu [OF s, of i, symmetric] by simp
  moreover have "wf_state (MigState_DeepCopy s)" by (simp add: MigState_DeepCopy_def)
  ultimately show ?thesis
    by (auto simp: WithoutMigProfiles_def wf_state_map_of gomap_ok gomap_simps)
qed

lemma WithoutMigProfiles_Flatten:
  assumes "wf_state s"
  shows "mset (MigState_Flatten (WithoutMigProfiles s i ps)) =
    filter_mset (\<lambda>d. \<not> (GpuIndex d = i \<and> GetMigProfileName d \<in> set ps)) (mset (MigState_Flatten s))"
proof -
  let ?D = "MigState_DeepCopy s" let ?F = "mset (MigState_Flatten s)"
  let ?keep = "filter (\<lambda>r. \<not> InSlice (GetMigProfileName r) ps) (gm_list s i)"
  have on: "mset (gm_list s i) = filter_mset (\<lambda>d. GpuIndex d = i) ?F"
    using Flatten_on_gpu [OF assms, of i] by (metis mset_filter)
  have D: "gm_ok ?D" "mset (concat (map snd ?D)) = ?F" "mset (gm_list ?D i) = filter_mset (\<lambda>d. GpuIndex d = i) ?F"
    by (simp_all add: MigState_DeepCopy_def NewMigState_def)
  have "mset (MigState_Flatten (WithoutMigProfiles s i ps)) + filter_mset (\<lambda>d. GpuIndex d = i) ?F = ?F + mset ?keep"
    using mset_put [OF D(1), of i ?keep] D by (simp add: WithoutMigProfiles_def MigState_Flatten_def)
  also have "mset ?keep = filter_mset (\<lambda>d. GpuIndex d = i \<and> GetMigProfileName d \<notin> set ps) ?F"
    by (simp add: on conj_commute filter_filter_mset)
  also have "?F + \<dots> = filter_mset (\<lambda>d. \<not> (GpuIndex d = i \<and> GetMigProfileName d \<in> set ps)) ?F + filter_mset (\<lambda>d. GpuIndex d = i) ?F"
    by (rule multiset_eqI) (simp add: count_filter_mset)
  finally show ?thesis by simp
qed

lemma without_annotated_Flatten:
  assumes "wf_state s"
  shows "mset (MigState_Flatten (without_annotated s lookup)) =
    filter_mset (\<lambda>d. \<forall>(i, as)\<in>set lookup. \<not> (GpuIndex d = i \<and> GetMigProfileName d \<in> spProfileName ` set as))
      (mset (MigState_Flatten s))"
  using assms
proof (induction lookup arbitrary: s)
  case (Cons e lookup)
  obtain i as where e: "e = (i, as)" by fastforce
  show ?case
    using Cons.IH [OF WithoutMigProfiles_wf [OF Cons.prems], of i "map spProfileName as"] WithoutMigProfiles_Flatten [OF Cons.prems]
    by (simp add: e filter_filter_mset conj_commute)
qed simp

text \<open>The devices whose GPU and profile the spec does not name.\<close>

lemma not_included_mset:
  assumes "wf_state s"
  shows "mset (getResourcesNotIncludedInSpec s desired) =
    filter_mset (\<lambda>d. device_profile d \<notin> annotation_profile ` set desired) (mset (MigState_Flatten s))"
proof -
  have "(\<forall>(i, as)\<in>set (group_by spIndex desired). \<not> (GpuIndex d = i \<and> GetMigProfileName d \<in> spProfileName ` set as)) \<longleftrightarrow>
      device_profile d \<notin> annotation_profile ` set desired" for d
    by (auto simp: ball_group_by device_profile_def annotation_profile_def image_iff)
  then show ?thesis
    using without_annotated_Flatten [OF assms, of "group_by spIndex desired"]
    by (simp add: getResourcesNotIncludedInSpec_def SpecAnnotationList_GroupByGpuIndex_def)
qed

section \<open>What a plan does\<close>

text \<open>The number of devices of a GPU and profile, in a list, to be created, and to be deleted.\<close>

definition cnt :: "Device list \<Rightarrow> Profile \<Rightarrow> int" where
  "cnt ds k = int (length (filter (\<lambda>d. device_profile d = k) ds))"

definition created :: "MigConfigPlan \<Rightarrow> Profile \<Rightarrow> int" where
  "created p k = (\<Sum>op\<leftarrow>CreateOperations p. if coMigProfile op = k then coQuantity op else 0)"

definition deleted :: "MigConfigPlan \<Rightarrow> Profile \<Rightarrow> int" where
  "deleted p k = cnt (getResourcesToDelete p) k"

definition wanted :: "SpecAnnotation list \<Rightarrow> Profile \<Rightarrow> int" where
  "wanted desired k = (\<Sum>a\<leftarrow>filter (\<lambda>a. annotation_profile a = k) desired. spQuantity a)"

lemma cnt_append [simp]: "cnt (xs @ ys) k = cnt xs k + cnt ys k"
  by (simp add: cnt_def)

lemma cnt_Nil [simp]: "cnt [] k = 0"
  by (simp add: cnt_def)

lemma cnt_mset: "mset xs = mset ys \<Longrightarrow> cnt xs k = cnt ys k"
  by (metis cnt_def mset_filter size_mset)

lemma cnt_filter: "cnt (filter P ds) k = int (length (filter (\<lambda>d. P d \<and> device_profile d = k) ds))"
  by (simp add: cnt_def conj_commute)

lemma plan_simps [simp]:
  "created (addCreateOp op p) k = created p k + (if coMigProfile op = k then coQuantity op else 0)"
  "created (addDeleteOp d p) k = created p k"
  "deleted (addCreateOp op p) k = deleted p k"
  "deleted (addDeleteOp d p) k = deleted p k + cnt (doResources d) k"
  "getResourcesToDelete (addCreateOp op p) = getResourcesToDelete p"
  "getResourcesToDelete (addDeleteOp d p) = getResourcesToDelete p @ doResources d"
  by (simp_all add: created_def deleted_def addCreateOp_def addDeleteOp_def getResourcesToDelete_def)

lemma take_candidates_eq:
  assumes "int (length acc) < n"
  shows "take_candidates P n acc rs = acc @ take (nat n - length acc) (filter P rs)"
  using assms
proof (induction rs arbitrary: acc)
  case (Cons r rs)
  have "nat n - length acc = Suc (nat n - length (acc @ [r]))" using Cons.prems by simp
  with Cons show ?case by (auto simp: Let_def Abs_def)
qed simp

lemma extractCandidates_eq:
  assumes "0 < n"
  shows "extractCandidatesForDeletion rs n = take (nat n) (filter Device_IsFree rs @ filter (\<lambda>r. \<not> Device_IsFree r) rs)"
proof -
  let ?f = "filter Device_IsFree rs"
  have f: "take_candidates Device_IsFree n [] rs = take (nat n) ?f" using assms by (simp add: take_candidates_eq)
  show ?thesis
  proof (cases "int (length ?f) < n")
    case True
    then have "take (nat n) ?f = ?f" by simp
    with True f take_candidates_eq [of ?f n "\<lambda>r. \<not> Device_IsFree r" rs] show ?thesis
      by (simp add: extractCandidatesForDeletion_def Let_def)
  next
    case False
    with assms f show ?thesis by (simp add: extractCandidatesForDeletion_def Let_def min_def)
  qed
qed

lemma extractCandidates_cnt:
  assumes "0 < n" "n \<le> int (length rs)" "\<forall>d\<in>set rs. device_profile d = k"
  shows "cnt (extractCandidatesForDeletion rs n) k' = (if k' = k then n else 0)"
proof -
  define l where "l = filter Device_IsFree rs @ filter (\<lambda>r. \<not> Device_IsFree r) rs"
  have len: "length l = length rs" by (simp add: l_def sum_length_filter_compl)
  have "set l = set rs" by (auto simp: l_def)
  then have "\<forall>d\<in>set (take (nat n) l). device_profile d = k" using assms(3) by (auto dest: in_set_takeD)
  then have "filter (\<lambda>d. device_profile d = k') (take (nat n) l) = (if k' = k then take (nat n) l else [])"
    by (auto simp: filter_id_conv filter_empty_conv)
  with assms(1,2) len show ?thesis by (simp add: cnt_def extractCandidates_eq flip: l_def)
qed

lemma add_recreate_ops_deletes [simp]: "getResourcesToDelete (add_recreate_ops p groups) = getResourcesToDelete p"
  by (induction p groups rule: add_recreate_ops.induct) simp_all

lemma add_recreate_ops_created:
  "created (add_recreate_ops p groups) k = created p k + (\<Sum>(k', rs)\<leftarrow>groups. if k' = k then int (length rs) else 0)"
  by (induction p groups rule: add_recreate_ops.induct) simp_all

lemma add_delete_ops_effect:
  "created (add_delete_ops p groups) k = created p k"
  "getResourcesToDelete (add_delete_ops p groups) = getResourcesToDelete p @ concat (map snd groups)"
  by (induction p groups rule: add_delete_ops.induct) simp_all

lemma sum_group_lengths:
  "(\<Sum>(k', rs)\<leftarrow>group_by device_profile ds. if k' = k then int (length rs) else 0) = cnt ds k"
proof -
  have ok: "gm_ok (map (\<lambda>(k, rs). (k, int (length rs))) (group_by device_profile ds))"
    using gm_ok_group_by [of device_profile ds] by (simp add: gm_ok_def comp_def split_def)
  have "(\<Sum>(k', rs)\<leftarrow>group_by device_profile ds. if k' = k then int (length rs) else 0) =
      (\<Sum>(k', v)\<leftarrow>map (\<lambda>(k, rs). (k, int (length rs))) (group_by device_profile ds). if k' = k then v else 0)"
    by (simp add: comp_def split_def cong: if_cong)
  also have "\<dots> = gm_get (map (\<lambda>(k, rs). (k, int (length rs))) (group_by device_profile ds)) k"
    by (rule sum_entries_gm_get [OF ok])
  also have "\<dots> = int (length (gm_list (group_by device_profile ds) k))"
    by (simp add: gm_get_def gm_list_def map_of_map split: option.splits)
  finally show ?thesis by (simp add: cnt_def)
qed

lemma plan_profiles_net:
  assumes "gm_ok groups" "\<forall>(k, as)\<in>set groups. 0 \<le> (\<Sum>a\<leftarrow>as. spQuantity a) \<and> (\<forall>d\<in>set (gm_list res k). device_profile d = k)"
  shows "created (fst (plan_profiles res (p, n) groups)) k - deleted (fst (plan_profiles res (p, n) groups)) k =
    created p k - deleted p k +
    (case map_of groups k of None \<Rightarrow> 0 | Some as \<Rightarrow> (\<Sum>a\<leftarrow>as. spQuantity a) - int (length (gm_list res k)))"
  using assms
proof (induction groups arbitrary: p n)
  case (Cons e groups)
  obtain k0 as where e: "e = (k0, as)" by fastforce
  let ?actual = "gm_list res k0" let ?diff = "(\<Sum>a\<leftarrow>as. spQuantity a) - int (length ?actual)"
  have ok: "gm_ok groups" "k0 \<notin> fst ` set groups" and q: "0 \<le> (\<Sum>a\<leftarrow>as. spQuantity a)" "\<forall>d\<in>set ?actual. device_profile d = k0"
    using Cons.prems e by (auto simp: gm_ok_Cons)
  have rest: "\<forall>(k, as)\<in>set groups. 0 \<le> (\<Sum>a\<leftarrow>as. spQuantity a) \<and> (\<forall>d\<in>set (gm_list res k). device_profile d = k)"
    using Cons.prems by simp
  have cand: "cnt (extractCandidatesForDeletion ?actual (Abs ?diff)) k = (if k = k0 then - ?diff else 0)" if "?diff < 0"
    using that q extractCandidates_cnt [of "Abs ?diff" ?actual k0 k] by (simp add: Abs_def)
  have none: "map_of groups k0 = None" using ok(2) by (simp add: map_of_eq_None_iff)
  consider "?diff > 0" | "?diff < 0" | "?diff = 0" by linarith
  then show ?case
    by cases (use e none cand Cons.IH [OF ok(1) rest] in \<open>auto simp: Let_def\<close>)
qed simp

text \<open>One GPU: its profiles, then the free devices that are deleted and created again.\<close>

definition plan_gpu :: "Device list \<Rightarrow> MigConfigPlan \<Rightarrow> int \<Rightarrow> SpecAnnotation list \<Rightarrow> MigConfigPlan" where
  "plan_gpu devs p i as =
     (let (p1, nCreateOp) = plan_profiles (GroupDevicesByMigProfile (filter (\<lambda>d. GpuIndex d = i) devs)) (p, 0) (GroupSpecAnnotationsByMigProfile as);
          rec = extractResourcesToRecreate (filter (\<lambda>d. GpuIndex d = i) devs) p1
      in if nCreateOp = 0 \<or> rec = [] then p1
         else add_recreate_ops (addDeleteOp \<lparr>doResources = rec\<rparr> p1) (GroupDevicesByMigProfile rec))"

lemma plan_gpus_Cons:
  "plan_gpus (group_by GpuIndex devs) p ((i, as) # groups) = plan_gpus (group_by GpuIndex devs) (plan_gpu devs p i as) groups"
  by (simp add: plan_gpu_def Let_def case_prod_beta)

lemma plan_gpu_net:
  assumes "\<forall>a\<in>set as. spIndex a = i" "\<forall>k. 0 \<le> wanted as k"
  shows "created (plan_gpu devs p i as) k - deleted (plan_gpu devs p i as) k =
    created p k - deleted p k + (if k \<in> annotation_profile ` set as then wanted as k - cnt devs k else 0)"
proof -
  let ?on = "filter (\<lambda>d. GpuIndex d = i) devs"
  let ?res = "group_by device_profile ?on" let ?groups = "group_by annotation_profile as"
  let ?p1 = "fst (plan_profiles ?res (p, 0) ?groups)"
  have "created ?p1 k - deleted ?p1 k = created p k - deleted p k +
      (case map_of ?groups k of None \<Rightarrow> 0 | Some bs \<Rightarrow> (\<Sum>a\<leftarrow>bs. spQuantity a) - int (length (gm_list ?res k)))"
    using assms(2) by (intro plan_profiles_net) (auto simp: group_by_entry_iff wanted_def)
  also have "\<dots> = created p k - deleted p k + (if k \<in> annotation_profile ` set as then wanted as k - cnt devs k else 0)"
  proof (cases "k \<in> annotation_profile ` set as")
    case True
    with assms(1) have "prGpuIndex k = i" by (auto simp: annotation_profile_def)
    then have "filter (\<lambda>d. device_profile d = k) ?on = filter (\<lambda>d. device_profile d = k) devs"
      by (auto simp: device_profile_def intro!: filter_cong)
    with True show ?thesis by (simp add: map_of_group_by wanted_def cnt_def)
  qed (simp add: map_of_group_by)
  finally have p1: "created ?p1 k - deleted ?p1 k =
      created p k - deleted p k + (if k \<in> annotation_profile ` set as then wanted as k - cnt devs k else 0)" .
  have "created (add_recreate_ops (addDeleteOp \<lparr>doResources = rec\<rparr> ?p1) (group_by device_profile rec)) k -
      deleted (add_recreate_ops (addDeleteOp \<lparr>doResources = rec\<rparr> ?p1) (group_by device_profile rec)) k =
      created ?p1 k - deleted ?p1 k" for rec
    by (simp add: add_recreate_ops_created sum_group_lengths deleted_def)
  with p1 show ?thesis
    by (simp add: plan_gpu_def Let_def case_prod_beta GroupDevicesByMigProfile_def GroupSpecAnnotationsByMigProfile_def)
qed

lemma plan_gpus_net:
  assumes "gm_ok groups" "\<forall>(i, as)\<in>set groups. (\<forall>a\<in>set as. spIndex a = i) \<and> (\<forall>k. 0 \<le> wanted as k)"
  shows "created (plan_gpus (group_by GpuIndex devs) p groups) k - deleted (plan_gpus (group_by GpuIndex devs) p groups) k =
    created p k - deleted p k +
    (case map_of groups (prGpuIndex k) of None \<Rightarrow> 0
     | Some as \<Rightarrow> if k \<in> annotation_profile ` set as then wanted as k - cnt devs k else 0)"
  using assms
proof (induction groups arbitrary: p)
  case (Cons e groups)
  obtain i as where e: "e = (i, as)" by fastforce
  with Cons.prems have ok: "gm_ok groups" "i \<notin> fst ` set groups" and as: "\<forall>a\<in>set as. spIndex a = i" "\<forall>k. 0 \<le> wanted as k"
    by (auto simp: gm_ok_Cons)
  have none: "map_of groups i = None" using ok(2) by (simp add: map_of_eq_None_iff)
  have key: "prGpuIndex k = i" if "k \<in> annotation_profile ` set as" using that as(1) by (auto simp: annotation_profile_def)
  show ?case
    unfolding e plan_gpus_Cons
    using Cons.IH [OF ok(1), of "plan_gpu devs p i as"] Cons.prems(2) plan_gpu_net [OF as, of devs p k] none key
    by (auto simp del: plan_gpus.simps)
qed simp

lemma wanted_group: "wanted (filter (\<lambda>a. spIndex a = prGpuIndex k) desired) k = wanted desired k"
proof -
  have "filter (\<lambda>a. annotation_profile a = k) (filter (\<lambda>a. spIndex a = prGpuIndex k) desired) =
      filter (\<lambda>a. annotation_profile a = k) desired"
    by (auto simp: annotation_profile_def intro!: filter_cong)
  then show ?thesis by (simp add: wanted_def)
qed

lemma wanted_other_gpu: "prGpuIndex k \<noteq> i \<Longrightarrow> wanted (filter (\<lambda>a. spIndex a = i) desired) k = 0"
proof -
  assume "prGpuIndex k \<noteq> i"
  then have "filter (\<lambda>a. annotation_profile a = k) (filter (\<lambda>a. spIndex a = i) desired) = []"
    by (auto simp: annotation_profile_def filter_empty_conv)
  then show ?thesis by (simp add: wanted_def)
qed

lemma wanted_nonneg_group:
  "\<forall>k. 0 \<le> wanted desired k \<Longrightarrow> 0 \<le> wanted (filter (\<lambda>a. spIndex a = i) desired) k"
  by (cases "prGpuIndex k = i") (use wanted_group [of k desired] wanted_other_gpu [of k i desired] in auto)

section \<open>What a plan deletes\<close>

text \<open>The devices of a GPU and profile that are not free.\<close>

definition in_use :: "Device list \<Rightarrow> Profile \<Rightarrow> int" where
  "in_use ds k = int (length (filter (\<lambda>d. device_profile d = k \<and> \<not> Device_IsFree d) ds))"

lemma extractCandidates_props:
  assumes "0 < n" "distinct rs"
  shows "distinct (extractCandidatesForDeletion rs n)" "set (extractCandidatesForDeletion rs n) \<subseteq> set rs"
    "d \<in> set (extractCandidatesForDeletion rs n) \<Longrightarrow> \<not> Device_IsFree d \<Longrightarrow>
      int (length rs) - n < int (length (filter (\<lambda>r. \<not> Device_IsFree r) rs))"
proof -
  let ?f = "filter Device_IsFree rs" let ?u = "filter (\<lambda>r. \<not> Device_IsFree r) rs"
  have eq: "extractCandidatesForDeletion rs n = take (nat n) ?f @ take (nat n - length ?f) ?u"
    by (simp add: extractCandidates_eq [OF assms(1)])
  show "distinct (extractCandidatesForDeletion rs n)"
    unfolding eq using assms(2) by (auto dest!: in_set_takeD)
  show "set (extractCandidatesForDeletion rs n) \<subseteq> set rs" unfolding eq by (auto dest!: in_set_takeD)
  assume d: "d \<in> set (extractCandidatesForDeletion rs n)" "\<not> Device_IsFree d"
  have "length ?f < nat n"
  proof (rule ccontr)
    assume "\<not> length ?f < nat n"
    then have "extractCandidatesForDeletion rs n = take (nat n) ?f" unfolding eq by simp
    with d show False by (auto dest: in_set_takeD)
  qed
  moreover have "length ?f + length ?u = length rs" by (simp add: sum_length_filter_compl)
  ultimately show "int (length rs) - n < int (length ?u)" by linarith
qed

lemma plan_profiles_deletes:
  assumes "gm_ok groups" "distinct (getResourcesToDelete p)"
    "\<forall>d\<in>set (getResourcesToDelete p). device_profile d \<notin> fst ` set groups"
    "\<forall>k. distinct (gm_list res k) \<and> (\<forall>d\<in>set (gm_list res k). device_profile d = k)"
  shows "distinct (getResourcesToDelete (fst (plan_profiles res (p, n) groups))) \<and>
    (\<forall>d\<in>set (getResourcesToDelete (fst (plan_profiles res (p, n) groups))). d \<in> set (getResourcesToDelete p) \<or>
      d \<in> set (gm_list res (device_profile d)) \<and>
      (\<exists>as. map_of groups (device_profile d) = Some as \<and>
        (Device_IsFree d \<or> (\<Sum>a\<leftarrow>as. spQuantity a) < in_use (gm_list res (device_profile d)) (device_profile d))))"
  using assms(1-3)
proof (induction groups arbitrary: p n)
  case (Cons e groups)
  obtain k as where e: "e = (k, as)" by fastforce
  let ?actual = "gm_list res k" let ?diff = "(\<Sum>a\<leftarrow>as. spQuantity a) - int (length ?actual)"
  let ?c = "extractCandidatesForDeletion ?actual (Abs ?diff)"
  define p1 where "p1 = (if ?diff > 0 then addCreateOp \<lparr>coMigProfile = k, coQuantity = ?diff\<rparr> p
    else if ?diff < 0 then addDeleteOp \<lparr>doResources = ?c\<rparr> p else p)"
  have step: "fst (plan_profiles res (p, n) (e # groups)) = fst (plan_profiles res (p1, if ?diff > 0 then Suc n else n) groups)"
    by (simp add: e Let_def p1_def)
  have ok: "gm_ok groups" "k \<notin> fst ` set groups" using Cons.prems(1) e by (simp_all add: gm_ok_Cons)
  have actual: "distinct ?actual" "\<forall>d\<in>set ?actual. device_profile d = k" using assms(4) by simp_all
  have dels: "getResourcesToDelete p1 = getResourcesToDelete p @ (if ?diff < 0 then ?c else [])" by (simp add: p1_def)
  have new: "device_profile d = k \<and> d \<in> set ?actual \<and> (Device_IsFree d \<or> (\<Sum>a\<leftarrow>as. spQuantity a) < in_use ?actual k)"
    if "?diff < 0" "d \<in> set ?c" for d
  proof -
    have n: "0 < Abs ?diff" using that(1) by (simp add: Abs_def)
    note c = extractCandidates_props [OF n actual(1)]
    have "in_use ?actual k = int (length (filter (\<lambda>r. \<not> Device_IsFree r) ?actual))"
      using actual(2) unfolding in_use_def by (metis (mono_tags, lifting) filter_cong)
    with c(2) c(3) [of d] that actual(2) show ?thesis by (auto simp: Abs_def)
  qed
  have "distinct (getResourcesToDelete p1)"
    using Cons.prems(2,3) e new extractCandidates_props(1) [OF _ actual(1), of "Abs ?diff"]
    by (auto simp: dels Abs_def)
  moreover have "\<forall>d\<in>set (getResourcesToDelete p1). device_profile d \<notin> fst ` set groups"
  proof
    fix d assume "d \<in> set (getResourcesToDelete p1)"
    then consider "d \<in> set (getResourcesToDelete p)" | "?diff < 0" "d \<in> set ?c" by (auto simp: dels split: if_splits)
    then show "device_profile d \<notin> fst ` set groups"
    proof cases
      case 1
      with Cons.prems(3) e show ?thesis by simp
    next
      case 2
      from new [OF this] ok(2) show ?thesis by simp
    qed
  qed
  ultimately have IH: "distinct (getResourcesToDelete (fst (plan_profiles res (p, n) (e # groups)))) \<and>
    (\<forall>d\<in>set (getResourcesToDelete (fst (plan_profiles res (p, n) (e # groups)))). d \<in> set (getResourcesToDelete p1) \<or>
      d \<in> set (gm_list res (device_profile d)) \<and>
      (\<exists>as. map_of groups (device_profile d) = Some as \<and>
        (Device_IsFree d \<or> (\<Sum>a\<leftarrow>as. spQuantity a) < in_use (gm_list res (device_profile d)) (device_profile d))))"
    unfolding step by (rule Cons.IH [OF ok(1)])
  have none: "map_of groups k = None" using ok(2) by (simp add: map_of_eq_None_iff)
  show ?case
  proof (intro conjI ballI)
    fix d assume "d \<in> set (getResourcesToDelete (fst (plan_profiles res (p, n) (e # groups))))"
    with IH consider "d \<in> set (getResourcesToDelete p)" | "?diff < 0" "d \<in> set ?c"
      | bs where "d \<in> set (gm_list res (device_profile d))" "map_of groups (device_profile d) = Some bs"
        "Device_IsFree d \<or> (\<Sum>a\<leftarrow>bs. spQuantity a) < in_use (gm_list res (device_profile d)) (device_profile d)"
      unfolding dels by (force split: if_splits)
    then show "d \<in> set (getResourcesToDelete p) \<or>
      d \<in> set (gm_list res (device_profile d)) \<and>
      (\<exists>as. map_of (e # groups) (device_profile d) = Some as \<and>
        (Device_IsFree d \<or> (\<Sum>a\<leftarrow>as. spQuantity a) < in_use (gm_list res (device_profile d)) (device_profile d)))"
    proof cases
      case 2
      from new [OF this] show ?thesis by (auto simp: e)
    next
      case (3 bs)
      then have "device_profile d \<noteq> k" using none by auto
      with 3 show ?thesis by (auto simp: e)
    qed simp
  qed (use IH in blast)
qed simp

lemma in_use_filter: "in_use (filter P ds) k \<le> in_use ds k"
  by (induction ds) (auto simp: in_use_def)

lemma GetFree_eq: "DeviceList_GetFree l = filter Device_IsFree l"
  by (induction l) auto

lemma recreate_eq:
  "extractResourcesToRecreate rs p = filter (\<lambda>r. DeviceId r \<notin> DeviceId ` set (getResourcesToDelete p)) (filter Device_IsFree rs)"
proof -
  have "gm_has (gm_put_all [] (map (\<lambda>r. (DeviceId r, r)) ds)) x \<longleftrightarrow> x \<in> DeviceId ` set ds" for ds :: "Device list" and x
    by (simp add: gm_has_iff keys_gm_put_all image_image)
  then show ?thesis by (simp add: extractResourcesToRecreate_def GetFree_eq)
qed

lemma plan_gpu_deletes:
  assumes "distinct devs" "distinct (getResourcesToDelete p)" "\<forall>a\<in>set as. spIndex a = i"
    "\<forall>d\<in>set (getResourcesToDelete p). device_profile d \<notin> annotation_profile ` set as"
  shows "distinct (getResourcesToDelete (plan_gpu devs p i as)) \<and>
    (\<forall>d\<in>set (getResourcesToDelete (plan_gpu devs p i as)). d \<in> set (getResourcesToDelete p) \<or>
      d \<in> set devs \<and> GpuIndex d = i \<and>
      (Device_IsFree d \<or> device_profile d \<in> annotation_profile ` set as \<and> wanted as (device_profile d) < in_use devs (device_profile d)))"
proof -
  let ?on = "filter (\<lambda>d. GpuIndex d = i) devs"
  let ?res = "group_by device_profile ?on" let ?groups = "group_by annotation_profile as"
  let ?p1 = "fst (plan_profiles ?res (p, 0) ?groups)"
  have "distinct (getResourcesToDelete ?p1) \<and>
    (\<forall>d\<in>set (getResourcesToDelete ?p1). d \<in> set (getResourcesToDelete p) \<or>
      d \<in> set (gm_list ?res (device_profile d)) \<and>
      (\<exists>bs. map_of ?groups (device_profile d) = Some bs \<and>
        (Device_IsFree d \<or> (\<Sum>a\<leftarrow>bs. spQuantity a) < in_use (gm_list ?res (device_profile d)) (device_profile d))))"
    using assms by (intro plan_profiles_deletes) auto
  moreover have "in_use (gm_list ?res k) k \<le> in_use devs k" for k
    using in_use_filter [of "\<lambda>d. device_profile d = k" ?on k] in_use_filter [of "\<lambda>d. GpuIndex d = i" devs k] by simp
  moreover have "map_of ?groups k = Some bs \<Longrightarrow> k \<in> annotation_profile ` set as \<and> (\<Sum>a\<leftarrow>bs. spQuantity a) = wanted as k" for k bs
    by (auto simp: map_of_group_by wanted_def split: if_splits)
  ultimately have p1: "distinct (getResourcesToDelete ?p1)"
    "\<forall>d\<in>set (getResourcesToDelete ?p1). d \<in> set (getResourcesToDelete p) \<or>
      d \<in> set (gm_list ?res (device_profile d)) \<and>
      (Device_IsFree d \<or> device_profile d \<in> annotation_profile ` set as \<and> wanted as (device_profile d) < in_use devs (device_profile d))"
    by (blast, metis (no_types, lifting) order_less_le_trans)
  let ?rec = "extractResourcesToRecreate ?on ?p1"
  have r1: "distinct (getResourcesToDelete ?p1 @ ?rec)" using p1(1) assms(1) by (auto simp: recreate_eq)
  have r2: "\<forall>d\<in>set ?rec. d \<in> set devs \<and> GpuIndex d = i \<and> Device_IsFree d" by (auto simp: recreate_eq)
  have r3: "\<forall>d\<in>set (getResourcesToDelete ?p1). d \<in> set (getResourcesToDelete p) \<or>
      d \<in> set devs \<and> GpuIndex d = i \<and>
      (Device_IsFree d \<or> device_profile d \<in> annotation_profile ` set as \<and> wanted as (device_profile d) < in_use devs (device_profile d))"
    using p1(2) by simp
  have "getResourcesToDelete (plan_gpu devs p i as) = getResourcesToDelete ?p1 \<or>
      getResourcesToDelete (plan_gpu devs p i as) = getResourcesToDelete ?p1 @ ?rec"
    by (simp add: plan_gpu_def Let_def case_prod_beta GroupDevicesByMigProfile_def GroupSpecAnnotationsByMigProfile_def)
  then show ?thesis
  proof
    assume eq: "getResourcesToDelete (plan_gpu devs p i as) = getResourcesToDelete ?p1"
    show ?thesis unfolding eq using p1(1) r3 by (rule conjI)
  next
    assume eq: "getResourcesToDelete (plan_gpu devs p i as) = getResourcesToDelete ?p1 @ ?rec"
    show ?thesis
      unfolding eq using r1 r2 r3 by (intro conjI) (assumption, unfold set_append ball_Un, blast)
  qed
qed

definition excess_in_use :: "SpecAnnotation list \<Rightarrow> Device list \<Rightarrow> Device \<Rightarrow> bool" where
  "excess_in_use desired devs d \<longleftrightarrow>
     device_profile d \<in> annotation_profile ` set desired \<and> wanted desired (device_profile d) < in_use devs (device_profile d)"

lemma plan_gpus_deletes:
  assumes "distinct devs" "distinct (getResourcesToDelete p)" "gm_ok groups" "\<forall>(i, as)\<in>set groups. \<forall>a\<in>set as. spIndex a = i"
    "\<forall>d\<in>set (getResourcesToDelete p). \<forall>(i, as)\<in>set groups. device_profile d \<notin> annotation_profile ` set as"
  shows "distinct (getResourcesToDelete (plan_gpus (group_by GpuIndex devs) p groups)) \<and>
    (\<forall>d\<in>set (getResourcesToDelete (plan_gpus (group_by GpuIndex devs) p groups)). d \<in> set (getResourcesToDelete p) \<or>
      d \<in> set devs \<and> (Device_IsFree d \<or> (\<exists>(i, as)\<in>set groups. excess_in_use as devs d)))"
  using assms(2-5)
proof (induction groups arbitrary: p)
  case (Cons e groups)
  obtain i as where e: "e = (i, as)" by fastforce
  let ?p = "plan_gpu devs p i as"
  have ok: "gm_ok groups" "i \<notin> fst ` set groups" and as: "\<forall>a\<in>set as. spIndex a = i"
    "\<forall>d\<in>set (getResourcesToDelete p). device_profile d \<notin> annotation_profile ` set as"
    using Cons.prems e by (auto simp: gm_ok_Cons)
  have rest: "\<forall>(i, as)\<in>set groups. \<forall>a\<in>set as. spIndex a = i" using Cons.prems(3) by simp
  note gpu = plan_gpu_deletes [OF assms(1) Cons.prems(1) as]
  have apart: "\<forall>d\<in>set (getResourcesToDelete ?p). \<forall>(j, bs)\<in>set groups. device_profile d \<notin> annotation_profile ` set bs"
  proof (intro ballI, clarify)
    fix d j bs a assume d: "d \<in> set (getResourcesToDelete ?p)" and j: "(j, bs) \<in> set groups"
      and a: "device_profile d = annotation_profile a" "a \<in> set bs"
    have "spIndex a = j" using rest j a(2) by auto
    moreover have "j \<noteq> i" using ok(2) j by force
    ultimately have "GpuIndex d \<noteq> i" using a(1) by (auto simp: device_profile_def annotation_profile_def)
    with gpu d have "d \<in> set (getResourcesToDelete p)" by auto
    with Cons.prems(4) j a show False by fastforce
  qed
  have IH: "distinct (getResourcesToDelete (plan_gpus (group_by GpuIndex devs) ?p groups)) \<and>
    (\<forall>d\<in>set (getResourcesToDelete (plan_gpus (group_by GpuIndex devs) ?p groups)). d \<in> set (getResourcesToDelete ?p) \<or>
      d \<in> set devs \<and> (Device_IsFree d \<or> (\<exists>(i, as)\<in>set groups. excess_in_use as devs d)))"
    using gpu by (intro Cons.IH [OF _ ok(1) rest apart]) blast
  show ?case
    unfolding e plan_gpus_Cons
  proof (intro conjI ballI)
    fix d assume "d \<in> set (getResourcesToDelete (plan_gpus (group_by GpuIndex devs) ?p groups))"
    with IH consider "d \<in> set (getResourcesToDelete ?p)" |
      "d \<in> set devs" "Device_IsFree d \<or> (\<exists>(i, as)\<in>set groups. excess_in_use as devs d)" by blast
    then show "d \<in> set (getResourcesToDelete p) \<or>
      d \<in> set devs \<and> (Device_IsFree d \<or> (\<exists>(i, as)\<in>set ((i, as) # groups). excess_in_use as devs d))"
      using gpu by cases (auto simp: excess_in_use_def)
  qed (use IH in blast)
qed simp

lemma GroupByGpuIndex_sorted: "mset (DeviceList_SortByDeviceId l) = mset l"
  by (simp add: DeviceList_SortByDeviceId_def)

lemma groups_of_spec:
  "gm_ok (SpecAnnotationList_GroupByGpuIndex desired)"
  "\<forall>(i, as)\<in>set (SpecAnnotationList_GroupByGpuIndex desired). as = filter (\<lambda>a. spIndex a = i) desired"
  by (auto simp: SpecAnnotationList_GroupByGpuIndex_def group_by_entry_iff)

lemma in_use_mset: "mset xs = mset ys \<Longrightarrow> in_use xs k = in_use ys k"
  by (metis in_use_def mset_filter size_mset)

text \<open>The plan before the loop over the GPUs: delete what no annotation names.\<close>

abbreviation first_deletes :: "MigState \<Rightarrow> SpecAnnotation list \<Rightarrow> MigConfigPlan" where
  "first_deletes state desired \<equiv>
     add_delete_ops \<lparr>DeleteOperations = [], CreateOperations = []\<rparr> (group_by device_profile (getResourcesNotIncludedInSpec state desired))"

lemma NewMigConfigPlan_eq:
  "NewMigConfigPlan state desired =
    plan_gpus (group_by GpuIndex (DeviceList_SortByDeviceId (MigState_Flatten state))) (first_deletes state desired) (group_by spIndex desired)"
  by (simp add: NewMigConfigPlan_def DeviceList_GroupByGpuIndex_def GroupDevicesByMigProfile_def SpecAnnotationList_GroupByGpuIndex_def)

lemma first_deletes_mset:
  assumes "wf_state state"
  shows "mset (getResourcesToDelete (first_deletes state desired)) =
    mset (filter (\<lambda>d. device_profile d \<notin> annotation_profile ` set desired) (MigState_Flatten state))"
  unfolding add_delete_ops_effect(2) by (simp add: getResourcesToDelete_def not_included_mset [OF assms])

lemma first_deletes_cnt:
  assumes "wf_state state"
  shows "deleted (first_deletes state desired) k =
    (if k \<in> annotation_profile ` set desired then 0 else cnt (MigState_Flatten state) k)"
proof -
  have "filter (\<lambda>d. device_profile d = k) (filter (\<lambda>d. device_profile d \<notin> annotation_profile ` set desired) l) =
      (if k \<in> annotation_profile ` set desired then [] else filter (\<lambda>d. device_profile d = k) l)" for l :: "Device list"
    by (induction l) auto
  then show ?thesis unfolding deleted_def cnt_mset [OF first_deletes_mset [OF assms]] by (simp add: cnt_def)
qed

lemma first_deletes_created: "created (first_deletes state desired) k = 0"
  unfolding add_delete_ops_effect(1) by (simp add: created_def)

lemma annotation_on_gpu:
  "k \<in> annotation_profile ` set (filter (\<lambda>a. spIndex a = prGpuIndex k) desired) \<longleftrightarrow> k \<in> annotation_profile ` set desired"
proof -
  have "spIndex a = prGpuIndex (annotation_profile a)" for a by (simp add: annotation_profile_def)
  then show ?thesis by auto
qed

lemma spec_group_of_profile:
  assumes "k \<in> annotation_profile ` set desired"
  shows "map_of (group_by spIndex desired) (prGpuIndex k) = Some (filter (\<lambda>a. spIndex a = prGpuIndex k) desired)"
  using assms unfolding map_of_group_by by (intro if_P) (auto simp: annotation_profile_def)

lemma wanted_unnamed: "k \<notin> annotation_profile ` set desired \<Longrightarrow> wanted desired k = 0"
  by (auto simp: wanted_def filter_empty_conv intro!: arg_cong [of _ "[]", where f = "\<lambda>l. sum_list (map spQuantity l)", simplified])

lemma excess_in_use_group:
  assumes "(i, as) \<in> set (group_by spIndex desired)" "excess_in_use as devs d"
  shows "wanted desired (device_profile d) < in_use devs (device_profile d)"
proof -
  have as: "as = filter (\<lambda>a. spIndex a = i) desired" using assms(1) by (simp add: group_by_entry_iff)
  then have "i = prGpuIndex (device_profile d)" using assms(2) by (auto simp: excess_in_use_def annotation_profile_def)
  with assms(2) as wanted_group [of "device_profile d" desired] show ?thesis by (simp add: excess_in_use_def)
qed

lemma plan_counts:
  assumes "wf_state state" "\<forall>k. 0 \<le> wanted desired k"
  shows "cnt (MigState_Flatten state) k - deleted (NewMigConfigPlan state desired) k +
    created (NewMigConfigPlan state desired) k = wanted desired k"
proof -
  let ?F = "MigState_Flatten state" let ?devs = "DeviceList_SortByDeviceId ?F"
  have cnt: "cnt ?devs k = cnt ?F k" by (rule cnt_mset [OF GroupByGpuIndex_sorted])
  have net: "created (NewMigConfigPlan state desired) k - deleted (NewMigConfigPlan state desired) k =
      created (first_deletes state desired) k - deleted (first_deletes state desired) k +
      (case map_of (group_by spIndex desired) (prGpuIndex k) of None \<Rightarrow> 0
       | Some as \<Rightarrow> if k \<in> annotation_profile ` set as then wanted as k - cnt ?devs k else 0)"
    unfolding NewMigConfigPlan_eq using wanted_nonneg_group [OF assms(2)] by (intro plan_gpus_net) (auto simp: group_by_entry_iff)
  note net = net [unfolded first_deletes_cnt [OF assms(1)] first_deletes_created cnt]
  show ?thesis
  proof (cases "k \<in> annotation_profile ` set desired")
    case True
    from net [unfolded spec_group_of_profile [OF True] option.case annotation_on_gpu if_P [OF True] wanted_group]
    show ?thesis by linarith
  next
    case False
    have "(case map_of (group_by spIndex desired) (prGpuIndex k) of None \<Rightarrow> 0
       | Some as \<Rightarrow> if k \<in> annotation_profile ` set as then wanted as k - cnt ?F k else 0) = 0"
      unfolding map_of_group_by by (simp only: annotation_on_gpu if_not_P [OF False] option.case split: if_split) simp
    then show ?thesis using net [unfolded if_not_P [OF False]] wanted_unnamed [OF False] by linarith
  qed
qed

lemma plan_deletes:
  assumes "wf_state state" "distinct (map DeviceId (MigState_Flatten state))"
  shows "distinct (map DeviceId (getResourcesToDelete (NewMigConfigPlan state desired))) \<and>
    (\<forall>d\<in>set (getResourcesToDelete (NewMigConfigPlan state desired)). d \<in> set (MigState_Flatten state) \<and>
      (Device_IsFree d \<or> device_profile d \<notin> annotation_profile ` set desired \<or>
       wanted desired (device_profile d) < in_use (MigState_Flatten state) (device_profile d)))"
proof -
  let ?F = "MigState_Flatten state" let ?devs = "DeviceList_SortByDeviceId ?F"
  let ?p1 = "first_deletes state desired" let ?p = "NewMigConfigPlan state desired"
  have set_devs: "set ?devs = set ?F" by (rule mset_eq_setD [OF GroupByGpuIndex_sorted])
  have use: "in_use ?devs k = in_use ?F k" for k by (rule in_use_mset [OF GroupByGpuIndex_sorted])
  have dist: "distinct ?F" using assms(2) by (simp add: distinct_map)
  then have devs: "distinct ?devs" by (simp add: DeviceList_SortByDeviceId_def)
  note first = first_deletes_mset [OF assms(1), of desired]
  have p1: "distinct (getResourcesToDelete ?p1)"
    "set (getResourcesToDelete ?p1) = {d \<in> set ?F. device_profile d \<notin> annotation_profile ` set desired}"
    using mset_eq_imp_distinct_iff [OF first] mset_eq_setD [OF first] dist by auto
  have loop: "distinct (getResourcesToDelete ?p) \<and>
    (\<forall>d\<in>set (getResourcesToDelete ?p). d \<in> set (getResourcesToDelete ?p1) \<or>
      d \<in> set ?devs \<and> (Device_IsFree d \<or> (\<exists>(i, as)\<in>set (group_by spIndex desired). excess_in_use as ?devs d)))"
    unfolding NewMigConfigPlan_eq using p1 by (intro plan_gpus_deletes [OF devs]) (auto simp: group_by_entry_iff)
  have safe: "\<forall>d\<in>set (getResourcesToDelete ?p). d \<in> set ?F \<and>
      (Device_IsFree d \<or> device_profile d \<notin> annotation_profile ` set desired \<or> wanted desired (device_profile d) < in_use ?F (device_profile d))"
  proof
    fix d assume "d \<in> set (getResourcesToDelete ?p)"
    with loop consider "d \<in> set (getResourcesToDelete ?p1)" | "d \<in> set ?devs" "Device_IsFree d"
      | i as where "d \<in> set ?devs" "(i, as) \<in> set (group_by spIndex desired)" "excess_in_use as ?devs d" by blast
    then show "d \<in> set ?F \<and>
      (Device_IsFree d \<or> device_profile d \<notin> annotation_profile ` set desired \<or> wanted desired (device_profile d) < in_use ?F (device_profile d))"
      using p1(2) set_devs excess_in_use_group [of _ _ desired ?devs d] use by cases auto
  qed
  have "inj_on DeviceId (set (getResourcesToDelete ?p))"
    using assms(2) safe by (auto simp: distinct_map inj_on_def)
  with loop safe show ?thesis by (simp add: distinct_map)
qed

text \<open>Every create operation of a plan asks for at least one device, so its list of profiles has as many of each as
  the plan creates.\<close>

definition positive_ops :: "MigConfigPlan \<Rightarrow> bool" where
  "positive_ops p \<longleftrightarrow> (\<forall>op\<in>set (CreateOperations p). 0 < coQuantity op)"

lemma positive_ops_simps [simp]:
  "positive_ops (addCreateOp op p) \<longleftrightarrow> 0 < coQuantity op \<and> positive_ops p"
  "positive_ops (addDeleteOp d p) \<longleftrightarrow> positive_ops p"
  by (auto simp: positive_ops_def addCreateOp_def addDeleteOp_def)

lemma positive_ops_loops:
  "positive_ops p \<Longrightarrow> positive_ops (add_delete_ops p dgroups)"
  "positive_ops p \<Longrightarrow> \<forall>(k, rs)\<in>set dgroups. rs \<noteq> [] \<Longrightarrow> positive_ops (add_recreate_ops p dgroups)"
  "positive_ops p \<Longrightarrow> positive_ops (fst (plan_profiles res (p, n) sgroups))"
proof -
  show "positive_ops p \<Longrightarrow> positive_ops (add_delete_ops p dgroups)"
    by (induction p dgroups rule: add_delete_ops.induct) simp_all
  show "positive_ops p \<Longrightarrow> \<forall>(k, rs)\<in>set dgroups. rs \<noteq> [] \<Longrightarrow> positive_ops (add_recreate_ops p dgroups)"
    by (induction p dgroups rule: add_recreate_ops.induct) simp_all
  show "positive_ops p \<Longrightarrow> positive_ops (fst (plan_profiles res (p, n) sgroups))"
  proof (induction sgroups arbitrary: p n)
    case (Cons g sgroups)
    then show ?case by (cases g) (simp add: Let_def)
  qed simp
qed

lemma group_not_Nil: "(k, rs) \<in> set (group_by f xs) \<Longrightarrow> rs \<noteq> []"
  by (auto simp: group_by_entry_iff filter_empty_conv)

lemma plan_gpus_positive: "positive_ops p \<Longrightarrow> positive_ops (plan_gpus by_gpu p groups)"
proof (induction by_gpu p groups rule: plan_gpus.induct)
  case (2 by_gpu p i as groups)
  let ?r = "plan_profiles (GroupDevicesByMigProfile (gm_list by_gpu i)) (p, 0) (GroupSpecAnnotationsByMigProfile as)"
  obtain p1 n where r: "?r = (p1, n)" by fastforce
  have p1: "positive_ops p1" using positive_ops_loops(3) [OF "2.prems", of _ 0] r by (metis fst_conv)
  have "positive_ops (add_recreate_ops (addDeleteOp d p1) (GroupDevicesByMigProfile rs))" for d rs
    using p1 by (intro positive_ops_loops(2)) (auto simp: GroupDevicesByMigProfile_def dest: group_not_Nil)
  with p1 "2.IH" r show ?case by (simp add: Let_def)
qed simp

lemma plan_positive: "positive_ops (NewMigConfigPlan state desired)"
  unfolding NewMigConfigPlan_eq by (intro plan_gpus_positive positive_ops_loops(1)) (simp add: positive_ops_def)

lemma Flatten_created:
  "positive_ops p \<Longrightarrow> int (count (mset (CreateOperationList_Flatten (CreateOperations p))) k) = created p k"
proof -
  have "\<forall>op\<in>set ops. 0 < coQuantity op \<Longrightarrow>
      int (count (mset (CreateOperationList_Flatten ops)) k) = (\<Sum>op\<leftarrow>ops. if coMigProfile op = k then coQuantity op else 0)" for ops
    by (induction ops) auto
  then show "positive_ops p \<Longrightarrow> ?thesis" by (simp add: positive_ops_def created_def)
qed

section \<open>Properties\<close>

text \<open>C3: Carrying out the plan takes every GPU and profile from the number of devices it has to exactly
  the number the spec annotations ask for, and to none where they name no such profile: devices of the
  actual state, less those deleted, plus those created.\<close>

theorem plan_reaches_spec:
  assumes "wf_state state" "\<forall>k. 0 \<le> wanted desired k"
  shows "cnt (MigState_Flatten state) k - deleted (NewMigConfigPlan state desired) k +
    created (NewMigConfigPlan state desired) k = wanted desired k"
  using assms by (rule plan_counts)

text \<open>A GPU with a used and a free small device and a free large one, of which the spec wants three small ones.\<close>

definition plan_devices :: "Device list" where
  "plan_devices =
     [\<lparr>ResourceName = ''nvidia.com/mig-1g.5gb'', DeviceId = ''MIG-2'', DeviceStatus = StatusUsed, GpuIndex = 0\<rparr>,
      \<lparr>ResourceName = ''nvidia.com/mig-1g.5gb'', DeviceId = ''MIG-1'', DeviceStatus = StatusFree, GpuIndex = 0\<rparr>,
      \<lparr>ResourceName = ''nvidia.com/mig-3g.20gb'', DeviceId = ''MIG-3'', DeviceStatus = StatusFree, GpuIndex = 0\<rparr>]"

definition plan_spec :: "SpecAnnotation list" where
  "plan_spec = [\<lparr>spProfileName = ''1g.5gb'', spIndex = 0, spQuantity = 3\<rparr>]"

lemma plan_spec_wanted: "wanted plan_spec k = (if k = \<lparr>prGpuIndex = 0, prName = ''1g.5gb''\<rparr> then 3 else 0)"
  by (auto simp: wanted_def plan_spec_def annotation_profile_def)

theorem plan_reaches_spec_witness:
  "let p = NewMigConfigPlan (NewMigState plan_devices) plan_spec in
   cnt (MigState_Flatten (NewMigState plan_devices)) \<lparr>prGpuIndex = 0, prName = ''1g.5gb''\<rparr> -
     deleted p \<lparr>prGpuIndex = 0, prName = ''1g.5gb''\<rparr> + created p \<lparr>prGpuIndex = 0, prName = ''1g.5gb''\<rparr> = 3 \<and>
   cnt (MigState_Flatten (NewMigState plan_devices)) \<lparr>prGpuIndex = 0, prName = ''3g.20gb''\<rparr> -
     deleted p \<lparr>prGpuIndex = 0, prName = ''3g.20gb''\<rparr> + created p \<lparr>prGpuIndex = 0, prName = ''3g.20gb''\<rparr> = 0"
  using plan_reaches_spec [OF NewMigState_wf, of plan_spec plan_devices] by (simp add: Let_def plan_spec_wanted)

text \<open>C4: When the devices have distinct ids, a plan deletes no device twice and none that does not exist,
  and a device that is not free only where the spec does not name its profile on that GPU, or asks for
  fewer of them than are in use.\<close>

theorem plan_deletes_safely:
  assumes "wf_state state" "distinct (map DeviceId (MigState_Flatten state))"
  shows "distinct (map DeviceId (getResourcesToDelete (NewMigConfigPlan state desired))) \<and>
    (\<forall>d\<in>set (getResourcesToDelete (NewMigConfigPlan state desired)). d \<in> set (MigState_Flatten state) \<and>
      (Device_IsFree d \<or> device_profile d \<notin> annotation_profile ` set desired \<or>
       wanted desired (device_profile d) < in_use (MigState_Flatten state) (device_profile d)))"
  using assms by (rule plan_deletes)

theorem plan_deletes_safely_witness:
  "distinct (map DeviceId (getResourcesToDelete (NewMigConfigPlan (NewMigState plan_devices) plan_spec))) \<and>
   map DeviceId (getResourcesToDelete (NewMigConfigPlan (NewMigState plan_devices) plan_spec)) = [''MIG-3'', ''MIG-1'']"
proof -
  have "distinct (map DeviceId (MigState_Flatten (NewMigState plan_devices)))" by code_simp
  from plan_deletes_safely [OF NewMigState_wf this, of plan_spec] show ?thesis
    by (intro conjI) (blast, code_simp)
qed

end
