(* ===== verification/Stat.thy ===== *)
theory Stat
  imports Util
begin

text \<open>
  File \<^verbatim>\<open>pkg/util/stat.go\<close>: trying a function on the permutations of a slice until it is satisfied.  The
  generator of index permutations is gonum's \<^verbatim>\<open>combin.PermutationGenerator\<close>, a third-party package: its
  three calls are the record \<open>combin\<close>, and \<open>combin_law\<close> states what its documentation promises.
\<close>

section \<open>Definitions\<close>

record 'g combin =
  combin_new :: "nat \<Rightarrow> nat \<Rightarrow> 'g"
  combin_next :: "'g \<Rightarrow> bool \<times> 'g"
  combin_permutation :: "'g \<Rightarrow> nat list"

record ('g, 'k) PermutationGenerator =
  generator :: 'g
  sourceSlice :: "'k list"
  sourceSliceLen :: nat

definition NewPermutationGenerator :: "'g combin \<Rightarrow> 'k list \<Rightarrow> ('g, 'k) PermutationGenerator" where
  "NewPermutationGenerator C src =
     (let n = length src in \<lparr>generator = combin_new C n n, sourceSlice = src, sourceSliceLen = n\<rparr>)"

text \<open>
  The result has as many cells as the source slice and starts with zero values; the loop fills the
  cells of the permutation, whose indices the generator keeps in range.
\<close>

definition Permutation :: "'g combin \<Rightarrow> ('g, 'k) PermutationGenerator \<Rightarrow> 'k list" where
  "Permutation C p = map (\<lambda>i. sourceSlice p ! i) (combin_permutation C (generator p))"

definition Next :: "'g combin \<Rightarrow> ('g, 'k) PermutationGenerator \<Rightarrow> bool \<times> ('g, 'k) PermutationGenerator" where
  "Next C p =
     (if sourceSliceLen p = 0 then (False, p)
      else let (more, g) = combin_next C (generator p) in (more, p\<lparr>generator := g\<rparr>))"

text \<open>
  The loop runs as long as the generator yields permutations, so it is a partial function; \<open>f\<close> changes
  a state and returns an error or whether to go on.
\<close>

partial_function (option) iter_loop ::
  "'g combin \<Rightarrow> ('k list \<Rightarrow> 's \<Rightarrow> ('e + bool) \<times> 's) \<Rightarrow> ('g, 'k) PermutationGenerator \<Rightarrow> 's \<Rightarrow> ('e option \<times> 's) option" where
  [code]: "iter_loop C f gen s =
     (if \<not> fst (Next C gen) then Some (None, s)
      else case f (Permutation C (snd (Next C gen))) s of
        (Inl e, s') \<Rightarrow> Some (Some e, s')
      | (Inr continueIterating, s') \<Rightarrow>
          if continueIterating then iter_loop C f (snd (Next C gen)) s' else Some (None, s'))"

definition IterPermutations ::
  "'g combin \<Rightarrow> 'k list \<Rightarrow> ('k list \<Rightarrow> 's \<Rightarrow> ('e + bool) \<times> 's) \<Rightarrow> 's \<Rightarrow> ('e option \<times> 's) option" where
  "IterPermutations C slice f s = iter_loop C f (NewPermutationGenerator C slice) s"

section \<open>What the generator promises\<close>

text \<open>
  A generator yields a finite sequence of index lists: \<^verbatim>\<open>Next\<close> advances to the next one and returns false after
  the last.
\<close>

fun yields :: "'g combin \<Rightarrow> 'g \<Rightarrow> nat list list \<Rightarrow> bool" where
  "yields C g [] \<longleftrightarrow> \<not> fst (combin_next C g)"
| "yields C g (p # ps) \<longleftrightarrow>
     fst (combin_next C g) \<and> combin_permutation C (snd (combin_next C g)) = p \<and> yields C (snd (combin_next C g)) ps"

definition index_permutations :: "nat \<Rightarrow> nat list set" where
  "index_permutations n = {p. distinct p \<and> set p = {..<n}}"

definition combin_law :: "'g combin \<Rightarrow> bool" where
  "combin_law C \<longleftrightarrow> (\<forall>n. \<exists>ps. yields C (combin_new C n n) ps \<and> distinct ps \<and> set ps = index_permutations n)"

text \<open>A generator that holds the permutations still to come.\<close>

fun insertions :: "'a \<Rightarrow> 'a list \<Rightarrow> 'a list list" where
  "insertions x [] = [[x]]"
| "insertions x (y # ys) = (x # y # ys) # map ((#) y) (insertions x ys)"

fun all_index_permutations :: "nat \<Rightarrow> nat list list" where
  "all_index_permutations 0 = [[]]"
| "all_index_permutations (Suc n) = concat (map (insertions n) (all_index_permutations n))"

definition list_combin :: "(nat list \<times> nat list list) combin" where
  "list_combin =
     \<lparr>combin_new = (\<lambda>n _. ([], all_index_permutations n)),
      combin_next = (\<lambda>(cur, rest). case rest of [] \<Rightarrow> (False, cur, []) | p # ps \<Rightarrow> (True, p, ps)),
      combin_permutation = fst\<rparr>"

section \<open>Lemmas\<close>

lemma insertions_elem: "p \<in> set (insertions x ys) \<Longrightarrow> mset p = add_mset x (mset ys)"
  by (induction ys arbitrary: p) auto

lemma insertions_remove: "x \<notin> set ys \<Longrightarrow> p \<in> set (insertions x ys) \<Longrightarrow> remove1 x p = ys"
  by (induction ys arbitrary: p) auto

lemma insertions_distinct: "x \<notin> set ys \<Longrightarrow> distinct (insertions x ys)"
  by (induction ys) (auto simp: distinct_map)

lemma insertions_first: "x # ys \<in> set (insertions x ys)"
  by (cases ys) simp_all

lemma insertions_of_remove: "x \<in> set p \<Longrightarrow> p \<in> set (insertions x (remove1 x p))"
  by (induction p) (auto simp: insertions_first)

lemma index_permutations_Suc:
  "p \<in> index_permutations (Suc n) \<longleftrightarrow> (\<exists>q\<in>index_permutations n. p \<in> set (insertions n q))"
proof
  assume p: "p \<in> index_permutations (Suc n)"
  then have "distinct p" "set p = insert n {..<n}" by (simp_all add: index_permutations_def lessThan_Suc)
  then have "remove1 n p \<in> index_permutations n" by (simp add: index_permutations_def set_remove1_eq)
  moreover have "n \<in> set p" using p by (simp add: index_permutations_def)
  ultimately show "\<exists>q\<in>index_permutations n. p \<in> set (insertions n q)"
    by (intro bexI [of _ "remove1 n p"] insertions_of_remove)
next
  assume "\<exists>q\<in>index_permutations n. p \<in> set (insertions n q)"
  then obtain q where q: "q \<in> index_permutations n" "mset p = mset (n # q)"
    using insertions_elem by fastforce
  then have "distinct p \<longleftrightarrow> distinct (n # q)" "set p = set (n # q)"
    using mset_eq_imp_distinct_iff [OF q(2)] mset_eq_setD [OF q(2)] by simp_all
  with q(1) show "p \<in> index_permutations (Suc n)" by (auto simp: index_permutations_def)
qed

lemma all_index_permutations_correct:
  "distinct (all_index_permutations n) \<and> set (all_index_permutations n) = index_permutations n"
proof (induction n)
  case (Suc n)
  have fresh: "n \<notin> set q" if "q \<in> set (all_index_permutations n)" for q
    using that Suc by (auto simp: index_permutations_def)
  have "distinct (concat (map (insertions n) (all_index_permutations n)))"
  proof (rule distinct_concat)
    show "distinct (map (insertions n) (all_index_permutations n))"
    proof (rule distinct_map [THEN iffD2], intro conjI inj_onI)
      fix q r assume "q \<in> set (all_index_permutations n)" "r \<in> set (all_index_permutations n)" "insertions n q = insertions n r"
      moreover have "n # q \<in> set (insertions n q)" by (rule insertions_first)
      ultimately show "q = r" using insertions_remove fresh by (metis remove1.simps(2))
    qed (use Suc in simp)
  next
    fix ys zs assume "ys \<in> set (map (insertions n) (all_index_permutations n))"
      "zs \<in> set (map (insertions n) (all_index_permutations n))" "ys \<noteq> zs"
    then obtain q r where qr: "ys = insertions n q" "zs = insertions n r" "q \<noteq> r" "n \<notin> set q" "n \<notin> set r"
      using fresh by auto
    then show "set ys \<inter> set zs = {}" using insertions_remove [of n q] insertions_remove [of n r] by blast
  next
    fix ys assume "ys \<in> set (map (insertions n) (all_index_permutations n))"
    then show "distinct ys" using fresh by (auto intro: insertions_distinct)
  qed
  moreover have "set (concat (map (insertions n) (all_index_permutations n))) = index_permutations (Suc n)"
    using Suc by (auto simp: index_permutations_Suc)
  ultimately show ?case by simp
qed (auto simp: index_permutations_def)

lemma list_combin_yields: "yields list_combin (cur, ps) ps"
  by (induction ps arbitrary: cur) (simp_all add: list_combin_def)

lemma list_combin_law: "combin_law list_combin"
  unfolding combin_law_def using all_index_permutations_correct list_combin_yields
  by (metis combin.select_convs(1) list_combin_def)

text \<open>One pass over a list of permutations: what the loop does with the sequence its generator yields.\<close>

fun try_each :: "('k list \<Rightarrow> 's \<Rightarrow> ('e + bool) \<times> 's) \<Rightarrow> 'k list list \<Rightarrow> 's \<Rightarrow> 'e option \<times> 's" where
  "try_each f [] s = (None, s)"
| "try_each f (p # ps) s =
     (case f p s of
        (Inl e, s') \<Rightarrow> (Some e, s')
      | (Inr continueIterating, s') \<Rightarrow> if continueIterating then try_each f ps s' else (None, s'))"

lemma iter_loop_yields:
  assumes "yields C (generator gen) ps" "sourceSliceLen gen \<noteq> 0"
  shows "iter_loop C f gen s = Some (try_each f (map (map (\<lambda>i. sourceSlice gen ! i)) ps) s)"
  using assms
proof (induction ps arbitrary: gen s)
  case Nil
  then show ?case by (subst iter_loop.simps) (simp add: Next_def case_prod_beta)
next
  case (Cons p ps)
  let ?gen = "gen\<lparr>generator := snd (combin_next C (generator gen))\<rparr>"
  have "iter_loop C f ?gen s' = Some (try_each f (map (map (\<lambda>i. sourceSlice gen ! i)) ps) s')" for s'
    using Cons.IH [of ?gen s'] Cons.prems by simp
  with Cons.prems show ?case
    by (subst iter_loop.simps) (auto simp: Next_def Permutation_def case_prod_beta split: prod.splits sum.splits)
qed

lemma rearrangement:
  assumes "p \<in> index_permutations (length xs)"
  shows "mset (map (\<lambda>i. xs ! i) p) = mset xs"
proof -
  have "distinct p" "set p = {..<length xs}" using assms by (simp_all add: index_permutations_def)
  from mset_set_set [OF this(1)] this(2) have "mset p = mset_set {..<length xs}" by simp
  also have "\<dots> = mset [0..<length xs]" by (simp add: lessThan_atLeast0)
  finally have "mset (map (\<lambda>i. xs ! i) p) = mset (map (\<lambda>i. xs ! i) [0..<length xs])" by simp
  then show ?thesis by (simp add: map_nth)
qed

lemma mset_map_eq:
  assumes "mset (map f zs) = mset ys"
  obtains us where "mset us = mset zs" "map f us = ys"
  using assms
proof (induction ys arbitrary: zs thesis)
  case (Cons y ys)
  from Cons.prems(2) have "y \<in> f ` set zs" by (metis list.set_intros(1) list.set_map mset_eq_setD)
  then obtain z where z: "z \<in> set zs" "f z = y" by blast
  then have "mset (map f (remove1 z zs)) = mset ys" using Cons.prems(2) by (simp add: image_mset_Diff)
  from Cons.IH [OF _ this] obtain us where "mset us = mset (remove1 z zs)" "map f us = ys" by blast
  with z show ?case by (intro Cons.prems(1) [of "z # us"]) simp_all
qed simp

lemma rearranged_by:
  assumes "mset ys = mset xs"
  obtains p where "p \<in> index_permutations (length xs)" "map (\<lambda>i. xs ! i) p = ys"
proof -
  have "mset (map (\<lambda>i. xs ! i) [0..<length xs]) = mset ys" using assms by (simp add: map_nth)
  then obtain p where p: "mset p = mset [0..<length xs]" "map (\<lambda>i. xs ! i) p = ys" by (rule mset_map_eq)
  from mset_eq_imp_distinct_iff [OF p(1)] mset_eq_setD [OF p(1)] have "p \<in> index_permutations (length xs)"
    by (simp add: index_permutations_def lessThan_atLeast0)
  with p(2) show ?thesis using that by blast
qed

lemma IterPermutations_yields:
  assumes "combin_law C" "slice \<noteq> []"
  obtains ps where "IterPermutations C slice f s = Some (try_each f ps s)" "set ps = {q. mset q = mset slice}"
proof -
  from assms(1) obtain ix where ix: "yields C (combin_new C (length slice) (length slice)) ix"
    "set ix = index_permutations (length slice)" unfolding combin_law_def by blast
  let ?ps = "map (map (\<lambda>i. slice ! i)) ix"
  have "IterPermutations C slice f s = Some (try_each f ?ps s)"
    using iter_loop_yields [of C "NewPermutationGenerator C slice" ix f s] ix(1) assms(2)
    by (simp add: IterPermutations_def NewPermutationGenerator_def Let_def)
  moreover have "set ?ps = {q. mset q = mset slice}"
  proof
    show "set ?ps \<subseteq> {q. mset q = mset slice}" using rearrangement ix(2) by auto
    show "{q. mset q = mset slice} \<subseteq> set ?ps"
    proof
      fix q assume "q \<in> {q. mset q = mset slice}"
      then obtain p where "p \<in> index_permutations (length slice)" "map (\<lambda>i. slice ! i) p = q" using rearranged_by by blast
      with ix(2) show "q \<in> set ?ps" by auto
    qed
  qed
  ultimately show ?thesis using that by blast
qed

lemma IterPermutations_empty: "IterPermutations C [] f s = Some (None, s)"
  unfolding IterPermutations_def by (subst iter_loop.simps) (simp add: NewPermutationGenerator_def Next_def)

text \<open>A property of the state that every call keeps holds at the end.\<close>

lemma try_each_invariant:
  assumes "I s" "\<And>p s. p \<in> set ps \<Longrightarrow> I s \<Longrightarrow> I (snd (f p s))"
  shows "I (snd (try_each f ps s))"
  using assms
proof (induction ps arbitrary: s)
  case (Cons p ps)
  obtain r s' where f: "f p s = (r, s')" by fastforce
  with Cons.prems have "I s'" by (metis list.set_intros(1) snd_conv)
  moreover have "I (snd (try_each f ps s'))" using Cons.IH [OF \<open>I s'\<close>] Cons.prems(2) by simp
  ultimately show ?case by (cases r) (simp_all add: f)
qed simp

lemma try_each_exhausted:
  assumes "\<And>p s. p \<in> set ps \<Longrightarrow> fst (f p s) = Inr True"
  shows "fst (try_each f ps s) = None"
  using assms
proof (induction ps arbitrary: s)
  case (Cons p ps)
  obtain s' where "f p s = (Inr True, s')" using Cons.prems [of p s] by (cases "f p s") auto
  with Cons show ?case by simp
qed simp

section \<open>Property\<close>

text \<open>C33: Trying a function on the permutations of a slice always ends, whatever the function does.  When no
  rearrangement of the slice satisfies the function and none is an error, every one of them was tried and
  no error is returned.\<close>

theorem iter_permutations_ends:
  fixes slice :: "'k list"
  assumes "combin_law C"
  shows "(\<exists>r. IterPermutations C slice f s = Some r) \<and>
    (slice \<noteq> [] \<longrightarrow>
      (\<exists>tried. IterPermutations C slice (\<lambda>p tried. (Inr True, tried @ [p])) [] = Some (None :: unit option, tried) \<and>
        set tried = {p. mset p = mset slice}))"
proof (cases "slice = []")
  case False
  have tried: "try_each (\<lambda>p tried. (Inr True, tried @ [p])) ps acc = (None :: unit option, acc @ ps)" for ps acc :: "'k list list"
    by (induction ps arbitrary: acc) simp_all
  obtain ps where "IterPermutations C slice f s = Some (try_each f ps s)" "set ps = {p. mset p = mset slice}"
    by (rule IterPermutations_yields [OF assms False])
  moreover obtain qs where
    "IterPermutations C slice (\<lambda>p tried. (Inr True, tried @ [p])) [] =
       Some (try_each (\<lambda>p tried. (Inr True, tried @ [p])) qs [] :: unit option \<times> 'k list list)"
    "set qs = {p. mset p = mset slice}"
    by (rule IterPermutations_yields [OF assms False])
  ultimately show ?thesis unfolding tried by simp
qed (simp add: IterPermutations_empty)

theorem iter_permutations_ends_witness:
  "\<exists>tried. IterPermutations list_combin ''ab'' (\<lambda>p tried. (Inr True, tried @ [p])) [] = Some (None :: unit option, tried) \<and>
    ''ab'' \<in> set tried \<and> ''ba'' \<in> set tried"
proof -
  have "''ab'' \<noteq> []" by simp
  then obtain tried where
    "IterPermutations list_combin ''ab'' (\<lambda>p tried. (Inr True, tried @ [p])) [] = Some (None :: unit option, tried)"
    "set tried = {p. mset p = mset ''ab''}"
    using conjunct2 [OF iter_permutations_ends [OF list_combin_law, of "''ab''"]] by metis
  then show ?thesis by (intro exI [of _ tried]) simp
qed

end
