(* ===== verification/Programs.thy ===== *)
theory Programs
  imports "HOL-Library.State_Monad"
begin

text \<open>
  Programs of the state monad: how they run, and triples that say which property of the world a program keeps
  and what its result satisfies.  Components that make many calls to a library, to the API server or to the
  GPUs are written as such programs.
\<close>

declare run_state_bind [simp del]

lemma run_bind [simp]: "run_state (State_Monad.bind m f) w = run_state (f (fst (run_state m w))) (snd (run_state m w))"
  by (simp add: run_state_bind case_prod_beta)

text \<open>\<open>triple P m Q\<close>: the program keeps \<open>P\<close> and its result satisfies \<open>Q\<close>.\<close>

definition triple :: "('w \<Rightarrow> bool) \<Rightarrow> ('w, 'a) state \<Rightarrow> ('a \<Rightarrow> bool) \<Rightarrow> bool" where
  "triple P m Q \<longleftrightarrow> (\<forall>w. P w \<longrightarrow> Q (fst (run_state m w)) \<and> P (snd (run_state m w)))"

abbreviation keeps :: "('w \<Rightarrow> bool) \<Rightarrow> ('w, 'a) state \<Rightarrow> bool" where
  "keeps P m \<equiv> triple P m (\<lambda>_. True)"

lemma triple_return: "Q x \<Longrightarrow> triple P (State_Monad.return x) Q"
  by (simp add: triple_def)

lemma triple_bind: "triple P m Q \<Longrightarrow> (\<And>x. Q x \<Longrightarrow> triple P (f x) R) \<Longrightarrow> triple P (State_Monad.bind m f) R"
  by (simp add: triple_def)

lemma keeps_bind: "keeps P m \<Longrightarrow> (\<And>x. keeps P (f x)) \<Longrightarrow> keeps P (State_Monad.bind m f)"
  by (rule triple_bind)

lemmas keeps_rules = keeps_bind triple_return [of "\<lambda>_. True"]

lemma triple_weaken: "triple P m Q \<Longrightarrow> (\<And>x. Q x \<Longrightarrow> R x) \<Longrightarrow> triple P m R"
  by (simp add: triple_def)

end
