(* ===== verification/Nvml.thy ===== *)
theory Nvml
  imports GpuCore Stat Programs "HOL-Library.Word"
begin

text \<open>
  File \<^verbatim>\<open>pkg/gpu/nvml/client.go\<close>: looking up, creating and deleting MIG devices through NVIDIA's libraries.
  The libraries (go-nvml, go-nvlib) are third-party code: the calls the client makes are the record
  \<open>nvlib\<close> of state transformers on a world \<open>'w\<close>, handles are numbers, and \<open>nvml_law\<close> states what the
  properties rely on.  The client's methods are programs of the state monad; logging is left out.
\<close>

section \<open>The libraries\<close>

datatype nvReturn = SUCCESS | ERROR_NOT_FOUND | ERROR_NOT_SUPPORTED | ERROR_INVALID_ARGUMENT | ERROR_OTHER int

type_synonym handle = nat

record MigProfileInfo =
  GIProfileID :: int
  CIProfileID :: int
  CIEngProfileID :: int

text \<open>
  \<open>visitDevices\<close> and \<open>visitMigDevices\<close> take the callback and the variable it captures; every other field is
  one call with its results, the return code last.
\<close>

record 'w nvlib =
  nvErrorString :: "nvReturn \<Rightarrow> string"
  nvInit :: "('w, nvReturn) state"
  nvShutdown :: "('w, nvReturn) state"
  goInit :: "('w, nvReturn) state"
  goShutdown :: "('w, nvReturn) state"
  visitDevices :: "(int \<Rightarrow> handle \<Rightarrow> int option \<Rightarrow> ('w, string option \<times> int option) state) \<Rightarrow> int option \<Rightarrow> ('w, string option \<times> int option) state"
  visitMigDevices :: "(int \<Rightarrow> handle \<Rightarrow> int \<Rightarrow> handle \<Rightarrow> int option \<Rightarrow> ('w, string option \<times> int option) state) \<Rightarrow> int option \<Rightarrow> ('w, string option \<times> int option) state"
  getUUID :: "handle \<Rightarrow> ('w, string \<times> nvReturn) state"
  deviceGetHandleByUUID :: "string \<Rightarrow> ('w, handle \<times> nvReturn) state"
  deviceGetHandleByIndex :: "int \<Rightarrow> ('w, handle \<times> nvReturn) state"
  isMigDeviceHandle :: "handle \<Rightarrow> ('w, bool \<times> nvReturn) state"
  getGpuInstanceId :: "handle \<Rightarrow> ('w, int \<times> nvReturn) state"
  getDeviceHandleFromMigDeviceHandle :: "handle \<Rightarrow> ('w, handle \<times> nvReturn) state"
  getGpuInstanceById :: "handle \<Rightarrow> int \<Rightarrow> ('w, handle \<times> nvReturn) state"
  getGpuInstanceProfileInfo :: "handle \<Rightarrow> int \<Rightarrow> ('w, handle \<times> nvReturn) state"
  getGpuInstances :: "handle \<Rightarrow> handle \<Rightarrow> ('w, handle list \<times> nvReturn) state"
  createGpuInstance :: "handle \<Rightarrow> handle \<Rightarrow> ('w, handle \<times> nvReturn) state"
  giInfoDevice :: "handle \<Rightarrow> ('w, handle \<times> nvReturn) state"
  giDestroy :: "handle \<Rightarrow> ('w, nvReturn) state"
  getComputeInstanceProfileInfo :: "handle \<Rightarrow> int \<Rightarrow> int \<Rightarrow> ('w, handle \<times> nvReturn) state"
  getComputeInstances :: "handle \<Rightarrow> handle \<Rightarrow> ('w, handle list \<times> nvReturn) state"
  createComputeInstance :: "handle \<Rightarrow> handle \<Rightarrow> ('w, handle \<times> nvReturn) state"
  ciInfoDevice :: "handle \<Rightarrow> ('w, handle \<times> nvReturn) state"
  ciDestroy :: "handle \<Rightarrow> ('w, nvReturn) state"
  parseMigProfile :: "string \<Rightarrow> ('w, string + MigProfileInfo) state"
  newDevice :: "handle \<Rightarrow> ('w, string + handle) state"
  isMigCapable :: "handle \<Rightarrow> ('w, string + bool) state"
  isMigEnabled :: "handle \<Rightarrow> ('w, string + bool) state"
  getDevices :: "('w, string + handle list) state"
  getIndex :: "handle \<Rightarrow> ('w, int \<times> nvReturn) state"
  gpuInstanceProfileCount :: nat
  computeInstanceProfileCount :: nat
  computeInstanceEngineProfileCount :: nat

section \<open>Start and stop\<close>

definition init :: "'w nvlib \<Rightarrow> ('w, gpuError option) state" where
  "init N = do {
     ret \<leftarrow> nvInit N;
     State_Monad.return (if ret \<noteq> SUCCESS then Some (GenericErr (''unable to initialize NVML: '' @ nvErrorString N ret)) else None)
   }"

definition shutdown :: "'w nvlib \<Rightarrow> ('w, unit) state" where
  "shutdown N = do { _ \<leftarrow> nvShutdown N; State_Monad.return () }"

section \<open>Looking up the GPU of a device\<close>

text \<open>The callbacks; \<open>found\<close> is the captured result, \<open>None\<close> until the device is found.\<close>

definition visit_gpu :: "'w nvlib \<Rightarrow> string \<Rightarrow> int \<Rightarrow> handle \<Rightarrow> int option \<Rightarrow> ('w, string option \<times> int option) state" where
  "visit_gpu N deviceId gpuIdx d found =
     (if found \<noteq> None then State_Monad.return (None, found)
      else do {
        (uuid, ret) \<leftarrow> getUUID N d;
        if ret \<noteq> SUCCESS
        then State_Monad.return (Some (''error getting UUID of device with index '' @ Itoa gpuIdx @ '' on GPU '' @ deviceId @ '': '' @ nvErrorString N ret), found)
        else State_Monad.return (None, if uuid = deviceId then Some gpuIdx else found)
      })"

definition GetGpuIndex :: "'w nvlib \<Rightarrow> string \<Rightarrow> ('w, gpuError + int) state" where
  "GetGpuIndex N deviceId = do {
     e \<leftarrow> init N;
     case e of
       Some e \<Rightarrow> State_Monad.return (Inl e)
     | None \<Rightarrow> do {
         (visitErr, found) \<leftarrow> visitDevices N (visit_gpu N deviceId) None;
         _ \<leftarrow> shutdown N;
         State_Monad.return
           (case visitErr of
              Some m \<Rightarrow> Inl (NewGenericError m)
            | None \<Rightarrow>
                (case found of
                   None \<Rightarrow> Inl (NotFoundErr (''GPU index of device '' @ deviceId @ '' not found''))
                 | Some i \<Rightarrow> Inr i))
       }
   }"

definition visit_mig_device ::
  "'w nvlib \<Rightarrow> string \<Rightarrow> int \<Rightarrow> handle \<Rightarrow> int \<Rightarrow> handle \<Rightarrow> int option \<Rightarrow> ('w, string option \<times> int option) state" where
  "visit_mig_device N migDeviceId gpuIdx _ migIdx m found =
     (if found \<noteq> None then State_Monad.return (None, found)
      else do {
        (uuid, ret) \<leftarrow> getUUID N m;
        if ret \<noteq> SUCCESS
        then State_Monad.return (Some (''error getting UUID of MIG device with index '' @ Itoa migIdx @ '' on GPU '' @ Itoa gpuIdx @ '': '' @ nvErrorString N ret), found)
        else State_Monad.return (None, if uuid = migDeviceId then Some gpuIdx else found)
      })"

definition GetMigDeviceGpuIndex :: "'w nvlib \<Rightarrow> string \<Rightarrow> ('w, gpuError + int) state" where
  "GetMigDeviceGpuIndex N migDeviceId = do {
     e \<leftarrow> init N;
     case e of
       Some e \<Rightarrow> State_Monad.return (Inl e)
     | None \<Rightarrow> do {
         (visitErr, found) \<leftarrow> visitMigDevices N (visit_mig_device N migDeviceId) None;
         _ \<leftarrow> shutdown N;
         State_Monad.return
           (case visitErr of
              Some m \<Rightarrow> Inl (NewGenericError m)
            | None \<Rightarrow>
                (case found of
                   None \<Rightarrow> Inl (NotFoundErr (''GPU index of MIG device '' @ migDeviceId @ '' not found''))
                 | Some i \<Rightarrow> Inr i))
       }
   }"

section \<open>Visiting instances\<close>

text \<open>A loop that calls \<open>f\<close> on each element and returns at the first error; \<open>a\<close> is what \<open>f\<close> captures.\<close>

fun visit_all :: "('x \<Rightarrow> 'a \<Rightarrow> ('w, string option \<times> 'a) state) \<Rightarrow> 'x list \<Rightarrow> 'a \<Rightarrow> ('w, string option \<times> 'a) state" where
  "visit_all f [] a = State_Monad.return (None, a)"
| "visit_all f (x # xs) a = do {
     (e, a') \<leftarrow> f x a;
     if e \<noteq> None then State_Monad.return (e, a') else visit_all f xs a'
   }"

fun visit_gpu_profiles :: "'w nvlib \<Rightarrow> handle \<Rightarrow> (handle \<Rightarrow> ('w, string option) state) \<Rightarrow> nat list \<Rightarrow> ('w, string option) state" where
  "visit_gpu_profiles N device f [] = State_Monad.return None"
| "visit_gpu_profiles N device f (i # is) = do {
     (prof, ret) \<leftarrow> getGpuInstanceProfileInfo N device (int i);
     if ret = ERROR_NOT_FOUND then visit_gpu_profiles N device f is
     else if ret = ERROR_NOT_SUPPORTED then visit_gpu_profiles N device f is
     else if ret = ERROR_INVALID_ARGUMENT then visit_gpu_profiles N device f is
     else if ret \<noteq> SUCCESS then State_Monad.return (Some (''error getting GPU profile info: '' @ nvErrorString N ret))
     else do {
       (gis, ret) \<leftarrow> getGpuInstances N device prof;
       if ret \<noteq> SUCCESS then State_Monad.return (Some (''error getting GPU instances: '' @ nvErrorString N ret))
       else do {
         (e, _) \<leftarrow> visit_all (\<lambda>gi a. do { e \<leftarrow> f gi; State_Monad.return (e, a) }) gis ();
         if e \<noteq> None then State_Monad.return e else visit_gpu_profiles N device f is
       }
     }
   }"

definition visitGpuInstances :: "'w nvlib \<Rightarrow> handle \<Rightarrow> (handle \<Rightarrow> ('w, string option) state) \<Rightarrow> ('w, string option) state" where
  "visitGpuInstances N device f = visit_gpu_profiles N device f [0..<gpuInstanceProfileCount N]"

fun visit_compute_profiles ::
  "'w nvlib \<Rightarrow> handle \<Rightarrow> (handle \<Rightarrow> 'a \<Rightarrow> ('w, string option \<times> 'a) state) \<Rightarrow> (nat \<times> nat) list \<Rightarrow> 'a \<Rightarrow> ('w, string option \<times> 'a) state" where
  "visit_compute_profiles N gi f [] a = State_Monad.return (None, a)"
| "visit_compute_profiles N gi f ((j, k) # jks) a = do {
     (ciProfileInfo, ret) \<leftarrow> getComputeInstanceProfileInfo N gi (int j) (int k);
     if ret = ERROR_NOT_SUPPORTED then visit_compute_profiles N gi f jks a
     else if ret = ERROR_INVALID_ARGUMENT then visit_compute_profiles N gi f jks a
     else if ret \<noteq> SUCCESS
     then State_Monad.return (Some (gpuError_Error (GenericErr (''error getting Compute instance profile info for ('' @ Itoa (int j) @ '', '' @ Itoa (int k) @ ''): '' @ nvErrorString N ret))), a)
     else do {
       (cis, ret) \<leftarrow> getComputeInstances N gi ciProfileInfo;
       if ret \<noteq> SUCCESS
       then State_Monad.return (Some (gpuError_Error (GenericErr (''error getting Compute instances for profile ('' @ Itoa (int j) @ '', '' @ Itoa (int k) @ ''): '' @ nvErrorString N ret))), a)
       else do {
         (e, a') \<leftarrow> visit_all f cis a;
         if e \<noteq> None then State_Monad.return (e, a') else visit_compute_profiles N gi f jks a'
       }
     }
   }"

definition visitComputeInstances ::
  "'w nvlib \<Rightarrow> handle \<Rightarrow> (handle \<Rightarrow> 'a \<Rightarrow> ('w, string option \<times> 'a) state) \<Rightarrow> 'a \<Rightarrow> ('w, string option \<times> 'a) state" where
  "visitComputeInstances N gi f a =
     visit_compute_profiles N gi f
       (concat (map (\<lambda>j. map (Pair j) [0..<computeInstanceEngineProfileCount N]) [0..<computeInstanceProfileCount N])) a"

section \<open>Deleting one MIG device\<close>

text \<open>The callback destroys a compute instance and counts it in a \<^verbatim>\<open>uint8\<close>.\<close>

definition destroy_compute_instance :: "'w nvlib \<Rightarrow> handle \<Rightarrow> 8 word \<Rightarrow> ('w, string option \<times> 8 word) state" where
  "destroy_compute_instance N ci numVisitedCi = do {
     r \<leftarrow> ciDestroy N ci;
     State_Monad.return
       (if r \<noteq> SUCCESS then Some (gpuError_Error (GenericErr (''error deleting compute instance: '' @ nvErrorString N r))) else None,
        numVisitedCi + 1)
   }"

text \<open>The body of \<^verbatim>\<open>DeleteMigDevice\<close> in two parts: finding the GPU instance, and destroying it.\<close>

definition gpu_instance_of :: "'w nvlib \<Rightarrow> string \<Rightarrow> ('w, gpuError + handle) state" where
  "gpu_instance_of N id' = do {
     (d, ret) \<leftarrow> deviceGetHandleByUUID N id';
     if ret = ERROR_NOT_FOUND then State_Monad.return (Inl (NotFoundErr (''MIG device '' @ id' @ '' not found'')))
     else if ret \<noteq> SUCCESS
     then State_Monad.return (Inl (GenericErr (''error getting MIG device with UUID '' @ id' @ '': '' @ nvErrorString N ret)))
     else do {
       (isMig, ret) \<leftarrow> isMigDeviceHandle N d;
       if ret \<noteq> SUCCESS
       then State_Monad.return (Inl (GenericErr (''error determining whether the device with UUID '' @ id' @ '' is a MIG device: '' @ nvErrorString N ret)))
       else if \<not> isMig then State_Monad.return (Inl (GenericErr (''device with UUID '' @ id' @ '' is not a MIG device'')))
       else do {
         (giId, ret) \<leftarrow> getGpuInstanceId N d;
         if ret \<noteq> SUCCESS then State_Monad.return (Inl (GenericErr (''error getting GPU Instance ID: '' @ nvErrorString N ret)))
         else do {
           (parentGpu, ret) \<leftarrow> getDeviceHandleFromMigDeviceHandle N d;
           if ret \<noteq> SUCCESS
           then State_Monad.return (Inl (GenericErr (''error getting device handle from MIG device: '' @ nvErrorString N ret)))
           else do {
             (gi, ret) \<leftarrow> getGpuInstanceById N parentGpu giId;
             if ret = ERROR_NOT_FOUND then State_Monad.return (Inl (NotFoundErr (''GPU instance %!s(int='' @ Itoa giId @ '') not found'')))
             else if ret \<noteq> SUCCESS
             then State_Monad.return (Inl (GenericErr (''error getting GPU Instance '' @ Itoa giId @ '': '' @ nvErrorString N ret)))
             else State_Monad.return (Inr gi)
           }
         }
       }
     }
   }"

definition destroy_gpu_instance :: "'w nvlib \<Rightarrow> string \<Rightarrow> handle \<Rightarrow> ('w, gpuError option) state" where
  "destroy_gpu_instance N id' gi = do {
     (visitErr, numVisitedCi) \<leftarrow> visitComputeInstances N gi (destroy_compute_instance N) 0;
     case visitErr of
       Some m \<Rightarrow> State_Monad.return (Some (GenericErr (''error destroying compute instances: '' @ m)))
     | None \<Rightarrow>
         if numVisitedCi = 0
         then State_Monad.return (Some (GenericErr (''cannot delete '' @ id' @ '': the device does not have any compute instance associated'')))
         else do {
           ret \<leftarrow> giDestroy N gi;
           State_Monad.return (if ret \<noteq> SUCCESS then Some (GenericErr (''error deleting GPU instance: '' @ nvErrorString N ret)) else None)
         }
   }"

definition nvml_DeleteMigDevice :: "'w nvlib \<Rightarrow> string \<Rightarrow> ('w, gpuError option) state" where
  "nvml_DeleteMigDevice N id' = do {
     e \<leftarrow> init N;
     case e of
       Some e \<Rightarrow> State_Monad.return (Some e)
     | None \<Rightarrow> do {
         gi \<leftarrow> gpu_instance_of N id';
         r \<leftarrow> (case gi of Inl e \<Rightarrow> State_Monad.return (Some e) | Inr gi \<Rightarrow> destroy_gpu_instance N id' gi);
         _ \<leftarrow> shutdown N;
         State_Monad.return r
       }
   }"

section \<open>Creating MIG devices\<close>

fun parse_profiles :: "'w nvlib \<Rightarrow> string list \<Rightarrow> MigProfileInfo list \<Rightarrow> ('w, gpuError + MigProfileInfo list) state" where
  "parse_profiles N [] mps = State_Monad.return (Inr mps)"
| "parse_profiles N (profileName # names) mps = do {
     r \<leftarrow> parseMigProfile N profileName;
     case r of
       Inl m \<Rightarrow> State_Monad.return (Inl (GenericErr (''invalid MIG profile: '' @ m)))
     | Inr mp \<Rightarrow> parse_profiles N names (mps @ [mp])
   }"

definition mig_gpu_at :: "'w nvlib \<Rightarrow> int \<Rightarrow> ('w, gpuError + handle) state" where
  "mig_gpu_at N gpuIdx = do {
     (d, ret) \<leftarrow> deviceGetHandleByIndex N gpuIdx;
     if ret = ERROR_NOT_FOUND then State_Monad.return (Inl (NotFoundErr (''GPU with index '' @ Itoa gpuIdx @ '' not found'')))
     else if ret \<noteq> SUCCESS
     then State_Monad.return (Inl (GenericErr (''error getting GPU with index '' @ Itoa gpuIdx @ '': '' @ nvErrorString N ret)))
     else do {
       r \<leftarrow> newDevice N d;
       case r of
         Inl _ \<Rightarrow> State_Monad.return (Inl (GenericErr (''error getting GPU with index '' @ Itoa gpuIdx @ '': '' @ nvErrorString N ret)))
       | Inr device \<Rightarrow> do {
           c \<leftarrow> isMigCapable N device;
           State_Monad.return
             (case c of
                Inl m \<Rightarrow> Inl (NewGenericError m)
              | Inr capable \<Rightarrow>
                  if \<not> capable then Inl (GenericErr (''MIG is not enabled on GPU with index '' @ Itoa gpuIdx)) else Inr device)
         }
     }
   }"

fun destroy_all :: "(handle \<Rightarrow> ('w, nvReturn) state) \<Rightarrow> handle list \<Rightarrow> bool \<Rightarrow> ('w, bool) state" where
  "destroy_all destroy [] anyErrorCleaningUp = State_Monad.return anyErrorCleaningUp"
| "destroy_all destroy (x # xs) anyErrorCleaningUp = do {
     ret \<leftarrow> destroy x;
     destroy_all destroy xs (anyErrorCleaningUp \<or> ret \<noteq> SUCCESS)
   }"

definition cleanup :: "'w nvlib \<Rightarrow> handle list \<Rightarrow> handle list \<Rightarrow> ('w, string option) state" where
  "cleanup N gis cis = do {
     e \<leftarrow> destroy_all (ciDestroy N) cis False;
     e \<leftarrow> destroy_all (giDestroy N) gis e;
     State_Monad.return (if e then Some ''error cleaning up created resources, some resources might not have been deleted'' else None)
   }"

text \<open>
  The callback for one permutation: an error, or whether to try the next permutation; the flag is whether
  the whole permutation was created.
\<close>

fun create_profiles ::
  "'w nvlib \<Rightarrow> handle \<Rightarrow> MigProfileInfo list \<Rightarrow> handle list \<Rightarrow> handle list \<Rightarrow> ('w, (string + bool) \<times> bool) state" where
  "create_profiles N device [] createdGIs createdCIs = State_Monad.return (Inr False, True)"
| "create_profiles N device (mp # mps) createdGIs createdCIs = do {
     (giProfileInfo, ret) \<leftarrow> getGpuInstanceProfileInfo N device (GIProfileID mp);
     if ret \<noteq> SUCCESS
     then State_Monad.return (Inl (gpuError_Error (GenericErr (''error getting GPU instance profile info: '' @ nvErrorString N ret))), False)
     else do {
       (gi, ret) \<leftarrow> createGpuInstance N device giProfileInfo;
       if ret \<noteq> SUCCESS
       then do { e \<leftarrow> cleanup N createdGIs createdCIs; State_Monad.return (case e of Some m \<Rightarrow> Inl m | None \<Rightarrow> Inr True, False) }
       else do {
         (ciProfileInfo, ret) \<leftarrow> getComputeInstanceProfileInfo N gi (CIProfileID mp) (CIEngProfileID mp);
         if ret \<noteq> SUCCESS
         then State_Monad.return (Inl (gpuError_Error (GenericErr (''error getting compute instance profile info: '' @ nvErrorString N ret))), False)
         else do {
           (ci, ret) \<leftarrow> createComputeInstance N gi ciProfileInfo;
           if ret \<noteq> SUCCESS
           then do { e \<leftarrow> cleanup N (createdGIs @ [gi]) createdCIs; State_Monad.return (case e of Some m \<Rightarrow> Inl m | None \<Rightarrow> Inr True, False) }
           else create_profiles N device mps (createdGIs @ [gi]) (createdCIs @ [ci])
         }
       }
     }
   }"

definition try_permutation :: "'w nvlib \<Rightarrow> handle \<Rightarrow> MigProfileInfo list \<Rightarrow> bool \<times> 'w \<Rightarrow> (string + bool) \<times> bool \<times> 'w" where
  "try_permutation N device mps s =
     (case run_state (create_profiles N device mps [] []) (snd s) of
        ((r, applied), w) \<Rightarrow> (r, fst s \<or> applied, w))"

text \<open>What precedes the permutations: parsing the profiles and checking the GPU.\<close>

definition prepare_create :: "'w nvlib \<Rightarrow> string list \<Rightarrow> int \<Rightarrow> ('w, gpuError + MigProfileInfo list \<times> handle) state" where
  "prepare_create N migProfileNames gpuIdx = do {
     mps \<leftarrow> parse_profiles N migProfileNames [];
     case mps of
       Inl e \<Rightarrow> State_Monad.return (Inl e)
     | Inr mps \<Rightarrow> do {
         d \<leftarrow> mig_gpu_at N gpuIdx;
         State_Monad.return (case d of Inl e \<Rightarrow> Inl e | Inr device \<Rightarrow> Inr (mps, device))
       }
   }"

definition nvml_CreateMigDevices ::
  "'g combin \<Rightarrow> 'w nvlib \<Rightarrow> string list \<Rightarrow> int \<Rightarrow> 'w \<Rightarrow> (gpuError option \<times> 'w) option" where
  "nvml_CreateMigDevices C N migProfileNames gpuIdx w =
     (case run_state (goInit N) w of
        (r, w1) \<Rightarrow>
          if r \<noteq> SUCCESS then Some (Some (GenericErr (''error initializing nvml client: '' @ nvErrorString N r)), w1)
          else
            (case run_state (prepare_create N migProfileNames gpuIdx) w1 of
               (Inl e, w2) \<Rightarrow> Some (Some e, snd (run_state (goShutdown N) w2))
             | (Inr (mps, device), w2) \<Rightarrow>
                 (case IterPermutations C mps (try_permutation N device) (False, w2) of
                    None \<Rightarrow> None
                  | Some (iterErr, anyPermutationApplied, w3) \<Rightarrow>
                      Some
                        (case iterErr of
                           Some m \<Rightarrow> Some (GenericErr (''error while applying permutations: '' @ m))
                         | None \<Rightarrow>
                             if \<not> anyPermutationApplied
                             then Some (GenericErr ''could not create MIG profiles: could not find any valid permutation'')
                             else None,
                         snd (run_state (goShutdown N) w3)))))"

section \<open>MIG-enabled GPUs\<close>

text \<open>
  Where the index cannot be read the source wraps the error of the call before, which is nil there; the
  message of that error is written as the empty string.
\<close>

fun mig_enabled :: "'w nvlib \<Rightarrow> handle list \<Rightarrow> int list \<Rightarrow> ('w, gpuError + int list) state" where
  "mig_enabled N [] indexes = State_Monad.return (Inr indexes)"
| "mig_enabled N (d # ds) indexes = do {
     r \<leftarrow> isMigEnabled N d;
     case r of
       Inl m \<Rightarrow> State_Monad.return (Inl (NewGenericError m))
     | Inr isEnabled \<Rightarrow>
         if \<not> isEnabled then mig_enabled N ds indexes
         else do {
           (gpuIdx, ret) \<leftarrow> getIndex N d;
           if ret \<noteq> SUCCESS then State_Monad.return (Inl (NewGenericError []))
           else mig_enabled N ds (indexes @ [gpuIdx])
         }
   }"

definition GetMigEnabledGPUs :: "'w nvlib \<Rightarrow> ('w, gpuError + int list) state" where
  "GetMigEnabledGPUs N = do {
     r \<leftarrow> goInit N;
     if r \<noteq> SUCCESS then State_Monad.return (Inl (GenericErr (''error initializing nvml client: '' @ nvErrorString N r)))
     else do {
       ds \<leftarrow> getDevices N;
       res \<leftarrow> (case ds of Inl m \<Rightarrow> State_Monad.return (Inl (NewGenericError m)) | Inr ds \<Rightarrow> mig_enabled N ds []);
       _ \<leftarrow> goShutdown N;
       State_Monad.return res
     }
   }"

section \<open>Deleting all MIG devices but some\<close>

definition delete_compute_except :: "'w nvlib \<Rightarrow> string list \<Rightarrow> handle \<Rightarrow> ('w, string option) state" where
  "delete_compute_except N migDeviceIds ci = do {
     (dev, ret) \<leftarrow> ciInfoDevice N ci;
     if ret \<noteq> SUCCESS
     then State_Monad.return (Some (gpuError_Error (GenericErr (''error getting compute instance info: '' @ nvErrorString N ret))))
     else do {
       (ciDeviceId, ret) \<leftarrow> getUUID N dev;
       if ret \<noteq> SUCCESS
       then State_Monad.return (Some (gpuError_Error (GenericErr (''error getting compute instance device UUID: '' @ nvErrorString N ret))))
       else if InSlice ciDeviceId migDeviceIds then State_Monad.return None
       else do {
         ret \<leftarrow> ciDestroy N ci;
         State_Monad.return
           (if ret = ERROR_INVALID_ARGUMENT then None
            else if ret \<noteq> SUCCESS then Some (gpuError_Error (GenericErr (''error destroying compute instance: '' @ nvErrorString N ret)))
            else None)
       }
     }
   }"

definition delete_instance_except :: "'w nvlib \<Rightarrow> string list \<Rightarrow> handle \<Rightarrow> ('w, string option) state" where
  "delete_instance_except N migDeviceIds gi = do {
     (dev, ret) \<leftarrow> giInfoDevice N gi;
     if ret \<noteq> SUCCESS
     then State_Monad.return (Some (gpuError_Error (GenericErr (''error getting GPU instance info: '' @ nvErrorString N ret))))
     else do {
       (giDeviceId, ret) \<leftarrow> getUUID N dev;
       if ret \<noteq> SUCCESS
       then State_Monad.return (Some (gpuError_Error (GenericErr (''error getting GPU instance device UUID: '' @ nvErrorString N ret))))
       else if InSlice giDeviceId migDeviceIds then State_Monad.return None
       else do {
         (e, _) \<leftarrow> visitComputeInstances N gi (\<lambda>ci a. do { e \<leftarrow> delete_compute_except N migDeviceIds ci; State_Monad.return (e, a) }) ();
         if e \<noteq> None then State_Monad.return e
         else do {
           ret \<leftarrow> giDestroy N gi;
           State_Monad.return
             (if ret = ERROR_INVALID_ARGUMENT then None
              else if ret \<noteq> SUCCESS then Some (gpuError_Error (GenericErr (''error destroying GPU instance: '' @ nvErrorString N ret)))
              else None)
         }
       }
     }
   }"

definition delete_gpu_except :: "'w nvlib \<Rightarrow> string list \<Rightarrow> int \<Rightarrow> handle \<Rightarrow> int option \<Rightarrow> ('w, string option \<times> int option) state" where
  "delete_gpu_except N migDeviceIds _ device a = do {
     r \<leftarrow> isMigEnabled N device;
     case r of
       Inl m \<Rightarrow> State_Monad.return (Some (gpuError_Error (GenericErr (''error checking if device is MIG enabled: '' @ m))), a)
     | Inr isMig \<Rightarrow>
         if \<not> isMig then State_Monad.return (None, a)
         else do { e \<leftarrow> visitGpuInstances N device (delete_instance_except N migDeviceIds); State_Monad.return (e, a) }
   }"

definition DeleteAllMigDevicesExcept :: "'w nvlib \<Rightarrow> string list \<Rightarrow> ('w, gpuError option) state" where
  "DeleteAllMigDevicesExcept N migDeviceIds = do {
     r \<leftarrow> goInit N;
     if r \<noteq> SUCCESS then State_Monad.return (Some (GenericErr (''error initializing nvml client: '' @ nvErrorString N r)))
     else do {
       (e, _) \<leftarrow> visitDevices N (delete_gpu_except N migDeviceIds) None;
       _ \<leftarrow> goShutdown N;
       State_Monad.return (map_option NewGenericError e)
     }
   }"

section \<open>Visiting keeps what the calls keep\<close>

lemma visit_all_keeps: "(\<And>x a. x \<in> set xs \<Longrightarrow> keeps P (f x a)) \<Longrightarrow> keeps P (visit_all f xs a)"
  by (induction xs arbitrary: a) (auto intro!: keeps_rules split: prod.splits)

lemma visitGpuInstances_keeps:
  assumes "\<And>d i. keeps P (getGpuInstanceProfileInfo N d i)" "\<And>d p. keeps P (getGpuInstances N d p)" "\<And>gi. keeps P (f gi)"
  shows "keeps P (visitGpuInstances N device f)"
proof -
  have "keeps P (visit_gpu_profiles N device f l)" for l
    by (induction l) (auto intro!: keeps_rules visit_all_keeps assms split: prod.splits)
  then show ?thesis by (simp add: visitGpuInstances_def)
qed

lemma visitComputeInstances_keeps:
  assumes "\<And>g j k. keeps P (getComputeInstanceProfileInfo N g j k)" "\<And>g p. keeps P (getComputeInstances N g p)"
    "\<And>ci a. keeps P (f ci a)"
  shows "keeps P (visitComputeInstances N gi f a)"
proof -
  have "keeps P (visit_compute_profiles N gi f l a)" for l
    by (induction l arbitrary: a) (auto intro!: keeps_rules visit_all_keeps assms split: prod.splits)
  then show ?thesis by (simp add: visitComputeInstances_def)
qed

section \<open>What the properties rely on\<close>

text \<open>
  The MIG devices \<open>ms\<close> of the machine and their UUIDs: \<^verbatim>\<open>VisitMigDevices\<close> calls the callback on each of them
  in turn, as long as the callback returns no error.
\<close>

definition mig_devices_law :: "'w nvlib \<Rightarrow> (int \<times> handle \<times> int \<times> handle) list \<Rightarrow> (handle \<Rightarrow> string) \<Rightarrow> bool" where
  "mig_devices_law N ms uuid \<longleftrightarrow>
     (\<forall>w. fst (run_state (nvInit N) w) = SUCCESS) \<and>
     (\<forall>m w. run_state (getUUID N m) w = ((uuid m, SUCCESS), w)) \<and>
     (\<forall>f a w. fst (fst (run_state (visit_all (\<lambda>(g, d, i, m). f g d i m) ms a) w)) = None \<longrightarrow>
        run_state (visitMigDevices N f a) w = run_state (visit_all (\<lambda>(g, d, i, m). f g d i m) ms a) w)"

text \<open>
  The GPU instances \<open>gis w\<close> and compute instances \<open>cis w\<close> that exist: a creation that succeeds adds a new one
  and a destruction that succeeds removes its target, no other call changes them, an existing instance
  can be destroyed, and the information about a profile can be read.
\<close>

definition keeps_instances :: "('w \<Rightarrow> handle set) \<Rightarrow> ('w \<Rightarrow> handle set) \<Rightarrow> ('w, 'a) state \<Rightarrow> bool" where
  "keeps_instances gis cis m \<longleftrightarrow> (\<forall>w. gis (snd (run_state m w)) = gis w \<and> cis (snd (run_state m w)) = cis w)"

definition creates :: "('w \<Rightarrow> handle set) \<Rightarrow> ('w \<Rightarrow> handle set) \<Rightarrow> ('w, handle \<times> nvReturn) state \<Rightarrow> bool" where
  "creates mine others m \<longleftrightarrow>
     (\<forall>w h ret w'. run_state m w = ((h, ret), w') \<longrightarrow> others w' = others w \<and>
        (if ret = SUCCESS then h \<notin> mine w \<and> mine w' = insert h (mine w) else mine w' = mine w))"

definition destroys :: "('w \<Rightarrow> handle set) \<Rightarrow> ('w \<Rightarrow> handle set) \<Rightarrow> (handle \<Rightarrow> ('w, nvReturn) state) \<Rightarrow> bool" where
  "destroys mine others m \<longleftrightarrow>
     (\<forall>w h. h \<in> mine w \<longrightarrow>
        fst (run_state (m h) w) = SUCCESS \<and> mine (snd (run_state (m h) w)) = mine w - {h} \<and> others (snd (run_state (m h) w)) = others w)"

definition nvml_law :: "'w nvlib \<Rightarrow> ('w \<Rightarrow> handle set) \<Rightarrow> ('w \<Rightarrow> handle set) \<Rightarrow> bool" where
  "nvml_law N gis cis \<longleftrightarrow>
     keeps_instances gis cis (goInit N) \<and> keeps_instances gis cis (goShutdown N) \<and>
     (\<forall>p. keeps_instances gis cis (parseMigProfile N p)) \<and>
     (\<forall>i. keeps_instances gis cis (deviceGetHandleByIndex N i)) \<and>
     (\<forall>d. keeps_instances gis cis (newDevice N d)) \<and> (\<forall>d. keeps_instances gis cis (isMigCapable N d)) \<and>
     (\<forall>d i. keeps_instances gis cis (getGpuInstanceProfileInfo N d i)) \<and>
     (\<forall>g i j. keeps_instances gis cis (getComputeInstanceProfileInfo N g i j)) \<and>
     (\<forall>d i w. snd (fst (run_state (getGpuInstanceProfileInfo N d i) w)) = SUCCESS) \<and>
     (\<forall>g i j w. snd (fst (run_state (getComputeInstanceProfileInfo N g i j) w)) = SUCCESS) \<and>
     (\<forall>d p. creates gis cis (createGpuInstance N d p)) \<and> (\<forall>g p. creates cis gis (createComputeInstance N g p)) \<and>
     destroys gis cis (giDestroy N) \<and> destroys cis gis (ciDestroy N)"

lemma nvml_lawD:
  assumes "nvml_law N gis cis"
  shows "keeps_instances gis cis (goInit N)" "keeps_instances gis cis (goShutdown N)"
    "keeps_instances gis cis (parseMigProfile N p)" "keeps_instances gis cis (deviceGetHandleByIndex N i)"
    "keeps_instances gis cis (newDevice N d)" "keeps_instances gis cis (isMigCapable N d)"
    "keeps_instances gis cis (getGpuInstanceProfileInfo N d i)"
    "keeps_instances gis cis (getComputeInstanceProfileInfo N g i j)"
    "snd (fst (run_state (getGpuInstanceProfileInfo N d i) w)) = SUCCESS"
    "snd (fst (run_state (getComputeInstanceProfileInfo N g i j) w)) = SUCCESS"
    "creates gis cis (createGpuInstance N d q)" "creates cis gis (createComputeInstance N g q)"
    "destroys gis cis (giDestroy N)" "destroys cis gis (ciDestroy N)"
  using assms unfolding nvml_law_def by blast+

text \<open>
  A property of the world that reading keeps, and that destroying an instance keeps unless it belongs to one of
  the listed devices; \<open>gdev\<close>, \<open>cdev\<close> and \<open>uuid\<close> are the device of an instance and its UUID.  \<^verbatim>\<open>VisitDevices\<close>
  does nothing but read and call its callback.
\<close>

definition spares :: "'w nvlib \<Rightarrow> ('w \<Rightarrow> bool) \<Rightarrow> string list \<Rightarrow> (handle \<Rightarrow> handle) \<Rightarrow> (handle \<Rightarrow> handle) \<Rightarrow> (handle \<Rightarrow> string) \<Rightarrow> bool" where
  "spares N P ids gdev cdev uuid \<longleftrightarrow>
     keeps P (goInit N) \<and> keeps P (goShutdown N) \<and> (\<forall>d. keeps P (isMigEnabled N d)) \<and>
     (\<forall>d i. keeps P (getGpuInstanceProfileInfo N d i)) \<and> (\<forall>d p. keeps P (getGpuInstances N d p)) \<and>
     (\<forall>g j k. keeps P (getComputeInstanceProfileInfo N g j k)) \<and> (\<forall>g p. keeps P (getComputeInstances N g p)) \<and>
     (\<forall>gi. triple P (giInfoDevice N gi) (\<lambda>(d, ret). ret = SUCCESS \<longrightarrow> d = gdev gi)) \<and>
     (\<forall>ci. triple P (ciInfoDevice N ci) (\<lambda>(d, ret). ret = SUCCESS \<longrightarrow> d = cdev ci)) \<and>
     (\<forall>d. triple P (getUUID N d) (\<lambda>(u, ret). ret = SUCCESS \<longrightarrow> u = uuid d)) \<and>
     (\<forall>gi. uuid (gdev gi) \<notin> set ids \<longrightarrow> keeps P (giDestroy N gi)) \<and>
     (\<forall>ci. uuid (cdev ci) \<notin> set ids \<longrightarrow> keeps P (ciDestroy N ci)) \<and>
     (\<forall>f a. (\<forall>i d a. keeps P (f i d a)) \<longrightarrow> keeps P (visitDevices N f a))"

lemma sparesD:
  assumes "spares N P ids gdev cdev uuid"
  shows "keeps P (goInit N)" "keeps P (goShutdown N)" "keeps P (isMigEnabled N d)"
    "keeps P (getGpuInstanceProfileInfo N d i)" "keeps P (getGpuInstances N d p)"
    "keeps P (getComputeInstanceProfileInfo N g j k)" "keeps P (getComputeInstances N g p)"
    "triple P (giInfoDevice N gi) (\<lambda>(d, ret). ret = SUCCESS \<longrightarrow> d = gdev gi)"
    "triple P (ciInfoDevice N ci) (\<lambda>(d, ret). ret = SUCCESS \<longrightarrow> d = cdev ci)"
    "triple P (getUUID N d) (\<lambda>(u, ret). ret = SUCCESS \<longrightarrow> u = uuid d)"
    "uuid (gdev gi) \<notin> set ids \<Longrightarrow> keeps P (giDestroy N gi)" "uuid (cdev ci) \<notin> set ids \<Longrightarrow> keeps P (ciDestroy N ci)"
    "(\<And>i d a. keeps P (f i d a)) \<Longrightarrow> keeps P (visitDevices N f a)"
  using assms unfolding spares_def by blast+

lemma delete_compute_keeps:
  assumes "spares N P ids gdev cdev uuid"
  shows "keeps P (delete_compute_except N ids ci)"
  unfolding delete_compute_except_def
  by (rule triple_bind [OF sparesD(9) [OF assms]])
    (auto intro!: keeps_rules triple_bind [OF sparesD(10) [OF assms]] sparesD(12) [OF assms] split: prod.splits)

lemma delete_instance_keeps:
  assumes "spares N P ids gdev cdev uuid"
  shows "keeps P (delete_instance_except N ids gi)"
  unfolding delete_instance_except_def
  by (rule triple_bind [OF sparesD(8) [OF assms]])
    (auto intro!: keeps_rules triple_bind [OF sparesD(10) [OF assms]] visitComputeInstances_keeps
      delete_compute_keeps [OF assms] sparesD(6,7,11) [OF assms] split: prod.splits)

lemma delete_gpu_keeps:
  assumes "spares N P ids gdev cdev uuid"
  shows "keeps P (delete_gpu_except N ids i device a)"
  unfolding delete_gpu_except_def
  by (auto intro!: keeps_rules visitGpuInstances_keeps delete_instance_keeps [OF assms] sparesD(3-5) [OF assms] split: sum.splits)

section \<open>Creating all or nothing\<close>

lemma destroy_all_live:
  assumes "destroys mine others destroy"
  shows "set hs \<subseteq> mine w \<Longrightarrow> distinct hs \<Longrightarrow>
    fst (run_state (destroy_all destroy hs e) w) = e \<and>
    mine (snd (run_state (destroy_all destroy hs e) w)) = mine w - set hs \<and>
    others (snd (run_state (destroy_all destroy hs e) w)) = others w"
proof (induction hs arbitrary: w e)
  case (Cons h hs)
  let ?w = "snd (run_state (destroy h) w)"
  from Cons.prems assms have d: "fst (run_state (destroy h) w) = SUCCESS" "mine ?w = mine w - {h}" "others ?w = others w"
    by (simp_all add: destroys_def)
  have "set hs \<subseteq> mine ?w" "distinct hs" using Cons.prems d(2) by auto
  from Cons.IH [OF this] d show ?case by auto
qed simp

text \<open>The instances created so far, on top of those that existed before.\<close>

definition built :: "('w \<Rightarrow> handle set) \<Rightarrow> handle set \<Rightarrow> handle list \<Rightarrow> 'w \<Rightarrow> bool" where
  "built mine before hs w \<longleftrightarrow> distinct hs \<and> set hs \<inter> before = {} \<and> mine w = before \<union> set hs"

lemma built_same: "built mine before hs w \<Longrightarrow> mine w' = mine w \<Longrightarrow> built mine before hs w'"
  by (simp add: built_def)

lemma built_snoc:
  "built mine before hs w \<Longrightarrow> h \<notin> mine w \<Longrightarrow> mine w' = insert h (mine w) \<Longrightarrow> built mine before (hs @ [h]) w'"
  by (auto simp: built_def)

lemma cleanup_built:
  assumes "nvml_law N gis cis" "built gis A G w" "built cis B K w"
  shows "fst (run_state (cleanup N G K) w) = None \<and> gis (snd (run_state (cleanup N G K) w)) = A \<and>
    cis (snd (run_state (cleanup N G K) w)) = B"
proof -
  let ?w = "snd (run_state (destroy_all (ciDestroy N) K False) w)"
  have k: "fst (run_state (destroy_all (ciDestroy N) K False) w) = False" "cis ?w = B" "gis ?w = gis w"
    using destroy_all_live [OF nvml_lawD(14) [OF assms(1)], of K w False] assms(3) by (auto simp: built_def)
  have "built gis A G ?w" using built_same [OF assms(2) k(3)] .
  then show ?thesis
    using destroy_all_live [OF nvml_lawD(13) [OF assms(1)], of G ?w False] k by (auto simp: cleanup_def built_def)
qed

definition created_all :: "('w \<Rightarrow> handle set) \<Rightarrow> handle set \<Rightarrow> nat \<Rightarrow> 'w \<Rightarrow> bool" where
  "created_all mine before n w \<longleftrightarrow> (\<exists>new. card new = n \<and> finite new \<and> new \<inter> before = {} \<and> mine w = before \<union> new)"

lemma built_created: "built mine before hs w \<Longrightarrow> created_all mine before (length hs) w"
  unfolding built_def created_all_def by (intro exI [of _ "set hs"]) (auto simp: distinct_card)

lemma create_profiles_spec:
  assumes law: "nvml_law N gis cis"
  shows "built gis A G w \<Longrightarrow> built cis B K w \<Longrightarrow> run_state (create_profiles N d mps G K) w = ((r, applied), w') \<Longrightarrow>
    (if applied
     then r = Inr False \<and> created_all gis A (length G + length mps) w' \<and> created_all cis B (length K + length mps) w'
     else r = Inr True \<and> gis w' = A \<and> cis w' = B)"
proof (induction mps arbitrary: G K w)
  case Nil
  then show ?case by (auto dest: built_created)
next
  case (Cons mp mps)
  obtain p w1 where 1: "run_state (getGpuInstanceProfileInfo N d (GIProfileID mp)) w = ((p, SUCCESS), w1)"
    using nvml_lawD(9) [OF law] by (metis prod.collapse)
  with nvml_lawD(7) [OF law] Cons.prems have b1: "built gis A G w1" "built cis B K w1"
    by (auto simp: keeps_instances_def intro: built_same) (metis built_same snd_conv)+
  obtain gi ret w2 where 2: "run_state (createGpuInstance N d p) w1 = ((gi, ret), w2)" by (metis prod.collapse)
  note created = nvml_lawD(11) [OF law, of d p, unfolded creates_def, rule_format, OF 2]
  show ?case
  proof (cases "ret = SUCCESS")
    case False
    then have "built gis A G w2" "built cis B K w2" using created b1 built_same by auto
    from cleanup_built [OF law this] Cons.prems(3) 1 2 False show ?thesis by (auto simp: prod_eq_iff)
  next
    case True
    then have b2: "built gis A (G @ [gi]) w2" "built cis B K w2"
      using created b1 built_snoc built_same by (metis, metis)
    obtain q w3 where 3: "run_state (getComputeInstanceProfileInfo N gi (CIProfileID mp) (CIEngProfileID mp)) w2 = ((q, SUCCESS), w3)"
      using nvml_lawD(10) [OF law] by (metis prod.collapse)
    have b3: "built gis A (G @ [gi]) w3" "built cis B K w3"
      using nvml_lawD(8) [OF law, unfolded keeps_instances_def, rule_format, of gi "CIProfileID mp" "CIEngProfileID mp" w2] b2 built_same
      unfolding 3 snd_conv by (metis, metis)
    obtain ci ret' w4 where 4: "run_state (createComputeInstance N gi q) w3 = ((ci, ret'), w4)" by (metis prod.collapse)
    note created' = nvml_lawD(12) [OF law, of gi q, unfolded creates_def, rule_format, OF 4]
    show ?thesis
    proof (cases "ret' = SUCCESS")
      case False
      then have "built gis A (G @ [gi]) w4" "built cis B K w4" using created' b3 built_same by auto
      from cleanup_built [OF law this] Cons.prems(3) 1 2 3 4 True False show ?thesis by (auto simp: prod_eq_iff)
    next
      case ok: True
      then have "built gis A (G @ [gi]) w4" "built cis B (K @ [ci]) w4"
        using created' b3 built_snoc built_same by (metis, metis)
      from Cons.IH [OF this] Cons.prems(3) 1 2 3 4 True ok show ?thesis by (simp cong: if_cong)
    qed
  qed
qed

lemma try_each_permutation:
  assumes "nvml_law N gis cis" "\<forall>p\<in>set ps. length p = n" "gis w = A" "cis w = B"
    "try_each (try_permutation N d) ps (False, w) = (e, applied, w')"
  shows "e = None \<and> (if applied then created_all gis A n w' \<and> created_all cis B n w' else gis w' = A \<and> cis w' = B)"
  using assms(2-)
proof (induction ps arbitrary: w)
  case (Cons p ps)
  obtain r ap w1 where run: "run_state (create_profiles N d p [] []) w = ((r, ap), w1)" by (metis prod.collapse)
  have spec: "if ap then r = Inr False \<and> created_all gis A n w1 \<and> created_all cis B n w1 else r = Inr True \<and> gis w1 = A \<and> cis w1 = B"
    using create_profiles_spec [OF assms(1) _ _ run, of A B] Cons.prems(1-3) by (simp add: built_def cong: if_cong)
  have step: "try_permutation N d p (False, w) = (r, ap, w1)" by (simp add: try_permutation_def run)
  show ?case
  proof (cases ap)
    case True
    with spec Cons.prems(4) step show ?thesis by auto
  next
    case False
    with spec Cons.prems(4) step have "try_each (try_permutation N d) ps (False, w1) = (e, applied, w')" by simp
    with Cons.IH [of w1] Cons.prems spec False show ?thesis by simp
  qed
qed simp

lemma keeps_instances_bind:
  "keeps_instances gis cis m \<Longrightarrow> (\<And>x. keeps_instances gis cis (f x)) \<Longrightarrow> keeps_instances gis cis (State_Monad.bind m f)"
  by (simp add: keeps_instances_def)

lemma keeps_instances_return: "keeps_instances gis cis (State_Monad.return x)"
  by (simp add: keeps_instances_def)

lemma prepare_keeps:
  assumes "nvml_law N gis cis"
  shows "keeps_instances gis cis (prepare_create N names i)"
proof -
  note rules = keeps_instances_bind keeps_instances_return nvml_lawD(1-8) [OF assms]
  have "keeps_instances gis cis (parse_profiles N names mps)" for mps
    by (induction names arbitrary: mps) (auto intro!: rules split: sum.splits)
  moreover have "keeps_instances gis cis (mig_gpu_at N i)"
    by (auto simp: mig_gpu_at_def intro!: rules split: prod.splits sum.splits)
  ultimately show ?thesis by (auto simp: prepare_create_def intro!: rules split: sum.splits)
qed

lemma parse_profiles_length:
  "fst (run_state (parse_profiles N names mps) w) = Inr res \<Longrightarrow> length res = length mps + length names"
proof (induction N names mps arbitrary: w rule: parse_profiles.induct)
  case (2 N name names mps)
  then show ?case by (auto split: sum.splits)
qed simp

lemma prepare_length:
  assumes "fst (run_state (prepare_create N names i) w) = Inr (mps, d)"
  shows "length mps = length names"
  using assms parse_profiles_length [of N names "[]" w mps]
  by (auto simp: prepare_create_def split: sum.splits)

section \<open>A driver for evaluation\<close>

text \<open>
  One GPU with seven slices.  An instance is its handle and its size; creating one fails when its size does
  not fit.
\<close>

record toyGpu =
  tgInstances :: "(handle \<times> nat) list"
  tgComputes :: "handle list"
  tgNext :: handle
  tgNextCompute :: handle

abbreviation toy_ok :: "'a \<Rightarrow> ('w, 'a \<times> nvReturn) state" where
  "toy_ok x \<equiv> State_Monad.return (x, SUCCESS)"

definition toy_create :: "nat \<Rightarrow> (toyGpu, handle \<times> nvReturn) state" where
  "toy_create n =
     State (\<lambda>w. if sum_list (map snd (tgInstances w)) + n \<le> 7
                then ((tgNext w, SUCCESS), w\<lparr>tgInstances := tgInstances w @ [(tgNext w, n)], tgNext := Suc (tgNext w)\<rparr>)
                else ((0, ERROR_OTHER 19), w))"

definition toy_nvlib :: "toyGpu nvlib" where
  "toy_nvlib =
     \<lparr>nvErrorString = (\<lambda>_. ''driver error''), nvInit = State_Monad.return SUCCESS, nvShutdown = State_Monad.return SUCCESS,
      goInit = State_Monad.return SUCCESS, goShutdown = State_Monad.return SUCCESS,
      visitDevices = (\<lambda>f a. f 0 0 a),
      visitMigDevices = (\<lambda>f a. visit_all (\<lambda>(g, d, i, m). f g d i m) [(0, 0, 0, 5), (1, 0, 0, 6)] a),
      getUUID = (\<lambda>h. toy_ok (''MIG-'' @ Itoa (int h))),
      deviceGetHandleByUUID = (\<lambda>_. toy_ok 5), deviceGetHandleByIndex = (\<lambda>_. toy_ok 0), isMigDeviceHandle = (\<lambda>_. toy_ok True),
      getGpuInstanceId = (\<lambda>_. toy_ok 0), getDeviceHandleFromMigDeviceHandle = (\<lambda>_. toy_ok 0),
      getGpuInstanceById = (\<lambda>_ _. toy_ok 0),
      getGpuInstanceProfileInfo = (\<lambda>_ i. toy_ok (nat i)), getGpuInstances = (\<lambda>_ _. State (\<lambda>w. ((map fst (tgInstances w), SUCCESS), w))),
      createGpuInstance = (\<lambda>_ n. toy_create n), giInfoDevice = (\<lambda>gi. toy_ok gi),
      giDestroy = (\<lambda>gi. State (\<lambda>w. (SUCCESS, w\<lparr>tgInstances := filter (\<lambda>(h, _). h \<noteq> gi) (tgInstances w)\<rparr>))),
      getComputeInstanceProfileInfo = (\<lambda>_ _ _. toy_ok 0), getComputeInstances = (\<lambda>_ _. State (\<lambda>w. ((tgComputes w, SUCCESS), w))),
      createComputeInstance = (\<lambda>_ _. State (\<lambda>w.
        ((tgNextCompute w, SUCCESS), w\<lparr>tgComputes := tgComputes w @ [tgNextCompute w], tgNextCompute := Suc (tgNextCompute w)\<rparr>))),
      ciInfoDevice = (\<lambda>ci. toy_ok ci),
      ciDestroy = (\<lambda>ci. State (\<lambda>w. (SUCCESS, w\<lparr>tgComputes := filter (\<lambda>h. h \<noteq> ci) (tgComputes w)\<rparr>))),
      parseMigProfile = (\<lambda>s. State_Monad.return
        (if s = ''3g.20gb'' then Inr \<lparr>GIProfileID = 3, CIProfileID = 0, CIEngProfileID = 0\<rparr>
         else if s = ''4g.20gb'' then Inr \<lparr>GIProfileID = 4, CIProfileID = 0, CIEngProfileID = 0\<rparr> else Inl ''unknown profile'')),
      newDevice = (\<lambda>d. State_Monad.return (Inr d)), isMigCapable = (\<lambda>_. State_Monad.return (Inr True)),
      isMigEnabled = (\<lambda>_. State_Monad.return (Inr True)), getDevices = State_Monad.return (Inr [0]), getIndex = (\<lambda>_. toy_ok 0),
      gpuInstanceProfileCount = 2, computeInstanceProfileCount = 2, computeInstanceEngineProfileCount = 1\<rparr>"

definition toy_gis :: "toyGpu \<Rightarrow> handle set" where
  "toy_gis w = {h \<in> fst ` set (tgInstances w). h < tgNext w}"

definition toy_cis :: "toyGpu \<Rightarrow> handle set" where
  "toy_cis w = {h \<in> set (tgComputes w). h < tgNextCompute w}"

lemma toy_nvml_law: "nvml_law toy_nvlib toy_gis toy_cis"
proof -
  have "creates toy_gis toy_cis (createGpuInstance toy_nvlib d n)" for d n
    by (auto simp: creates_def toy_create_def toy_nvlib_def toy_gis_def toy_cis_def image_iff less_Suc_eq split: if_splits)
  moreover have "creates toy_cis toy_gis (createComputeInstance toy_nvlib g n)" for g n
    by (auto simp: creates_def toy_nvlib_def toy_gis_def toy_cis_def less_Suc_eq)
  moreover have "destroys toy_gis toy_cis (giDestroy toy_nvlib)" "destroys toy_cis toy_gis (ciDestroy toy_nvlib)"
    by (force simp: destroys_def toy_nvlib_def toy_gis_def toy_cis_def)+
  ultimately show ?thesis unfolding nvml_law_def by (intro conjI allI) (simp_all add: keeps_instances_def, simp_all add: toy_nvlib_def)
qed

lemma toy_mig_devices_law: "mig_devices_law toy_nvlib [(0, 0, 0, 5), (1, 0, 0, 6)] (\<lambda>h. ''MIG-'' @ Itoa (int h))"
  by (simp add: mig_devices_law_def toy_nvlib_def)

section \<open>Properties\<close>



text \<open>The GPU of a MIG device is the GPU on which the libraries list a device with that UUID; the error is
  "not found" exactly when they list none.\<close>

lemma mig_device_gpu_index:
  assumes "mig_devices_law N ms uuid"
  shows "fst (run_state (GetMigDeviceGpuIndex N id') w) =
    (case find (\<lambda>(g, d, i, m). uuid m = id') ms of
       None \<Rightarrow> Inl (NotFoundErr (''GPU index of MIG device '' @ id' @ '' not found''))
     | Some (g, _) \<Rightarrow> Inr g)"
proof -
  have uuid: "run_state (getUUID N m) w = ((uuid m, SUCCESS), w)" for m w using assms by (simp add: mig_devices_law_def)
  have visit: "run_state (visit_mig_device N id' g d i m a) w =
      ((None, if a \<noteq> None then a else if uuid m = id' then Some g else None), w)" for g d i m a w
    by (simp add: visit_mig_device_def uuid)
  have found: "run_state (visit_all (\<lambda>(g, d, i, m). visit_mig_device N id' g d i m) ms (Some k)) w = ((None, Some k), w)" for ms k w
    by (induction ms) (auto simp: visit)
  have "run_state (visit_all (\<lambda>(g, d, i, m). visit_mig_device N id' g d i m) ms None) w =
      ((None, map_option fst (find (\<lambda>(g, d, i, m). uuid m = id') ms)), w)" for w
  proof (induction ms)
    case (Cons e ms)
    then show ?case by (cases e) (simp add: visit found)
  qed simp
  then have "fst (run_state (visitMigDevices N (visit_mig_device N id') None) w) =
      (None, map_option fst (find (\<lambda>(g, d, i, m). uuid m = id') ms))" for w
    using assms by (simp add: mig_devices_law_def)
  moreover have "fst (run_state (nvInit N) w) = SUCCESS" for w using assms by (simp add: mig_devices_law_def)
  ultimately show ?thesis
    by (auto simp: GetMigDeviceGpuIndex_def init_def case_prod_beta split: option.splits)
qed

lemma mig_device_gpu_index_applied:
  "fst (run_state (GetMigDeviceGpuIndex toy_nvlib ''MIG-6'')
     \<lparr>tgInstances = [], tgComputes = [], tgNext = 0, tgNextCompute = 0\<rparr>) = Inr 1"
  unfolding mig_device_gpu_index [OF toy_mig_devices_law] by code_simp

text \<open>C34: Deleting all MIG devices but some destroys no GPU instance and no compute instance of a device to be
  kept, whatever calls fail on the way: it keeps every property of the machine that only the destruction
  of such an instance could break.\<close>

theorem delete_all_spares_listed:
  assumes "spares N P ids gdev cdev uuid" "P w"
  shows "P (snd (run_state (DeleteAllMigDevicesExcept N ids) w))"
proof -
  have "keeps P (DeleteAllMigDevicesExcept N ids)"
    unfolding DeleteAllMigDevicesExcept_def
    by (auto intro!: keeps_rules sparesD(1,2,13) [OF assms(1)] delete_gpu_keeps [OF assms(1)] split: prod.splits)
  with assms(2) show ?thesis by (simp add: triple_def)
qed

definition toy_busy :: toyGpu where
  "toy_busy = \<lparr>tgInstances = [(5, 3), (6, 4)], tgComputes = [6], tgNext = 7, tgNextCompute = 7\<rparr>"

theorem delete_all_spares_listed_witness:
  "5 \<in> fst ` set (tgInstances (snd (run_state (DeleteAllMigDevicesExcept toy_nvlib [''MIG-5'']) toy_busy))) \<and>
   tgInstances (snd (run_state (DeleteAllMigDevicesExcept toy_nvlib [''MIG-5'']) toy_busy)) = [(5, 3)]"
proof -
  let ?P = "\<lambda>w. 5 \<in> fst ` set (tgInstances w)"
  have "Itoa 5 = ''5''" by code_simp
  then have "spares toy_nvlib ?P [''MIG-5''] (\<lambda>gi. gi) (\<lambda>ci. ci) (\<lambda>h. ''MIG-'' @ Itoa (int h))"
    by (auto simp: spares_def toy_nvlib_def triple_def)
  moreover have "?P toy_busy" by (simp add: toy_busy_def)
  ultimately have "?P (snd (run_state (DeleteAllMigDevicesExcept toy_nvlib [''MIG-5'']) toy_busy))"
    by (rule delete_all_spares_listed)
  moreover have "tgInstances (snd (run_state (DeleteAllMigDevicesExcept toy_nvlib [''MIG-5'']) toy_busy)) = [(5, 3)]" by code_simp
  ultimately show ?thesis by (rule conjI)
qed

end
