(* ===== verification/MigClient.thy ===== *)
theory MigClient
  imports MigProfiles Nvml
begin

text \<open>
  File \<^verbatim>\<open>pkg/gpu/mig/client.go\<close>: the MIG client lists the MIG devices of a node, creates and deletes them.
  It works on two interfaces of the code, \<^verbatim>\<open>resource.Client\<close> and \<^verbatim>\<open>nvml.Client\<close>, here records of programs
  on a world; the clients of \<open>Resources\<close> and \<open>Nvml\<close> implement them.
\<close>

section \<open>Interfaces\<close>

record 'w resourceClient =
  rcGetAllocatableDevices :: "('w, string + resDevice list) state"
  rcGetUsedDevices :: "('w, string + resDevice list) state"

record 'w nvmlClient =
  ncGetGpuIndex :: "string \<Rightarrow> ('w, gpuError + int) state"
  ncGetMigDeviceGpuIndex :: "string \<Rightarrow> ('w, gpuError + int) state"
  ncDeleteMigDevice :: "string \<Rightarrow> ('w, gpuError option) state"
  ncCreateMigDevices :: "string list \<Rightarrow> int \<Rightarrow> ('w, gpuError option) state"
  ncGetMigEnabledGPUs :: "('w, gpuError + int list) state"
  ncDeleteAllMigDevicesExcept :: "string list \<Rightarrow> ('w, gpuError option) state"

text \<open>The interface \<^verbatim>\<open>mig.Client\<close> itself; the agent depends on it.  The error of a creation is its list of errors.\<close>

record 'w migClient =
  mcGetMigDevices :: "('w, gpuError + Device list) state"
  mcGetUsedMigDevices :: "('w, gpuError + Device list) state"
  mcGetAllocatableMigDevices :: "('w, gpuError + Device list) state"
  mcCreateMigDevices :: "Profile list \<Rightarrow> ('w, Profile list \<times> gpuError list) state"
  mcDeleteMigDevice :: "Device \<Rightarrow> ('w, gpuError option) state"
  mcDeleteAllExcept :: "Device list \<Rightarrow> ('w, gpuError option) state"

section \<open>The client\<close>

fun create_groups ::
  "'w nvmlClient \<Rightarrow> (int, Profile list) gomap \<Rightarrow> Profile list \<Rightarrow> gpuError list \<Rightarrow> ('w, Profile list \<times> gpuError list) state" where
  "create_groups V [] createdProfiles errors = State_Monad.return (createdProfiles, errors)"
| "create_groups V ((gpuIdx, profiles) # groups) createdProfiles errors = do {
     r \<leftarrow> ncCreateMigDevices V (map prName profiles) gpuIdx;
     case r of
       Some e \<Rightarrow> create_groups V groups createdProfiles (errors @ [e])
     | None \<Rightarrow> create_groups V groups (createdProfiles @ profiles) errors
   }"

definition CreateMigDevices :: "'w nvmlClient \<Rightarrow> Profile list \<Rightarrow> ('w, Profile list \<times> gpuError list) state" where
  "CreateMigDevices V profileList = create_groups V (ProfileList_GroupByGPU profileList) [] []"

definition DeleteMigDevice :: "'w nvmlClient \<Rightarrow> Device \<Rightarrow> ('w, gpuError option) state" where
  "DeleteMigDevice V resource = ncDeleteMigDevice V (DeviceId resource)"

fun extract_devices :: "'w nvmlClient \<Rightarrow> resDevice list \<Rightarrow> Device list \<Rightarrow> ('w, gpuError + Device list) state" where
  "extract_devices V [] migDevices = State_Monad.return (Inr migDevices)"
| "extract_devices V (r # devices) migDevices =
     (if \<not> IsNvidiaMigDevice (ResourceName r) then extract_devices V devices migDevices
      else do {
        res \<leftarrow> ncGetMigDeviceGpuIndex V (DeviceId r);
        case res of
          Inl e \<Rightarrow>
            if IgnoreNotFound (Some e) \<noteq> None then State_Monad.return (Inl e)
            else extract_devices V devices migDevices
        | Inr gpuIdx \<Rightarrow>
            extract_devices V devices
              (migDevices @ [\<lparr>ResourceName = ResourceName r, DeviceId = DeviceId r, DeviceStatus = DeviceStatus r, GpuIndex = gpuIdx\<rparr>])
      })"

definition extractMigDevices :: "'w nvmlClient \<Rightarrow> resDevice list \<Rightarrow> ('w, gpuError + Device list) state" where
  "extractMigDevices V devices = extract_devices V devices []"

definition GetUsedMigDevices :: "'w resourceClient \<Rightarrow> 'w nvmlClient \<Rightarrow> ('w, gpuError + Device list) state" where
  "GetUsedMigDevices R V = do {
     res \<leftarrow> rcGetUsedDevices R;
     case res of
       Inl m \<Rightarrow> State_Monad.return (Inl (NewGenericError m))
     | Inr usedResources \<Rightarrow> extractMigDevices V (Filter_go usedResources IsNvidiaResource)
   }"

definition GetAllocatableMigDevices :: "'w resourceClient \<Rightarrow> 'w nvmlClient \<Rightarrow> ('w, gpuError + Device list) state" where
  "GetAllocatableMigDevices R V = do {
     res \<leftarrow> rcGetAllocatableDevices R;
     case res of
       Inl m \<Rightarrow> State_Monad.return (Inl (NewGenericError m))
     | Inr allocatableResources \<Rightarrow> extractMigDevices V (Filter_go allocatableResources IsNvidiaResource)
   }"

definition GetMigDevices :: "'w resourceClient \<Rightarrow> 'w nvmlClient \<Rightarrow> ('w, gpuError + Device list) state" where
  "GetMigDevices R V = do {
     res \<leftarrow> GetUsedMigDevices R V;
     case res of
       Inl e \<Rightarrow> State_Monad.return (Inl e)
     | Inr used \<Rightarrow> do {
         res \<leftarrow> GetAllocatableMigDevices R V;
         case res of
           Inl e \<Rightarrow> State_Monad.return (Inl e)
         | Inr allocatable \<Rightarrow> State_Monad.return (Inr (used @ ComputeFreeDevicesAndUpdateStatus used allocatable))
       }
   }"

definition DeleteAllExcept :: "'w nvmlClient \<Rightarrow> Device list \<Rightarrow> ('w, gpuError option) state" where
  "DeleteAllExcept V resourcesToKeep = ncDeleteAllMigDevicesExcept V (map DeviceId resourcesToKeep)"

definition NewMigClient :: "'w resourceClient \<Rightarrow> 'w nvmlClient \<Rightarrow> 'w migClient" where
  "NewMigClient R V =
     \<lparr>mcGetMigDevices = GetMigDevices R V, mcGetUsedMigDevices = GetUsedMigDevices R V,
      mcGetAllocatableMigDevices = GetAllocatableMigDevices R V, mcCreateMigDevices = CreateMigDevices V,
      mcDeleteMigDevice = DeleteMigDevice V, mcDeleteAllExcept = DeleteAllExcept V\<rparr>"

section \<open>Lemmas\<close>

text \<open>The groups that are created in one run, in order, and the others.\<close>

lemma create_groups_outcome:
  "\<exists>ok failed. fst (run_state (create_groups V groups created errors) w) =
      (created @ concat (map snd ok), errors @ map snd failed) \<and>
     mset (map fst failed @ ok) = mset groups"
proof (induction groups arbitrary: created errors w)
  case (Cons g groups)
  obtain i ps where g: "g = (i, ps)" by fastforce
  let ?r = "run_state (ncCreateMigDevices V (map prName ps) i) w"
  show ?case
  proof (cases "fst ?r")
    case None
    from Cons.IH [of "created @ ps" errors "snd ?r"] obtain ok failed where
      "fst (run_state (create_groups V groups (created @ ps) errors) (snd ?r)) = (created @ concat (map snd (g # ok)), errors @ map snd failed)"
      "mset (map fst failed @ g # ok) = mset (g # groups)" by (auto simp: g)
    with None show ?thesis by (intro exI [of _ "g # ok"] exI [of _ failed]) (simp add: g)
  next
    case (Some e)
    from Cons.IH [of created "errors @ [e]" "snd ?r"] obtain ok failed where
      "fst (run_state (create_groups V groups created (errors @ [e])) (snd ?r)) = (created @ concat (map snd ok), errors @ map snd ((g, e) # failed))"
      "mset (map fst ((g, e) # failed) @ ok) = mset (g # groups)" by auto
    with Some show ?thesis by (intro exI [of _ ok] exI [of _ "(g, e) # failed"]) (simp add: g)
  qed
qed simp

lemma mset_concat_cong: "mset gs = mset hs \<Longrightarrow> mset (concat (map f gs)) = mset (concat (map f hs))"
  by (metis mset_concat mset_map sum_mset_sum_list)

text \<open>The device that stands for a listed resource.\<close>

definition as_device :: "(string \<Rightarrow> gpuError + int) \<Rightarrow> resDevice \<Rightarrow> Device" where
  "as_device idx r =
     \<lparr>ResourceName = ResourceName r, DeviceId = DeviceId r, DeviceStatus = DeviceStatus r,
      GpuIndex = (case idx (DeviceId r) of Inr i \<Rightarrow> i | Inl _ \<Rightarrow> 0)\<rparr>"

definition is_mig :: "(string \<Rightarrow> gpuError + int) \<Rightarrow> resDevice \<Rightarrow> bool" where
  "is_mig idx r \<longleftrightarrow> IsNvidiaResource r \<and> IsNvidiaMigDevice (ResourceName r) \<and> (\<exists>i. idx (DeviceId r) = Inr i)"

text \<open>The lookup of a GPU only reads: a GPU index, or "not found".\<close>

definition index_law :: "'w nvmlClient \<Rightarrow> (string \<Rightarrow> gpuError + int) \<Rightarrow> bool" where
  "index_law V idx \<longleftrightarrow>
     (\<forall>i w. run_state (ncGetMigDeviceGpuIndex V i) w = (idx i, w)) \<and> (\<forall>i e. idx i = Inl e \<longrightarrow> code e = errorCodeNotFound)"

lemma extract_devices_eq:
  assumes "index_law V idx"
  shows "run_state (extractMigDevices V (Filter_go rs IsNvidiaResource)) w = (Inr (map (as_device idx) (filter (is_mig idx) rs)), w)"
proof -
  have "run_state (extract_devices V rs acc) w =
      (Inr (acc @ map (as_device idx) (filter (\<lambda>r. IsNvidiaMigDevice (ResourceName r) \<and> (\<exists>i. idx (DeviceId r) = Inr i)) rs)), w)" for rs acc
    using assms by (induction rs arbitrary: acc) (auto simp: index_law_def as_device_def IgnoreNotFound_def split: sum.splits)
  then show ?thesis by (simp add: extractMigDevices_def is_mig_def [abs_def])
qed

section \<open>Properties\<close>

text \<open>Creating MIG devices tries every GPU even when one fails, and reports what exists: the profiles returned
  are among those asked for, and they are all of them, each as often, exactly when no error is returned.\<close>

lemma create_reports_created:
  "mset (fst (fst (run_state (CreateMigDevices V profiles) w))) \<subseteq># mset profiles \<and>
   (snd (fst (run_state (CreateMigDevices V profiles) w)) = [] \<longleftrightarrow>
    mset (fst (fst (run_state (CreateMigDevices V profiles) w))) = mset profiles)"
proof -
  let ?groups = "group_by prGpuIndex profiles"
  obtain ok failed where run: "fst (run_state (CreateMigDevices V profiles) w) = (concat (map snd ok), map snd failed)"
    and groups: "mset (map fst failed @ ok) = mset ?groups"
    using create_groups_outcome [of V ?groups "[]" "[]" w] by (auto simp: CreateMigDevices_def ProfileList_GroupByGPU_def)
  have all: "mset profiles = mset (concat (map (snd \<circ> fst) failed)) + mset (concat (map snd ok))"
    using mset_concat_cong [OF groups, of snd] by simp
  have "snd g \<noteq> []" if "g \<in> set (map fst failed)" for g
  proof -
    have "g \<in> set ?groups" using that mset_eq_setD [OF groups] by auto
    then have "fst g \<in> prGpuIndex ` set profiles \<and> snd g = filter (\<lambda>p. prGpuIndex p = fst g) profiles"
      using group_by_entry_iff [of "fst g" "snd g" prGpuIndex profiles] by simp
    then show ?thesis by (auto simp: filter_empty_conv)
  qed
  then have "concat (map (snd \<circ> fst) failed) = [] \<longleftrightarrow> failed = []" by (cases failed) auto
  with all show ?thesis by (auto simp: run)
qed

text \<open>C36: The MIG devices of a node are those in use, as the kubelet lists them, followed by the allocatable ones
  that are not in use, marked free; what is not a MIG device of NVIDIA or is on no GPU is left out.\<close>

theorem devices_used_and_free:
  assumes "index_law V idx"
    "run_state (rcGetUsedDevices R) w = (Inr used, w1)" "run_state (rcGetAllocatableDevices R) w1 = (Inr allocatable, w2)"
  shows "run_state (GetMigDevices R V) w =
    (Inr (map (as_device idx) (filter (is_mig idx) used) @
      map (\<lambda>r. (as_device idx r)\<lparr>DeviceStatus := StatusFree\<rparr>)
        (filter (\<lambda>r. is_mig idx r \<and> DeviceId r \<notin> DeviceId ` set (filter (is_mig idx) used)) allocatable)), w2)"
proof -
  have ids: "DeviceId ` set (map (as_device idx) l) = DeviceId ` set l" for l
    by (auto simp: as_device_def image_iff)
  show ?thesis
    using extract_devices_eq [OF assms(1)] assms(2,3)
    by (simp add: GetMigDevices_def GetUsedMigDevices_def GetAllocatableMigDevices_def ComputeFree_eq ids filter_map o_def
        del: set_map set_filter) (simp add: as_device_def conj_commute)
qed

text \<open>A node on which one small device is in use and another is free.\<close>

definition two_devices :: "unit resourceClient" where
  "two_devices =
     \<lparr>rcGetAllocatableDevices = State_Monad.return (GetAllocatableDevices
        (Inr [\<lparr>cdResourceName = ''nvidia.com/mig-1g.5gb'', cdDeviceIds = [''MIG-1'', ''MIG-2'']\<rparr>,
              \<lparr>cdResourceName = ''nvidia.com/gpu'', cdDeviceIds = [''GPU-1'']\<rparr>])),
      rcGetUsedDevices = State_Monad.return (GetUsedDevices
        (Inr [[[\<lparr>cdResourceName = ''nvidia.com/mig-1g.5gb'', cdDeviceIds = [''MIG-1'']\<rparr>]]]))\<rparr>"

definition one_gpu :: "unit nvmlClient" where
  "one_gpu =
     \<lparr>ncGetGpuIndex = (\<lambda>_. State_Monad.return (Inr 0)), ncGetMigDeviceGpuIndex = (\<lambda>_. State_Monad.return (Inr 0)),
      ncDeleteMigDevice = (\<lambda>_. State_Monad.return None), ncCreateMigDevices = (\<lambda>_ _. State_Monad.return None),
      ncGetMigEnabledGPUs = State_Monad.return (Inr [0]), ncDeleteAllMigDevicesExcept = (\<lambda>_. State_Monad.return None)\<rparr>"

theorem devices_used_and_free_witness:
  "map_sum (\<lambda>_. ()) (map (\<lambda>d. (DeviceId d, DeviceStatus d))) (fst (run_state (GetMigDevices two_devices one_gpu) ())) =
     Inr [(''MIG-1'', StatusUsed), (''MIG-2'', StatusFree)]"
proof -
  let ?used = "devices_of StatusUsed [\<lparr>cdResourceName = ''nvidia.com/mig-1g.5gb'', cdDeviceIds = [''MIG-1'']\<rparr>]"
  let ?all = "devices_of StatusUnknown [\<lparr>cdResourceName = ''nvidia.com/mig-1g.5gb'', cdDeviceIds = [''MIG-1'', ''MIG-2'']\<rparr>,
              \<lparr>cdResourceName = ''nvidia.com/gpu'', cdDeviceIds = [''GPU-1'']\<rparr>]"
  have law: "index_law one_gpu (\<lambda>_. Inr 0)" by (simp add: index_law_def one_gpu_def)
  have used: "run_state (rcGetUsedDevices two_devices) () = (Inr ?used, ())" by (simp add: two_devices_def GetUsedDevices_def)
  have all: "run_state (rcGetAllocatableDevices two_devices) () = (Inr ?all, ())" by (simp add: two_devices_def GetAllocatableDevices_def)
  have mig: "IsNvidiaMigDevice ''nvidia.com/mig-1g.5gb''" "\<not> IsNvidiaMigDevice ''nvidia.com/gpu''" by code_simp+
  have nv: "HasPrefix ''nvidia.com/mig-1g.5gb'' NvidiaResourcePrefix" by code_simp
  show ?thesis unfolding devices_used_and_free [OF law used all]
    by (simp add: is_mig_def as_device_def IsNvidiaResource_def mig nv)
qed

end
