(* ===== verification/MigGpu.thy ===== *)
theory MigGpu
  imports MigProfiles
begin

text \<open>
  Package \<^verbatim>\<open>pkg/gpu/mig\<close>, gpu.go: one GPU with MIG enabled, its used and free MIG devices, and the
  operations that change its geometry or move devices between used and free.  An operation of the
  source that mutates the receiver returns the new GPU; \<open>cmp\<close> is \<^verbatim>\<open>cmp.Equal\<close> on geometries.
\<close>

section \<open>Definitions\<close>

record GPU =
  gpuIndex :: int
  gpuModel :: Model
  allowedMigGeometries :: "Geometry list"
  usedMigDevices :: "(ProfileName, int) gomap"
  freeMigDevices :: "(ProfileName, int) gomap"

datatype migError =
    UnknownModel Model
  | GeometryNotAllowed Model
  | DeletesUsedDevices
  | NotEnoughFreeDevices int ProfileName int

definition NewGPU ::
  "knownState \<Rightarrow> Model \<Rightarrow> int \<Rightarrow> (ProfileName, int) gomap \<Rightarrow> (ProfileName, int) gomap \<Rightarrow> migError + GPU" where
  "NewGPU known model idx used free =
     (case GetAllowedGeometries known model of
        None \<Rightarrow> Inl (UnknownModel model)
      | Some allowedGeometries \<Rightarrow>
          Inr \<lparr>gpuIndex = idx, gpuModel = model, allowedMigGeometries = allowedGeometries,
               usedMigDevices = used, freeMigDevices = free\<rparr>)"

text \<open>\<open>None\<close> is a panic.\<close>

definition NewGpuOrPanic ::
  "knownState \<Rightarrow> Model \<Rightarrow> int \<Rightarrow> (ProfileName, int) gomap \<Rightarrow> (ProfileName, int) gomap \<Rightarrow> GPU option" where
  "NewGpuOrPanic known model idx used free =
     (case NewGPU known model idx used free of Inl _ \<Rightarrow> None | Inr g \<Rightarrow> Some g)"

definition GPU_Clone :: "GPU \<Rightarrow> GPU" where
  "GPU_Clone g =
     \<lparr>gpuIndex = gpuIndex g, gpuModel = gpuModel g, allowedMigGeometries = allowedMigGeometries g,
      usedMigDevices = gm_put_all [] (usedMigDevices g),
      freeMigDevices = gm_put_all [] (freeMigDevices g)\<rparr>"

definition GPU_GetGeometry :: "GPU \<Rightarrow> Geometry" where
  "GPU_GetGeometry g = gm_add_all (gm_add_all [] (geo (usedMigDevices g))) (geo (freeMigDevices g))"

definition GPU_AllowsGeometry :: "(Geometry \<Rightarrow> Geometry \<Rightarrow> bool) \<Rightarrow> GPU \<Rightarrow> Geometry \<Rightarrow> bool" where
  "GPU_AllowsGeometry cmp g geometry = list_ex (\<lambda>allowedGeometry. cmp geometry allowedGeometry) (allowedMigGeometries g)"

fun deletesUsed :: "Geometry \<Rightarrow> (ProfileName, int) gomap \<Rightarrow> bool" where
  "deletesUsed geometry [] = False"
| "deletesUsed geometry ((usedProfile, usedQuantity) # used) =
     (if gm_get geometry (MigProfile usedProfile) < usedQuantity then True else deletesUsed geometry used)"

text \<open>\<open>None\<close> means the geometry can be applied, \<open>Some e\<close> gives the reason why not.\<close>

definition GPU_CanApplyGeometry :: "(Geometry \<Rightarrow> Geometry \<Rightarrow> bool) \<Rightarrow> GPU \<Rightarrow> Geometry \<Rightarrow> migError option" where
  "GPU_CanApplyGeometry cmp g geometry =
     (if \<not> GPU_AllowsGeometry cmp g geometry then Some (GeometryNotAllowed (gpuModel g))
      else if deletesUsed geometry (usedMigDevices g) then Some DeletesUsedDevices
      else None)"

fun applyGeometry_set ::
  "(ProfileName, int) gomap \<Rightarrow> (ProfileName, int) gomap \<Rightarrow> Geometry \<Rightarrow> (ProfileName, int) gomap" where
  "applyGeometry_set used free [] = free"
| "applyGeometry_set used free ((MigProfile p, quantity) # geometry) =
     applyGeometry_set used (gm_put p (quantity - gm_get used p) free) geometry"
| "applyGeometry_set used free ((SlicingProfile _, _) # geometry) = applyGeometry_set used free geometry"

definition GPU_ApplyGeometry ::
  "(Geometry \<Rightarrow> Geometry \<Rightarrow> bool) \<Rightarrow> GPU \<Rightarrow> Geometry \<Rightarrow> migError option \<times> GPU" where
  "GPU_ApplyGeometry cmp g geometry =
     (case GPU_CanApplyGeometry cmp g geometry of
        Some reason \<Rightarrow> (Some reason, g)
      | None \<Rightarrow>
          (let free = applyGeometry_set (usedMigDevices g) (freeMigDevices g) geometry;
               free' = filter (\<lambda>(profile, _). gm_has geometry (MigProfile profile)) free
           in (None, g\<lparr>freeMigDevices := free'\<rparr>)))"

text \<open>The nil geometry of a GPU without allowed geometries is not allowed.\<close>

definition GPU_InitGeometry :: "(Geometry \<Rightarrow> Geometry \<Rightarrow> bool) \<Rightarrow> GPU \<Rightarrow> migError option \<times> GPU" where
  "GPU_InitGeometry cmp g =
     (case GetFewestSlicesGeometry (allowedMigGeometries g) of
        None \<Rightarrow> (Some (GeometryNotAllowed (gpuModel g)), g)
      | Some largestGeometry \<Rightarrow>
          (case GPU_CanApplyGeometry cmp g largestGeometry of
             Some reason \<Rightarrow> (Some reason, g)
           | None \<Rightarrow> GPU_ApplyGeometry cmp g largestGeometry))"

definition GPU_isIdle :: "GPU \<Rightarrow> bool" where
  "GPU_isIdle g \<longleftrightarrow>
     \<not> list_ex (\<lambda>(_, q). q > 0) (usedMigDevices g) \<and> \<not> list_ex (\<lambda>(_, q). q > 0) (freeMigDevices g)"

definition isBusySensitive3211Geometry :: "Geometry \<Rightarrow> bool" where
  "isBusySensitive3211Geometry candidate =
     (let geometries =
        [geo [(Profile3g20gb, 1), (Profile2g10gb, 1), (Profile1g5gb, 2)],
         geo [(Profile3g40gb, 1), (Profile2g20gb, 1), (Profile1g10gb, 2)]] in
      list_ex (\<lambda>g. length candidate = length g \<and> list_all (\<lambda>(p, q). gm_get candidate p = q) g) geometries)"

fun provided_loop ::
  "(ProfileName, int) gomap \<Rightarrow> Geometry \<Rightarrow> Geometry \<Rightarrow> int \<Rightarrow> (Slice, int) gomap \<Rightarrow> int" where
  "provided_loop free currentGeometry candidate provided [] = provided"
| "provided_loop free currentGeometry candidate provided ((SlicingProfile _, _) # required) =
     provided_loop free currentGeometry candidate provided required"
| "provided_loop free currentGeometry candidate provided ((MigProfile p, requiredQuantity) # required) =
     (let currentFree = gm_get free p in
      if currentFree \<ge> requiredQuantity then provided_loop free currentGeometry candidate provided required
      else
        let needed = requiredQuantity - currentFree;
            additionalCapacity = gm_get candidate (MigProfile p) - gm_get currentGeometry (MigProfile p) in
        if additionalCapacity \<le> 0 then provided_loop free currentGeometry candidate provided required
        else provided_loop free currentGeometry candidate (provided + Min_go additionalCapacity needed) required)"

definition providedBy :: "GPU \<Rightarrow> (Slice, int) gomap \<Rightarrow> Geometry \<Rightarrow> int" where
  "providedBy g required candidate =
     provided_loop (freeMigDevices g) (GPU_GetGeometry g) candidate 0 required"

text \<open>The candidates the loop considers.\<close>

definition eligible :: "(Geometry \<Rightarrow> Geometry \<Rightarrow> bool) \<Rightarrow> GPU \<Rightarrow> Geometry \<Rightarrow> bool" where
  "eligible cmp g candidate \<longleftrightarrow>
     \<not> (isBusySensitive3211Geometry candidate \<and> \<not> GPU_isIdle g) \<and> GPU_CanApplyGeometry cmp g candidate = None"

fun bestGeometry_loop ::
  "(Geometry \<Rightarrow> Geometry \<Rightarrow> bool) \<Rightarrow> GPU \<Rightarrow> (Slice, int) gomap \<Rightarrow> (Geometry \<times> int) option \<Rightarrow>
   Geometry list \<Rightarrow> (Geometry \<times> int) option" where
  "bestGeometry_loop cmp g required best [] = best"
| "bestGeometry_loop cmp g required best (candidate # candidates) =
     (if \<not> eligible cmp g candidate then bestGeometry_loop cmp g required best candidates
      else let provided = providedBy g required candidate in
        if provided \<le> 0 then bestGeometry_loop cmp g required best candidates
        else case best of
          None \<Rightarrow> bestGeometry_loop cmp g required (Some (candidate, provided)) candidates
        | Some (_, maxProvided) \<Rightarrow>
            (if provided > maxProvided
             then bestGeometry_loop cmp g required (Some (candidate, provided)) candidates
             else bestGeometry_loop cmp g required best candidates))"

definition GPU_UpdateGeometryFor ::
  "(Geometry \<Rightarrow> Geometry \<Rightarrow> bool) \<Rightarrow> GPU \<Rightarrow> (Slice, int) gomap \<Rightarrow> bool \<times> GPU" where
  "GPU_UpdateGeometryFor cmp g requiredProfiles =
     (case bestGeometry_loop cmp g requiredProfiles None (allowedMigGeometries g) of
        None \<Rightarrow> (False, g)
      | Some (bestGeometry, _) \<Rightarrow>
          (if cmp bestGeometry (GPU_GetGeometry g) then (False, g)
           else (True, snd (GPU_ApplyGeometry cmp g bestGeometry))))"

fun addPod_loop :: "GPU \<Rightarrow> (ProfileName, int) gomap \<Rightarrow> migError option \<times> GPU" where
  "addPod_loop g [] = (None, g)"
| "addPod_loop g ((r, q) # requested) =
     (if gm_get (freeMigDevices g) r < q
      then (Some (NotEnoughFreeDevices q r (gm_get (freeMigDevices g) r)), g)
      else addPod_loop
        (g\<lparr>freeMigDevices := gm_add r (- q) (freeMigDevices g),
           usedMigDevices := gm_add r q (usedMigDevices g)\<rparr>) requested)"

definition GPU_AddPod :: "('ni, 'q) k8sLib \<Rightarrow> GPU \<Rightarrow> 'q Pod \<Rightarrow> migError option \<times> GPU" where
  "GPU_AddPod K g pod = addPod_loop g (GetRequestedProfiles K pod)"

definition GPU_HasFreeMigDevices :: "GPU \<Rightarrow> bool" where
  "GPU_HasFreeMigDevices g \<longleftrightarrow> length (freeMigDevices g) > 0"

fun release_loop :: "GPU \<Rightarrow> (ProfileName, int) gomap \<Rightarrow> GPU" where
  "release_loop g [] = g"
| "release_loop g ((profile, quantity) # profiles) =
     (let used = gm_add profile (- quantity) (usedMigDevices g);
          used' = (if gm_get used profile = 0 then gm_del profile used else used)
      in release_loop
        (g\<lparr>usedMigDevices := used', freeMigDevices := gm_add profile quantity (freeMigDevices g)\<rparr>) profiles)"

definition GPU_ReleaseProfiles :: "GPU \<Rightarrow> (ProfileName, int) gomap \<Rightarrow> bool \<times> GPU" where
  "GPU_ReleaseProfiles g profiles =
     (if list_ex (\<lambda>(profile, quantity). gm_get (usedMigDevices g) profile < quantity) profiles then (False, g)
      else (True, release_loop g profiles))"

section \<open>Invariant\<close>

abbreviation used_of :: "GPU \<Rightarrow> ProfileName \<Rightarrow> int" where
  "used_of g p \<equiv> gm_get (usedMigDevices g) p"

abbreviation free_of :: "GPU \<Rightarrow> ProfileName \<Rightarrow> int" where
  "free_of g p \<equiv> gm_get (freeMigDevices g) p"

text \<open>
  Maps with distinct keys, no negative number of devices, and allowed geometries as a validated
  table gives them.
\<close>

definition gpu_ok :: "GPU \<Rightarrow> bool" where
  "gpu_ok g \<longleftrightarrow>
     gm_ok (usedMigDevices g) \<and> gm_ok (freeMigDevices g) \<and>
     (\<forall>p. 0 \<le> used_of g p) \<and> (\<forall>p. 0 \<le> free_of g p) \<and>
     (\<forall>geometry\<in>set (allowedMigGeometries g). gm_ok geometry \<and> geometry_ok geometry)"

lemma gpu_okD [dest]:
  assumes "gpu_ok g"
  shows "gm_ok (usedMigDevices g)" "gm_ok (freeMigDevices g)" "0 \<le> used_of g p" "0 \<le> free_of g p"
    "geometry \<in> set (allowedMigGeometries g) \<Longrightarrow> gm_ok geometry \<and> geometry_ok geometry"
  using assms by (auto simp: gpu_ok_def)

lemma NewGPU_ok:
  assumes "known_ok known" "NewGPU known model idx used free = Inr g"
    "gm_ok used" "gm_ok free" "\<forall>p. 0 \<le> gm_get used p" "\<forall>p. 0 \<le> gm_get free p"
  shows "gpu_ok g"
  using assms known_ok_allowed by (fastforce simp: NewGPU_def gpu_ok_def split: option.splits)

section \<open>Geometry\<close>

lemma geo_get: "gm_get (geo l) (MigProfile p) = gm_get l p"
  by (induction l) (auto simp: gm_get_Cons)

lemma geo_get_slicing: "gm_get (geo l) (SlicingProfile p) = 0"
  by (induction l) (auto simp: gm_get_Cons)

lemma GetGeometry_get:
  "gpu_ok g \<Longrightarrow> gm_get (GPU_GetGeometry g) (MigProfile p) = used_of g p + free_of g p"
  by (simp add: GPU_GetGeometry_def gpu_ok_def gomap_simps geo_ok geo_get)

lemma GetGeometry_slicing: "gpu_ok g \<Longrightarrow> gm_get (GPU_GetGeometry g) (SlicingProfile p) = 0"
  by (simp add: GPU_GetGeometry_def gpu_ok_def gomap_simps geo_ok geo_get_slicing)

lemma GetGeometry_ok [simp]: "gm_ok (GPU_GetGeometry g)"
  by (simp add: GPU_GetGeometry_def gomap_ok)

lemma Clone_same:
  assumes "gpu_ok g"
  shows "used_of (GPU_Clone g) p = used_of g p" "free_of (GPU_Clone g) p = free_of g p" "gpu_ok (GPU_Clone g)"
  using assms by (simp_all add: GPU_Clone_def gpu_ok_def gomap_ok gomap_simps)

section \<open>Applying a geometry\<close>

lemma deletesUsed_iff: "gm_ok used \<Longrightarrow> deletesUsed geometry used \<longleftrightarrow>
    (\<exists>(p, q)\<in>set used. gm_get geometry (MigProfile p) < q)"
  by (induction geometry used rule: deletesUsed.induct) (auto simp: gm_ok_Cons)

lemma CanApply_iff:
  assumes "gpu_ok g" "cmp_map_law cmp"
  shows "GPU_CanApplyGeometry cmp g geometry = None \<longleftrightarrow>
    (\<exists>a\<in>set (allowedMigGeometries g). map_of geometry = map_of a) \<and>
    (\<forall>p. used_of g p \<le> gm_get geometry (MigProfile p))"
proof -
  have allowed: "GPU_AllowsGeometry cmp g geometry \<longleftrightarrow> (\<exists>a\<in>set (allowedMigGeometries g). map_of geometry = map_of a)"
    using assms(2) by (simp add: GPU_AllowsGeometry_def list_ex_iff cmp_map_law_def)
  have "\<not> deletesUsed geometry (usedMigDevices g) \<longleftrightarrow> (\<forall>p. used_of g p \<le> gm_get geometry (MigProfile p))"
    if a: "a \<in> set (allowedMigGeometries g)" "map_of geometry = map_of a" for a
  proof -
    have nonneg: "0 \<le> gm_get geometry s" for s
      using a assms(1) geometry_ok_nonneg [of a s] gm_get_cong [OF a(2)] by (auto simp: gpu_ok_def)
    show ?thesis
    proof
      assume n: "\<not> deletesUsed geometry (usedMigDevices g)"
      show "\<forall>p. used_of g p \<le> gm_get geometry (MigProfile p)"
      proof
        fix p
        show "used_of g p \<le> gm_get geometry (MigProfile p)"
        proof (cases "map_of (usedMigDevices g) p")
          case (Some q)
          then have "(p, q) \<in> set (usedMigDevices g)" by (rule map_of_SomeD)
          with n assms(1) Some show ?thesis by (auto simp: gpu_ok_def deletesUsed_iff gm_get_def not_less)
        qed (use nonneg in \<open>simp add: gm_get_def\<close>)
      qed
    next
      assume le: "\<forall>p. used_of g p \<le> gm_get geometry (MigProfile p)"
      have "q \<le> gm_get geometry (MigProfile p)" if "(p, q) \<in> set (usedMigDevices g)" for p q
        using le gm_get_entry [OF _ that] assms(1) by (metis gpu_okD(1))
      with assms(1) show "\<not> deletesUsed geometry (usedMigDevices g)"
        by (fastforce simp: gpu_ok_def deletesUsed_iff)
    qed
  qed
  with allowed show ?thesis by (auto simp: GPU_CanApplyGeometry_def)
qed

lemma applyGeometry_set_map_of:
  "gm_ok geometry \<Longrightarrow> map_of (applyGeometry_set used free geometry) p =
     (case map_of geometry (MigProfile p) of None \<Rightarrow> map_of free p | Some q \<Rightarrow> Some (q - gm_get used p))"
proof (induction used free geometry rule: applyGeometry_set.induct)
  case (2 used free p' q geometry)
  then have "map_of geometry (MigProfile p') = None" by (simp add: gm_ok_Cons map_of_eq_None_iff)
  with "2" show ?case by (auto simp: gm_ok_Cons gomap_simps split: option.splits)
qed (simp_all add: gm_ok_Cons)

lemma applyGeometry_set_ok: "gm_ok free \<Longrightarrow> gm_ok (applyGeometry_set used free geometry)"
  by (induction used free geometry rule: applyGeometry_set.induct) (simp_all add: gomap_ok)

lemma ApplyGeometry_frame:
  "usedMigDevices (snd (GPU_ApplyGeometry cmp g geometry)) = usedMigDevices g"
  "allowedMigGeometries (snd (GPU_ApplyGeometry cmp g geometry)) = allowedMigGeometries g"
  "gpuIndex (snd (GPU_ApplyGeometry cmp g geometry)) = gpuIndex g"
  "gpuModel (snd (GPU_ApplyGeometry cmp g geometry)) = gpuModel g"
  by (simp_all add: GPU_ApplyGeometry_def Let_def split: option.splits)

lemma ApplyGeometry_free:
  assumes "GPU_CanApplyGeometry cmp g geometry = None" "gm_ok geometry" "gm_ok (freeMigDevices g)"
  shows "free_of (snd (GPU_ApplyGeometry cmp g geometry)) p =
    (if gm_has geometry (MigProfile p) then gm_get geometry (MigProfile p) - used_of g p else 0)"
proof -
  have "gm_get (applyGeometry_set (usedMigDevices g) (freeMigDevices g) geometry) p =
      gm_get geometry (MigProfile p) - used_of g p" if "gm_has geometry (MigProfile p)"
    using that assms(2) by (auto simp: gm_get_def applyGeometry_set_map_of gm_has_def)
  then show ?thesis
    using assms(1,3) applyGeometry_set_ok [of "freeMigDevices g" "usedMigDevices g" geometry]
    by (simp add: GPU_ApplyGeometry_def Let_def gomap_simps)
qed

lemma ApplyGeometry_free_ok:
  assumes "gm_ok (freeMigDevices g)"
  shows "gm_ok (freeMigDevices (snd (GPU_ApplyGeometry cmp g geometry)))"
  using assms by (simp add: GPU_ApplyGeometry_def Let_def gomap_ok applyGeometry_set_ok split: option.splits)

lemma allowed_variant:
  assumes "gpu_ok g" "a \<in> set (allowedMigGeometries g)" "map_of geometry = map_of a"
  shows "0 \<le> gm_get geometry s" "gm_get geometry (SlicingProfile p) = 0"
proof -
  from assms have a: "geometry_ok a" by (auto simp: gpu_ok_def)
  have eq: "gm_get geometry = gm_get a" by (rule gm_get_cong [OF assms(3)])
  show "0 \<le> gm_get geometry s" using a by (simp add: eq geometry_ok_nonneg)
  have "\<not> gm_has a (SlicingProfile p)" using geometry_ok_mig [OF a] by blast
  then show "gm_get geometry (SlicingProfile p) = 0" by (simp add: eq gm_get_not_has)
qed

lemma ApplyGeometry_ok_free_eq:
  assumes "gpu_ok g" "cmp_map_law cmp" "gm_ok geometry" "GPU_CanApplyGeometry cmp g geometry = None"
  shows "free_of (snd (GPU_ApplyGeometry cmp g geometry)) p = gm_get geometry (MigProfile p) - used_of g p"
proof -
  from assms have le: "used_of g p \<le> gm_get geometry (MigProfile p)" by (simp add: CanApply_iff)
  show ?thesis
  proof (cases "gm_has geometry (MigProfile p)")
    case True
    then show ?thesis using assms by (simp add: ApplyGeometry_free gpu_ok_def)
  next
    case False
    with le assms(1) have "used_of g p = 0" by (auto simp: gm_get_not_has gpu_ok_def order_antisym)
    with False show ?thesis using assms by (simp add: ApplyGeometry_free gm_get_not_has gpu_ok_def)
  qed
qed

lemma ApplyGeometry_ok:
  assumes "gpu_ok g" "cmp_map_law cmp" "gm_ok geometry"
  shows "gpu_ok (snd (GPU_ApplyGeometry cmp g geometry))"
proof (cases "GPU_CanApplyGeometry cmp g geometry")
  case None
  with assms have "\<forall>p. used_of g p \<le> gm_get geometry (MigProfile p)" by (simp add: CanApply_iff)
  with assms None show ?thesis
    by (simp add: gpu_ok_def ApplyGeometry_frame ApplyGeometry_free_ok)
      (simp add: ApplyGeometry_ok_free_eq gpu_ok_def)
next
  case (Some e)
  then show ?thesis using assms by (simp add: GPU_ApplyGeometry_def)
qed

lemma ApplyGeometry_geometry:
  assumes "gpu_ok g" "cmp_map_law cmp" "gm_ok geometry" "GPU_CanApplyGeometry cmp g geometry = None"
  shows "gm_get (GPU_GetGeometry (snd (GPU_ApplyGeometry cmp g geometry))) s = gm_get geometry s"
proof (cases s)
  case (MigProfile p)
  then show ?thesis
    using assms by (simp add: GetGeometry_get [OF ApplyGeometry_ok] ApplyGeometry_ok_free_eq ApplyGeometry_frame)
next
  case (SlicingProfile p)
  from assms obtain a where "a \<in> set (allowedMigGeometries g)" "map_of geometry = map_of a"
    by (auto simp: CanApply_iff)
  with SlicingProfile assms show ?thesis
    by (simp add: GetGeometry_slicing [OF ApplyGeometry_ok] allowed_variant)
qed

section \<open>Choosing a geometry\<close>

lemma bestGeometry_loop_spec:
  assumes "bestGeometry_loop cmp g required best candidates = Some (b, n)"
    "\<And>b' n'. best = Some (b', n') \<Longrightarrow> P b' n'"
    "\<And>c. c \<in> set candidates \<Longrightarrow> eligible cmp g c \<Longrightarrow> 0 < providedBy g required c \<Longrightarrow> P c (providedBy g required c)"
  shows "P b n"
  using assms
proof (induction cmp g required best candidates rule: bestGeometry_loop.induct)
  case (2 cmp g required best c cs)
  note P_c = "2.prems"(3) [of c]
  have prem: "\<And>x. x \<in> set cs \<Longrightarrow> eligible cmp g x \<Longrightarrow> 0 < providedBy g required x \<Longrightarrow> P x (providedBy g required x)"
    using "2.prems"(3) by simp
  show ?case
  proof (cases "eligible cmp g c \<and> 0 < providedBy g required c")
    case True
    with P_c have c: "P c (providedBy g required c)" by simp
    show ?thesis
      using True "2.prems"(1,2) prem c "2.IH"(3-5)
      by (auto simp: Let_def split: option.splits if_splits)
  next
    case False
    with "2.prems"(1,2) prem "2.IH"(1,2) show ?thesis by (auto simp: Let_def split: if_splits)
  qed
qed simp

lemma bestGeometry_loop_max:
  "(case best of None \<Rightarrow> True | Some (_, m) \<Rightarrow> 0 < m) \<Longrightarrow>
   (case bestGeometry_loop cmp g required best candidates of
      None \<Rightarrow> best = None \<and> (\<forall>c\<in>set candidates. eligible cmp g c \<longrightarrow> providedBy g required c \<le> 0)
    | Some (_, n) \<Rightarrow> 0 < n \<and> (case best of None \<Rightarrow> True | Some (_, m) \<Rightarrow> m \<le> n) \<and>
        (\<forall>c\<in>set candidates. eligible cmp g c \<longrightarrow> providedBy g required c \<le> n))"
proof (induction cmp g required best candidates rule: bestGeometry_loop.induct)
  case (1 cmp g required best)
  then show ?case by (simp split: option.splits prod.splits)
next
  case (2 cmp g required best c cs)
  show ?case
  proof (cases "eligible cmp g c \<and> 0 < providedBy g required c")
    case False
    then have "bestGeometry_loop cmp g required best (c # cs) = bestGeometry_loop cmp g required best cs"
      by (auto simp: Let_def)
    moreover from False have "eligible cmp g c \<longrightarrow> providedBy g required c \<le> 0" by auto
    moreover from False "2.IH"(1,2) "2.prems" have
      "case bestGeometry_loop cmp g required best cs of
         None \<Rightarrow> best = None \<and> (\<forall>c\<in>set cs. eligible cmp g c \<longrightarrow> providedBy g required c \<le> 0)
       | Some (_, n) \<Rightarrow> 0 < n \<and> (case best of None \<Rightarrow> True | Some (_, m) \<Rightarrow> m \<le> n) \<and>
           (\<forall>c\<in>set cs. eligible cmp g c \<longrightarrow> providedBy g required c \<le> n)"
      by (cases "eligible cmp g c") auto
    ultimately show ?thesis by (fastforce split: option.splits prod.splits)
  next
    case True
    show ?thesis
    proof (cases best)
      case None
      with True "2.IH"(3) show ?thesis by (fastforce simp: Let_def split: option.splits prod.splits)
    next
      case (Some bm)
      obtain b m where bm: "bm = (b, m)" by (cases bm)
      show ?thesis
      proof (cases "m < providedBy g required c")
        case greater: True
        with True Some bm "2.IH"(4) show ?thesis
          by (fastforce simp: Let_def split: option.splits prod.splits)
      next
        case notgreater: False
        with True Some bm "2.IH"(5) "2.prems" show ?thesis
          by (fastforce simp: Let_def split: option.splits prod.splits)
      qed
    qed
  qed
qed

lemma bestGeometry_chosen:
  assumes "bestGeometry_loop cmp g required None (allowedMigGeometries g) = Some (b, n)"
  shows "b \<in> set (allowedMigGeometries g)" "eligible cmp g b" "n = providedBy g required b" "0 < n"
    "c \<in> set (allowedMigGeometries g) \<Longrightarrow> eligible cmp g c \<Longrightarrow> providedBy g required c \<le> n"
proof -
  have "b \<in> set (allowedMigGeometries g) \<and> eligible cmp g b \<and> n = providedBy g required b"
    by (rule bestGeometry_loop_spec [OF assms]) auto
  then show "b \<in> set (allowedMigGeometries g)" "eligible cmp g b" "n = providedBy g required b" by auto
  show "0 < n" "c \<in> set (allowedMigGeometries g) \<Longrightarrow> eligible cmp g c \<Longrightarrow> providedBy g required c \<le> n"
    using bestGeometry_loop_max [where best = None and cmp = cmp and g = g and required = required
        and candidates = "allowedMigGeometries g"] assms by auto
qed

lemma UpdateGeometryFor_cases:
  assumes "GPU_UpdateGeometryFor cmp g required = (updated, g')"
  obtains "\<not> updated" "g' = g"
  | b n where "updated" "bestGeometry_loop cmp g required None (allowedMigGeometries g) = Some (b, n)"
      "g' = snd (GPU_ApplyGeometry cmp g b)"
  using assms by (auto simp: GPU_UpdateGeometryFor_def split: option.splits if_splits)

lemma UpdateGeometryFor_used: "usedMigDevices (snd (GPU_UpdateGeometryFor cmp g required)) = usedMigDevices g"
  by (simp add: GPU_UpdateGeometryFor_def ApplyGeometry_frame split: option.splits prod.splits)

lemma UpdateGeometryFor_index: "gpuIndex (snd (GPU_UpdateGeometryFor cmp g required)) = gpuIndex g"
  by (simp add: GPU_UpdateGeometryFor_def ApplyGeometry_frame split: option.splits prod.splits)

lemma UpdateGeometryFor_ok:
  assumes "gpu_ok g" "cmp_map_law cmp"
  shows "gpu_ok (snd (GPU_UpdateGeometryFor cmp g required))"
proof (cases "GPU_UpdateGeometryFor cmp g required")
  case (Pair u g')
  then show ?thesis
  proof (elim UpdateGeometryFor_cases)
    fix b n
    assume b: "bestGeometry_loop cmp g required None (allowedMigGeometries g) = Some (b, n)"
      "g' = snd (GPU_ApplyGeometry cmp g b)"
    with bestGeometry_chosen(1) [OF b(1)] assms have "gm_ok b" by (auto simp: gpu_ok_def)
    with assms b Pair show ?thesis by (simp add: ApplyGeometry_ok)
  qed (use assms Pair in simp)
qed

section \<open>Moving devices between used and free\<close>

lemma addPod_loop_frame:
  "gpuIndex (snd (addPod_loop g l)) = gpuIndex g" "gpuModel (snd (addPod_loop g l)) = gpuModel g"
  "allowedMigGeometries (snd (addPod_loop g l)) = allowedMigGeometries g"
  by (induction g l rule: addPod_loop.induct) simp_all

lemma addPod_loop_conserves:
  "used_of (snd (addPod_loop g l)) p + free_of (snd (addPod_loop g l)) p = used_of g p + free_of g p"
  by (induction g l rule: addPod_loop.induct) (auto simp: gomap_simps)

lemma addPod_loop_ok: "\<forall>(p, q)\<in>set l. 0 \<le> q \<Longrightarrow> gpu_ok g \<Longrightarrow> gpu_ok (snd (addPod_loop g l))"
proof (induction g l rule: addPod_loop.induct)
  case (2 g r q l)
  then show ?case by (auto simp: gpu_ok_def gomap_ok gomap_simps)
qed simp

lemma addPod_loop_success:
  "gm_ok l \<Longrightarrow> fst (addPod_loop g l) = None \<longleftrightarrow> (\<forall>(p, q)\<in>set l. q \<le> free_of g p)"
proof (induction g l rule: addPod_loop.induct)
  case (2 g r q l)
  let ?g = "g\<lparr>freeMigDevices := gm_add r (- q) (freeMigDevices g), usedMigDevices := gm_add r q (usedMigDevices g)\<rparr>"
  have "free_of ?g p = free_of g p" if "(p, x) \<in> set l" for p x
    using that "2.prems" by (force simp: gomap_simps gm_ok_Cons)
  then have "(\<forall>(p, x)\<in>set l. x \<le> free_of ?g p) \<longleftrightarrow> (\<forall>(p, x)\<in>set l. x \<le> free_of g p)" by fastforce
  with "2" show ?case by (auto simp: gm_ok_Cons)
qed simp

lemma addPod_loop_effect:
  "gm_ok l \<Longrightarrow> fst (addPod_loop g l) = None \<Longrightarrow>
   used_of (snd (addPod_loop g l)) p = used_of g p + gm_get l p \<and>
   free_of (snd (addPod_loop g l)) p = free_of g p - gm_get l p"
proof (induction g l rule: addPod_loop.induct)
  case (2 g r q l)
  then have "\<not> gm_has l r" by (simp add: gm_ok_Cons gm_has_iff)
  then have "gm_get l r = 0" by (rule gm_get_not_has)
  with "2" show ?case by (auto simp: gm_ok_Cons gm_get_Cons gomap_simps split: if_splits)
qed simp

lemma release_loop_frame:
  "gpuIndex (release_loop g l) = gpuIndex g" "gpuModel (release_loop g l) = gpuModel g"
  "allowedMigGeometries (release_loop g l) = allowedMigGeometries g"
  by (induction g l rule: release_loop.induct) (simp_all add: Let_def)

lemma release_loop_effect:
  "gm_ok l \<Longrightarrow>
   used_of (release_loop g l) p = used_of g p - gm_get l p \<and> free_of (release_loop g l) p = free_of g p + gm_get l p"
proof (induction g l rule: release_loop.induct)
  case (2 g r q l)
  then have "\<not> gm_has l r" by (simp add: gm_ok_Cons gm_has_iff)
  then have "gm_get l r = 0" by (rule gm_get_not_has)
  with "2" show ?case by (auto simp: gm_ok_Cons gm_get_Cons gomap_simps Let_def)
qed simp

lemma release_loop_keys:
  "gm_ok (usedMigDevices g) \<Longrightarrow> gm_ok (freeMigDevices g) \<Longrightarrow>
   gm_ok (usedMigDevices (release_loop g l)) \<and> gm_ok (freeMigDevices (release_loop g l))"
  by (induction g l rule: release_loop.induct) (simp_all add: Let_def gomap_ok)

lemma ReleaseProfiles_success:
  "gm_ok l \<Longrightarrow> fst (GPU_ReleaseProfiles g l) \<longleftrightarrow> (\<forall>(p, q)\<in>set l. q \<le> used_of g p)"
  by (fastforce simp: GPU_ReleaseProfiles_def list_ex_iff not_less split: if_splits)

lemma entries_le_iff:
  assumes "gm_ok l" "\<forall>p. 0 \<le> f p"
  shows "(\<forall>(p, q)\<in>set l. q \<le> f p) \<longleftrightarrow> (\<forall>p. gm_get l p \<le> f p)"
proof
  assume r: "\<forall>(p, q)\<in>set l. q \<le> f p"
  show "\<forall>p. gm_get l p \<le> f p"
  proof
    fix p
    show "gm_get l p \<le> f p"
    proof (cases "map_of l p")
      case (Some q)
      then have "(p, q) \<in> set l" by (rule map_of_SomeD)
      with r Some show ?thesis by (auto simp: gm_get_def)
    qed (use assms(2) in \<open>simp add: gm_get_def\<close>)
  qed
next
  assume "\<forall>p. gm_get l p \<le> f p"
  then show "\<forall>(p, q)\<in>set l. q \<le> f p" using gm_get_entry [OF assms(1)] by fastforce
qed

lemma ReleaseProfiles_ok:
  assumes "gpu_ok g" "gm_ok l" "\<forall>p. 0 \<le> gm_get l p"
  shows "gpu_ok (snd (GPU_ReleaseProfiles g l))"
proof (cases "fst (GPU_ReleaseProfiles g l)")
  case True
  with assms have "\<forall>p. gm_get l p \<le> used_of g p"
    by (simp add: ReleaseProfiles_success entries_le_iff gpu_ok_def)
  moreover from True have "snd (GPU_ReleaseProfiles g l) = release_loop g l"
    by (simp add: GPU_ReleaseProfiles_def split: if_splits)
  ultimately show ?thesis
    using assms release_loop_keys [of g l]
    by (simp add: gpu_ok_def release_loop_frame release_loop_effect)
next
  case False
  then show ?thesis using assms(1) by (simp add: GPU_ReleaseProfiles_def split: if_splits)
qed

section \<open>Reachable states\<close>

text \<open>
  The states a GPU can be in after it was built from a node: any sequence of the operations that
  change it, with any arguments the callers can pass (geometries are maps, requests name no
  negative quantity).
\<close>

inductive gpu_step :: "('ni, 'q) k8sLib \<Rightarrow> (Geometry \<Rightarrow> Geometry \<Rightarrow> bool) \<Rightarrow> GPU \<Rightarrow> GPU \<Rightarrow> bool" for K cmp where
  apply_geometry: "gm_ok geometry \<Longrightarrow> gpu_step K cmp g (snd (GPU_ApplyGeometry cmp g geometry))"
| init_geometry: "gpu_step K cmp g (snd (GPU_InitGeometry cmp g))"
| update_geometry: "gpu_step K cmp g (snd (GPU_UpdateGeometryFor cmp g required))"
| add_pod: "\<forall>(p, q)\<in>set (GetRequestedProfiles K pod). 0 \<le> q \<Longrightarrow> gpu_step K cmp g (snd (GPU_AddPod K g pod))"
| release: "gm_ok l \<Longrightarrow> \<forall>p. 0 \<le> gm_get l p \<Longrightarrow> gpu_step K cmp g (snd (GPU_ReleaseProfiles g l))"
| clone: "gpu_step K cmp g (GPU_Clone g)"

inductive gpu_reachable :: "('ni, 'q) k8sLib \<Rightarrow> (Geometry \<Rightarrow> Geometry \<Rightarrow> bool) \<Rightarrow> GPU \<Rightarrow> GPU \<Rightarrow> bool" for K cmp g0 where
  start: "gpu_reachable K cmp g0 g0"
| step: "gpu_reachable K cmp g0 g \<Longrightarrow> gpu_step K cmp g g' \<Longrightarrow> gpu_reachable K cmp g0 g'"

lemma InitGeometry_ok:
  assumes "gpu_ok g" "cmp_map_law cmp"
  shows "gpu_ok (snd (GPU_InitGeometry cmp g))"
proof (cases "GetFewestSlicesGeometry (allowedMigGeometries g)")
  case (Some l)
  then have "allowedMigGeometries g \<noteq> []" by auto
  with Some GetFewestSlicesGeometry_min have "l \<in> set (allowedMigGeometries g)" by fastforce
  with assms have "gm_ok l" by (auto simp: gpu_ok_def)
  with Some assms show ?thesis by (simp add: GPU_InitGeometry_def ApplyGeometry_ok split: option.splits)
qed (use assms in \<open>simp add: GPU_InitGeometry_def\<close>)

lemma gpu_step_ok: "gpu_step K cmp g g' \<Longrightarrow> cmp_map_law cmp \<Longrightarrow> gpu_ok g \<Longrightarrow> gpu_ok g'"
  by (induction rule: gpu_step.induct)
    (simp_all add: ApplyGeometry_ok InitGeometry_ok UpdateGeometryFor_ok ReleaseProfiles_ok Clone_same
      addPod_loop_ok GPU_AddPod_def)

lemma ApplyGeometry_allowed:
  "allowedMigGeometries (snd (GPU_InitGeometry cmp g)) = allowedMigGeometries g"
  "allowedMigGeometries (snd (GPU_UpdateGeometryFor cmp g required)) = allowedMigGeometries g"
  by (simp_all add: GPU_InitGeometry_def GPU_UpdateGeometryFor_def ApplyGeometry_frame split: option.splits prod.splits)

lemma gpu_step_allowed: "gpu_step K cmp g g' \<Longrightarrow> allowedMigGeometries g' = allowedMigGeometries g"
  by (induction rule: gpu_step.induct)
    (simp_all add: ApplyGeometry_frame ApplyGeometry_allowed addPod_loop_frame GPU_AddPod_def GPU_ReleaseProfiles_def
      release_loop_frame GPU_Clone_def)

section \<open>Properties\<close>

text \<open>An A100 with two used and one free small devices, for the witnesses.\<close>

definition sample_gpu :: GPU where
  "sample_gpu =
     \<lparr>gpuIndex = 0, gpuModel = GPUModel_A100_SXM4_40GB,
      allowedMigGeometries = the (map_of knownMigGeometries GPUModel_A100_SXM4_40GB),
      usedMigDevices = [(Profile1g5gb, 2)], freeMigDevices = [(Profile1g5gb, 1), (Profile4g20gb, 1)]\<rparr>"

definition empty_gpu :: "Model \<Rightarrow> GPU" where
  "empty_gpu model =
     \<lparr>gpuIndex = 0, gpuModel = model, allowedMigGeometries = the (map_of knownMigGeometries model),
      usedMigDevices = [], freeMigDevices = []\<rparr>"

lemma known_models:
  "map_of knownMigGeometries GPUModel_A100_SXM4_40GB \<noteq> None" "map_of knownMigGeometries GPUModel_A30 \<noteq> None"
  by (simp_all add: knownMigGeometries_def GPUModel_A100_SXM4_40GB_def GPUModel_A30_def GPUModel_A100_PCIe_80GB_def)

lemma known_gpu_ok:
  assumes "map_of knownMigGeometries m \<noteq> None" "gm_ok u" "gm_ok f" "\<forall>p. 0 \<le> gm_get u p" "\<forall>p. 0 \<le> gm_get f p"
  shows "gpu_ok \<lparr>gpuIndex = i, gpuModel = m, allowedMigGeometries = the (map_of knownMigGeometries m),
      usedMigDevices = u, freeMigDevices = f\<rparr>"
  using assms known_ok_allowed [OF known_default_ok]
  by (auto simp: gpu_ok_def GetAllowedGeometries_def GetKnownGeometries_def)

lemma sample_gpu_ok: "gpu_ok sample_gpu" "gpu_ok (empty_gpu GPUModel_A100_SXM4_40GB)"
  unfolding sample_gpu_def empty_gpu_def
  by (intro known_gpu_ok known_models; simp add: gm_ok_def profile_consts gm_get_Cons)+

text \<open>C6: Applying a geometry that the GPU accepts gives the GPU exactly that geometry, leaves every
  used device in place, and keeps the invariant.\<close>

theorem apply_geometry_sound:
  assumes "gpu_ok g" "cmp_map_law cmp" "gm_ok geometry" "GPU_ApplyGeometry cmp g geometry = (None, g')"
  shows "(\<forall>s. gm_get (GPU_GetGeometry g') s = gm_get geometry s) \<and>
    usedMigDevices g' = usedMigDevices g \<and> gpu_ok g'"
proof -
  from assms(4) have "GPU_CanApplyGeometry cmp g geometry = None"
    by (simp add: GPU_ApplyGeometry_def split: option.splits)
  with assms show ?thesis
    using ApplyGeometry_geometry [of g cmp geometry] ApplyGeometry_frame(1) [of cmp g geometry]
      ApplyGeometry_ok [of g cmp geometry] by simp
qed

theorem apply_geometry_sound_witness:
  "let r = GPU_ApplyGeometry gm_equal sample_gpu (geo [(Profile2g10gb, 1), (Profile1g5gb, 5)]) in
   fst r = None \<and> gm_get (GPU_GetGeometry (snd r)) (MigProfile Profile1g5gb) = 5 \<and>
   usedMigDevices (snd r) = [(Profile1g5gb, 2)]"
proof -
  let ?geo = "geo [(Profile2g10gb, 1), (Profile1g5gb, 5)]"
  let ?r = "GPU_ApplyGeometry gm_equal sample_gpu ?geo"
  have f: "fst ?r = None" by code_simp
  then have "?r = (None, snd ?r)" by (metis prod.collapse)
  moreover have "gm_ok ?geo" by (simp add: gm_ok_def profile_consts)
  ultimately have "(\<forall>s. gm_get (GPU_GetGeometry (snd ?r)) s = gm_get ?geo s) \<and>
      usedMigDevices (snd ?r) = usedMigDevices sample_gpu \<and> gpu_ok (snd ?r)"
    using apply_geometry_sound [OF sample_gpu_ok(1), of gm_equal] by simp
  then show ?thesis using f by (simp add: Let_def sample_gpu_def gm_get_Cons profile_consts)
qed

text \<open>C23: \<^verbatim>\<open>ApplyGeometry\<close> succeeds exactly when the geometry is one the model allows and has room for
  every used device; in every other case it returns an error and leaves the GPU as it was.\<close>

theorem apply_geometry_accepts_iff:
  assumes "gpu_ok g" "cmp_map_law cmp"
  shows "(fst (GPU_ApplyGeometry cmp g geometry) = None \<longleftrightarrow>
      (\<exists>a\<in>set (allowedMigGeometries g). map_of geometry = map_of a) \<and>
      (\<forall>p. used_of g p \<le> gm_get geometry (MigProfile p))) \<and>
    (fst (GPU_ApplyGeometry cmp g geometry) \<noteq> None \<longrightarrow> snd (GPU_ApplyGeometry cmp g geometry) = g)"
  using CanApply_iff [OF assms, of geometry] by (auto simp: GPU_ApplyGeometry_def Let_def split: option.splits)

theorem apply_geometry_accepts_iff_witness:
  "fst (GPU_ApplyGeometry gm_equal sample_gpu (geo [(Profile7g40gb, 1)])) \<noteq> None \<and>
   snd (GPU_ApplyGeometry gm_equal sample_gpu (geo [(Profile7g40gb, 1)])) = sample_gpu"
proof -
  have "fst (GPU_ApplyGeometry gm_equal sample_gpu (geo [(Profile7g40gb, 1)])) \<noteq> None" by code_simp
  moreover have "cmp_map_law (gm_equal :: Geometry \<Rightarrow> Geometry \<Rightarrow> bool)" by simp
  ultimately show ?thesis using apply_geometry_accepts_iff [OF sample_gpu_ok(1)] by blast
qed

text \<open>C14: When \<^verbatim>\<open>UpdateGeometryFor\<close> reports an update, the GPU has one of its allowed geometries, one that
  it could accept and that provides at least as many of the required profiles as any other
  candidate it considers, and no used device was touched; when it reports none, nothing changed.\<close>

theorem update_geometry_best:
  assumes "gpu_ok g" "cmp_map_law cmp" "GPU_UpdateGeometryFor cmp g required = (updated, g')"
  shows "if updated then
      (\<exists>best\<in>set (allowedMigGeometries g). eligible cmp g best \<and> 0 < providedBy g required best \<and>
        (\<forall>c\<in>set (allowedMigGeometries g). eligible cmp g c \<longrightarrow> providedBy g required c \<le> providedBy g required best) \<and>
        (\<forall>s. gm_get (GPU_GetGeometry g') s = gm_get best s)) \<and>
      usedMigDevices g' = usedMigDevices g \<and> gpu_ok g'
    else g' = g"
  using assms(3)
proof (cases rule: UpdateGeometryFor_cases)
  case (2 b n)
  note chosen = bestGeometry_chosen [OF 2(2)]
  from chosen(1) assms(1) have "gm_ok b" by (auto simp: gpu_ok_def)
  moreover from chosen(2) have "GPU_CanApplyGeometry cmp g b = None" by (simp add: eligible_def)
  ultimately have "\<forall>s. gm_get (GPU_GetGeometry g') s = gm_get b s" "gpu_ok g'"
    using 2(3) assms ApplyGeometry_geometry [of g cmp b] ApplyGeometry_ok [of g cmp b] by simp_all
  with chosen 2(1,3) show ?thesis by (auto simp: ApplyGeometry_frame)
qed simp

theorem update_geometry_best_witness:
  "let r = GPU_UpdateGeometryFor gm_equal sample_gpu [(MigProfile Profile2g10gb, 1)] in
   fst r \<and> usedMigDevices (snd r) = usedMigDevices sample_gpu \<and> gpu_ok (snd r)"
proof -
  let ?r = "GPU_UpdateGeometryFor gm_equal sample_gpu [(MigProfile Profile2g10gb, 1)]"
  have f: "fst ?r" by code_simp
  have "?r = (fst ?r, snd ?r)" by simp
  from update_geometry_best [OF sample_gpu_ok(1) _ this] f show ?thesis by (simp add: Let_def)
qed

text \<open>C15: From a GPU in order, every sequence of operations (applying, initialising and updating the
  geometry, adding pods, releasing profiles, cloning) reaches only GPUs with no negative count of
  used or free devices, with the same allowed geometries.\<close>

theorem gpu_reachable_ok:
  assumes "gpu_reachable K cmp g0 g" "gpu_ok g0" "cmp_map_law cmp"
  shows "gpu_ok g \<and> allowedMigGeometries g = allowedMigGeometries g0"
  using assms by (induction rule: gpu_reachable.induct) (auto simp: gpu_step_ok gpu_step_allowed)

theorem gpu_reachable_ok_witness:
  "gpu_ok (snd (GPU_InitGeometry gm_equal (empty_gpu GPUModel_A100_SXM4_40GB)))"
proof -
  have "gpu_reachable int_k8s gm_equal (empty_gpu GPUModel_A100_SXM4_40GB)
      (snd (GPU_InitGeometry gm_equal (empty_gpu GPUModel_A100_SXM4_40GB)))"
    by (rule gpu_reachable.step [OF gpu_reachable.start gpu_step.init_geometry])
  from gpu_reachable_ok [OF this sample_gpu_ok(2)] show ?thesis by simp
qed

text \<open>C24: Adding a pod succeeds exactly when the GPU has a free device for every profile the pod requests,
  moves exactly the requested devices from free to used, and never changes the geometry.\<close>

theorem add_pod_moves_devices:
  assumes "gpu_ok g" "\<forall>p. 0 \<le> gm_get (GetRequestedProfiles K pod) p"
  shows "(fst (GPU_AddPod K g pod) = None \<longleftrightarrow> (\<forall>p. gm_get (GetRequestedProfiles K pod) p \<le> free_of g p)) \<and>
    (fst (GPU_AddPod K g pod) = None \<longrightarrow>
      (\<forall>p. used_of (snd (GPU_AddPod K g pod)) p = used_of g p + gm_get (GetRequestedProfiles K pod) p \<and>
           free_of (snd (GPU_AddPod K g pod)) p = free_of g p - gm_get (GetRequestedProfiles K pod) p)) \<and>
    (\<forall>s. gm_get (GPU_GetGeometry (snd (GPU_AddPod K g pod))) s = gm_get (GPU_GetGeometry g) s)"
proof -
  let ?l = "GetRequestedProfiles K pod" let ?g' = "snd (GPU_AddPod K g pod)"
  have entries: "\<forall>(p, q)\<in>set ?l. 0 \<le> q"
    using assms(2) gm_get_entry [OF GetRequestedProfiles_ok] by fastforce
  then have ok: "gpu_ok ?g'" using assms(1) by (simp add: GPU_AddPod_def addPod_loop_ok)
  have "gm_get (GPU_GetGeometry ?g') s = gm_get (GPU_GetGeometry g) s" for s
    using ok assms(1) addPod_loop_conserves [of g ?l]
    by (cases s) (simp_all add: GetGeometry_get GetGeometry_slicing GPU_AddPod_def)
  moreover have "fst (GPU_AddPod K g pod) = None \<longleftrightarrow> (\<forall>p. gm_get ?l p \<le> free_of g p)"
    using assms(1) by (simp add: GPU_AddPod_def addPod_loop_success entries_le_iff gpu_ok_def)
  ultimately show ?thesis
    using addPod_loop_effect [of ?l g] by (simp add: GPU_AddPod_def)
qed

lemma sample_request:
  "GetRequestedProfiles int_k8s (pod_requesting ''p'' [(''nvidia.com/mig-1g.5gb'', 1), (''cpu'', 4)]) = [(Profile1g5gb, 1)]"
  by code_simp

theorem add_pod_moves_devices_witness:
  "let pod = pod_requesting ''p'' [(''nvidia.com/mig-1g.5gb'', 1), (''cpu'', 4)] in
   fst (GPU_AddPod int_k8s sample_gpu pod) = None \<and> used_of (snd (GPU_AddPod int_k8s sample_gpu pod)) Profile1g5gb = 3"
proof -
  let ?pod = "pod_requesting ''p'' [(''nvidia.com/mig-1g.5gb'', 1), (''cpu'', 4)]"
  have req: "gm_get (GetRequestedProfiles int_k8s ?pod) p = (if p = Profile1g5gb then 1 else 0)" for p
    by (simp add: sample_request gm_get_Cons)
  have free: "\<forall>p. gm_get (GetRequestedProfiles int_k8s ?pod) p \<le> free_of sample_gpu p"
    by (simp add: req sample_gpu_def gm_get_Cons profile_consts)
  have "fst (GPU_AddPod int_k8s sample_gpu ?pod) = None \<and>
      used_of (snd (GPU_AddPod int_k8s sample_gpu ?pod)) Profile1g5gb = used_of sample_gpu Profile1g5gb + 1"
    using add_pod_moves_devices [OF sample_gpu_ok(1), of int_k8s ?pod] free req by simp
  then show ?thesis by (simp add: Let_def sample_gpu_def gm_get_Cons)
qed

text \<open>C25: Releasing the profiles of a pod that was added gives back the GPU's used and free devices as
  they were before the pod.\<close>

theorem add_release_roundtrip:
  assumes "gpu_ok g" "\<forall>p. 0 \<le> gm_get (GetRequestedProfiles K pod) p" "GPU_AddPod K g pod = (None, g')"
  shows "fst (GPU_ReleaseProfiles g' (GetRequestedProfiles K pod)) \<and>
    (\<forall>p. used_of (snd (GPU_ReleaseProfiles g' (GetRequestedProfiles K pod))) p = used_of g p \<and>
         free_of (snd (GPU_ReleaseProfiles g' (GetRequestedProfiles K pod))) p = free_of g p)"
proof -
  let ?l = "GetRequestedProfiles K pod"
  have eff: "used_of g' p = used_of g p + gm_get ?l p" "free_of g' p = free_of g p - gm_get ?l p" for p
    using addPod_loop_effect [of ?l g p] assms(3) by (simp_all add: GPU_AddPod_def)
  have "\<forall>(p, q)\<in>set ?l. q \<le> used_of g' p"
    using gm_get_entry [OF GetRequestedProfiles_ok] eff(1) assms(1) by (fastforce simp: gpu_ok_def)
  then have "fst (GPU_ReleaseProfiles g' ?l)" by (simp add: ReleaseProfiles_success)
  then show ?thesis
    using release_loop_effect [of ?l g'] eff by (auto simp: GPU_ReleaseProfiles_def split: if_splits)
qed

theorem add_release_roundtrip_witness:
  "let pod = pod_requesting ''p'' [(''nvidia.com/mig-1g.5gb'', 1), (''cpu'', 4)];
       g' = snd (GPU_AddPod int_k8s sample_gpu pod) in
   fst (GPU_ReleaseProfiles g' (GetRequestedProfiles int_k8s pod)) \<and>
   used_of (snd (GPU_ReleaseProfiles g' (GetRequestedProfiles int_k8s pod))) Profile1g5gb = 2"
proof -
  let ?pod = "pod_requesting ''p'' [(''nvidia.com/mig-1g.5gb'', 1), (''cpu'', 4)]"
  have "fst (GPU_AddPod int_k8s sample_gpu ?pod) = None"
    by (simp add: GPU_AddPod_def sample_request sample_gpu_def gm_get_Cons profile_consts)
  then have "GPU_AddPod int_k8s sample_gpu ?pod = (None, snd (GPU_AddPod int_k8s sample_gpu ?pod))"
    by (metis prod.collapse)
  from add_release_roundtrip [OF sample_gpu_ok(1) _ this] show ?thesis
    by (simp add: Let_def sample_request gm_get_Cons sample_gpu_def)
qed

text \<open>A GPU with no used devices whose model is known is initialised without error, to the first of
  the allowed geometries with the fewest different profiles.\<close>

lemma init_geometry_idle:
  assumes "gpu_ok g" "cmp_map_law cmp" "allowedMigGeometries g \<noteq> []" "\<forall>p. used_of g p = 0"
  shows "\<exists>largest\<in>set (allowedMigGeometries g). fst (GPU_InitGeometry cmp g) = None \<and>
    (\<forall>a\<in>set (allowedMigGeometries g). length largest \<le> length a) \<and>
    (\<forall>s. gm_get (GPU_GetGeometry (snd (GPU_InitGeometry cmp g))) s = gm_get largest s)"
proof -
  obtain l where l: "GetFewestSlicesGeometry (allowedMigGeometries g) = Some l" "l \<in> set (allowedMigGeometries g)"
    "\<forall>a\<in>set (allowedMigGeometries g). length l \<le> length a"
    using GetFewestSlicesGeometry_min [OF assms(3)] by blast
  then have ok: "gm_ok l" "geometry_ok l" using assms(1) by (auto simp: gpu_ok_def)
  have can: "GPU_CanApplyGeometry cmp g l = None"
    using l(2) assms geometry_ok_nonneg [OF ok(2)] by (auto simp: CanApply_iff)
  then have "GPU_InitGeometry cmp g = GPU_ApplyGeometry cmp g l" by (simp add: GPU_InitGeometry_def l(1))
  with can l ok assms(1,2) show ?thesis
    by (auto simp: ApplyGeometry_geometry GPU_ApplyGeometry_def [of cmp g l] Let_def
        intro!: bexI [of _ l] dest: ApplyGeometry_geometry)
qed

lemma init_geometry_idle_applied:
  "fst (GPU_InitGeometry gm_equal (empty_gpu GPUModel_A100_SXM4_40GB)) = None"
  using init_geometry_idle [OF sample_gpu_ok(2), of gm_equal]
  by (simp add: empty_gpu_def knownMigGeometries_def GPUModel_A100_SXM4_40GB_def GPUModel_A30_def)

text \<open>A profile stays in the map of free devices when its last device is taken, so the GPU still counts as free.\<close>

lemma exhausted_gpu_has_free:
  "addPod_loop (g\<lparr>usedMigDevices := [], freeMigDevices := [(p, 1)]\<rparr>) [(p, 1)] =
     (None, g\<lparr>usedMigDevices := [(p, 1)], freeMigDevices := [(p, 0)]\<rparr>)"
  "GPU_HasFreeMigDevices (g\<lparr>usedMigDevices := [(p, 1)], freeMigDevices := [(p, 0)]\<rparr>)"
  by (simp_all add: GPU_HasFreeMigDevices_def gm_add_def gm_put_def gm_get_def)

end
