(* ===== verification/NodeLoops.thy ===== *)
theory NodeLoops
  imports GpuCore
begin

text \<open>
  The loops that the nodes of the packages \<^verbatim>\<open>pkg/gpu/mig\<close> and \<^verbatim>\<open>pkg/gpu/slicing\<close> (both node.go) share:
  they run an operation of the GPU type over the node's GPUs.  The GPU's operations are arguments; the
  locales say what a node relies on, and the two GPU types interpret them.

  The source ranges over \<^verbatim>\<open>n.GPUs\<close> by value; the copy shares the device maps with the slice's element,
  and the GPU operations write through them, so the node ends up with the updated GPUs.
\<close>

section \<open>Loops\<close>

text \<open>The free devices of a GPU are taken from what is still required.\<close>

fun consume :: "('s, int) gomap \<Rightarrow> ('s, int) gomap \<Rightarrow> ('s, int) gomap" where
  "consume required [] = required"
| "consume required ((profile, quantity) # free) =
     (let required' = gm_add profile (- quantity) required in
      consume (if gm_get required' profile \<le> 0 then gm_del profile required' else required') free)"

fun updateGPUs ::
  "('g \<Rightarrow> ('s, int) gomap \<Rightarrow> bool \<times> 'g) \<Rightarrow> ('g \<Rightarrow> ('s, int) gomap) \<Rightarrow> ('s, int) gomap \<Rightarrow> 'g list \<Rightarrow> bool \<times> 'g list" where
  "updateGPUs upd free required [] = (False, [])"
| "updateGPUs upd free required (g # gpus) =
     (let (updated, g') = upd g required;
          (anyGpuUpdated, gpus') = updateGPUs upd free (consume required (free g')) gpus
      in (updated \<or> anyGpuUpdated, g' # gpus'))"

text \<open>The first GPU that takes the pod; the GPUs tried before it keep what the failed attempt left.\<close>

fun addPodToGPUs :: "('g \<Rightarrow> 'p \<Rightarrow> 'e option \<times> 'g) \<Rightarrow> 'p \<Rightarrow> 'g list \<Rightarrow> bool \<times> 'g list" where
  "addPodToGPUs add pod [] = (False, [])"
| "addPodToGPUs add pod (g # gpus) =
     (case add g pod of
        (None, g') \<Rightarrow> (True, g' # gpus)
      | (Some _, g') \<Rightarrow> (let (ok, gpus') = addPodToGPUs add pod gpus in (ok, g' # gpus')))"

fun sumGeometries :: "('g \<Rightarrow> ('s, int) gomap) \<Rightarrow> ('s, int) gomap \<Rightarrow> 'g list \<Rightarrow> ('s, int) gomap" where
  "sumGeometries geometry res [] = res"
| "sumGeometries geometry res (g # gpus) = sumGeometries geometry (gm_add_all res (geometry g)) gpus"

text \<open>
  The node's scalar resources: those of other kinds as they were, and one per slice of the node's
  geometry.
\<close>

definition scalarResources ::
  "(ResourceName \<Rightarrow> bool) \<Rightarrow> ('s \<Rightarrow> ResourceName) \<Rightarrow> (ResourceName, int) gomap \<Rightarrow> ('s, int) gomap \<Rightarrow> (ResourceName, int) gomap" where
  "scalarResources isSlice asResource current geometry =
     gm_put_all (gm_put_all [] (filter (\<lambda>(r, _). \<not> isSlice r) current)) (map (\<lambda>(s, q). (asResource s, q)) geometry)"

text \<open>The device maps of a GPU, read from its status annotations.\<close>

fun annotated_devices ::
  "(string, int) gomap \<Rightarrow> (string, int) gomap \<Rightarrow> StatusAnnotation list \<Rightarrow>
   (string, int) gomap \<times> (string, int) gomap" where
  "annotated_devices used free [] = (used, free)"
| "annotated_devices used free (a # annotations) =
     annotated_devices
       (if StatusAnnotation_IsUsed a then gm_put (stProfileName a) (stQuantity a) used else used)
       (if StatusAnnotation_IsFree a then gm_put (stProfileName a) (stQuantity a) free else free)
       annotations"

section \<open>Facts about the loops\<close>

lemma updateGPUs_Cons:
  "updateGPUs upd free required (g # gpus) =
     (let rest = updateGPUs upd free (consume required (free (snd (upd g required)))) gpus
      in (fst (upd g required) \<or> fst rest, snd (upd g required) # snd rest))"
  by (simp add: Let_def case_prod_beta)

lemma length_updateGPUs [simp]: "length (snd (updateGPUs upd free required gpus)) = length gpus"
  by (induction gpus arbitrary: required) (simp_all add: updateGPUs_Cons Let_def del: updateGPUs.simps(2))

lemma length_addPodToGPUs [simp]: "length (snd (addPodToGPUs add pod gpus)) = length gpus"
  by (induction add pod gpus rule: addPodToGPUs.induct) (auto split: prod.splits option.splits)

lemma gm_ok_consume [gomap_ok]: "gm_ok required \<Longrightarrow> gm_ok (consume required free)"
  by (induction required free rule: consume.induct) (simp_all add: Let_def gomap_ok)

lemma consume_get:
  "gm_ok free \<Longrightarrow> gm_get (consume required free) s =
     (if gm_has free s then max 0 (gm_get required s - gm_get free s) else gm_get required s)"
proof (induction required free rule: consume.induct)
  case (2 required profile quantity free)
  then have "gm_ok free" "profile \<notin> fst ` set free" by (simp_all add: gm_ok_Cons)
  with "2" show ?case by (auto simp: Let_def gomap_simps gm_get_Cons gm_has_Cons gm_has_iff)
qed simp

lemma gm_ok_sumGeometries [gomap_ok]: "gm_ok res \<Longrightarrow> gm_ok (sumGeometries geometry res gpus)"
  by (induction geometry res gpus rule: sumGeometries.induct) (simp_all add: gomap_ok)

lemma sumGeometries_get:
  "\<forall>g\<in>set gpus. gm_ok (geometry g) \<Longrightarrow>
   gm_get (sumGeometries geometry res gpus) s = gm_get res s + (\<Sum>g\<leftarrow>gpus. gm_get (geometry g) s)"
  by (induction geometry res gpus rule: sumGeometries.induct) (simp_all add: gomap_simps)

lemma sumGeometries_keys:
  "gm_has (sumGeometries geometry res gpus) s \<longleftrightarrow> gm_has res s \<or> (\<exists>g\<in>set gpus. gm_has (geometry g) s)"
  by (induction geometry res gpus rule: sumGeometries.induct) (auto simp: gomap_simps)

text \<open>Every GPU of the updated node is the update of the GPU at its place, for some requirement.\<close>

lemma updateGPUs_each:
  "list_all2 (\<lambda>g g'. \<exists>r. g' = snd (upd g r)) gpus (snd (updateGPUs upd free required gpus))"
  by (induction gpus arbitrary: required) (auto simp: updateGPUs_Cons Let_def simp del: updateGPUs.simps(2))

lemma addPodToGPUs_each:
  "list_all2 (\<lambda>g g'. g' = g \<or> g' = snd (add g pod)) gpus (snd (addPodToGPUs add pod gpus))"
  by (induction add pod gpus rule: addPodToGPUs.induct)
    (auto split: prod.splits option.splits intro: list_all2_refl)

lemma addPodToGPUs_success:
  "fst (addPodToGPUs add pod gpus) \<longleftrightarrow> (\<exists>g\<in>set gpus. fst (add g pod) = None)"
  by (induction add pod gpus rule: addPodToGPUs.induct) (auto split: prod.splits option.splits)

lemma gm_ok_renamed:
  assumes "gm_ok l" "inj_on f {s. gm_has l s}"
  shows "gm_ok (map (\<lambda>(s, q). (f s, q)) l)"
  using assms by (auto simp: gm_ok_def gm_has_iff distinct_map split_def comp_def intro: inj_on_subset dest: comp_inj_on)

lemma map_of_renamed:
  "inj_on f (insert s {s. gm_has l s}) \<Longrightarrow> map_of (map (\<lambda>(s, q). (f s, q)) l) (f s) = map_of l s"
proof (induction l)
  case (Cons e l)
  have "inj_on f (insert s {s. gm_has l s})"
    using Cons.prems by (rule inj_on_subset) (auto simp: gm_has_iff)
  then have "map_of (map (\<lambda>(s, q). (f s, q)) l) (f s) = map_of l s" by (rule Cons.IH)
  moreover have "f (fst e) = f s \<longleftrightarrow> fst e = s"
    using inj_on_eq_iff [OF Cons.prems, of "fst e" s] by (simp add: gm_has_iff)
  ultimately show ?case by (auto simp: split_def)
qed simp

lemma scalarResources_other:
  assumes "gm_ok current" "gm_ok geometry" "inj_on asResource {s. gm_has geometry s}" "\<not> isSlice r"
    "\<forall>s. gm_has geometry s \<longrightarrow> isSlice (asResource s)"
  shows "gm_get (scalarResources isSlice asResource current geometry) r = gm_get current r"
proof -
  have "map_of (map (\<lambda>(s, q). (asResource s, q)) geometry) r = None"
    using assms(4,5) by (force simp: map_of_eq_None_iff gm_has_iff)
  with gm_ok_renamed [OF assms(2,3)] assms(1,4) show ?thesis
    by (simp add: scalarResources_def gm_get_def gomap_simps gomap_ok filter_map_of_gm split: option.splits)
qed

lemma scalarResources_slice:
  assumes "gm_ok geometry" "inj_on asResource {s. gm_has geometry s}" "gm_has geometry s"
  shows "gm_get (scalarResources isSlice asResource current geometry) (asResource s) = gm_get geometry s"
proof -
  have "insert s {s. gm_has geometry s} = {s. gm_has geometry s}" using assms(3) by blast
  with assms gm_ok_renamed [OF assms(1,2)] show ?thesis
    by (auto simp: scalarResources_def gm_get_def gm_has_def gomap_simps map_of_renamed)
qed

section \<open>Device maps from annotations\<close>

lemma annotated_devices_ok:
  assumes "gm_ok used" "gm_ok free" "\<forall>p. 0 \<le> gm_get used p" "\<forall>p. 0 \<le> gm_get free p"
    "\<forall>a\<in>set as. 0 \<le> stQuantity a"
  shows "gm_ok (fst (annotated_devices used free as)) \<and> gm_ok (snd (annotated_devices used free as)) \<and>
    (\<forall>p. 0 \<le> gm_get (fst (annotated_devices used free as)) p) \<and>
    (\<forall>p. 0 \<le> gm_get (snd (annotated_devices used free as)) p)"
  using assms
  by (induction as arbitrary: used free) (simp_all add: gomap_ok gomap_simps)

text \<open>One annotation per profile and status: the device maps hold exactly the annotated quantities.\<close>

definition annotated :: "(StatusAnnotation \<Rightarrow> bool) \<Rightarrow> StatusAnnotation list \<Rightarrow> string \<Rightarrow> int" where
  "annotated P as p = (\<Sum>a\<leftarrow>as. if P a \<and> stProfileName a = p then stQuantity a else 0)"

lemma annotated_none: "\<forall>a\<in>set as. \<not> (P a \<and> stProfileName a = p) \<Longrightarrow> annotated P as p = 0"
  by (induction as) (auto simp: annotated_def)

lemma annotated_devices_get:
  assumes "distinct (map (\<lambda>a. (stProfileName a, stStatus a)) as)"
  shows "gm_get (fst (annotated_devices used free as)) p =
      (if \<exists>a\<in>set as. StatusAnnotation_IsUsed a \<and> stProfileName a = p
       then annotated StatusAnnotation_IsUsed as p else gm_get used p) \<and>
    gm_get (snd (annotated_devices used free as)) p =
      (if \<exists>a\<in>set as. StatusAnnotation_IsFree a \<and> stProfileName a = p
       then annotated StatusAnnotation_IsFree as p else gm_get free p)"
  using assms
proof (induction as arbitrary: used free)
  case (Cons a as)
  then have IH: "distinct (map (\<lambda>a. (stProfileName a, stStatus a)) as)" by simp
  have once: "\<not> (\<exists>b\<in>set as. stProfileName b = stProfileName a \<and> stStatus b = stStatus a)"
    using Cons.prems by (fastforce simp: image_iff)
  have no: "annotated P as (stProfileName a) = 0" if "P a" "\<And>b. P b \<longleftrightarrow> stStatus b = stStatus a" for P
    using once that by (intro annotated_none) auto
  have used: "StatusAnnotation_IsUsed a \<Longrightarrow> annotated StatusAnnotation_IsUsed as (stProfileName a) = 0"
    and free: "StatusAnnotation_IsFree a \<Longrightarrow> annotated StatusAnnotation_IsFree as (stProfileName a) = 0"
    by (auto intro!: no simp: StatusAnnotation_IsUsed_def StatusAnnotation_IsFree_def)
  show ?case
    using Cons.IH [OF IH] used free once
    by (auto simp: annotated_def gomap_simps StatusAnnotation_IsUsed_def StatusAnnotation_IsFree_def)
qed simp

lemma annotated_concat: "annotated P (concat ass) p = (\<Sum>as\<leftarrow>ass. annotated P as p)"
  by (induction ass) (simp_all add: annotated_def)

lemma annotated_mset: "mset as = mset bs \<Longrightarrow> annotated P as p = annotated P bs p"
  unfolding annotated_def by (subst (1 2) sum_mset_sum_list [symmetric]) simp

lemma annotated_groups: "(\<Sum>(i, as)\<leftarrow>group_by f all. annotated P as p) = annotated P all p"
proof -
  have "(\<Sum>(i, as)\<leftarrow>group_by f all. annotated P as p) = annotated P (concat (map snd (group_by f all))) p"
    by (simp add: annotated_concat split_def comp_def)
  also have "\<dots> = annotated P all p" by (rule annotated_mset) simp
  finally show ?thesis .
qed

definition one_per_status :: "StatusAnnotation list \<Rightarrow> bool" where
  "one_per_status as \<longleftrightarrow> distinct (map (\<lambda>a. (stIndex a, stProfileName a, stStatus a)) as)"

lemma one_per_status_group:
  assumes "one_per_status all"
  shows "distinct (map (\<lambda>a. (stProfileName a, stStatus a)) (filter (\<lambda>a. stIndex a = i) all))"
  using assms by (induction all) (auto simp: one_per_status_def image_iff)

section \<open>What a node relies on\<close>

locale partitionable_gpu =
  fixes inv :: "'g \<Rightarrow> bool"
    and upd :: "'g \<Rightarrow> ('s, int) gomap \<Rightarrow> bool \<times> 'g"
    and geometry :: "'g \<Rightarrow> ('s, int) gomap"
    and free :: "'g \<Rightarrow> ('s, int) gomap"
    and used :: "'g \<Rightarrow> 's \<Rightarrow> int"
  assumes upd_inv: "inv g \<Longrightarrow> inv (snd (upd g r))"
    and upd_used: "inv g \<Longrightarrow> used (snd (upd g r)) = used g"
    and geometry_ok: "inv g \<Longrightarrow> gm_ok (geometry g)"
    and geometry_split: "inv g \<Longrightarrow> gm_get (geometry g) s = used g s + gm_get (free g) s"
begin

lemma updateGPUs_inv:
  "list_all inv gpus \<Longrightarrow> list_all inv (snd (updateGPUs upd free required gpus))"
  by (induction gpus arbitrary: required)
    (simp_all add: updateGPUs_Cons Let_def upd_inv del: updateGPUs.simps(2))

lemma updateGPUs_used:
  "list_all inv gpus \<Longrightarrow> map used (snd (updateGPUs upd free required gpus)) = map used gpus"
  by (induction gpus arbitrary: required)
    (simp_all add: updateGPUs_Cons Let_def upd_used del: updateGPUs.simps(2))

lemma total_geometry:
  assumes "list_all inv gpus"
  shows "gm_get (sumGeometries geometry [] gpus) s = (\<Sum>g\<leftarrow>gpus. used g s) + (\<Sum>g\<leftarrow>gpus. gm_get (free g) s)"
proof -
  have "gm_get (sumGeometries geometry [] gpus) s = (\<Sum>g\<leftarrow>gpus. gm_get (geometry g) s)"
    using assms by (simp add: sumGeometries_get geometry_ok list_all_iff)
  also have "\<dots> = (\<Sum>g\<leftarrow>gpus. used g s + gm_get (free g) s)"
    using assms by (intro arg_cong [where f = sum_list] map_cong) (simp_all add: geometry_split list_all_iff)
  finally show ?thesis by (simp add: sum_list_addf)
qed

text \<open>What is used on the node is still part of its geometry after an update.\<close>

lemma update_keeps_used:
  assumes "list_all inv gpus" "\<forall>g. inv g \<longrightarrow> (\<forall>s. 0 \<le> gm_get (free g) s)"
  shows "(\<Sum>g\<leftarrow>gpus. used g s) \<le> gm_get (sumGeometries geometry [] (snd (updateGPUs upd free required gpus))) s"
proof -
  let ?gpus = "snd (updateGPUs upd free required gpus)"
  have inv: "list_all inv ?gpus" by (rule updateGPUs_inv [OF assms(1)])
  have "0 \<le> (\<Sum>g\<leftarrow>?gpus. gm_get (free g) s)"
    using inv assms(2) by (intro sum_list_nonneg_int) (simp add: list_all_iff)
  moreover have "map (\<lambda>g. used g s) ?gpus = map (\<lambda>g. used g s) gpus"
    using arg_cong [OF updateGPUs_used [OF assms(1)], of "map (\<lambda>f. f s)" required] by (simp add: comp_def)
  ultimately show ?thesis using total_geometry [OF inv, of s] by simp
qed

end

text \<open>A GPU that reports no update is unchanged.\<close>

locale exact_gpu = partitionable_gpu +
  assumes upd_same: "\<not> fst (upd g r) \<Longrightarrow> snd (upd g r) = g"
begin

lemma updateGPUs_same: "\<not> fst (updateGPUs upd free required gpus) \<Longrightarrow> snd (updateGPUs upd free required gpus) = gpus"
  by (induction gpus arbitrary: required)
    (auto simp: updateGPUs_Cons Let_def upd_same simp del: updateGPUs.simps(2))

end

end
