(* ===== verification/MigNode.thy ===== *)
theory MigNode
  imports MigGpu NodeLoops
begin

text \<open>
  Package \<^verbatim>\<open>pkg/gpu/mig\<close>, node.go: a cluster node with its MIG GPUs, built from the node's labels and
  status annotations, and the operations of the partitioner on it.  \<open>K\<close> holds the functions of the
  Kubernetes libraries, \<open>cmp\<close> is \<^verbatim>\<open>cmp.Equal\<close> on geometries and \<open>known\<close> the package variable with the
  known geometries.
\<close>

section \<open>Definitions\<close>

record 'ni MigNode =
  nodeName :: string
  nodeInfo :: 'ni
  GPUs :: "GPU list"

datatype nodeError = NilNode | BadLabel labelError | BadGPU migError | NotEnoughFreeMigDevices

fun gpus_from_annotations ::
  "knownState \<Rightarrow> Model \<Rightarrow> (int, StatusAnnotation list) gomap \<Rightarrow> migError + GPU list" where
  "gpus_from_annotations known model [] = Inr []"
| "gpus_from_annotations known model ((gpuIdx, gpuAnnotations) # groups) =
     (let (used, free) = annotated_devices [] [] gpuAnnotations in
      case NewGPU known model gpuIdx used free of
        Inl e \<Rightarrow> Inl e
      | Inr g \<Rightarrow>
          (case gpus_from_annotations known model groups of
             Inl e \<Rightarrow> Inl e
           | Inr gpus \<Rightarrow> Inr (g # gpus)))"

fun missing_gpus :: "knownState \<Rightarrow> Model \<Rightarrow> int list \<Rightarrow> migError + GPU list" where
  "missing_gpus known model [] = Inr []"
| "missing_gpus known model (i # is) =
     (case NewGPU known model i [] [] of
        Inl e \<Rightarrow> Inl e
      | Inr g \<Rightarrow> (case missing_gpus known model is of Inl e \<Rightarrow> Inl e | Inr gpus \<Rightarrow> Inr (g # gpus)))"

text \<open>The indexes of the missing GPUs start at the number of GPUs found in the annotations.\<close>

definition extractGPUs :: "knownState \<Rightarrow> 'q Node \<Rightarrow> Model \<Rightarrow> int \<Rightarrow> migError + GPU list" where
  "extractGPUs known node model gpuCount =
     (case gpus_from_annotations known model (StatusAnnotationList_GroupByGpuIndex (fst (ParseNodeAnnotations node))) of
        Inl e \<Rightarrow> Inl e
      | Inr result \<Rightarrow>
          (case missing_gpus known model [int (length result)..gpuCount - 1] of
             Inl e \<Rightarrow> Inl e
           | Inr missing \<Rightarrow> Inr (result @ missing)))"

definition NewNode :: "('ni, 'q) k8sLib \<Rightarrow> knownState \<Rightarrow> 'ni \<Rightarrow> nodeError + 'ni MigNode" where
  "NewNode K known n =
     (case nodeInfoNode K n of
        None \<Rightarrow> Inl NilNode
      | Some node \<Rightarrow>
          (case GetModel node of
             Inl e \<Rightarrow> Inl (BadLabel e)
           | Inr model \<Rightarrow>
               (case GetCount node of
                  Inl e \<Rightarrow> Inl (BadLabel e)
                | Inr gpuCount \<Rightarrow>
                    (case extractGPUs known node model gpuCount of
                       Inl e \<Rightarrow> Inl (BadGPU e)
                     | Inr gpus \<Rightarrow> Inr \<lparr>nodeName = Name node, nodeInfo = n, GPUs = gpus\<rparr>))))"

definition Node_Geometry :: "'ni MigNode \<Rightarrow> Geometry" where
  "Node_Geometry n = sumGeometries GPU_GetGeometry [] (GPUs n)"

definition Node_HasFreeCapacity :: "(Geometry \<Rightarrow> Geometry \<Rightarrow> bool) \<Rightarrow> 'ni MigNode \<Rightarrow> bool" where
  "Node_HasFreeCapacity cmp n \<longleftrightarrow>
     (if GPUs n = [] then False
      else list_ex (\<lambda>g. GPU_HasFreeMigDevices g \<or> \<not> GPU_AllowsGeometry cmp g (GPU_GetGeometry g)) (GPUs n))"

text \<open>
  The type assertion of \<^verbatim>\<open>computeScalarResources\<close> takes the profile's name; every slice of a node's
  geometry is a MIG profile (lemma \<open>Node_Geometry_mig\<close>), so it does not panic.
\<close>

definition computeScalarResources :: "('ni, 'q) k8sLib \<Rightarrow> 'ni MigNode \<Rightarrow> (ResourceName, int) gomap" where
  "computeScalarResources K n =
     scalarResources IsNvidiaMigDevice (\<lambda>s. AsResourceName (Slice_String s))
       (allocatableScalarResources K (nodeInfo n)) (Node_Geometry n)"

definition Node_UpdateGeometryFor ::
  "('ni, 'q) k8sLib \<Rightarrow> (Geometry \<Rightarrow> Geometry \<Rightarrow> bool) \<Rightarrow> 'ni MigNode \<Rightarrow> (Slice, int) gomap \<Rightarrow> bool \<times> 'ni MigNode" where
  "Node_UpdateGeometryFor K cmp n slices =
     (if GPUs n = [] then (False, n)
      else if slices = [] then (False, n)
      else
        let requiredProfiles = gm_put_all [] slices;
            (anyGpuUpdated, gpus) =
              updateGPUs (GPU_UpdateGeometryFor cmp) (\<lambda>g. geo (freeMigDevices g)) requiredProfiles (GPUs n);
            n' = n\<lparr>GPUs := gpus\<rparr>;
            resources = computeScalarResources K n'
        in (anyGpuUpdated, n'\<lparr>nodeInfo := setAllocatableScalarResources K resources (nodeInfo n')\<rparr>))"

definition Node_AddPod :: "('ni, 'q) k8sLib \<Rightarrow> 'ni MigNode \<Rightarrow> 'q Pod \<Rightarrow> nodeError option \<times> 'ni MigNode" where
  "Node_AddPod K n pod =
     (let (ok, gpus) = addPodToGPUs (GPU_AddPod K) pod (GPUs n) in
      if ok then (None, n\<lparr>GPUs := gpus, nodeInfo := nodeInfoAddPod K pod (nodeInfo n)\<rparr>)
      else (Some NotEnoughFreeMigDevices, n\<lparr>GPUs := gpus\<rparr>))"

definition Node_Clone :: "('ni, 'q) k8sLib \<Rightarrow> 'ni MigNode \<Rightarrow> 'ni MigNode" where
  "Node_Clone K n =
     \<lparr>nodeName = nodeName n, nodeInfo = nodeInfoClone K (nodeInfo n), GPUs = map GPU_Clone (GPUs n)\<rparr>"

definition Node_FreeGeometry :: "'ni MigNode \<Rightarrow> Geometry" where
  "Node_FreeGeometry n = sumGeometries (\<lambda>g. geo (freeMigDevices g)) [] (GPUs n)"

text \<open>
  The inner loop over the GPUs: \<open>None\<close> is the early \<^verbatim>\<open>return false\<close>, otherwise what remains to be
  released; in both cases the GPUs as they are then.
\<close>

fun releaseFromGPUs :: "ProfileName \<Rightarrow> int \<Rightarrow> GPU list \<Rightarrow> int option \<times> GPU list" where
  "releaseFromGPUs profile remaining [] = (Some remaining, [])"
| "releaseFromGPUs profile remaining (g # gpus) =
     (let available = gm_get (usedMigDevices g) profile in
      if available = 0 then
        (let (r, gpus') = releaseFromGPUs profile remaining gpus in (r, g # gpus'))
      else
        let toRelease = Min_go available remaining;
            (ok, g') = GPU_ReleaseProfiles g [(profile, toRelease)] in
        if \<not> ok then (None, g' # gpus)
        else if remaining - toRelease = 0 then (Some 0, g' # gpus)
        else (let (r, gpus') = releaseFromGPUs profile (remaining - toRelease) gpus in (r, g' # gpus')))"

fun releaseProfiles_loop :: "GPU list \<Rightarrow> (ProfileName, int) gomap \<Rightarrow> bool \<times> GPU list" where
  "releaseProfiles_loop gpus [] = (True, gpus)"
| "releaseProfiles_loop gpus ((profile, quantity) # profiles) =
     (case releaseFromGPUs profile quantity gpus of
        (None, gpus') \<Rightarrow> (False, gpus')
      | (Some remaining, gpus') \<Rightarrow>
          (if remaining > 0 then (False, gpus') else releaseProfiles_loop gpus' profiles))"

definition Node_ReleaseProfiles :: "'ni MigNode \<Rightarrow> (ProfileName, int) gomap \<Rightarrow> bool \<times> 'ni MigNode" where
  "Node_ReleaseProfiles n profiles =
     (let (ok, gpus) = releaseProfiles_loop (GPUs n) profiles in (ok, n\<lparr>GPUs := gpus\<rparr>))"

section \<open>Invariant\<close>

definition node_ok :: "'ni MigNode \<Rightarrow> bool" where
  "node_ok n \<longleftrightarrow> list_all gpu_ok (GPUs n)"

text \<open>The number of used (free) devices of a profile on a list of GPUs.\<close>

definition total_used :: "GPU list \<Rightarrow> ProfileName \<Rightarrow> int" where
  "total_used gpus p = (\<Sum>g\<leftarrow>gpus. used_of g p)"

definition total_free :: "GPU list \<Rightarrow> ProfileName \<Rightarrow> int" where
  "total_free gpus p = (\<Sum>g\<leftarrow>gpus. free_of g p)"

lemma total_simps [simp]:
  "total_used [] p = 0" "total_used (g # gpus) p = used_of g p + total_used gpus p"
  "total_free [] p = 0" "total_free (g # gpus) p = free_of g p + total_free gpus p"
  by (simp_all add: total_used_def total_free_def)

lemma total_used_nonneg: "list_all gpu_ok gpus \<Longrightarrow> 0 \<le> total_used gpus p"
  by (induction gpus) (auto simp: gpu_ok_def)

lemma total_free_nonneg: "list_all gpu_ok gpus \<Longrightarrow> 0 \<le> total_free gpus p"
  by (induction gpus) (auto simp: gpu_ok_def)

section \<open>The GPUs of a node\<close>

lemma GPU_update_same: "\<not> fst (GPU_UpdateGeometryFor cmp g r) \<Longrightarrow> snd (GPU_UpdateGeometryFor cmp g r) = g"
  by (auto simp: GPU_UpdateGeometryFor_def split: option.splits prod.splits if_splits)

interpretation mig_gpu: exact_gpu gpu_ok "GPU_UpdateGeometryFor gm_equal" GPU_GetGeometry
  "\<lambda>g. geo (freeMigDevices g)" "\<lambda>g s. gm_get (geo (usedMigDevices g)) s"
proof
  fix g r s
  assume ok: "gpu_ok g"
  show "gpu_ok (snd (GPU_UpdateGeometryFor gm_equal g r))" using ok by (simp add: UpdateGeometryFor_ok)
  show "(\<lambda>s. gm_get (geo (usedMigDevices (snd (GPU_UpdateGeometryFor gm_equal g r)))) s) =
      (\<lambda>s. gm_get (geo (usedMigDevices g)) s)" by (simp add: UpdateGeometryFor_used)
  show "gm_ok (GPU_GetGeometry g)" by simp
  show "gm_get (GPU_GetGeometry g) s = gm_get (geo (usedMigDevices g)) s + gm_get (geo (freeMigDevices g)) s"
    using ok by (cases s) (simp_all add: GetGeometry_get GetGeometry_slicing geo_get geo_get_slicing)
qed (rule GPU_update_same)

lemma total_geo:
  "(\<Sum>g\<leftarrow>gpus. gm_get (geo (usedMigDevices g)) (MigProfile p)) = total_used gpus p"
  "(\<Sum>g\<leftarrow>gpus. gm_get (geo (freeMigDevices g)) (MigProfile p)) = total_free gpus p"
  by (simp_all add: total_used_def total_free_def geo_get)

lemma Node_Geometry_get:
  "node_ok n \<Longrightarrow> gm_get (Node_Geometry n) (MigProfile p) = total_used (GPUs n) p + total_free (GPUs n) p"
  by (simp add: Node_Geometry_def node_ok_def mig_gpu.total_geometry total_geo)

lemma Node_FreeGeometry_get:
  "node_ok n \<Longrightarrow> gm_get (Node_FreeGeometry n) (MigProfile p) = total_free (GPUs n) p"
  by (subst Node_FreeGeometry_def, subst sumGeometries_get)
    (auto simp: node_ok_def list_all_iff total_geo gpu_ok_def geo_ok)

lemma gm_has_geo_slicing: "\<not> gm_has (geo l) (SlicingProfile p)"
  by (auto simp: gm_has_iff)

lemma Node_Geometry_mig:
  "gm_has (Node_Geometry n) s \<Longrightarrow> \<exists>p. s = MigProfile p"
  by (cases s) (auto simp: Node_Geometry_def sumGeometries_keys GPU_GetGeometry_def gomap_simps gm_has_geo_slicing)

lemma Clone_ok: "node_ok n \<Longrightarrow> node_ok (Node_Clone K n)"
  by (simp add: node_ok_def Node_Clone_def list_all_iff Clone_same)

lemma Clone_total:
  "node_ok n \<Longrightarrow> total_used (GPUs (Node_Clone K n)) p = total_used (GPUs n) p"
  "node_ok n \<Longrightarrow> total_free (GPUs (Node_Clone K n)) p = total_free (GPUs n) p"
  by (auto simp: node_ok_def Node_Clone_def list_all_iff Clone_same total_used_def total_free_def comp_def
      intro!: arg_cong [where f = sum_list] map_cong)

section \<open>Releasing profiles\<close>

text \<open>The same number of devices per profile, whatever their status.\<close>

definition same_devices :: "GPU \<Rightarrow> GPU \<Rightarrow> bool" where
  "same_devices g g' \<longleftrightarrow> gpuIndex g' = gpuIndex g \<and> (\<forall>p. used_of g' p + free_of g' p = used_of g p + free_of g p)"

lemma same_devices_refl [simp]: "same_devices g g"
  by (simp add: same_devices_def)

lemma same_devices_trans: "same_devices a b \<Longrightarrow> same_devices b c \<Longrightarrow> same_devices a c"
  by (simp add: same_devices_def)

lemma release_one:
  assumes "gpu_ok g" "0 \<le> q" "q \<le> used_of g p"
  shows "fst (GPU_ReleaseProfiles g [(p, q)])" (is ?ok)
    and "gpu_ok (snd (GPU_ReleaseProfiles g [(p, q)]))"
    and "used_of (snd (GPU_ReleaseProfiles g [(p, q)])) p' = used_of g p' - (if p' = p then q else 0)"
    and "free_of (snd (GPU_ReleaseProfiles g [(p, q)])) p' = free_of g p' + (if p' = p then q else 0)"
    and "same_devices g (snd (GPU_ReleaseProfiles g [(p, q)]))"
proof -
  have l: "gm_ok [(p, q)]" by (simp add: gm_ok_def)
  show ok: ?ok using assms(3) by (simp add: GPU_ReleaseProfiles_def)
  then have eq: "snd (GPU_ReleaseProfiles g [(p, q)]) = release_loop g [(p, q)]"
    by (simp add: GPU_ReleaseProfiles_def split: if_splits)
  note eff = release_loop_effect [OF l, of g]
  show "gpu_ok (snd (GPU_ReleaseProfiles g [(p, q)]))"
    using assms by (intro ReleaseProfiles_ok) (simp_all add: gm_ok_def gm_get_Cons)
  show "used_of (snd (GPU_ReleaseProfiles g [(p, q)])) p' = used_of g p' - (if p' = p then q else 0)"
    "free_of (snd (GPU_ReleaseProfiles g [(p, q)])) p' = free_of g p' + (if p' = p then q else 0)"
    unfolding eq using eff [of p'] by (simp_all add: gm_get_Cons)
  show "same_devices g (snd (GPU_ReleaseProfiles g [(p, q)]))"
    unfolding eq same_devices_def using eff by (simp add: release_loop_frame del: release_loop.simps)
qed

lemma releaseFromGPUs_spec:
  assumes "list_all gpu_ok gpus" "0 \<le> q"
  shows "fst (releaseFromGPUs p q gpus) = Some (q - min q (total_used gpus p)) \<and>
    list_all gpu_ok (snd (releaseFromGPUs p q gpus)) \<and>
    (\<forall>p'. total_used (snd (releaseFromGPUs p q gpus)) p' =
       total_used gpus p' - (if p' = p then min q (total_used gpus p) else 0)) \<and>
    list_all2 same_devices gpus (snd (releaseFromGPUs p q gpus))"
  using assms
proof (induction gpus arbitrary: q)
  case (Cons g gpus)
  let ?a = "used_of g p"
  have ok: "gpu_ok g" "list_all gpu_ok gpus" using Cons.prems(1) by simp_all
  then have nonneg: "0 \<le> ?a" "0 \<le> total_used gpus p" by (auto intro: total_used_nonneg)
  note rel = release_one [OF ok(1), of "Min_go ?a q" p]
  show ?case
  proof (cases "?a = 0")
    case True
    with Cons.IH [OF ok(2) Cons.prems(2)] ok show ?thesis
      by (simp add: Let_def case_prod_beta)
  next
    case False
    have m: "0 \<le> Min_go ?a q" "Min_go ?a q \<le> ?a" "Min_go ?a q \<le> q"
      using nonneg Cons.prems(2) by (simp_all add: Min_go_def)
    show ?thesis
    proof (cases "q \<le> ?a")
      case True
      then have "Min_go ?a q = q" by (simp add: Min_go_def)
      with False True rel m ok nonneg show ?thesis
        by (simp add: Let_def case_prod_beta list_all2_refl min_def)
    next
      case less: False
      then have a: "Min_go ?a q = ?a" "0 \<le> q - ?a" by (simp_all add: Min_go_def)
      have "min q (?a + total_used gpus p) = ?a + min (q - ?a) (total_used gpus p)" by (simp add: min_def)
      with False less rel m ok a Cons.IH [OF ok(2) a(2)] show ?thesis
        by (simp add: Let_def case_prod_beta)
    qed
  qed
qed simp

lemma same_devices_total:
  "list_all2 same_devices gpus gpus' \<Longrightarrow>
   total_used gpus' p + total_free gpus' p = total_used gpus p + total_free gpus p"
  by (induction rule: list_all2_induct) (auto simp: same_devices_def algebra_simps)

lemma releaseProfiles_loop_Cons:
  assumes "list_all gpu_ok gpus" "0 \<le> q"
  shows "releaseProfiles_loop gpus ((p, q) # profiles) =
    (if total_used gpus p < q then (False, snd (releaseFromGPUs p q gpus))
     else releaseProfiles_loop (snd (releaseFromGPUs p q gpus)) profiles)"
  using releaseFromGPUs_spec [OF assms, of p] by (cases "releaseFromGPUs p q gpus") auto

lemma releaseProfiles_loop_ok:
  assumes "list_all gpu_ok gpus" "\<forall>(p, q)\<in>set profiles. 0 \<le> q"
  shows "list_all gpu_ok (snd (releaseProfiles_loop gpus profiles)) \<and>
    list_all2 same_devices gpus (snd (releaseProfiles_loop gpus profiles))"
  using assms
proof (induction profiles arbitrary: gpus)
  case (Cons pq profiles)
  obtain p q where pq: "pq = (p, q)" by fastforce
  with Cons.prems have q: "0 \<le> q" by simp
  note spec = releaseFromGPUs_spec [OF Cons.prems(1) q, of p]
  have "list_all2 same_devices gpus (snd (releaseProfiles_loop (snd (releaseFromGPUs p q gpus)) profiles))"
    using Cons.IH [of "snd (releaseFromGPUs p q gpus)"] Cons.prems spec
    by (auto intro: list_all2_trans [OF same_devices_trans])
  with pq Cons.prems q spec Cons.IH [of "snd (releaseFromGPUs p q gpus)"] show ?case
    by (simp add: releaseProfiles_loop_Cons del: releaseProfiles_loop.simps)
qed (simp add: list_all2_refl)

lemma releaseProfiles_loop_effect:
  assumes "list_all gpu_ok gpus" "gm_ok profiles" "\<forall>(p, q)\<in>set profiles. 0 \<le> q"
  shows "(fst (releaseProfiles_loop gpus profiles) \<longleftrightarrow> (\<forall>(p, q)\<in>set profiles. q \<le> total_used gpus p)) \<and>
    (fst (releaseProfiles_loop gpus profiles) \<longrightarrow>
      (\<forall>p. total_used (snd (releaseProfiles_loop gpus profiles)) p = total_used gpus p - gm_get profiles p))"
  using assms
proof (induction profiles arbitrary: gpus)
  case (Cons pq profiles)
  obtain p q where pq: "pq = (p, q)" by fastforce
  with Cons.prems have q: "0 \<le> q" and p: "p \<notin> fst ` set profiles" "gm_ok profiles" by (simp_all add: gm_ok_Cons)
  let ?gpus = "snd (releaseFromGPUs p q gpus)"
  note spec = releaseFromGPUs_spec [OF Cons.prems(1) q, of p]
  have "total_used ?gpus p' = total_used gpus p'" if "p' \<in> fst ` set profiles" for p'
    using spec p that by auto
  then have same: "(\<forall>(p', q')\<in>set profiles. q' \<le> total_used ?gpus p') \<longleftrightarrow> (\<forall>(p', q')\<in>set profiles. q' \<le> total_used gpus p')"
    by force
  have "gm_get profiles p = 0" using p(1) by (simp add: gm_get_not_has gm_has_iff)
  with pq Cons.prems q spec same Cons.IH [of ?gpus] p show ?case
    by (auto simp: releaseProfiles_loop_Cons gm_get_Cons simp del: releaseProfiles_loop.simps)
qed simp

section \<open>Building a node\<close>

lemma gpus_from_annotations_each:
  assumes "gpus_from_annotations known model groups = Inr gpus"
  shows "list_all2 (\<lambda>(i, as) g. NewGPU known model i (fst (annotated_devices [] [] as)) (snd (annotated_devices [] [] as)) = Inr g)
    groups gpus"
  using assms
  by (induction groups arbitrary: gpus) (auto simp: Let_def case_prod_beta split: sum.splits prod.splits)

lemma missing_gpus_each:
  assumes "missing_gpus known model is = Inr gpus"
  shows "list_all2 (\<lambda>i g. NewGPU known model i [] [] = Inr g) is gpus"
  using assms by (induction "is" arbitrary: gpus) (auto split: sum.splits)

lemma NewGPU_fields:
  "NewGPU known model i used free = Inr g \<Longrightarrow>
   gpuIndex g = i \<and> gpuModel g = model \<and> usedMigDevices g = used \<and> freeMigDevices g = free"
  by (auto simp: NewGPU_def split: option.splits)

lemma missing_gpus_empty:
  "missing_gpus known model is = Inr gpus \<Longrightarrow> map gpuIndex gpus = is \<and> (\<forall>g\<in>set gpus. usedMigDevices g = [] \<and> freeMigDevices g = [])"
  by (induction "is" arbitrary: gpus) (auto split: sum.splits dest: NewGPU_fields)

lemma extractGPUs_ok:
  assumes "known_ok known" "extractGPUs known node model gpuCount = Inr gpus"
    "\<forall>a\<in>set (fst (ParseNodeAnnotations node)). 0 \<le> stQuantity a"
  shows "list_all gpu_ok gpus"
proof -
  let ?groups = "StatusAnnotationList_GroupByGpuIndex (fst (ParseNodeAnnotations node))"
  from assms(2) obtain annot missing where
    annot: "gpus_from_annotations known model ?groups = Inr annot" and
    missing: "missing_gpus known model [int (length annot)..gpuCount - 1] = Inr missing" and
    gpus: "gpus = annot @ missing"
    by (auto simp: extractGPUs_def split: sum.splits)
  have quantities: "\<forall>a\<in>set as. 0 \<le> stQuantity a" if "(i, as) \<in> set ?groups" for i as
    using that assms(3) by (auto simp: StatusAnnotationList_GroupByGpuIndex_def group_by_entry_iff)
  have "gpu_ok g" if g: "g \<in> set annot" for g
  proof -
    from gpus_from_annotations_each [OF annot] g obtain i as where
      e: "(i, as) \<in> set ?groups" and new: "NewGPU known model i (fst (annotated_devices [] [] as)) (snd (annotated_devices [] [] as)) = Inr g"
      by (fastforce simp: list_all2_conv_all_nth in_set_conv_nth)
    from annotated_devices_ok [OF _ _ _ _ quantities [OF e], of "[]" "[]"] show ?thesis
      by (intro NewGPU_ok [OF assms(1) new]) simp_all
  qed
  moreover have "gpu_ok g" if g: "g \<in> set missing" for g
  proof -
    from missing_gpus_each [OF missing] g obtain i where "NewGPU known model i [] [] = Inr g"
      by (fastforce simp: list_all2_conv_all_nth in_set_conv_nth)
    from NewGPU_ok [OF assms(1) this] show ?thesis by simp
  qed
  ultimately show ?thesis by (auto simp: gpus list_all_iff)
qed

lemma gpus_from_annotations_totals:
  assumes "gpus_from_annotations known model groups = Inr gpus"
    "\<forall>(i, as)\<in>set groups. distinct (map (\<lambda>a. (stProfileName a, stStatus a)) as)"
  shows "total_used gpus p = (\<Sum>(i, as)\<leftarrow>groups. annotated StatusAnnotation_IsUsed as p) \<and>
    total_free gpus p = (\<Sum>(i, as)\<leftarrow>groups. annotated StatusAnnotation_IsFree as p) \<and>
    map gpuIndex gpus = map fst groups"
  using gpus_from_annotations_each [OF assms(1)] assms(2)
proof (induction rule: list_all2_induct)
  case (Cons e groups g gpus)
  obtain i as where e: "e = (i, as)" by fastforce
  have "gm_get (fst (annotated_devices [] [] as)) p = annotated StatusAnnotation_IsUsed as p"
    "gm_get (snd (annotated_devices [] [] as)) p = annotated StatusAnnotation_IsFree as p"
    using Cons.prems e annotated_devices_get [of as "[]" "[]" p] by (auto simp: annotated_none)
  with Cons e show ?case by (auto dest: NewGPU_fields)
qed simp

lemma empty_totals:
  "\<forall>g\<in>set gpus. usedMigDevices g = [] \<and> freeMigDevices g = [] \<Longrightarrow> total_used gpus p = 0 \<and> total_free gpus p = 0"
  by (induction gpus) simp_all

lemma missing_totals:
  assumes "missing_gpus known model is = Inr gpus"
  shows "total_used gpus p = 0" "total_free gpus p = 0"
  using missing_gpus_empty [OF assms] empty_totals by blast+

lemma extractGPUs_totals:
  assumes "extractGPUs known node model gpuCount = Inr gpus" "one_per_status (fst (ParseNodeAnnotations node))"
  shows "total_used gpus p = annotated StatusAnnotation_IsUsed (fst (ParseNodeAnnotations node)) p"
    and "total_free gpus p = annotated StatusAnnotation_IsFree (fst (ParseNodeAnnotations node)) p"
    and "set (map gpuIndex gpus) =
      stIndex ` set (fst (ParseNodeAnnotations node)) \<union>
      {int (card (stIndex ` set (fst (ParseNodeAnnotations node))))..<gpuCount}"
proof -
  let ?all = "fst (ParseNodeAnnotations node)"
  let ?groups = "group_by stIndex ?all"
  from assms(1) obtain annot missing where
    annot: "gpus_from_annotations known model ?groups = Inr annot" and
    missing: "missing_gpus known model [int (length annot)..gpuCount - 1] = Inr missing" and
    gpus: "gpus = annot @ missing"
    by (auto simp: extractGPUs_def StatusAnnotationList_GroupByGpuIndex_def split: sum.splits)
  have "\<forall>(i, as)\<in>set ?groups. distinct (map (\<lambda>a. (stProfileName a, stStatus a)) as)"
    using one_per_status_group [OF assms(2)] by (auto simp: group_by_entry_iff)
  note tot = gpus_from_annotations_totals [OF annot this]
  show "total_used gpus p = annotated StatusAnnotation_IsUsed ?all p"
    "total_free gpus p = annotated StatusAnnotation_IsFree ?all p"
    using tot missing_totals [OF missing] annotated_groups [where f = stIndex and all = ?all]
    by (simp_all add: gpus total_used_def total_free_def)
  have "length annot = length ?groups" using tot by (metis length_map)
  also have "\<dots> = card (stIndex ` set ?all)"
    by (metis distinct_card distinct_keys_group_by keys_group_by length_map list.set_map)
  finally have len: "length annot = card (stIndex ` set ?all)" .
  have "set (map gpuIndex annot) = stIndex ` set ?all" using tot by (metis keys_group_by list.set_map)
  moreover have "set (map gpuIndex missing) = {int (length annot)..<gpuCount}"
    using missing_gpus_empty [OF missing] by (auto simp del: set_map)
  ultimately show "set (map gpuIndex gpus) = stIndex ` set ?all \<union> {int (card (stIndex ` set ?all))..<gpuCount}"
    by (simp add: gpus len)
qed

lemma NewNode_ok:
  assumes "known_ok known" "NewNode K known ni = Inr n" "nodeInfoNode K ni = Some node"
    "\<forall>a\<in>set (fst (ParseNodeAnnotations node)). 0 \<le> stQuantity a"
  shows "node_ok n"
  using assms extractGPUs_ok by (fastforce simp: NewNode_def node_ok_def split: sum.splits)

section \<open>Updating the geometry\<close>

lemma Node_UpdateGeometryFor_cases:
  obtains "Node_UpdateGeometryFor K cmp n slices = (False, n)" "GPUs n = [] \<or> slices = []"
  | "GPUs n \<noteq> []" "slices \<noteq> []"
    "fst (Node_UpdateGeometryFor K cmp n slices) =
      fst (updateGPUs (GPU_UpdateGeometryFor cmp) (\<lambda>g. geo (freeMigDevices g)) (gm_put_all [] slices) (GPUs n))"
    "GPUs (snd (Node_UpdateGeometryFor K cmp n slices)) =
      snd (updateGPUs (GPU_UpdateGeometryFor cmp) (\<lambda>g. geo (freeMigDevices g)) (gm_put_all [] slices) (GPUs n))"
proof (cases "GPUs n = [] \<or> slices = []")
  case True
  then show ?thesis by (intro that(1)) (auto simp: Node_UpdateGeometryFor_def)
next
  case False
  then show ?thesis by (intro that(2)) (auto simp: Node_UpdateGeometryFor_def Let_def case_prod_beta)
qed

lemma Node_Update_ok:
  "node_ok n \<Longrightarrow> node_ok (snd (Node_UpdateGeometryFor K gm_equal n slices))"
  by (cases rule: Node_UpdateGeometryFor_cases [of K gm_equal n slices])
    (simp_all add: node_ok_def mig_gpu.updateGPUs_inv)

lemma total_used_map: "total_used gpus p = sum_list (map (\<lambda>f. f (MigProfile p)) (map (\<lambda>g s. gm_get (geo (usedMigDevices g)) s) gpus))"
  by (simp add: total_used_def geo_get comp_def)

lemma Node_Update_used:
  "node_ok n \<Longrightarrow> total_used (GPUs (snd (Node_UpdateGeometryFor K gm_equal n slices))) p = total_used (GPUs n) p"
  by (cases rule: Node_UpdateGeometryFor_cases [of K gm_equal n slices])
    (simp_all add: node_ok_def total_used_map mig_gpu.updateGPUs_used del: map_map)

lemma Node_Update_same:
  "\<not> fst (Node_UpdateGeometryFor K gm_equal n slices) \<Longrightarrow> GPUs (snd (Node_UpdateGeometryFor K gm_equal n slices)) = GPUs n"
  by (cases rule: Node_UpdateGeometryFor_cases [of K gm_equal n slices])
    (simp_all add: mig_gpu.updateGPUs_same)

text \<open>A GPU whose geometry is one of its allowed geometries, as far as counts go.\<close>

definition in_allowed_geometry :: "GPU \<Rightarrow> bool" where
  "in_allowed_geometry g \<longleftrightarrow> (\<exists>a\<in>set (allowedMigGeometries g). \<forall>s. gm_get (GPU_GetGeometry g) s = gm_get a s)"

lemma GPU_Update_allowed:
  assumes "gpu_ok g"
  shows "snd (GPU_UpdateGeometryFor gm_equal g r) = g \<or> in_allowed_geometry (snd (GPU_UpdateGeometryFor gm_equal g r))"
proof -
  have "GPU_UpdateGeometryFor gm_equal g r = (fst (GPU_UpdateGeometryFor gm_equal g r), snd (GPU_UpdateGeometryFor gm_equal g r))"
    by simp
  then show ?thesis
  proof (cases rule: UpdateGeometryFor_cases)
    case (2 b n)
    note chosen = bestGeometry_chosen [OF 2(2)]
    from chosen(1) assms have "gm_ok b" by (auto simp: gpu_ok_def)
    moreover from chosen(2) have "GPU_CanApplyGeometry gm_equal g b = None" by (simp add: eligible_def)
    ultimately show ?thesis
      using 2(3) chosen(1) assms by (auto simp: in_allowed_geometry_def ApplyGeometry_geometry ApplyGeometry_frame)
  qed simp
qed

lemma Node_Update_each:
  assumes "node_ok n"
  shows "list_all2 (\<lambda>g g'. g' = g \<or> in_allowed_geometry g') (GPUs n) (GPUs (snd (Node_UpdateGeometryFor K gm_equal n slices)))"
proof (cases rule: Node_UpdateGeometryFor_cases [of K gm_equal n slices])
  case 2
  have "list_all2 (\<lambda>g g'. \<exists>r. g' = snd (GPU_UpdateGeometryFor gm_equal g r)) (GPUs n)
      (GPUs (snd (Node_UpdateGeometryFor K gm_equal n slices)))"
    unfolding "2"(4) by (rule updateGPUs_each)
  then show ?thesis
    using assms GPU_Update_allowed
    by (fastforce simp: list_all2_conv_all_nth node_ok_def list_all_length)
qed (simp add: list_all2_refl)

section \<open>Properties\<close>


definition sample_node :: "(int Node \<times> (ResourceName, int) gomap \<times> nat) MigNode" where
  "sample_node =
     \<lparr>nodeName = ''n1'',
      nodeInfo = (\<lparr>Name = ''n1'', Labels = [], Annotations = [], Taints = [], Capacity = [], Allocatable = []\<rparr>,
        [(''nvidia.com/mig-1g.5gb'', 3), (''cpu'', 8)], 0),
      GPUs = [sample_gpu, empty_gpu GPUModel_A100_SXM4_40GB]\<rparr>"

lemma sample_node_ok: "node_ok sample_node"
  by (simp add: node_ok_def sample_node_def sample_gpu_ok)


text \<open>C29: Releasing profiles on a node succeeds exactly when the node uses enough devices of each of them,
  and then turns exactly that many used devices into free ones; whether it succeeds or not, no
  GPU gains or loses a device and the node stays in order.\<close>

theorem node_release_exact:
  assumes "node_ok n" "gm_ok profiles" "\<forall>(p, q)\<in>set profiles. 0 \<le> q"
    "Node_ReleaseProfiles n profiles = (ok, n')"
  shows "(ok \<longleftrightarrow> (\<forall>(p, q)\<in>set profiles. q \<le> total_used (GPUs n) p)) \<and>
    (ok \<longrightarrow> (\<forall>p. total_used (GPUs n') p = total_used (GPUs n) p - gm_get profiles p \<and>
       total_free (GPUs n') p = total_free (GPUs n) p + gm_get profiles p)) \<and>
    node_ok n' \<and> list_all2 same_devices (GPUs n) (GPUs n')"
proof -
  have r: "ok = fst (releaseProfiles_loop (GPUs n) profiles)" "GPUs n' = snd (releaseProfiles_loop (GPUs n) profiles)"
    using assms(4) by (auto simp: Node_ReleaseProfiles_def Let_def case_prod_beta)
  have ok: "list_all gpu_ok (GPUs n)" using assms(1) by (simp add: node_ok_def)
  note eff = releaseProfiles_loop_effect [OF ok assms(2,3)] and inv = releaseProfiles_loop_ok [OF ok assms(3)]
  have "total_used (GPUs n') p + total_free (GPUs n') p = total_used (GPUs n) p + total_free (GPUs n) p" for p
    using inv by (simp add: r same_devices_total)
  then have "total_free (GPUs n') p = total_free (GPUs n) p + gm_get profiles p"
    if "total_used (GPUs n') p = total_used (GPUs n) p - gm_get profiles p" for p
    using that by (smt (verit))
  with eff inv show ?thesis by (simp add: r node_ok_def)
qed

theorem node_release_exact_witness:
  "let r = Node_ReleaseProfiles sample_node [(Profile1g5gb, 2)] in
   fst r \<and> total_used (GPUs (snd r)) Profile1g5gb = 0 \<and> total_free (GPUs (snd r)) Profile1g5gb = 3"
proof -
  let ?l = "[(Profile1g5gb, 2)]" let ?r = "Node_ReleaseProfiles sample_node ?l"
  have "?r = (fst ?r, snd ?r)" by simp
  from node_release_exact [OF sample_node_ok _ _ this]
  have "(fst ?r \<longleftrightarrow> 2 \<le> total_used (GPUs sample_node) Profile1g5gb) \<and>
    (fst ?r \<longrightarrow> total_used (GPUs (snd ?r)) Profile1g5gb = total_used (GPUs sample_node) Profile1g5gb - 2 \<and>
      total_free (GPUs (snd ?r)) Profile1g5gb = total_free (GPUs sample_node) Profile1g5gb + 2)"
    by (simp add: gm_ok_def gm_get_Cons)
  then show ?thesis by (simp add: Let_def sample_node_def sample_gpu_def empty_gpu_def gm_get_Cons)
qed


lemma mig_keysI:
  "list_all (\<lambda>(s, _). case s of MigProfile p \<Rightarrow> P p | SlicingProfile _ \<Rightarrow> True) l \<Longrightarrow> gm_has l (MigProfile p) \<Longrightarrow> P p"
  by (auto simp: list_all_iff gm_has_iff split: Slice.splits)


text \<open>A pod fits a node exactly when one GPU alone has a free device for everything the pod requests;
  adding it never changes the number of devices of any profile on any GPU, whether it succeeds or fails.\<close>

lemma node_add_pod_single_gpu:
  assumes "node_ok n" "\<forall>p. 0 \<le> gm_get (GetRequestedProfiles K pod) p" "Node_AddPod K n pod = (res, n')"
  shows "(res = None \<longleftrightarrow> (\<exists>g\<in>set (GPUs n). \<forall>p. gm_get (GetRequestedProfiles K pod) p \<le> free_of g p)) \<and>
    list_all2 same_devices (GPUs n) (GPUs n')"
proof -
  let ?l = "GetRequestedProfiles K pod"
  have r: "res = None \<longleftrightarrow> fst (addPodToGPUs (GPU_AddPod K) pod (GPUs n))"
    "GPUs n' = snd (addPodToGPUs (GPU_AddPod K) pod (GPUs n))"
    using assms(3) by (auto simp: Node_AddPod_def Let_def case_prod_beta split: if_splits)
  have "fst (GPU_AddPod K g pod) = None \<longleftrightarrow> (\<forall>p. gm_get ?l p \<le> free_of g p)" if "g \<in> set (GPUs n)" for g
    using that assms(1) by (simp add: GPU_AddPod_def addPod_loop_success entries_le_iff gpu_ok_def node_ok_def list_all_iff)
  moreover have "same_devices g (snd (GPU_AddPod K g pod))" for g
    using addPod_loop_conserves [of g ?l] by (simp add: same_devices_def GPU_AddPod_def addPod_loop_frame)
  then have "list_all2 same_devices (GPUs n) (GPUs n')"
    unfolding r(2) by (intro list_all2_mono [OF addPodToGPUs_each]) auto
  ultimately show ?thesis by (auto simp: r(1) addPodToGPUs_success)
qed

lemma node_add_pod_single_gpu_applied:
  "let pod = pod_requesting ''p'' [(''nvidia.com/mig-1g.5gb'', 1), (''cpu'', 4)] in
   fst (Node_AddPod int_k8s sample_node pod) = None"
proof -
  let ?pod = "pod_requesting ''p'' [(''nvidia.com/mig-1g.5gb'', 1), (''cpu'', 4)]"
  let ?r = "Node_AddPod int_k8s sample_node ?pod"
  have req: "gm_get (GetRequestedProfiles int_k8s ?pod) p = (if p = Profile1g5gb then 1 else 0)" for p
    by (simp add: sample_request gm_get_Cons)
  have "sample_gpu \<in> set (GPUs sample_node)" by (simp add: sample_node_def)
  moreover have "\<forall>p. gm_get (GetRequestedProfiles int_k8s ?pod) p \<le> free_of sample_gpu p"
    by (simp add: req sample_gpu_def gm_get_Cons profile_consts)
  moreover have "?r = (fst ?r, snd ?r)" by simp
  from node_add_pod_single_gpu [OF sample_node_ok _ this] req
  have "fst ?r = None \<longleftrightarrow> (\<exists>g\<in>set (GPUs sample_node). \<forall>p. gm_get (GetRequestedProfiles int_k8s ?pod) p \<le> free_of g p)"
    by simp
  ultimately show ?thesis unfolding Let_def by blast
qed

text \<open>C31: A node built from its status annotations uses and frees, of every profile, exactly the annotated
  quantities, is in order, and has one GPU per annotated index plus one per index from the
  number of annotated GPUs up to the labelled count.\<close>

theorem new_node_reads_annotations:
  assumes "known_ok known" "nodeInfoNode K ni = Some node" "NewNode K known ni = Inr n" "GetCount node = Inr gpuCount"
    "one_per_status (fst (ParseNodeAnnotations node))"
    "\<forall>a\<in>set (fst (ParseNodeAnnotations node)). 0 \<le> stQuantity a"
  shows "node_ok n \<and>
    (\<forall>p. total_used (GPUs n) p = annotated StatusAnnotation_IsUsed (fst (ParseNodeAnnotations node)) p \<and>
         total_free (GPUs n) p = annotated StatusAnnotation_IsFree (fst (ParseNodeAnnotations node)) p) \<and>
    gpuIndex ` set (GPUs n) =
      stIndex ` set (fst (ParseNodeAnnotations node)) \<union>
      {int (card (stIndex ` set (fst (ParseNodeAnnotations node))))..<gpuCount}"
proof -
  from assms(2,3,4) obtain model where e: "extractGPUs known node model gpuCount = Inr (GPUs n)"
    by (auto simp: NewNode_def split: sum.splits)
  show ?thesis
    using extractGPUs_totals [OF e assms(5)] NewNode_ok [OF assms(1,3,2,6)] by simp
qed

text \<open>A node with two GPUs of which only the second has MIG devices.\<close>

definition half_annotated_node :: "int Node" where
  "half_annotated_node =
     \<lparr>Name = ''n1'', Labels = [(''nvidia.com/gpu.product'', GPUModel_A100_SXM4_40GB), (''nvidia.com/gpu.count'', ''2'')],
      Annotations = [(''nos.nebuly.com/status-gpu-1-1g.5gb-used'', ''2''), (''nos.nebuly.com/status-gpu-1-1g.5gb-free'', ''1'')],
      Taints = [], Capacity = [], Allocatable = []\<rparr>"

lemma half_annotated_status:
  "fst (ParseNodeAnnotations half_annotated_node) =
     [\<lparr>stProfileName = ''1g.5gb'', stIndex = 1, stStatus = StatusUsed, stQuantity = 2\<rparr>,
      \<lparr>stProfileName = ''1g.5gb'', stIndex = 1, stStatus = StatusFree, stQuantity = 1\<rparr>]"
  by code_simp

lemma half_annotated_count: "GetCount half_annotated_node = Inr 2"
  by code_simp

theorem new_node_reads_annotations_witness:
  "\<exists>n. NewNode int_k8s (Some knownMigGeometries) (newNodeInfo int_k8s half_annotated_node) = Inr n \<and>
     node_ok n \<and> total_used (GPUs n) ''1g.5gb'' = 2 \<and> total_free (GPUs n) ''1g.5gb'' = 1 \<and> gpuIndex ` set (GPUs n) = {1}"
proof -
  let ?new = "NewNode int_k8s (Some knownMigGeometries) (newNodeInfo int_k8s half_annotated_node)"
  have "\<not> isl ?new" by code_simp
  then obtain n where n: "?new = Inr n" by (cases ?new) simp_all
  have node: "nodeInfoNode int_k8s (newNodeInfo int_k8s half_annotated_node) = Some half_annotated_node"
    by (simp add: int_k8s_def)
  from new_node_reads_annotations [OF known_default_ok node n half_annotated_count] n show ?thesis
    by (auto simp: half_annotated_status one_per_status_def annotated_def StatusAnnotation_IsUsed_def StatusAnnotation_IsFree_def)
qed

text \<open>
  The numbering of the GPUs without annotations assumes that the annotated ones come first: here the
  node has two GPUs with index 1 and none with index 0.
\<close>

lemma missing_gpu_gets_taken_index:
  "map_sum (\<lambda>_. ()) (\<lambda>n. map gpuIndex (GPUs n))
     (NewNode int_k8s (Some knownMigGeometries) (newNodeInfo int_k8s half_annotated_node)) = Inr [1, 1]"
  by code_simp

text \<open>
  A pod that a GPU rejects leaves that GPU changed when a profile that could be served comes first:
  the 1g.5gb device counts as used although the pod was not added.
\<close>

lemma rejected_pod_leaves_used_device:
  "let pod = pod_requesting ''p'' [(''nvidia.com/mig-1g.5gb'', 1), (''nvidia.com/mig-2g.10gb'', 1)];
       r = Node_AddPod int_k8s sample_node pod in
   fst r \<noteq> None \<and> map (\<lambda>g. used_of g Profile1g5gb) (GPUs sample_node) = [2, 0] \<and>
   map (\<lambda>g. used_of g Profile1g5gb) (GPUs (snd r)) = [3, 0]"
  by code_simp

end
