(* ===== verification/KubeApi.thy ===== *)
theory KubeApi
  imports K8s
begin

text \<open>
  The Kubernetes API server as the controllers see it: a record of the calls of the two clients
  (\<^verbatim>\<open>client.Client\<close> and \<^verbatim>\<open>kubernetes.Interface\<close>) on an abstract world.  A patch is given by the object
  that was read and the object to be written (\<^verbatim>\<open>client.MergeFrom(original)\<close>).
\<close>

datatype apiError = ApiNotFound | ApiError string

text \<open>\<^verbatim>\<open>ctrl.Result\<close>, and the taint that marks a node while it is repartitioned.\<close>

record Result =
  RequeueAfter :: int

definition RepartitioningTaintKey :: string where
  "RepartitioningTaintKey = ''nos.nebuly.com/repartitioning''"

definition RepartitioningTaintValue :: string where
  "RepartitioningTaintValue = ''planned''"

record ('w, 'q) kubeAPI =
  listNodes :: "(string, string) gomap \<Rightarrow> 'w \<Rightarrow> (apiError + 'q Node list) \<times> 'w"
  listPods :: "'w \<Rightarrow> (apiError + 'q Pod list) \<times> 'w"
  getNode :: "string \<Rightarrow> 'w \<Rightarrow> (apiError + 'q Node) \<times> 'w"
  patchNode :: "'q Node \<Rightarrow> 'q Node \<Rightarrow> 'w \<Rightarrow> apiError option \<times> 'w"
  evictPod :: "string \<Rightarrow> string \<Rightarrow> 'w \<Rightarrow> apiError option \<times> 'w"

text \<open>
  A property of the world that reading keeps, and that the listed writes keep.  A handler that keeps
  every such property makes no other write.
\<close>

definition api_keeps ::
  "('w, 'q) kubeAPI \<Rightarrow> ('q Node \<Rightarrow> 'q Node \<Rightarrow> bool) \<Rightarrow> (string \<Rightarrow> string \<Rightarrow> bool) \<Rightarrow> ('w \<Rightarrow> bool) \<Rightarrow> bool" where
  "api_keeps api okPatch okEvict P \<longleftrightarrow>
     (\<forall>sel w. P w \<longrightarrow> P (snd (listNodes api sel w))) \<and>
     (\<forall>w. P w \<longrightarrow> P (snd (listPods api w))) \<and>
     (\<forall>name w. P w \<longrightarrow> P (snd (getNode api name w))) \<and>
     (\<forall>old new w. P w \<longrightarrow> okPatch old new \<longrightarrow> P (snd (patchNode api old new w))) \<and>
     (\<forall>ns name w. P w \<longrightarrow> okEvict ns name \<longrightarrow> P (snd (evictPod api ns name w)))"

lemma api_keepsD:
  assumes "api_keeps api okPatch okEvict P" "P w"
  shows "P (snd (listNodes api sel w))" "P (snd (listPods api w))" "P (snd (getNode api name w))"
    "okPatch old new \<Longrightarrow> P (snd (patchNode api old new w))"
    "okEvict ns name \<Longrightarrow> P (snd (evictPod api ns name w))"
  using assms by (simp_all add: api_keeps_def)

text \<open>
  A cluster that answers from two lists and logs the writes, for evaluation.
\<close>

datatype 'q apiWrite = WritePatch "'q Node" "'q Node" | WriteEvict string string

record 'q cluster =
  clNodes :: "'q Node list"
  clPods :: "'q Pod list"
  clLog :: "'q apiWrite list"

definition cluster_api :: "('q cluster, 'q) kubeAPI" where
  "cluster_api =
     \<lparr>listNodes = (\<lambda>sel w. (Inr (filter (\<lambda>n. list_all (\<lambda>(k, v). map_of (Labels n) k = Some v) sel) (clNodes w)), w)),
      listPods = (\<lambda>w. (Inr (clPods w), w)),
      getNode = (\<lambda>name w.
        (case List.find (\<lambda>n. Name n = name) (clNodes w) of None \<Rightarrow> Inl ApiNotFound | Some n \<Rightarrow> Inr n, w)),
      patchNode = (\<lambda>old new w.
        if list_ex (\<lambda>n. Name n = Name new) (clNodes w)
        then (None, w\<lparr>clNodes := map (\<lambda>n. if Name n = Name new then new else n) (clNodes w),
                      clLog := clLog w @ [WritePatch old new]\<rparr>)
        else (Some ApiNotFound, w)),
      evictPod = (\<lambda>ns name w.
        (None, w\<lparr>clPods := filter (\<lambda>p. \<not> (PodNamespace p = ns \<and> PodName p = name)) (clPods w),
                 clLog := clLog w @ [WriteEvict ns name]\<rparr>))\<rparr>"

fun write_ok :: "('q Node \<Rightarrow> 'q Node \<Rightarrow> bool) \<Rightarrow> (string \<Rightarrow> string \<Rightarrow> bool) \<Rightarrow> 'q apiWrite \<Rightarrow> bool" where
  "write_ok okPatch okEvict (WritePatch old new) = okPatch old new"
| "write_ok okPatch okEvict (WriteEvict ns name) = okEvict ns name"

lemma cluster_api_keeps [simp]:
  "api_keeps cluster_api okPatch okEvict (\<lambda>w. \<forall>c\<in>set (clLog w). write_ok okPatch okEvict c)"
  by (auto simp: api_keeps_def cluster_api_def)

end
