(* ===== verification/Partitioning.thy ===== *)
theory Partitioning
  imports MigNode KubeApi
begin

text \<open>
  Package \<^verbatim>\<open>internal/partitioning\<close>: the partitioning of a node as the planner builds it
  (state/partitioning.go, mig/state.go), how it is written to the node's annotations
  (mig/partitioner.go) and how a new node is initialised (mig/initializer.go, mig/plan.go).
\<close>

section \<open>Definitions\<close>

record GPUPartitioning =
  gpGPUIndex :: int
  gpResources :: "(ResourceName, int) gomap"

record NodePartitioning =
  npGPUs :: "GPUPartitioning list"

definition NodePartitioning_Equal ::
  "(GPUPartitioning \<Rightarrow> GPUPartitioning \<Rightarrow> bool) \<Rightarrow> NodePartitioning \<Rightarrow> NodePartitioning \<Rightarrow> bool" where
  "NodePartitioning_Equal cmp n other \<longleftrightarrow>
     (if length (npGPUs n) \<noteq> length (npGPUs other) then False else UnorderedEqual cmp (npGPUs n) (npGPUs other))"

type_synonym PartitioningState = "(string, NodePartitioning) gomap"

definition PartitioningState_IsEmpty :: "PartitioningState \<Rightarrow> bool" where
  "PartitioningState_IsEmpty p \<longleftrightarrow> length p = 0"

text \<open>A node the other state does not have reads as the zero value, a partitioning with no GPU.\<close>

definition PartitioningState_Equal ::
  "(GPUPartitioning \<Rightarrow> GPUPartitioning \<Rightarrow> bool) \<Rightarrow> PartitioningState \<Rightarrow> PartitioningState \<Rightarrow> bool" where
  "PartitioningState_Equal cmp p other \<longleftrightarrow>
     (if length p \<noteq> length other then False
      else list_all (\<lambda>(node, nodePartitioning).
        NodePartitioning_Equal cmp nodePartitioning
          (case map_of other node of None \<Rightarrow> \<lparr>npGPUs = []\<rparr> | Some np \<Rightarrow> np)) p)"

fun partition_resources :: "(ResourceName, int) gomap \<Rightarrow> Geometry \<Rightarrow> (ResourceName, int) gomap" where
  "partition_resources resources [] = resources"
| "partition_resources resources ((SlicingProfile _, _) # geometry) = partition_resources resources geometry"
| "partition_resources resources ((MigProfile profile, quantity) # geometry) =
     (if quantity \<le> 0 then partition_resources resources geometry
      else partition_resources (gm_put (AsResourceName profile) quantity resources) geometry)"

definition BuildNodePartitioning :: "'ni MigNode \<Rightarrow> NodePartitioning" where
  "BuildNodePartitioning node =
     \<lparr>npGPUs = map (\<lambda>g. \<lparr>gpGPUIndex = gpuIndex g, gpResources = partition_resources [] (GPU_GetGeometry g)\<rparr>) (GPUs node)\<rparr>"

fun gpu_spec_annotations :: "int \<Rightarrow> (ResourceName, int) gomap \<Rightarrow> ResourceName + SpecAnnotation list" where
  "gpu_spec_annotations idx [] = Inr []"
| "gpu_spec_annotations idx ((r, q) # resources) =
     (case ExtractProfileName r of
        None \<Rightarrow> Inl r
      | Some migProfile \<Rightarrow>
          (case gpu_spec_annotations idx resources of
             Inl e \<Rightarrow> Inl e
           | Inr res \<Rightarrow> Inr (\<lparr>spProfileName = migProfile, spIndex = idx, spQuantity = q\<rparr> # res)))"

fun spec_annotation_list :: "GPUPartitioning list \<Rightarrow> ResourceName + SpecAnnotation list" where
  "spec_annotation_list [] = Inr []"
| "spec_annotation_list (g # gpus) =
     (case gpu_spec_annotations (gpGPUIndex g) (gpResources g) of
        Inl e \<Rightarrow> Inl e
      | Inr res \<Rightarrow> (case spec_annotation_list gpus of Inl e \<Rightarrow> Inl e | Inr rest \<Rightarrow> Inr (res @ rest)))"

definition getGPUSpecAnnotationList :: "NodePartitioning \<Rightarrow> ResourceName + SpecAnnotation list" where
  "getGPUSpecAnnotationList nodePartitioning = spec_annotation_list (npGPUs nodePartitioning)"

datatype applyError = InvalidResource ResourceName | PatchFailed apiError

text \<open>The node object that \<^verbatim>\<open>ApplyPartitioning\<close> sends: its spec annotations replaced, the plan id set.\<close>

definition partitioned_node :: "'q Node \<Rightarrow> string \<Rightarrow> SpecAnnotation list \<Rightarrow> 'q Node" where
  "partitioned_node node planId annotations =
     node\<lparr>Annotations :=
       gm_put AnnotationPartitioningPlan planId
         (gm_put_all (filter (\<lambda>(k, _). \<not> HasPrefix k AnnotationGpuSpecPrefix) (Annotations node))
           (map (\<lambda>a. (SpecAnnotation_String a, SpecAnnotation_GetValue a)) annotations))\<rparr>"

definition ApplyPartitioning ::
  "('w, 'q) kubeAPI \<Rightarrow> 'q Node \<Rightarrow> string \<Rightarrow> NodePartitioning \<Rightarrow> 'w \<Rightarrow> applyError option \<times> 'w" where
  "ApplyPartitioning api node planId partitioning w =
     (case getGPUSpecAnnotationList partitioning of
        Inl r \<Rightarrow> (Some (InvalidResource r), w)
      | Inr annotations \<Rightarrow>
          (case patchNode api node (partitioned_node node planId annotations) w of
             (Some e, w') \<Rightarrow> (Some (PatchFailed e), w')
           | (None, w') \<Rightarrow> (None, w')))"

text \<open>\<open>now\<close> is the time in nanoseconds.\<close>

definition NewPartitioningPlanID :: "int \<Rightarrow> string" where
  "NewPartitioningPlanID now = Itoa now"

fun initGPUs :: "(Geometry \<Rightarrow> Geometry \<Rightarrow> bool) \<Rightarrow> nat \<Rightarrow> GPU list \<Rightarrow> (migError option \<times> nat) \<times> GPU list" where
  "initGPUs cmp initializedGPUs [] = ((None, initializedGPUs), [])"
| "initGPUs cmp initializedGPUs (g # gpus) =
     (if length (GPU_GetGeometry g) > 0 then
        (let (r, gpus') = initGPUs cmp initializedGPUs gpus in (r, g # gpus'))
      else case GPU_InitGeometry cmp g of
        (Some e, g') \<Rightarrow> ((Some e, initializedGPUs), g' # gpus)
      | (None, g') \<Rightarrow> (let (r, gpus') = initGPUs cmp (Suc initializedGPUs) gpus in (r, g' # gpus')))"

datatype initError = MigNotEnabled string | InitNode nodeError | InitGPU migError | InitApply applyError

definition InitNodePartitioning ::
  "('ni, 'q) k8sLib \<Rightarrow> (Geometry \<Rightarrow> Geometry \<Rightarrow> bool) \<Rightarrow> knownState \<Rightarrow> ('w, 'q) kubeAPI \<Rightarrow> int \<Rightarrow> 'q Node \<Rightarrow> 'w \<Rightarrow>
   initError option \<times> 'w" where
  "InitNodePartitioning K cmp known api now node w =
     (if \<not> IsMigPartitioningEnabled node then (Some (MigNotEnabled (Name node)), w)
      else case NewNode K known (newNodeInfo K node) of
        Inl e \<Rightarrow> (Some (InitNode e), w)
      | Inr migNode \<Rightarrow>
          (case initGPUs cmp 0 (GPUs migNode) of
             ((Some e, _), _) \<Rightarrow> (Some (InitGPU e), w)
           | ((None, initialized), gpus) \<Rightarrow>
               (if initialized = 0 then (None, w)
                else case ApplyPartitioning api node (NewPartitioningPlanID now)
                    (BuildNodePartitioning (migNode\<lparr>GPUs := gpus\<rparr>)) w of
                  (Some e, w') \<Rightarrow> (Some (InitApply e), w')
                | (None, w') \<Rightarrow> (None, w'))))"

section \<open>The specification written for a node\<close>

definition positive_profiles :: "Geometry \<Rightarrow> (ProfileName \<times> int) list" where
  "positive_profiles geometry =
     List.map_filter (\<lambda>(s, q). case s of MigProfile p \<Rightarrow> if 0 < q then Some (p, q) else None | SlicingProfile _ \<Rightarrow> None) geometry"

definition gpu_specs :: "GPU \<Rightarrow> SpecAnnotation list" where
  "gpu_specs g =
     map (\<lambda>(p, q). \<lparr>spProfileName = p, spIndex = gpuIndex g, spQuantity = q\<rparr>) (positive_profiles (GPU_GetGeometry g))"

lemma positive_profiles_simps [simp]:
  "positive_profiles [] = []"
  "positive_profiles ((SlicingProfile p, q) # l) = positive_profiles l"
  "positive_profiles ((MigProfile p, q) # l) = (if 0 < q then (p, q) # positive_profiles l else positive_profiles l)"
  by (simp_all add: positive_profiles_def map_filter_simps)

lemma set_positive_profiles: "(p, q) \<in> set (positive_profiles l) \<longleftrightarrow> (MigProfile p, q) \<in> set l \<and> 0 < q"
proof (induction l)
  case (Cons e l)
  obtain s v where "e = (s, v)" by fastforce
  with Cons show ?case by (cases s) auto
qed simp

lemma gm_ok_positive: "gm_ok l \<Longrightarrow> gm_ok (positive_profiles l)"
proof (induction l)
  case (Cons e l)
  obtain s v where e: "e = (s, v)" by fastforce
  with Cons have IH: "gm_ok (positive_profiles l)" and s: "s \<notin> fst ` set l" by (simp_all add: gm_ok_Cons)
  have "p \<notin> fst ` set (positive_profiles l)" if "s = MigProfile p" for p
    using s that by (force simp: set_positive_profiles)
  with IH show ?case by (cases s) (auto simp: e gm_ok_Cons)
qed simp

lemma partition_resources_eq:
  assumes "gm_ok geometry" "\<forall>p. gm_has geometry (MigProfile p) \<longrightarrow> \<not> gm_has res (AsResourceName p)"
  shows "partition_resources res geometry = res @ map (\<lambda>(p, q). (AsResourceName p, q)) (positive_profiles geometry)"
  using assms
proof (induction res geometry rule: partition_resources.induct)
  case (3 res p q geometry)
  then have "gm_ok geometry" "\<not> gm_has geometry (MigProfile p)" "\<not> gm_has res (AsResourceName p)"
    by (simp_all add: gm_ok_Cons gm_has_iff)
  moreover have "\<not> gm_has (gm_put (AsResourceName p) q res) (AsResourceName p')" if "gm_has geometry (MigProfile p')" for p'
    using that "3.prems"(2) \<open>\<not> gm_has geometry (MigProfile p)\<close> by (auto simp: gm_has_Cons gomap_simps)
  ultimately show ?case using "3" by (auto simp: gm_has_Cons gm_put_fresh)
qed (simp_all add: gm_ok_Cons gm_has_Cons)

lemma gpu_spec_annotations_eq:
  "\<forall>(p, q)\<in>set l. rx_match RegexNvidiaMigProfile p \<noteq> None \<Longrightarrow>
   gpu_spec_annotations i (map (\<lambda>(p, q). (AsResourceName p, q)) l) =
     Inr (map (\<lambda>(p, q). \<lparr>spProfileName = p, spIndex = i, spQuantity = q\<rparr>) l)"
  by (induction l) (auto simp: ExtractProfileName_AsResourceName)

text \<open>Every profile of the GPU's geometry is a MIG profile as NVIDIA writes it.\<close>

definition canonical_gpu :: "GPU \<Rightarrow> bool" where
  "canonical_gpu g \<longleftrightarrow> (\<forall>p. gm_has (GPU_GetGeometry g) (MigProfile p) \<longrightarrow> canonical_profile p)"

lemma canonical_entry: "canonical_gpu g \<Longrightarrow> (p, q) \<in> set (positive_profiles (GPU_GetGeometry g)) \<Longrightarrow> canonical_profile p"
  by (force simp: canonical_gpu_def set_positive_profiles gm_has_iff)

lemma spec_annotation_list_eq:
  assumes "list_all canonical_gpu gpus"
  shows "spec_annotation_list (map (\<lambda>g. \<lparr>gpGPUIndex = gpuIndex g, gpResources = partition_resources [] (GPU_GetGeometry g)\<rparr>) gpus) =
    Inr (concat (map gpu_specs gpus))"
  using assms
proof (induction gpus)
  case (Cons g gpus)
  have "\<forall>(p, q)\<in>set (positive_profiles (GPU_GetGeometry g)). rx_match RegexNvidiaMigProfile p \<noteq> None"
    using Cons.prems canonical_entry [of g] by (auto simp: canonical_profile_def)
  with Cons show ?case by (simp add: partition_resources_eq gpu_spec_annotations_eq gpu_specs_def)
qed simp

lemma getGPUSpecAnnotationList_eq:
  "list_all canonical_gpu (GPUs n) \<Longrightarrow>
   getGPUSpecAnnotationList (BuildNodePartitioning n) = Inr (concat (map gpu_specs (GPUs n)))"
  by (simp add: getGPUSpecAnnotationList_def BuildNodePartitioning_def spec_annotation_list_eq)

section \<open>Reading back the annotations\<close>

lemma spec_String_prefix: "HasPrefix (SpecAnnotation_String a) AnnotationGpuSpecPrefix"
  by (simp add: SpecAnnotation_String_def HasPrefix_iff)

lemma plan_not_parsed: "\<forall>v. spec_of (AnnotationPartitioningPlan, v) = None" "\<forall>v. status_of (AnnotationPartitioningPlan, v) = None"
  by (simp_all add: spec_of_def status_of_def ParseSpecAnnotation_def ParseStatusAnnotation_def HasPrefix_iff
      AnnotationPartitioningPlan_def AnnotationGpuSpecPrefix_def AnnotationGpuStatusPrefix_def)

lemma partitioned_node_annotations:
  assumes "distinct (map SpecAnnotation_String specs)"
  shows "Annotations (partitioned_node node planId specs) =
    gm_put AnnotationPartitioningPlan planId
      (filter (\<lambda>(k, _). \<not> HasPrefix k AnnotationGpuSpecPrefix) (Annotations node) @
       map (\<lambda>a. (SpecAnnotation_String a, SpecAnnotation_GetValue a)) specs)"
  using assms
  by (simp add: partitioned_node_def)
    (subst gm_put_all_fresh, auto simp: gm_ok_def comp_def gm_has_iff spec_String_prefix)

lemma parse_partitioned_node:
  assumes "list_all spec_printable specs" "distinct (map SpecAnnotation_String specs)"
  shows "ParseNodeAnnotations (partitioned_node node planId specs) = (fst (ParseNodeAnnotations node), specs)"
proof -
  let ?print = "\<lambda>a. (SpecAnnotation_String a, SpecAnnotation_GetValue a)"
  let ?old = "filter (\<lambda>(k, _). \<not> HasPrefix k AnnotationGpuSpecPrefix) (Annotations node)"
  have "List.map_filter spec_of (map ?print specs) = map id specs"
    using assms(1) by (intro map_filter_Some) (simp add: spec_of_def parse_spec_print list_all_iff)
  moreover have "List.map_filter spec_of ?old = []" by (intro map_filter_None) (auto simp: spec_of_other)
  moreover have "List.map_filter status_of (map ?print specs) = []"
    by (intro map_filter_None) (auto simp: status_of_spec spec_String_prefix)
  moreover have "List.map_filter status_of ?old = List.map_filter status_of (Annotations node)"
    by (intro map_filter_filter) (auto simp: status_of_spec)
  ultimately show ?thesis
    by (simp add: ParseNodeAnnotations_eq partitioned_node_annotations [OF assms(2)] map_filter_put plan_not_parsed map_filter_append)
qed

definition printable_gpu :: "GPU \<Rightarrow> bool" where
  "printable_gpu g \<longleftrightarrow>
     canonical_gpu g \<and> 0 \<le> gpuIndex g \<and> int64_range (gpuIndex g) \<and> (\<forall>p. int64_range (used_of g p + free_of g p))"

lemma SpecAnnotation_String_inject:
  "SpecAnnotation_String a = SpecAnnotation_String b \<longleftrightarrow> spIndex a = spIndex b \<and> spProfileName a = spProfileName b"
  using index_with_profile_inject [of "spIndex a" "spProfileName a" "spIndex b" "spProfileName b"]
  by (simp add: SpecAnnotation_String_def)

lemma geometry_entry:
  assumes "gpu_ok g"
  shows "(MigProfile p, q) \<in> set (GPU_GetGeometry g) \<and> 0 < q \<longleftrightarrow> q = used_of g p + free_of g p \<and> 0 < q"
proof -
  have "(MigProfile p, q) \<in> set (GPU_GetGeometry g) \<longleftrightarrow> map_of (GPU_GetGeometry g) (MigProfile p) = Some q"
    by (rule gm_ok_get_iff) simp
  moreover have "gm_get (GPU_GetGeometry g) (MigProfile p) = used_of g p + free_of g p"
    by (rule GetGeometry_get [OF assms])
  ultimately show ?thesis by (auto simp: gm_get_def split: option.splits)
qed

lemma gpu_specs_iff:
  assumes "gpu_ok g"
  shows "a \<in> set (gpu_specs g) \<longleftrightarrow>
    spIndex a = gpuIndex g \<and> spQuantity a = used_of g (spProfileName a) + free_of g (spProfileName a) \<and> 0 < spQuantity a"
  (is "?l = ?r")
proof -
  have "?l \<longleftrightarrow> spIndex a = gpuIndex g \<and> (spProfileName a, spQuantity a) \<in> set (positive_profiles (GPU_GetGeometry g))"
    by (cases a) (force simp: gpu_specs_def)
  then show ?thesis using geometry_entry [OF assms] by (auto simp: set_positive_profiles)
qed

lemma gpu_specs_printable:
  assumes "gpu_ok g" "printable_gpu g"
  shows "list_all spec_printable (gpu_specs g)"
  unfolding list_all_iff
proof
  fix a assume a: "a \<in> set (gpu_specs g)"
  then have "canonical_profile (spProfileName a)"
    using assms(2) canonical_entry [of g] by (auto simp: gpu_specs_def printable_gpu_def)
  then show "spec_printable a"
    using a assms by (auto simp: spec_printable_def gpu_specs_iff printable_gpu_def canonical_no_dash)
qed

lemma gpu_specs_distinct: "distinct (map SpecAnnotation_String (gpu_specs g))"
proof -
  have "distinct (map fst (positive_profiles (GPU_GetGeometry g)))"
    using gm_ok_positive [OF GetGeometry_ok] by (simp add: gm_ok_def)
  moreover have "map SpecAnnotation_String (gpu_specs g) =
      map (\<lambda>p. SpecAnnotation_String \<lparr>spProfileName = p, spIndex = gpuIndex g, spQuantity = 0\<rparr>)
        (map fst (positive_profiles (GPU_GetGeometry g)))"
    by (simp add: gpu_specs_def SpecAnnotation_String_def split_def comp_def)
  ultimately show ?thesis by (simp add: distinct_map inj_on_def SpecAnnotation_String_inject del: map_map)
qed

lemma node_specs_distinct:
  "distinct (map gpuIndex gpus) \<Longrightarrow> distinct (map SpecAnnotation_String (concat (map gpu_specs gpus)))"
proof (induction gpus)
  case (Cons g gpus)
  have "spIndex a = gpuIndex h" if "a \<in> set (gpu_specs h)" for a h
    using that by (auto simp: gpu_specs_def)
  with Cons.prems have "set (map SpecAnnotation_String (gpu_specs g)) \<inter>
      set (map SpecAnnotation_String (concat (map gpu_specs gpus))) = {}"
    by (force simp: SpecAnnotation_String_inject)
  with Cons gpu_specs_distinct [of g] show ?case by simp
qed simp

lemma node_specs:
  assumes "node_ok n" "distinct (map gpuIndex (GPUs n))" "list_all printable_gpu (GPUs n)"
  shows "getGPUSpecAnnotationList (BuildNodePartitioning n) = Inr (concat (map gpu_specs (GPUs n)))"
    and "ParseNodeAnnotations (partitioned_node node planId (concat (map gpu_specs (GPUs n)))) =
      (fst (ParseNodeAnnotations node), concat (map gpu_specs (GPUs n)))"
    and "a \<in> set (concat (map gpu_specs (GPUs n))) \<longleftrightarrow>
      (\<exists>g\<in>set (GPUs n). spIndex a = gpuIndex g \<and> 0 < spQuantity a \<and>
         spQuantity a = used_of g (spProfileName a) + free_of g (spProfileName a))"
proof -
  show "getGPUSpecAnnotationList (BuildNodePartitioning n) = Inr (concat (map gpu_specs (GPUs n)))"
    using assms(3) by (intro getGPUSpecAnnotationList_eq) (auto simp: list_all_iff printable_gpu_def)
  show "ParseNodeAnnotations (partitioned_node node planId (concat (map gpu_specs (GPUs n)))) =
      (fst (ParseNodeAnnotations node), concat (map gpu_specs (GPUs n)))"
    using assms gpu_specs_printable
    by (intro parse_partitioned_node node_specs_distinct) (auto simp: list_all_iff node_ok_def)
  show "a \<in> set (concat (map gpu_specs (GPUs n))) \<longleftrightarrow>
      (\<exists>g\<in>set (GPUs n). spIndex a = gpuIndex g \<and> 0 < spQuantity a \<and>
         spQuantity a = used_of g (spProfileName a) + free_of g (spProfileName a))"
    using assms(1) by (auto simp: gpu_specs_iff node_ok_def list_all_iff)
qed

section \<open>Properties\<close>

text \<open>C10: The partitioning that the planner builds for a node is sent in one patch of the node, and reading
  the patched node's spec annotations gives back, GPU by GPU and profile by profile, exactly the
  devices of the planned node; the status annotations read as before and the plan id is recorded.\<close>

theorem partitioning_roundtrip:
  assumes "node_ok n" "distinct (map gpuIndex (GPUs n))" "list_all printable_gpu (GPUs n)"
  shows "\<exists>node' specs. ApplyPartitioning api node planId (BuildNodePartitioning n) w =
      apfst (map_option PatchFailed) (patchNode api node node' w) \<and>
    ParseNodeAnnotations node' = (fst (ParseNodeAnnotations node), specs) \<and>
    (\<forall>a. a \<in> set specs \<longleftrightarrow>
      (\<exists>g\<in>set (GPUs n). spIndex a = gpuIndex g \<and> 0 < spQuantity a \<and>
         spQuantity a = used_of g (spProfileName a) + free_of g (spProfileName a))) \<and>
    map_of (Annotations node') AnnotationPartitioningPlan = Some planId"
proof (intro exI conjI allI)
  let ?specs = "concat (map gpu_specs (GPUs n))" let ?node = "partitioned_node node planId ?specs"
  note specs = node_specs [OF assms]
  show "ApplyPartitioning api node planId (BuildNodePartitioning n) w =
      apfst (map_option PatchFailed) (patchNode api node ?node w)"
    by (cases "patchNode api node ?node w") (simp add: ApplyPartitioning_def specs(1) split: option.splits)
  show "ParseNodeAnnotations ?node = (fst (ParseNodeAnnotations node), ?specs)" by (rule specs(2))
  show "a \<in> set ?specs \<longleftrightarrow>
      (\<exists>g\<in>set (GPUs n). spIndex a = gpuIndex g \<and> 0 < spQuantity a \<and>
         spQuantity a = used_of g (spProfileName a) + free_of g (spProfileName a))" for a
    by (rule specs(3))
  show "map_of (Annotations ?node) AnnotationPartitioningPlan = Some planId"
    by (simp add: partitioned_node_def gomap_simps)
qed

lemma sample_gpu_printable: "printable_gpu sample_gpu"
proof -
  have "list_all (\<lambda>(s, _). case s of MigProfile p \<Rightarrow> canonical_profile p | SlicingProfile _ \<Rightarrow> True) (GPU_GetGeometry sample_gpu)"
    by code_simp
  then have "canonical_gpu sample_gpu" unfolding canonical_gpu_def using mig_keysI by blast
  then show ?thesis
    by (simp add: printable_gpu_def sample_gpu_def int64_range_def gm_get_Cons)
qed

definition one_gpu_node :: "int Node MigNode" where
  "one_gpu_node =
     \<lparr>nodeName = ''n1'',
      nodeInfo = \<lparr>Name = ''n1'', Labels = [], Annotations = [(''nos.nebuly.com/spec-gpu-0-7g.40gb'', ''1'')],
        Taints = [], Capacity = [], Allocatable = []\<rparr>,
      GPUs = [sample_gpu]\<rparr>"

theorem partitioning_roundtrip_witness:
  "\<exists>node' :: int Node. fst (ApplyPartitioning cluster_api (nodeInfo one_gpu_node) ''7'' (BuildNodePartitioning one_gpu_node)
       \<lparr>clNodes = [nodeInfo one_gpu_node], clPods = [], clLog = []\<rparr>) = None \<and>
     \<lparr>spProfileName = Profile1g5gb, spIndex = 0, spQuantity = 3\<rparr> \<in> set (snd (ParseNodeAnnotations node'))"
proof -
  let ?w = "\<lparr>clNodes = [nodeInfo one_gpu_node], clPods = [], clLog = []\<rparr> :: int cluster"
  let ?a = "\<lparr>spProfileName = Profile1g5gb, spIndex = 0, spQuantity = 3\<rparr>"
  have "node_ok one_gpu_node" "distinct (map gpuIndex (GPUs one_gpu_node))" "list_all printable_gpu (GPUs one_gpu_node)"
    by (simp_all add: one_gpu_node_def node_ok_def sample_gpu_ok sample_gpu_printable)
  from partitioning_roundtrip [OF this, of cluster_api "nodeInfo one_gpu_node" "''7''" ?w]
  obtain node' :: "int Node" and specs where parse: "ParseNodeAnnotations node' = (fst (ParseNodeAnnotations (nodeInfo one_gpu_node)), specs)"
    and specs: "\<forall>a. a \<in> set specs \<longleftrightarrow> (\<exists>g\<in>set (GPUs one_gpu_node). spIndex a = gpuIndex g \<and> 0 < spQuantity a \<and>
         spQuantity a = used_of g (spProfileName a) + free_of g (spProfileName a))" by blast
  have "?a \<in> set specs" by (subst specs [THEN spec], simp add: one_gpu_node_def sample_gpu_def gm_get_Cons)
  moreover have "fst (ApplyPartitioning cluster_api (nodeInfo one_gpu_node) ''7'' (BuildNodePartitioning one_gpu_node) ?w) = None"
    by code_simp
  ultimately show ?thesis using parse by (metis snd_conv)
qed

end
