(* ===== verification/MigAgent.thy ===== *)
theory MigAgent
  imports MigPlan MigClient Partitioning
begin

text \<open>
  Package \<^verbatim>\<open>internal/controllers/migagent\<close>: the agent of a MIG node.  The actuator takes the GPUs to the spec
  annotations, the reporter writes what the GPUs are like as status annotations; they share a lock and a
  channel of capacity one that tells the actuator that a report was made since it last ran.

  The world \<open>'w\<close> is the API server and the GPUs.  The reporter runs under the lock as a whole; the actuator takes a
  token from the channel first and then runs under the lock, so \<open>agent_run\<close> interleaves three atomic steps.
\<close>

section \<open>Shared state (shared.go)\<close>

text \<open>\<open>reportsChan\<close> is the number of tokens in the channel; sending and receiving do not block.\<close>

record SharedState =
  lastParsedPlanId :: string
  reportsChan :: nat

definition reportsChanCap :: nat where "reportsChanCap = 1"

definition NewSharedState :: SharedState where
  "NewSharedState = \<lparr>lastParsedPlanId = '''', reportsChan = 0\<rparr>"

definition OnReportDone :: "SharedState \<Rightarrow> SharedState" where
  "OnReportDone s = (if reportsChan s < reportsChanCap then s\<lparr>reportsChan := reportsChan s + 1\<rparr> else s)"

definition OnApplyDone :: "SharedState \<Rightarrow> SharedState" where
  "OnApplyDone s = (if 0 < reportsChan s then s\<lparr>reportsChan := reportsChan s - 1\<rparr> else s)"

definition AtLeastOneReportSinceLastApply :: "SharedState \<Rightarrow> bool \<times> SharedState" where
  "AtLeastOneReportSinceLastApply s =
     (if 0 < reportsChan s then (True, s\<lparr>reportsChan := reportsChan s - 1\<rparr>) else (False, s))"

section \<open>The agent\<close>

text \<open>
  \<open>restartPlugin\<close> is \<^verbatim>\<open>DevicePluginClient.Restart\<close> with the node and the timeout of one minute, the other functions are
  \<^verbatim>\<open>cmp.Equal\<close> at the types it is used at.
\<close>

record ('w, 'q) agentEnv =
  aeClient :: "('w, 'q) kubeAPI"
  aeMigClient :: "'w migClient"
  aeNodeName :: string
  aeRestartPlugin :: "string \<Rightarrow> nat \<Rightarrow> ('w, string option) state"
  aeRefreshInterval :: int
  cmpQuantities :: "(string, int) gomap \<Rightarrow> (string, int) gomap \<Rightarrow> bool"
  cmpStatus :: "StatusAnnotation \<Rightarrow> StatusAnnotation \<Rightarrow> bool"
  cmpDevice :: "Device \<Rightarrow> Device \<Rightarrow> bool"
  cmpCreate :: "CreateOperation \<Rightarrow> CreateOperation \<Rightarrow> bool"

record 'w agent =
  sharedState :: SharedState
  lastAppliedPlan :: "MigConfigPlan option"
  lastAppliedStatus :: "StatusAnnotation list option"
  agWorld :: 'w

definition new_agent :: "'w \<Rightarrow> 'w agent" where
  "new_agent w = \<lparr>sharedState = NewSharedState, lastAppliedPlan = None, lastAppliedStatus = None, agWorld = w\<rparr>"

datatype agentError =
    AgentApi apiError
  | AgentGpu gpuError
  | AgentPlugin string
  | OperationsFailed
  | NilDereference

section \<open>Applying a plan (actuator.go)\<close>

record OperationStatus =
  PluginRestartRequired :: bool
  osErr :: bool

definition restartNvidiaDevicePlugin :: "('w, 'q) agentEnv \<Rightarrow> ('w, string option) state" where
  "restartNvidiaDevicePlugin E = aeRestartPlugin E (aeNodeName E) 60"

definition ac_plan :: "('w, 'q) agentEnv \<Rightarrow> SpecAnnotation list \<Rightarrow> ('w, agentError + MigConfigPlan) state" where
  "ac_plan E specAnnotations = do {
     res \<leftarrow> mcGetMigDevices (aeMigClient E);
     case res of
       Inl e \<Rightarrow>
         if IgnoreNotFound (Some e) \<noteq> None then State_Monad.return (Inl (AgentGpu e))
         else do {
           r \<leftarrow> restartNvidiaDevicePlugin E;
           State_Monad.return
             (case r of Some m \<Rightarrow> Inl (AgentPlugin m) | None \<Rightarrow> Inr \<lparr>DeleteOperations = [], CreateOperations = []\<rparr>)
         }
     | Inr migDeviceResources \<Rightarrow>
         State_Monad.return (Inr
           (let state = NewMigState migDeviceResources in
            if MigState_Matches (cmpQuantities E) state specAnnotations
            then \<lparr>DeleteOperations = [], CreateOperations = []\<rparr>
            else NewMigConfigPlan state specAnnotations))
   }"

fun delete_resources ::
  "('w, 'q) agentEnv \<Rightarrow> Device list \<Rightarrow> bool \<Rightarrow> gpuError list \<Rightarrow> nat \<Rightarrow> Profile list \<Rightarrow>
   ('w, bool \<times> gpuError list \<times> nat \<times> Profile list) state" where
  "delete_resources E [] restartRequired deleteErrors nDeleted deletedProfiles =
     State_Monad.return (restartRequired, deleteErrors, nDeleted, deletedProfiles)"
| "delete_resources E (r # resources) restartRequired deleteErrors nDeleted deletedProfiles =
     (if \<not> Device_IsFree r then delete_resources E resources restartRequired deleteErrors nDeleted deletedProfiles
      else do {
        e \<leftarrow> mcDeleteMigDevice (aeMigClient E) r;
        case e of
          Some x \<Rightarrow>
            if IgnoreNotFound (Some x) \<noteq> None
            then delete_resources E resources restartRequired (deleteErrors @ [x]) nDeleted deletedProfiles
            else delete_resources E resources True (deleteErrors @ [x]) nDeleted deletedProfiles
        | None \<Rightarrow>
            delete_resources E resources restartRequired deleteErrors (Suc nDeleted)
              (deletedProfiles @ [\<lparr>prGpuIndex = GpuIndex r, prName = GetMigProfileName r\<rparr>])
      })"

definition applyDeleteOp :: "('w, 'q) agentEnv \<Rightarrow> DeleteOperation \<Rightarrow> ('w, OperationStatus \<times> Profile list) state" where
  "applyDeleteOp E op = do {
     (restartRequired, deleteErrors, nDeleted, deletedProfiles) \<leftarrow> delete_resources E (doResources op) False [] 0 [];
     State_Monad.return
       (\<lparr>PluginRestartRequired = restartRequired \<or> nDeleted > 0, osErr = (length deleteErrors > 0)\<rparr>, deletedProfiles)
   }"

definition applyCreateOps :: "('w, 'q) agentEnv \<Rightarrow> CreateOperation list \<Rightarrow> ('w, OperationStatus) state" where
  "applyCreateOps E ops = do {
     (created, createErrors) \<leftarrow> mcCreateMigDevices (aeMigClient E) (CreateOperationList_Flatten ops);
     State_Monad.return
       (if createErrors \<noteq> [] then \<lparr>PluginRestartRequired = length created > 0, osErr = True\<rparr>
        else \<lparr>PluginRestartRequired = True, osErr = False\<rparr>)
   }"

definition rollbackDeletedResources :: "('w, 'q) agentEnv \<Rightarrow> Profile list \<Rightarrow> ('w, unit) state" where
  "rollbackDeletedResources E profiles =
     (if length profiles = 0 then State_Monad.return ()
      else do { _ \<leftarrow> mcCreateMigDevices (aeMigClient E) profiles; State_Monad.return () })"

definition containsUsedResources :: "DeleteOperation list \<Rightarrow> bool" where
  "containsUsedResources deleteOps = list_ex (\<lambda>op. list_ex (\<lambda>r. \<not> Device_IsFree r) (doResources op)) deleteOps"

text \<open>The node without its spec annotations and partitioning plan.\<close>

definition reset_spec :: "'q Node \<Rightarrow> 'q Node" where
  "reset_spec node =
     node\<lparr>Annotations := filter (\<lambda>(k, _). \<not> (HasPrefix k AnnotationGpuSpecPrefix \<or> k = AnnotationPartitioningPlan)) (Annotations node)\<rparr>"

definition resetNodeSpec :: "('w, 'q) agentEnv \<Rightarrow> ('w, apiError option) state" where
  "resetNodeSpec E = do {
     r \<leftarrow> State (getNode (aeClient E) (aeNodeName E));
     case r of
       Inl e \<Rightarrow> State_Monad.return (Some e)
     | Inr node \<Rightarrow> State (patchNode (aeClient E) node (reset_spec node))
   }"

definition clearRepartitioningTaint :: "('w, 'q) agentEnv \<Rightarrow> ('w, unit) state" where
  "clearRepartitioningTaint E = do {
     r \<leftarrow> State (getNode (aeClient E) (aeNodeName E));
     case r of
       Inl e \<Rightarrow> State_Monad.return ()
     | Inr node \<Rightarrow>
         let newTaints = filter (\<lambda>t. TaintKey t \<noteq> RepartitioningTaintKey) (Taints node) in
         if \<not> list_ex (\<lambda>t. TaintKey t = RepartitioningTaintKey) (Taints node) then State_Monad.return ()
         else do {
           _ \<leftarrow> State (patchNode (aeClient E) node (node\<lparr>Taints := newTaints\<rparr>));
           State_Monad.return ()
         }
   }"

fun apply_deletes ::
  "('w, 'q) agentEnv \<Rightarrow> DeleteOperation list \<Rightarrow> bool \<Rightarrow> bool \<Rightarrow> Profile list \<Rightarrow> ('w, bool \<times> bool \<times> Profile list) state" where
  "apply_deletes E [] restartRequired atLeastOneErr deletedProfiles = State_Monad.return (restartRequired, atLeastOneErr, deletedProfiles)"
| "apply_deletes E (op # ops) restartRequired atLeastOneErr deletedProfiles = do {
     (status, deleted) \<leftarrow> applyDeleteOp E op;
     apply_deletes E ops (restartRequired \<or> PluginRestartRequired status) (atLeastOneErr \<or> osErr status) (deletedProfiles @ deleted)
   }"

definition ac_apply :: "('w, 'q) agentEnv \<Rightarrow> MigConfigPlan \<Rightarrow> ('w, agentError option) state" where
  "ac_apply E p =
     (if containsUsedResources (DeleteOperations p) then do {
        r \<leftarrow> resetNodeSpec E;
        State_Monad.return (map_option AgentApi r)
      }
      else do {
        (restartRequired, atLeastOneErr, deletedProfiles) \<leftarrow> apply_deletes E (DeleteOperations p) False False [];
        status \<leftarrow> applyCreateOps E (CreateOperations p);
        _ \<leftarrow> (if osErr status \<and> length deletedProfiles > 0 then rollbackDeletedResources E deletedProfiles else State_Monad.return ());
        restartErr \<leftarrow>
          (if restartRequired \<or> PluginRestartRequired status then restartNvidiaDevicePlugin E else State_Monad.return None);
        case restartErr of
          Some m \<Rightarrow> do { _ \<leftarrow> clearRepartitioningTaint E; State_Monad.return (Some (AgentPlugin m)) }
        | None \<Rightarrow>
            if atLeastOneErr \<or> osErr status then do { _ \<leftarrow> clearRepartitioningTaint E; State_Monad.return (Some OperationsFailed) }
            else State_Monad.return None
      })"

section \<open>The actuator's handler\<close>

text \<open>Running a program of the world inside the agent.\<close>

definition in_world :: "('w, 'a) state \<Rightarrow> ('w agent, 'a) state" where
  "in_world m = State (\<lambda>s. case run_state m (agWorld s) of (x, w) \<Rightarrow> (x, s\<lparr>agWorld := w\<rparr>))"

definition updateLastApplied :: "MigConfigPlan \<Rightarrow> StatusAnnotation list \<Rightarrow> ('w agent, unit) state" where
  "updateLastApplied currentPlan currentStatus =
     State (\<lambda>s. ((), s\<lparr>lastAppliedPlan := Some currentPlan, lastAppliedStatus := Some currentStatus\<rparr>))"

text \<open>
  The part between the plan and the deferred update: whether to apply, and applying.  The status is compared
  only when the plan equals the last one; a nil last status would then be a crash.  The flag of the result
  says whether the plan was applied.
\<close>

definition actuate :: "('w, 'q) agentEnv \<Rightarrow> MigConfigPlan \<Rightarrow> StatusAnnotation list \<Rightarrow> ('w agent, agentError option \<times> bool) state" where
  "actuate E configPlan statusAnnotations =
     (if MigConfigPlan_IsEmpty configPlan then State_Monad.return (None, False)
      else do {
        lastPlan \<leftarrow> State (\<lambda>s. (lastAppliedPlan s, s));
        lastStatus \<leftarrow> State (\<lambda>s. (lastAppliedStatus s, s));
        if MigConfigPlan_Equal (cmpDevice E) (cmpCreate E) configPlan lastPlan \<and> lastStatus = None
        then State_Monad.return (Some NilDereference, False)
        else if MigConfigPlan_Equal (cmpDevice E) (cmpCreate E) configPlan lastPlan \<and>
          StatusAnnotationList_Equal (cmpStatus E) statusAnnotations (the lastStatus)
        then State_Monad.return (None, False)
        else do {
          r \<leftarrow> in_world (ac_apply E configPlan);
          _ \<leftarrow> State (\<lambda>s. ((), s\<lparr>sharedState := OnApplyDone (sharedState s)\<rparr>));
          State_Monad.return (r, True)
        }
      })"

text \<open>The handler takes the token before it takes the lock; what follows runs under the lock.\<close>

definition actuator_gate :: "('w agent, bool) state" where
  "actuator_gate =
     State (\<lambda>s. (fst (AtLeastOneReportSinceLastApply (sharedState s)),
       s\<lparr>sharedState := snd (AtLeastOneReportSinceLastApply (sharedState s))\<rparr>))"

definition actuator_locked :: "('w, 'q) agentEnv \<Rightarrow> string \<Rightarrow> ('w agent, (Result \<times> agentError option) \<times> bool) state" where
  "actuator_locked E reqName = do {
     r \<leftarrow> in_world (State (getNode (aeClient E) reqName));
     case r of
       Inl e \<Rightarrow> State_Monad.return ((\<lparr>RequeueAfter = 0\<rparr>, Some (AgentApi e)), False)
     | Inr node \<Rightarrow> do {
         _ \<leftarrow> State (\<lambda>s. ((), s\<lparr>sharedState := (sharedState s)\<lparr>lastParsedPlanId :=
           (case map_of (Annotations node) AnnotationPartitioningPlan of Some v \<Rightarrow> v | None \<Rightarrow> '''')\<rparr>\<rparr>));
         if SpecMatchesStatus (cmpQuantities E) (snd (ParseNodeAnnotations node)) (fst (ParseNodeAnnotations node))
         then State_Monad.return ((\<lparr>RequeueAfter = 0\<rparr>, None), False)
         else do {
           p \<leftarrow> in_world (ac_plan E (snd (ParseNodeAnnotations node)));
           case p of
             Inl e \<Rightarrow> State_Monad.return ((\<lparr>RequeueAfter = 0\<rparr>, Some e), False)
           | Inr configPlan \<Rightarrow> do {
               (e, applied) \<leftarrow> actuate E configPlan (fst (ParseNodeAnnotations node));
               _ \<leftarrow> updateLastApplied configPlan (fst (ParseNodeAnnotations node));
               State_Monad.return ((\<lparr>RequeueAfter = 0\<rparr>, e), applied)
             }
         }
       }
   }"

definition Actuator_Reconcile :: "('w, 'q) agentEnv \<Rightarrow> string \<Rightarrow> ('w agent, Result \<times> agentError option) state" where
  "Actuator_Reconcile E reqName = do {
     reported \<leftarrow> actuator_gate;
     if \<not> reported then State_Monad.return (\<lparr>RequeueAfter = 1000000000\<rparr>, None)
     else do { (r, _) \<leftarrow> actuator_locked E reqName; State_Monad.return r }
   }"

section \<open>The reporter's handler (reporter.go)\<close>

text \<open>The node object that the reporter sends.\<close>

definition reported_node :: "'q Node \<Rightarrow> StatusAnnotation list \<Rightarrow> string \<Rightarrow> 'q Node" where
  "reported_node node newStatusAnnotations planId =
     node\<lparr>Annotations :=
       gm_put AnnotationReportedPartitioningPlan planId
         (gm_put_all (filter (\<lambda>(k, _). \<not> HasPrefix k AnnotationGpuStatusPrefix) (Annotations node))
           (map (\<lambda>a. (StatusAnnotation_String a, StatusAnnotation_GetValue a)) newStatusAnnotations))\<rparr>"

definition report :: "('w, 'q) agentEnv \<Rightarrow> string \<Rightarrow> string \<Rightarrow> ('w, Result \<times> agentError option) state" where
  "report E reqName planId = do {
     r \<leftarrow> State (getNode (aeClient E) reqName);
     case r of
       Inl e \<Rightarrow> State_Monad.return (\<lparr>RequeueAfter = 0\<rparr>, Some (AgentApi e))
     | Inr node \<Rightarrow> do {
         res \<leftarrow> mcGetMigDevices (aeMigClient E);
         case res of
           Inl e \<Rightarrow> State_Monad.return (\<lparr>RequeueAfter = 0\<rparr>, Some (AgentGpu e))
         | Inr migResources \<Rightarrow>
             let newStatusAnnotations = DeviceList_AsStatusAnnotation migResources ExtractProfileNameStr;
                 oldStatusAnnotations = fst (ParseNodeAnnotations node) in
             if StatusAnnotationList_Equal (cmpStatus E) newStatusAnnotations oldStatusAnnotations \<and>
                (case map_of (Annotations node) AnnotationReportedPartitioningPlan of Some v \<Rightarrow> v | None \<Rightarrow> '''') = planId
             then State_Monad.return (\<lparr>RequeueAfter = aeRefreshInterval E\<rparr>, None)
             else do {
               e \<leftarrow> State (patchNode (aeClient E) node (reported_node node newStatusAnnotations planId));
               State_Monad.return
                 (case e of
                    Some e \<Rightarrow> (\<lparr>RequeueAfter = 0\<rparr>, Some (AgentApi e))
                  | None \<Rightarrow> (\<lparr>RequeueAfter = aeRefreshInterval E\<rparr>, None))
             }
       }
   }"

definition Reporter_Reconcile :: "('w, 'q) agentEnv \<Rightarrow> string \<Rightarrow> ('w agent, Result \<times> agentError option) state" where
  "Reporter_Reconcile E reqName = do {
     planId \<leftarrow> State (\<lambda>s. (lastParsedPlanId (sharedState s), s));
     r \<leftarrow> in_world (report E reqName planId);
     _ \<leftarrow> State (\<lambda>s. ((), s\<lparr>sharedState := OnReportDone (sharedState s)\<rparr>));
     State_Monad.return r
   }"

section \<open>Starting the agent (cmd/migagent/migagent.go)\<close>

datatype initAgentError = NoMigGpus string | InitGpu gpuError

definition checkAtLeastOneMigGpu :: "'w nvmlClient \<Rightarrow> ('w, initAgentError option) state" where
  "checkAtLeastOneMigGpu V = do {
     r \<leftarrow> ncGetMigEnabledGPUs V;
     State_Monad.return
       (case r of
          Inl e \<Rightarrow> Some (NoMigGpus (''unable to get MIG enabled GPUs: '' @ gpuError_Error e))
        | Inr migGpus \<Rightarrow>
            if length migGpus = 0 then Some (NoMigGpus ''at least one MIG-enabled GPU is required, found 0'') else None)
   }"

definition cleanupUnusedMigResources :: "'w migClient \<Rightarrow> ('w, initAgentError option) state" where
  "cleanupUnusedMigResources M = do {
     r \<leftarrow> mcGetMigDevices M;
     case r of
       Inl e \<Rightarrow> State_Monad.return (Some (InitGpu e))
     | Inr resources \<Rightarrow> do {
         e \<leftarrow> mcDeleteAllExcept M (DeviceList_GetUsed resources);
         State_Monad.return (map_option InitGpu e)
       }
   }"

definition initAgent :: "'w nvmlClient \<Rightarrow> 'w migClient \<Rightarrow> ('w, initAgentError option) state" where
  "initAgent V M = do {
     e \<leftarrow> checkAtLeastOneMigGpu V;
     case e of Some e \<Rightarrow> State_Monad.return (Some e) | None \<Rightarrow> cleanupUnusedMigResources M
   }"

section \<open>Interleaved runs\<close>

text \<open>
  The events of a run: a report was made, a plan was applied.  A state is the agent and whether the actuator
  holds a token and waits for the lock; the world may change between any two steps.
\<close>

datatype event = Reported | Applied

inductive agent_run :: "('w, 'q) agentEnv \<Rightarrow> event list \<Rightarrow> bool \<Rightarrow> 'w agent \<Rightarrow> bool" for E where
  start: "agent_run E [] False (new_agent w)"
| world: "agent_run E tr waiting s \<Longrightarrow> agent_run E tr waiting (s\<lparr>agWorld := w\<rparr>)"
| reporter: "agent_run E tr waiting s \<Longrightarrow> agent_run E (tr @ [Reported]) waiting (snd (run_state (Reporter_Reconcile E req) s))"
| gate: "agent_run E tr False s \<Longrightarrow> agent_run E tr (fst (run_state actuator_gate s)) (snd (run_state actuator_gate s))"
| locked: "agent_run E tr True s \<Longrightarrow>
    agent_run E (if snd (fst (run_state (actuator_locked E req) s)) then tr @ [Applied] else tr) False
      (snd (run_state (actuator_locked E req) s))"

text \<open>The trace up to its last event shows a report after the last application.\<close>

fun reported_since :: "event list \<Rightarrow> bool" where
  "reported_since [] = False"
| "reported_since (Applied # rev_tr) = False"
| "reported_since (Reported # rev_tr) = True"

text \<open>Between any two applications lies a report, and before the first one too.\<close>

fun applies_reported :: "event list \<Rightarrow> bool" where
  "applies_reported [] = True"
| "applies_reported (Applied # rev_tr) = (reported_since rev_tr \<and> applies_reported rev_tr)"
| "applies_reported (Reported # rev_tr) = applies_reported rev_tr"

definition agent_inv :: "event list \<Rightarrow> bool \<Rightarrow> 'w agent \<Rightarrow> bool" where
  "agent_inv tr waiting s \<longleftrightarrow>
     reportsChan (sharedState s) \<le> reportsChanCap \<and>
     (0 < reportsChan (sharedState s) \<or> waiting \<longrightarrow> reported_since (rev tr)) \<and>
     applies_reported (rev tr) \<and>
     (lastAppliedPlan s = None \<longleftrightarrow> lastAppliedStatus s = None)"

lemma run_in_world [simp]:
  "run_state (in_world m) s = (fst (run_state m (agWorld s)), s\<lparr>agWorld := snd (run_state m (agWorld s))\<rparr>)"
  by (simp add: in_world_def case_prod_beta)

lemma reporter_shared:
  "sharedState (snd (run_state (Reporter_Reconcile E req) s)) = OnReportDone (sharedState s)"
  "lastAppliedPlan (snd (run_state (Reporter_Reconcile E req) s)) = lastAppliedPlan s"
  "lastAppliedStatus (snd (run_state (Reporter_Reconcile E req) s)) = lastAppliedStatus s"
  by (simp_all add: Reporter_Reconcile_def)

text \<open>What the locked part does to the channel and to the memory of the last plan.\<close>

lemma actuate_shared:
  fixes p status and E :: "('w, 'q) agentEnv"
  defines "m \<equiv> actuate E p status"
  shows "sharedState (snd (run_state m s)) = (if snd (fst (run_state m s)) then OnApplyDone (sharedState s) else sharedState s)"
    and "lastAppliedPlan (snd (run_state m s)) = lastAppliedPlan s"
    and "lastAppliedStatus (snd (run_state m s)) = lastAppliedStatus s"
  by (simp_all add: m_def actuate_def)

lemma locked_channel:
  "reportsChan (sharedState (snd (run_state (actuator_locked E req) s))) =
     (if snd (fst (run_state (actuator_locked E req) s)) then reportsChan (sharedState s) - 1 else reportsChan (sharedState s))"
  by (auto simp: actuator_locked_def updateLastApplied_def case_prod_beta actuate_shared OnApplyDone_def split: sum.splits)

lemma locked_last:
  assumes "lastAppliedPlan s = None \<longleftrightarrow> lastAppliedStatus s = None"
  shows "lastAppliedPlan (snd (run_state (actuator_locked E req) s)) = None \<longleftrightarrow>
    lastAppliedStatus (snd (run_state (actuator_locked E req) s)) = None"
  using assms by (auto simp: actuator_locked_def updateLastApplied_def case_prod_beta split: sum.splits)

lemma agent_run_inv: "agent_run E tr waiting s \<Longrightarrow> agent_inv tr waiting s"
proof (induction rule: agent_run.induct)
  case (start w)
  then show ?case by (simp add: agent_inv_def new_agent_def NewSharedState_def)
next
  case (reporter tr waiting s req)
  then show ?case by (auto simp: agent_inv_def reporter_shared OnReportDone_def reportsChanCap_def)
next
  case (gate tr s)
  then show ?case by (auto simp: agent_inv_def actuator_gate_def AtLeastOneReportSinceLastApply_def)
next
  case (locked tr s req)
  then show ?case
    using locked_channel [of E req s] locked_last [of s E req] by (auto simp: agent_inv_def reportsChanCap_def)
qed (auto simp: agent_inv_def)

section \<open>What the actuator writes\<close>

text \<open>
  A property of the world that is kept by reading, by deleting a free device, by creating devices, by restarting the
  plugin, and by the two patches of the node: dropping its spec, and dropping the repartitioning taint.
\<close>

definition actuator_keeps :: "('w, 'q) agentEnv \<Rightarrow> ('w \<Rightarrow> bool) \<Rightarrow> bool" where
  "actuator_keeps E P \<longleftrightarrow>
     (\<forall>name. keeps P (State (getNode (aeClient E) name))) \<and>
     keeps P (mcGetMigDevices (aeMigClient E)) \<and>
     (\<forall>d. Device_IsFree d \<longrightarrow> keeps P (mcDeleteMigDevice (aeMigClient E) d)) \<and>
     (\<forall>ps. keeps P (mcCreateMigDevices (aeMigClient E) ps)) \<and>
     keeps P (aeRestartPlugin E (aeNodeName E) 60) \<and>
     (\<forall>node. keeps P (State (patchNode (aeClient E) node (reset_spec node)))) \<and>
     (\<forall>node. keeps P (State (patchNode (aeClient E) node (node\<lparr>Taints := filter (\<lambda>t. TaintKey t \<noteq> RepartitioningTaintKey) (Taints node)\<rparr>))))"

lemma actuator_keepsD:
  assumes "actuator_keeps E P"
  shows "keeps P (State (getNode (aeClient E) name))" "keeps P (mcGetMigDevices (aeMigClient E))"
    "Device_IsFree d \<Longrightarrow> keeps P (mcDeleteMigDevice (aeMigClient E) d)" "keeps P (mcCreateMigDevices (aeMigClient E) ps)"
    "keeps P (restartNvidiaDevicePlugin E)" "keeps P (State (patchNode (aeClient E) node (reset_spec node)))"
    "keeps P (State (patchNode (aeClient E) node (node\<lparr>Taints := filter (\<lambda>t. TaintKey t \<noteq> RepartitioningTaintKey) (Taints node)\<rparr>)))"
  using assms by (auto simp: actuator_keeps_def restartNvidiaDevicePlugin_def)

lemma delete_resources_keeps:
  assumes "actuator_keeps E P"
  shows "keeps P (delete_resources E rs rr es n ps)"
  by (induction rs arbitrary: rr es n ps) (auto intro!: keeps_rules actuator_keepsD [OF assms] split: option.splits)

lemma apply_deletes_keeps:
  assumes "actuator_keeps E P"
  shows "keeps P (apply_deletes E ops rr e ps)"
  by (induction ops arbitrary: rr e ps)
    (auto simp: applyDeleteOp_def intro!: keeps_rules actuator_keepsD [OF assms] delete_resources_keeps [OF assms] split: prod.splits)

lemma clear_taint_keeps:
  assumes "actuator_keeps E P"
  shows "keeps P (clearRepartitioningTaint E)"
  by (auto simp: clearRepartitioningTaint_def Let_def intro!: keeps_rules actuator_keepsD [OF assms] split: sum.splits)

lemma ac_apply_keeps:
  assumes "actuator_keeps E P"
  shows "keeps P (ac_apply E p)"
  by (auto simp: ac_apply_def applyCreateOps_def rollbackDeletedResources_def resetNodeSpec_def
      intro!: keeps_rules actuator_keepsD [OF assms] apply_deletes_keeps [OF assms] clear_taint_keeps [OF assms] split: prod.splits option.splits sum.splits)

lemma ac_plan_keeps:
  assumes "actuator_keeps E P"
  shows "keeps P (ac_plan E sp)"
  by (auto simp: ac_plan_def intro!: keeps_rules actuator_keepsD [OF assms] split: sum.splits option.splits)

lemma in_world_keeps: "keeps P m \<Longrightarrow> keeps (\<lambda>s. P (agWorld s)) (in_world m)"
  by (simp add: triple_def)

lemma reconcile_keeps:
  fixes E :: "('w, 'q) agentEnv"
  assumes "actuator_keeps E P"
  shows "keeps (\<lambda>s. P (agWorld s)) (Actuator_Reconcile E req)"
proof -
  have local: "keeps (\<lambda>s. P (agWorld s)) (State (\<lambda>s. (x s, f s)))" if "\<And>s. agWorld (f s) = agWorld s" for x :: "'w agent \<Rightarrow> 'a" and f
    using that by (simp add: triple_def)
  show ?thesis
    by (auto simp: Actuator_Reconcile_def actuator_gate_def actuator_locked_def actuate_def updateLastApplied_def
        intro!: keeps_rules in_world_keeps ac_apply_keeps [OF assms] ac_plan_keeps [OF assms] actuator_keepsD(1) [OF assms] local split: sum.splits prod.splits)
qed

section \<open>The GPUs behind the client\<close>

text \<open>
  \<open>devs w\<close> are the MIG devices that exist: listing shows them, a deletion that succeeds removes its device, a
  creation without errors adds one device for each profile, and restarting the plugin changes no device.
\<close>

definition gpu_world_law :: "('w, 'q) agentEnv \<Rightarrow> ('w \<Rightarrow> Device multiset) \<Rightarrow> bool" where
  "gpu_world_law E devs \<longleftrightarrow>
     (\<forall>w ds w'. run_state (mcGetMigDevices (aeMigClient E)) w = (Inr ds, w') \<longrightarrow> mset ds = devs w \<and> devs w' = devs w) \<and>
     (\<forall>d w w'. run_state (mcDeleteMigDevice (aeMigClient E) d) w = (None, w') \<longrightarrow> d \<in># devs w \<longrightarrow> devs w' = devs w - {#d#}) \<and>
     (\<forall>ps w created w'. run_state (mcCreateMigDevices (aeMigClient E) ps) w = ((created, []), w') \<longrightarrow>
        (\<exists>new. devs w' = devs w + new \<and> image_mset device_profile new = mset ps)) \<and>
     (\<forall>w w'. run_state (aeRestartPlugin E (aeNodeName E) 60) w = (None, w') \<longrightarrow> devs w' = devs w)"

lemma delete_resources_all:
  assumes "gpu_world_law E devs" "run_state (delete_resources E rs rr es n ps) w = ((rr', [], n', ps'), w')"
    "list_all Device_IsFree rs" "mset rs \<subseteq># devs w"
  shows "es = [] \<and> devs w' = devs w - mset rs"
  using assms(2-)
proof (induction rs arbitrary: rr es n ps w)
  case (Cons r rs)
  obtain e w1 where run: "run_state (mcDeleteMigDevice (aeMigClient E) r) w = (e, w1)" by fastforce
  have free: "Device_IsFree r" and rest: "list_all Device_IsFree rs" using Cons.prems(2) by simp_all
  have errs: "run_state (delete_resources E rs rr es n ps) w = ((rr', [], n', ps'), w') \<Longrightarrow> es = []" for rs rr es n ps w
    by (induction rs arbitrary: rr es n ps w) (fastforce split: if_splits option.splits)+
  have none: "e = None"
  proof (rule ccontr)
    assume "e \<noteq> None"
    then obtain x where "e = Some x" by blast
    with Cons.prems(1) run free have "\<exists>rr. run_state (delete_resources E rs rr (es @ [x]) n ps) w1 = ((rr', [], n', ps'), w')"
      by (auto split: if_splits)
    with errs show False by blast
  qed
  have in_devs: "r \<in># devs w" "mset rs \<subseteq># devs w - {#r#}"
    using Cons.prems(3) by (auto simp: insert_subset_eq_iff)
  have "devs w1 = devs w - {#r#}"
    using assms(1) run none in_devs(1) unfolding gpu_world_law_def by blast
  moreover have "run_state (delete_resources E rs rr es (Suc n) (ps @ [\<lparr>prGpuIndex = GpuIndex r, prName = GetMigProfileName r\<rparr>])) w1 =
      ((rr', [], n', ps'), w')" using Cons.prems(1) run none free by simp
  ultimately show ?case using Cons.IH [OF _ rest] in_devs(2) by (metis add_mset_diff_bothsides diff_diff_add_mset mset.simps(2) union_mset_add_mset_left add.left_neutral add_mset_add_single union_commute)
qed simp

lemma apply_deletes_all:
  assumes "gpu_world_law E devs" "run_state (apply_deletes E ops rr er ps) w = ((rr', False, ps'), w')"
    "\<not> containsUsedResources ops" "mset (concat (map doResources ops)) \<subseteq># devs w"
  shows "\<not> er \<and> devs w' = devs w - mset (concat (map doResources ops))"
  using assms(2-)
proof (induction ops arbitrary: rr er ps w)
  case (Cons op ops)
  obtain r1 es n1 p1 w1 where run: "run_state (delete_resources E (doResources op) False [] 0 []) w = ((r1, es, n1, p1), w1)"
    by (metis prod.collapse)
  have free: "list_all Device_IsFree (doResources op)" "\<not> containsUsedResources ops"
    using Cons.prems(2) by (simp_all add: containsUsedResources_def list_all_iff list_ex_iff)
  have step: "run_state (apply_deletes E ops (rr \<or> r1 \<or> n1 > 0) (er \<or> es \<noteq> []) (ps @ p1)) w1 = ((rr', False, ps'), w')"
    using Cons.prems(1) run by (simp add: applyDeleteOp_def)
  obtain M where M: "devs w = mset (doResources op) + mset (concat (map doResources ops)) + M"
    using Cons.prems(3) by (auto simp: subset_mset.le_iff_add)
  then have sub: "mset (doResources op) \<subseteq># devs w" "mset (concat (map doResources ops)) \<subseteq># devs w - mset (doResources op)"
    by (simp_all add: ac_simps)
  have flag: "run_state (apply_deletes E ops rr er ps) w = ((rr', False, ps'), w') \<Longrightarrow> \<not> er" for ops rr er ps w
    by (induction ops arbitrary: rr er ps w) (auto simp: case_prod_beta)
  from flag [OF step] have es: "\<not> er" "es = []" by simp_all
  have "devs w1 = devs w - mset (doResources op)"
    using delete_resources_all [OF assms(1) run [unfolded es] free(1) sub(1)] by simp
  with Cons.IH [OF step free(2)] sub(2) es show ?case by (simp add: diff_diff_add_mset)
qed simp

lemma ac_apply_success:
  assumes law: "gpu_world_law E devs" and used: "\<not> containsUsedResources (DeleteOperations p)"
    and sub: "mset (getResourcesToDelete p) \<subseteq># devs w" and run: "run_state (ac_apply E p) w = (None, w')"
  shows "\<exists>new. devs w' = devs w - mset (getResourcesToDelete p) + new \<and>
    image_mset device_profile new = mset (CreateOperationList_Flatten (CreateOperations p))"
proof -
  obtain rr er ps w1 where d: "run_state (apply_deletes E (DeleteOperations p) False False []) w = ((rr, er, ps), w1)"
    by (metis prod.collapse)
  obtain cr es w2 where c: "run_state (mcCreateMigDevices (aeMigClient E) (CreateOperationList_Flatten (CreateOperations p))) w1 = ((cr, es), w2)"
    by (metis prod.collapse)
  have ok: "\<not> er" "es = []"
    using run used d c
    by (auto simp: ac_apply_def applyCreateOps_def case_prod_beta split: option.splits if_splits)
  obtain re w3 where r: "run_state (aeRestartPlugin E (aeNodeName E) 60) w2 = (re, w3)" by fastforce
  have re: "re = None" "w' = w3"
    using run used d c ok r
    by (auto simp: ac_apply_def applyCreateOps_def restartNvidiaDevicePlugin_def case_prod_beta split: option.splits)
  have "devs w1 = devs w - mset (getResourcesToDelete p)"
    using apply_deletes_all [OF law d [unfolded eq_False [THEN iffD2, OF ok(1)]] used] sub by (simp add: getResourcesToDelete_def)
  moreover obtain new where "devs w2 = devs w1 + new"
    "image_mset device_profile new = mset (CreateOperationList_Flatten (CreateOperations p))"
    using law c ok(2) unfolding gpu_world_law_def by blast
  moreover have "devs w3 = devs w2" using law r re(1) unfolding gpu_world_law_def by blast
  ultimately show ?thesis using re(2) by auto
qed

lemma cnt_count: "cnt ds k = int (count (image_mset device_profile (mset ds)) k)"
  by (induction ds) (simp_all add: cnt_def)

text \<open>A program that never reports a crash; the errors of the parts are their own.\<close>

lemma ac_apply_no_crash: "fst (run_state (ac_apply E p) w) \<noteq> Some NilDereference"
  by (auto simp: ac_apply_def case_prod_beta split: option.splits if_splits)

lemma ac_plan_no_crash: "fst (run_state (ac_plan E sp) w) \<noteq> Inl NilDereference"
  by (auto simp: ac_plan_def case_prod_beta split: option.splits if_splits sum.splits)

lemma actuate_no_crash:
  assumes "lastAppliedPlan s = None \<longleftrightarrow> lastAppliedStatus s = None"
  shows "fst (fst (run_state (actuate E p st) s)) \<noteq> Some NilDereference"
  using assms by (auto simp: actuate_def MigConfigPlan_Equal_def ac_apply_no_crash)

lemma locked_no_crash:
  fixes E :: "('w, 'q) agentEnv"
  assumes "lastAppliedPlan s = None \<longleftrightarrow> lastAppliedStatus s = None"
  shows "snd (fst (fst (run_state (actuator_locked E req) s))) \<noteq> Some NilDereference"
proof -
  have act: "fst (fst (run_state (actuate E p st) (s\<lparr>sharedState := sh, agWorld := w\<rparr>))) \<noteq> Some NilDereference" for p st w sh
    using assms by (intro actuate_no_crash) simp
  have plan: "x \<noteq> NilDereference" if "fst (run_state (ac_plan E sp) w) = Inl x" for sp w x
    using ac_plan_no_crash [of E sp w] that by auto
  show ?thesis
    by (cases "fst (run_state (State (getNode (aeClient E) req)) (agWorld s))")
      (auto simp: actuator_locked_def case_prod_beta act split: sum.splits dest: plan)
qed

section \<open>A node for evaluation\<close>

text \<open>One node object and the devices of its GPUs; created devices get fresh ids.\<close>

record toyNode =
  tnNode :: "int Node"
  tnDevices :: "Device list"
  tnNext :: nat

definition toy_device :: "nat \<Rightarrow> Profile \<Rightarrow> Device" where
  "toy_device n p =
     \<lparr>ResourceName = AsResourceName (prName p), DeviceId = ''MIG-'' @ Itoa (int n), DeviceStatus = StatusFree, GpuIndex = prGpuIndex p\<rparr>"

fun toy_devices :: "nat \<Rightarrow> Profile list \<Rightarrow> Device list" where
  "toy_devices n [] = []"
| "toy_devices n (p # ps) = toy_device n p # toy_devices (Suc n) ps"

text \<open>Profiles whose resource name does not read back as the profile are refused.\<close>

definition toy_mig :: "toyNode migClient" where
  "toy_mig =
     \<lparr>mcGetMigDevices = State (\<lambda>w. (Inr (tnDevices w), w)),
      mcGetUsedMigDevices = State (\<lambda>w. (Inr (DeviceList_GetUsed (tnDevices w)), w)),
      mcGetAllocatableMigDevices = State (\<lambda>w. (Inr (tnDevices w), w)),
      mcCreateMigDevices = (\<lambda>ps. State (\<lambda>w.
        if list_all (\<lambda>p. ExtractProfileName (AsResourceName (prName p)) = Some (prName p)) ps
        then ((ps, []), w\<lparr>tnDevices := tnDevices w @ toy_devices (tnNext w) ps, tnNext := tnNext w + length ps\<rparr>)
        else (([], [GenericErr ''invalid profile'']), w))),
      mcDeleteMigDevice = (\<lambda>d. State (\<lambda>w. (None, w\<lparr>tnDevices := remove1 d (tnDevices w)\<rparr>))),
      mcDeleteAllExcept = (\<lambda>_. State (\<lambda>w. (None, w)))\<rparr>"

definition toy_api :: "(toyNode, int) kubeAPI" where
  "toy_api =
     \<lparr>listNodes = (\<lambda>_ w. (Inr [tnNode w], w)), listPods = (\<lambda>w. (Inr [], w)), getNode = (\<lambda>_ w. (Inr (tnNode w), w)),
      patchNode = (\<lambda>old new w. (None, w\<lparr>tnNode := new\<rparr>)), evictPod = (\<lambda>_ _ w. (None, w))\<rparr>"

definition toy_agent :: "(toyNode, int) agentEnv" where
  "toy_agent =
     \<lparr>aeClient = toy_api, aeMigClient = toy_mig, aeNodeName = ''node'', aeRestartPlugin = (\<lambda>_ _. State_Monad.return None),
      aeRefreshInterval = 10, cmpQuantities = gm_equal, cmpStatus = (=), cmpDevice = (=), cmpCreate = (=)\<rparr>"

lemma toy_devices_profiles:
  "list_all (\<lambda>p. ExtractProfileName (AsResourceName (prName p)) = Some (prName p)) ps \<Longrightarrow>
   map device_profile (toy_devices n ps) = ps"
  by (induction n ps rule: toy_devices.induct) (simp_all add: device_profile_def toy_device_def GetMigProfileName_def)

lemma toy_world_law: "gpu_world_law toy_agent (\<lambda>w. mset (tnDevices w))"
proof -
  have "image_mset device_profile (mset (toy_devices n ps)) = mset ps"
    if "list_all (\<lambda>p. ExtractProfileName (AsResourceName (prName p)) = Some (prName p)) ps" for n ps
    using toy_devices_profiles [OF that, of n] by (metis mset_map)
  then show ?thesis by (auto simp: gpu_world_law_def toy_agent_def toy_mig_def split: if_splits)
qed

text \<open>A node whose spec asks for three small devices; one small and one large device exist besides one in use.\<close>

definition busy_node :: toyNode where
  "busy_node =
     \<lparr>tnNode = \<lparr>Name = ''node'', Labels = [], Annotations = [(''nos.nebuly.com/spec-gpu-0-1g.5gb'', ''3'')], Taints = [], Capacity = [], Allocatable = []\<rparr>,
      tnDevices = plan_devices, tnNext = 10\<rparr>"

section \<open>Properties\<close>



text \<open>C8: The actuator's handler writes nothing but: it deletes devices that are free, creates devices, restarts
  the plugin, and patches the node by dropping its spec or its repartitioning taint; it keeps every property of
  the world that these calls and reading keep.\<close>

theorem actuator_deletes_free_only:
  assumes "actuator_keeps E P" "P (agWorld s)"
  shows "P (agWorld (snd (run_state (Actuator_Reconcile E req) s)))"
  using reconcile_keeps [OF assms(1), of req] assms(2) by (simp add: triple_def)

theorem actuator_deletes_free_only_witness:
  "plan_devices ! 0 \<in> set (tnDevices (agWorld (snd (run_state (Actuator_Reconcile toy_agent ''node'')
     (snd (run_state (Reporter_Reconcile toy_agent ''node'') (new_agent busy_node)))))))"
proof -
  let ?d = "plan_devices ! 0" let ?s = "snd (run_state (Reporter_Reconcile toy_agent ''node'') (new_agent busy_node))"
  have used: "\<not> Device_IsFree ?d" by (simp add: plan_devices_def Device_IsFree_def)
  have "?d \<in> set (remove1 d l)" if "Device_IsFree d" "?d \<in> set l" for d l
    using that used by (cases "d = ?d") (auto simp: in_set_remove1)
  then have "actuator_keeps toy_agent (\<lambda>w. ?d \<in> set (tnDevices w))"
    by (auto simp: actuator_keeps_def toy_agent_def toy_mig_def toy_api_def triple_def)
  moreover have "?d \<in> set (tnDevices (agWorld ?s))" by code_simp
  ultimately show ?thesis by (rule actuator_deletes_free_only)
qed

text \<open>What carrying out a plan leaves of the devices.\<close>

lemma apply_outcome:
  assumes "gpu_world_law E devs" "mset ds = devs w" "distinct (map DeviceId ds)"
    "\<not> containsUsedResources (DeleteOperations (NewMigConfigPlan (NewMigState ds) spec))"
    "run_state (ac_apply E (NewMigConfigPlan (NewMigState ds) spec)) w = (None, w')"
  obtains new where "mset (getResourcesToDelete (NewMigConfigPlan (NewMigState ds) spec)) \<subseteq># devs w"
    "devs w' = devs w - mset (getResourcesToDelete (NewMigConfigPlan (NewMigState ds) spec)) + new"
    "image_mset device_profile new = mset (CreateOperationList_Flatten (CreateOperations (NewMigConfigPlan (NewMigState ds) spec)))"
proof -
  let ?s = "NewMigState ds" let ?p = "NewMigConfigPlan ?s spec"
  have flat: "mset (MigState_Flatten ?s) = devs w" using assms(2) by simp
  then have "mset (map DeviceId (MigState_Flatten ?s)) = mset (map DeviceId ds)" using assms(2) by simp
  with assms(3) have "distinct (map DeviceId (MigState_Flatten ?s))" using mset_eq_imp_distinct_iff by blast
  note del = plan_deletes [OF NewMigState_wf this, of spec]
  then have "distinct (getResourcesToDelete ?p)" "set (getResourcesToDelete ?p) \<subseteq> set (MigState_Flatten ?s)"
    by (auto simp: distinct_map)
  then have "mset (getResourcesToDelete ?p) \<subseteq># devs w" unfolding flat [symmetric] by (rule distinct_subseteq_mset)
  with ac_apply_success [OF assms(1,4) this assms(5)] that show thesis by blast
qed

lemma apply_counts:
  assumes "gpu_world_law E devs" "mset ds = devs w" "distinct (map DeviceId ds)" "\<forall>k. 0 \<le> wanted spec k"
    "\<not> containsUsedResources (DeleteOperations (NewMigConfigPlan (NewMigState ds) spec))"
    "run_state (ac_apply E (NewMigConfigPlan (NewMigState ds) spec)) w = (None, w')"
  shows "int (count (image_mset device_profile (devs w')) k) = wanted spec k"
proof -
  let ?s = "NewMigState ds" let ?p = "NewMigConfigPlan ?s spec" let ?del = "mset (getResourcesToDelete ?p)"
  obtain new where new: "?del \<subseteq># devs w" "devs w' = devs w - ?del + new"
      "image_mset device_profile new = mset (CreateOperationList_Flatten (CreateOperations ?p))"
    by (rule apply_outcome [OF assms(1-3,5,6)])
  obtain rest where rest: "devs w = ?del + rest" using new(1) by (auto simp: subset_mset.le_iff_add)
  then have "devs w' = rest + new" using new(2) by simp
  with rest have "int (count (image_mset device_profile (devs w')) k) =
      int (count (image_mset device_profile (devs w)) k) - int (count (image_mset device_profile ?del) k) + created ?p k"
    by (simp add: new(3) Flatten_created [OF plan_positive])
  also have "\<dots> = cnt (MigState_Flatten ?s) k - deleted ?p k + created ?p k"
    by (simp add: cnt_count deleted_def assms(2))
  also have "\<dots> = wanted spec k" by (rule plan_counts [OF NewMigState_wf assms(4)])
  finally show ?thesis .
qed

lemma apply_keeps_used:
  assumes "gpu_world_law E devs" "mset ds = devs w" "distinct (map DeviceId ds)"
    "\<not> containsUsedResources (DeleteOperations (NewMigConfigPlan (NewMigState ds) spec))"
    "run_state (ac_apply E (NewMigConfigPlan (NewMigState ds) spec)) w = (None, w')"
    "d \<in># devs w" "\<not> Device_IsFree d"
  shows "d \<in># devs w'"
proof -
  let ?del = "mset (getResourcesToDelete (NewMigConfigPlan (NewMigState ds) spec))"
  obtain new where new: "devs w' = devs w - ?del + new" by (rule apply_outcome [OF assms(1-5)])
  have "d \<notin># ?del"
    using assms(4,7) by (auto simp: containsUsedResources_def getResourcesToDelete_def list_ex_iff)
  then show ?thesis
    using assms(6) unfolding new by (metis count_eq_zero_iff count_greater_zero_iff in_diff_count union_iff)
qed

text \<open>C2: When a plan is applied without an error and needs no used device, the MIG devices of the node afterwards
  are exactly as many of each profile on each GPU as the spec annotations ask for, and every device that was in
  use is still there.\<close>

theorem apply_reaches_spec:
  assumes "gpu_world_law E devs" "mset ds = devs w" "distinct (map DeviceId ds)" "\<forall>k. 0 \<le> wanted spec k"
    "\<not> containsUsedResources (DeleteOperations (NewMigConfigPlan (NewMigState ds) spec))"
    "run_state (ac_apply E (NewMigConfigPlan (NewMigState ds) spec)) w = (None, w')"
  shows "int (count (image_mset device_profile (devs w')) k) = wanted spec k \<and>
    (\<forall>d. d \<in># devs w \<and> \<not> Device_IsFree d \<longrightarrow> d \<in># devs w')"
  using apply_counts [OF assms] apply_keeps_used [OF assms(1-3,5,6)] by blast

theorem apply_reaches_spec_witness:
  "count (image_mset device_profile (mset (tnDevices (snd (run_state (ac_apply toy_agent (NewMigConfigPlan (NewMigState plan_devices) plan_spec)) busy_node)))))
     \<lparr>prGpuIndex = 0, prName = ''1g.5gb''\<rparr> = 3"
proof -
  let ?p = "NewMigConfigPlan (NewMigState plan_devices) plan_spec"
  have ids: "distinct (map DeviceId plan_devices)" by code_simp
  have free: "\<not> containsUsedResources (DeleteOperations ?p)" by code_simp
  have none: "fst (run_state (ac_apply toy_agent ?p) busy_node) = None" by code_simp
  then have run: "run_state (ac_apply toy_agent ?p) busy_node = (None, snd (run_state (ac_apply toy_agent ?p) busy_node))"
    by (simp add: prod_eq_iff)
  have devs: "mset plan_devices = mset (tnDevices busy_node)" by (simp add: busy_node_def)
  have "\<forall>k. 0 \<le> wanted plan_spec k" by (simp add: plan_spec_wanted)
  from apply_reaches_spec [OF toy_world_law devs ids this free run, of "\<lparr>prGpuIndex = 0, prName = ''1g.5gb''\<rparr>"]
  show ?thesis by (simp add: plan_spec_wanted del: mset_map)
qed

end
