(* ===== verification/StatusReport.thy ===== *)
theory StatusReport
  imports NodeLoops
begin

text \<open>
  The status annotations that the agents of both partitioning kinds write to their node: \<^verbatim>\<open>AsStatusAnnotation\<close>
  of \<^verbatim>\<open>pkg/gpu/device.go\<close> on the listed devices, printed over the old status annotations of the node.  What
  differs between the agents is the function that reads the profile off a resource name; the locale says what
  it has to satisfy for a report to read back as it was written.
\<close>

section \<open>The status annotations of a list of devices\<close>

abbreviation status_annotations :: "(ResourceName \<Rightarrow> string option) \<Rightarrow> Device list \<Rightarrow> StatusAnnotation list" where
  "status_annotations getProfile ds \<equiv> DeviceList_AsStatusAnnotation ds getProfile"

text \<open>The annotations of the devices of one GPU and resource, and of one GPU.\<close>

definition resource_annotations :: "(ResourceName \<Rightarrow> string option) \<Rightarrow> int \<Rightarrow> ResourceName \<Rightarrow> Device list \<Rightarrow> StatusAnnotation list" where
  "resource_annotations getProfile i r ds =
     concat (map (\<lambda>(st, ds). case getProfile r of
       Some p \<Rightarrow> [\<lparr>stProfileName = p, stIndex = i, stStatus = st, stQuantity = int (length ds)\<rparr>]
     | None \<Rightarrow> []) (group_by DeviceStatus ds))"

definition gpu_annotations :: "(ResourceName \<Rightarrow> string option) \<Rightarrow> int \<Rightarrow> Device list \<Rightarrow> StatusAnnotation list" where
  "gpu_annotations getProfile i ds = concat (map (\<lambda>(r, ds). resource_annotations getProfile i r ds) (group_by ResourceName ds))"

lemma status_annotations_eq:
  "status_annotations getProfile ds = concat (map (\<lambda>(i, ds). gpu_annotations getProfile i ds) (group_by GpuIndex ds))"
  by (simp add: DeviceList_AsStatusAnnotation_def gpu_annotations_def resource_annotations_def
      DeviceList_GroupByGpuIndex_def DeviceList_GroupByResourceName_def DeviceList_GroupByStatus_def)

lemma resource_annotations_elem:
  "a \<in> set (resource_annotations getProfile i r ds) \<Longrightarrow>
   stIndex a = i \<and> getProfile r = Some (stProfileName a) \<and> 0 \<le> stQuantity a \<and> stQuantity a \<le> int (length ds)"
  by (auto simp: resource_annotations_def group_by_entry_iff split: option.splits)

lemma gpu_annotations_elem:
  assumes "a \<in> set (gpu_annotations getProfile i ds)"
  shows "stIndex a = i \<and> (\<exists>d\<in>set ds. getProfile (ResourceName d) = Some (stProfileName a)) \<and>
    0 \<le> stQuantity a \<and> stQuantity a \<le> int (length ds)"
proof -
  obtain r rs where r: "(r, rs) \<in> set (group_by ResourceName ds)" "a \<in> set (resource_annotations getProfile i r rs)"
    using assms by (auto simp: gpu_annotations_def)
  have "length rs \<le> length ds" "r \<in> ResourceName ` set ds" using r(1) by (auto simp: group_by_entry_iff)
  with resource_annotations_elem [OF r(2)] show ?thesis by fastforce
qed

lemma status_annotations_elem:
  assumes "a \<in> set (status_annotations getProfile ds)"
  shows "(\<exists>d\<in>set ds. stIndex a = GpuIndex d \<and> getProfile (ResourceName d) = Some (stProfileName a)) \<and>
    0 \<le> stQuantity a \<and> stQuantity a \<le> int (length ds)"
proof -
  obtain i gs where i: "(i, gs) \<in> set (group_by GpuIndex ds)" "a \<in> set (gpu_annotations getProfile i gs)"
    using assms by (auto simp: status_annotations_eq)
  have gs: "gs = filter (\<lambda>d. GpuIndex d = i) ds" using i(1) by (simp add: group_by_entry_iff)
  then have "length gs \<le> length ds" by simp
  moreover obtain d where d: "d \<in> set gs" "getProfile (ResourceName d) = Some (stProfileName a)"
    using gpu_annotations_elem [OF i(2)] by blast
  then have "d \<in> set ds" "GpuIndex d = i" using gs by auto
  ultimately show ?thesis using gpu_annotations_elem [OF i(2)] d(2) by fastforce
qed

section \<open>One annotation for each GPU, profile and status\<close>

abbreviation status_key :: "StatusAnnotation \<Rightarrow> int \<times> string \<times> Status" where
  "status_key a \<equiv> (stIndex a, stProfileName a, stStatus a)"

lemma distinct_concat_keyed:
  assumes "gm_ok G" "\<And>k x. (k, x) \<in> set G \<Longrightarrow> distinct (map h (f (k, x)))"
    "\<And>k x y. (k, x) \<in> set G \<Longrightarrow> y \<in> set (f (k, x)) \<Longrightarrow> key (h y) = k"
  shows "distinct (map h (concat (map f G)))"
  using assms
proof (induction G)
  case (Cons g G)
  obtain k x where g: "g = (k, x)" by fastforce
  have "key y \<noteq> k" if y: "y \<in> h ` set (concat (map f G))" for y
  proof -
    obtain e z where e: "e \<in> set G" "z \<in> set (f e)" "y = h z" using y by auto
    obtain k' x' where "e = (k', x')" by fastforce
    with e have z: "(k', x') \<in> set G" "z \<in> set (f (k', x'))" "y = h z" by simp_all
    then have "key y = k'" using Cons.prems(3) by auto
    moreover have "k' \<noteq> k" using Cons.prems(1) z(1) by (force simp: g gm_ok_Cons)
    ultimately show ?thesis by simp
  qed
  moreover have "key y = k" if "y \<in> h ` set (f g)" for y using that Cons.prems(3) [of k x] by (auto simp: g)
  ultimately have "h ` set (f g) \<inter> h ` set (concat (map f G)) = {}" by fastforce
  moreover have "distinct (map h (concat (map f G)))"
  proof (rule Cons.IH)
    show "gm_ok G" using Cons.prems(1) by (simp add: g gm_ok_Cons)
    show "distinct (map h (f (k, x)))" if "(k, x) \<in> set G" for k x using that by (intro Cons.prems(2)) simp
    show "key (h y) = k" if "(k, x) \<in> set G" "y \<in> set (f (k, x))" for k x y using that by (intro Cons.prems(3) [of k x]) simp_all
  qed
  moreover have "distinct (map h (f g))" using Cons.prems(2) [of k x] by (simp add: g)
  ultimately show ?case by (simp del: map_concat)
qed simp

lemma resource_annotations_distinct: "distinct (map status_key (resource_annotations getProfile i r ds))"
  unfolding resource_annotations_def
  by (rule distinct_concat_keyed [where key = "\<lambda>(_, _, st). st"]) (auto split: option.splits)

section \<open>The annotations of a node\<close>

lemma status_of_other: "\<not> HasPrefix (fst e) AnnotationGpuStatusPrefix \<Longrightarrow> status_of e = None"
  by (simp add: status_of_def ParseStatusAnnotation_def)

lemma spec_of_status: "HasPrefix (fst e) AnnotationGpuStatusPrefix \<Longrightarrow> spec_of e = None"
  using prefixes_disjoint by (auto simp: spec_of_def ParseSpecAnnotation_def)

lemma status_String_prefix: "HasPrefix (StatusAnnotation_String a) AnnotationGpuStatusPrefix"
  by (simp add: StatusAnnotation_String_def HasPrefix_iff)

lemma StatusAnnotation_String_key:
  assumes "status_printable a" "status_printable b" "StatusAnnotation_String a = StatusAnnotation_String b"
  shows "status_key a = status_key b"
proof -
  let ?b = "b\<lparr>stQuantity := stQuantity a\<rparr>"
  have "StatusAnnotation_String ?b = StatusAnnotation_String a" "StatusAnnotation_GetValue ?b = StatusAnnotation_GetValue a" "status_printable ?b"
    using assms by (simp_all add: StatusAnnotation_String_def StatusAnnotation_GetValue_def status_printable_def)
  with parse_status_print [of ?b] parse_status_print [OF assms(1)] have "a = ?b" by simp
  then show ?thesis by (metis StatusAnnotation.select_convs(1-3) StatusAnnotation.surjective StatusAnnotation.update_convs(4))
qed

section \<open>A report reads back\<close>

lemma parse_report:
  assumes "list_all status_printable as" "distinct (map status_key as)"
  shows "List.map_filter status_of (gm_put_all (filter (\<lambda>(k, _). \<not> HasPrefix k AnnotationGpuStatusPrefix) old)
      (map (\<lambda>a. (StatusAnnotation_String a, StatusAnnotation_GetValue a)) as)) = as" (is ?status)
    "List.map_filter spec_of (gm_put_all (filter (\<lambda>(k, _). \<not> HasPrefix k AnnotationGpuStatusPrefix) old)
      (map (\<lambda>a. (StatusAnnotation_String a, StatusAnnotation_GetValue a)) as)) = List.map_filter spec_of old" (is ?spec)
proof -
  let ?print = "\<lambda>a. (StatusAnnotation_String a, StatusAnnotation_GetValue a)"
  let ?old = "filter (\<lambda>(k, _). \<not> HasPrefix k AnnotationGpuStatusPrefix) old"
  have "inj_on StatusAnnotation_String (set as)"
    using assms StatusAnnotation_String_key by (force simp: inj_on_def distinct_map list_all_iff)
  then have "distinct (map StatusAnnotation_String as)" using assms(2) by (simp add: distinct_map)
  then have put: "gm_put_all ?old (map ?print as) = ?old @ map ?print as"
    by (subst gm_put_all_fresh) (auto simp: gm_ok_def comp_def gm_has_iff status_String_prefix)
  have "List.map_filter status_of (map ?print as) = map id as"
    using assms(1) by (intro map_filter_Some) (simp add: status_of_def parse_status_print list_all_iff)
  moreover have "List.map_filter status_of ?old = []" by (intro map_filter_None) (auto simp: status_of_other)
  ultimately show ?status by (simp add: put map_filter_append)
  have "List.map_filter spec_of (map ?print as) = []"
    by (intro map_filter_None) (auto simp: spec_of_status status_String_prefix)
  moreover have "List.map_filter spec_of ?old = List.map_filter spec_of old"
    by (intro map_filter_filter) (auto simp: spec_of_status)
  ultimately show ?spec by (simp add: put map_filter_append)
qed

text \<open>A device with a resource name that stands for a profile, on a GPU of the node.\<close>

definition reportable_device :: "(ResourceName \<Rightarrow> bool) \<Rightarrow> Device \<Rightarrow> bool" where
  "reportable_device reportable d \<longleftrightarrow> reportable (ResourceName d) \<and> 0 \<le> GpuIndex d \<and> int64_range (GpuIndex d)"

locale profile_reader =
  fixes getProfile :: "ResourceName \<Rightarrow> string option"
    and reportable :: "ResourceName \<Rightarrow> bool"
  assumes profile_read: "reportable r \<Longrightarrow> \<exists>p. getProfile r = Some p \<and> CHR ''-'' \<notin> set p"
    and profile_unique: "reportable r \<Longrightarrow> reportable r' \<Longrightarrow> getProfile r = getProfile r' \<Longrightarrow> r = r'"
begin

lemma gpu_annotations_distinct:
  assumes "\<forall>d\<in>set ds. reportable (ResourceName d)"
  shows "distinct (map status_key (gpu_annotations getProfile i ds))"
  unfolding gpu_annotations_def
proof (rule distinct_concat_keyed [where key = "\<lambda>(_, p, _). THE r. reportable r \<and> getProfile r = Some p"])
  fix r rs a assume r: "(r, rs) \<in> set (group_by ResourceName ds)"
    "a \<in> set (case (r, rs) of (r, rs) \<Rightarrow> resource_annotations getProfile i r rs)"
  have "reportable r" using r(1) assms by (auto simp: group_by_entry_iff)
  moreover have "getProfile r = Some (stProfileName a)" using r(2) resource_annotations_elem [of a getProfile i r rs] by simp
  ultimately show "(case status_key a of (_, p, _) \<Rightarrow> THE r. reportable r \<and> getProfile r = Some p) = r"
    using profile_unique by (auto intro!: the_equality)
qed (auto simp: resource_annotations_distinct)

lemma status_annotations_distinct:
  assumes "\<forall>d\<in>set ds. reportable_device reportable d"
  shows "distinct (map status_key (status_annotations getProfile ds))"
  unfolding status_annotations_eq
proof (rule distinct_concat_keyed [where key = fst])
  fix i gs assume i: "(i, gs) \<in> set (group_by GpuIndex ds)"
  then have "\<forall>d\<in>set gs. reportable (ResourceName d)" using assms by (auto simp: group_by_entry_iff reportable_device_def)
  then show "distinct (map status_key (case (i, gs) of (i, gs) \<Rightarrow> gpu_annotations getProfile i gs))"
    by (simp add: gpu_annotations_distinct)
qed (auto dest: gpu_annotations_elem)

lemma status_annotations_printable:
  assumes "\<forall>d\<in>set ds. reportable_device reportable d" "int64_range (int (length ds))"
  shows "list_all status_printable (status_annotations getProfile ds)"
  unfolding list_all_iff
proof
  fix a assume a: "a \<in> set (status_annotations getProfile ds)"
  then obtain d where d: "d \<in> set ds" "stIndex a = GpuIndex d" "getProfile (ResourceName d) = Some (stProfileName a)"
    using status_annotations_elem by blast
  then have "CHR ''-'' \<notin> set (stProfileName a)"
    using assms(1) profile_read [of "ResourceName d"] by (auto simp: reportable_device_def)
  moreover have "int64_range (stQuantity a)"
    using status_annotations_elem [OF a] assms(2) by (auto simp: int64_range_def)
  ultimately show "status_printable a"
    using d assms(1) by (auto simp: status_printable_def reportable_device_def)
qed

lemmas report_reads_back = parse_report [OF status_annotations_printable status_annotations_distinct]

end

section \<open>The quantities\<close>

lemma sum_group_filter:
  fixes f :: "'v \<Rightarrow> 'k"
  shows "(\<Sum>(k, xs)\<leftarrow>group_by f ds. int (length (filter Q xs))) = int (length (filter Q ds))"
proof -
  have "(\<Sum>(k, xs)\<leftarrow>gs. int (length (filter Q xs))) = int (length (filter Q (concat (map snd gs))))" for gs :: "('k \<times> 'v list) list"
    by (induction gs) auto
  also have "mset (filter Q (concat (map snd (group_by f ds)))) = mset (filter Q ds)" by simp
  then have "length (filter Q (concat (map snd (group_by f ds)))) = length (filter Q ds)" by (rule mset_eq_length)
  finally show ?thesis .
qed

definition reports :: "(ResourceName \<Rightarrow> string option) \<Rightarrow> (Status \<Rightarrow> bool) \<Rightarrow> string \<Rightarrow> Device \<Rightarrow> bool" where
  "reports getProfile S p d \<longleftrightarrow> S (DeviceStatus d) \<and> getProfile (ResourceName d) = Some p"

lemma annotated_resource:
  assumes "\<forall>d\<in>set ds. ResourceName d = r"
  shows "annotated (\<lambda>a. S (stStatus a)) (resource_annotations getProfile i r ds) p = int (length (filter (reports getProfile S p) ds))"
proof -
  have "annotated (\<lambda>a. S (stStatus a)) (case getProfile r of
       Some p \<Rightarrow> [\<lparr>stProfileName = p, stIndex = i, stStatus = st, stQuantity = int (length ss)\<rparr>] | None \<Rightarrow> []) p =
      int (length (filter (reports getProfile S p) ss))" if "(st, ss) \<in> set (group_by DeviceStatus ds)" for st ss
  proof -
    have "\<forall>d\<in>set ss. DeviceStatus d = st \<and> ResourceName d = r" using that assms by (auto simp: group_by_entry_iff)
    then have "filter (reports getProfile S p) ss = (if S st \<and> getProfile r = Some p then ss else [])"
      by (auto simp: filter_id_conv filter_empty_conv reports_def)
    then show ?thesis by (auto simp: annotated_def split: option.splits)
  qed
  then have "annotated (\<lambda>a. S (stStatus a)) (resource_annotations getProfile i r ds) p =
      (\<Sum>(st, ss)\<leftarrow>group_by DeviceStatus ds. int (length (filter (reports getProfile S p) ss)))"
    unfolding resource_annotations_def annotated_concat map_map
    by (intro arg_cong [where f = sum_list] map_cong refl) auto
  then show ?thesis by (simp add: sum_group_filter)
qed

lemma annotated_gpu:
  "annotated (\<lambda>a. S (stStatus a)) (gpu_annotations getProfile i ds) p = int (length (filter (reports getProfile S p) ds))"
proof -
  have "annotated (\<lambda>a. S (stStatus a)) (resource_annotations getProfile i r rs) p = int (length (filter (reports getProfile S p) rs))"
    if "(r, rs) \<in> set (group_by ResourceName ds)" for r rs
    using that by (intro annotated_resource) (auto simp: group_by_entry_iff)
  then have "annotated (\<lambda>a. S (stStatus a)) (gpu_annotations getProfile i ds) p =
      (\<Sum>(r, rs)\<leftarrow>group_by ResourceName ds. int (length (filter (reports getProfile S p) rs)))"
    unfolding gpu_annotations_def annotated_concat map_map
    by (intro arg_cong [where f = sum_list] map_cong refl) auto
  then show ?thesis by (simp add: sum_group_filter)
qed

lemma annotated_status:
  "annotated (\<lambda>a. S (stStatus a)) (status_annotations getProfile ds) p = int (length (filter (reports getProfile S p) ds))"
proof -
  have "annotated (\<lambda>a. S (stStatus a)) (status_annotations getProfile ds) p =
      (\<Sum>(i, gs)\<leftarrow>group_by GpuIndex ds. int (length (filter (reports getProfile S p) gs)))"
    unfolding status_annotations_eq annotated_concat map_map
    by (intro arg_cong [where f = sum_list] map_cong refl) (auto simp: annotated_gpu)
  then show ?thesis by (simp add: sum_group_filter)
qed

end
