(* ===== verification/AgentReport.thy ===== *)
theory AgentReport
  imports MigAgent StatusReport
begin

text \<open>
  From the devices of a node to the partitioner's view of it: the status annotations the reporter writes
  (\<^verbatim>\<open>internal/controllers/migagent/reporter.go\<close>, \<^verbatim>\<open>pkg/gpu/device.go\<close>) read back as the devices that were reported,
  and the node that the partitioner builds from them (\<^verbatim>\<open>pkg/gpu/mig/node.go\<close>) has exactly those devices.
\<close>

section \<open>The status annotations of a list of devices\<close>

text \<open>A resource as the kubelet lists it, and a device of it on a GPU of the node.\<close>

definition mig_resource :: "ResourceName \<Rightarrow> bool" where
  "mig_resource r \<longleftrightarrow> (\<exists>p. r = AsResourceName p \<and> canonical_profile p)"

abbreviation mig_device :: "Device \<Rightarrow> bool" where
  "mig_device \<equiv> reportable_device mig_resource"

lemma mig_resource_profile:
  "mig_resource r \<Longrightarrow> \<exists>p. ExtractProfileNameStr r = Some p \<and> r = AsResourceName p \<and> canonical_profile p"
  by (auto simp: mig_resource_def ExtractProfileNameStr_def ExtractProfileName_AsResourceName canonical_profile_def)

interpretation mig_report: profile_reader ExtractProfileNameStr mig_resource
proof
  show "\<exists>p. ExtractProfileNameStr r = Some p \<and> CHR ''-'' \<notin> set p" if "mig_resource r" for r
    using mig_resource_profile [OF that] by (auto simp: canonical_no_dash)
  show "r = r'" if "mig_resource r" "mig_resource r'" "ExtractProfileNameStr r = ExtractProfileNameStr r'" for r r'
    using mig_resource_profile [OF that(1)] mig_resource_profile [OF that(2)] that(3) by auto
qed

lemma reported_plan_not_parsed:
  "\<forall>v. spec_of (AnnotationReportedPartitioningPlan, v) = None" "\<forall>v. status_of (AnnotationReportedPartitioningPlan, v) = None"
  by (simp_all add: spec_of_def status_of_def ParseSpecAnnotation_def ParseStatusAnnotation_def HasPrefix_iff
      AnnotationReportedPartitioningPlan_def AnnotationGpuSpecPrefix_def AnnotationGpuStatusPrefix_def)

lemma parse_reported_node:
  assumes "\<forall>d\<in>set ds. mig_device d" "int64_range (int (length ds))"
  shows "ParseNodeAnnotations (reported_node node (DeviceList_AsStatusAnnotation ds ExtractProfileNameStr) planId) =
    (DeviceList_AsStatusAnnotation ds ExtractProfileNameStr, snd (ParseNodeAnnotations node))"
  using mig_report.report_reads_back [OF assms assms(1)]
  by (simp add: ParseNodeAnnotations_eq reported_node_def map_filter_put reported_plan_not_parsed)

text \<open>The node built from a status that is, in any order, the report of some devices.\<close>

lemma new_node_of_status:
  assumes "\<forall>d\<in>set ds. mig_device d" "known_ok known" "nodeInfo_law K"
    "mset (fst (ParseNodeAnnotations node)) = mset (DeviceList_AsStatusAnnotation ds ExtractProfileNameStr)"
    "NewNode K known (newNodeInfo K node) = Inr n"
  shows "node_ok n \<and>
    (\<forall>p. total_used (GPUs n) p = int (length (filter (\<lambda>d. Device_IsUsed d \<and> GetMigProfileName d = p) ds)) \<and>
         total_free (GPUs n) p = int (length (filter (\<lambda>d. Device_IsFree d \<and> GetMigProfileName d = p) ds)))"
proof -
  let ?as = "status_annotations ExtractProfileNameStr ds"
  have parsed: "mset (fst (ParseNodeAnnotations node)) = mset ?as" using assms(4) by simp
  have info: "nodeInfoNode K (newNodeInfo K node) = Some node" using assms(3) by (simp add: nodeInfo_law_def)
  from assms(5) info obtain model gpuCount where e: "extractGPUs known node model gpuCount = Inr (GPUs n)"
    by (auto simp: NewNode_def split: sum.splits)
  have "one_per_status ?as"
    unfolding one_per_status_def by (rule mig_report.status_annotations_distinct [OF assms(1)])
  with parsed have one: "one_per_status (fst (ParseNodeAnnotations node))"
    unfolding one_per_status_def by (metis mset_eq_imp_distinct_iff mset_map)
  have count: "annotated (\<lambda>a. S (stStatus a)) (fst (ParseNodeAnnotations node)) p =
      int (length (filter (\<lambda>d. S (DeviceStatus d) \<and> GetMigProfileName d = p) ds))" for S p
    unfolding annotated_mset [OF parsed] annotated_status reports_def
    using assms(1) mig_resource_profile
    by (intro arg_cong [where f = "\<lambda>l. int (length l)"] filter_cong refl)
      (force simp: reportable_device_def GetMigProfileName_def ExtractProfileNameStr_def split: option.splits)
  have "node_ok n" using status_annotations_elem
    by (intro NewNode_ok [OF assms(2,5) info]) (auto simp: mset_eq_setD [OF parsed])
  then show ?thesis
    using extractGPUs_totals(1,2) [OF e one] count [of "\<lambda>st. st = StatusUsed"] count [of "\<lambda>st. st = StatusFree"]
    by (simp add: StatusAnnotation_IsUsed_def [abs_def] StatusAnnotation_IsFree_def [abs_def] Device_IsUsed_def Device_IsFree_def)
qed

section \<open>Properties\<close>


text \<open>C9: The node that the partitioner builds from what the reporter wrote has exactly as many used and free
  devices of every profile as the node has.\<close>

theorem report_reaches_partitioner:
  assumes "\<forall>d\<in>set ds. mig_device d" "int64_range (int (length ds))" "known_ok known" "nodeInfo_law K"
    "NewNode K known (newNodeInfo K (reported_node node (DeviceList_AsStatusAnnotation ds ExtractProfileNameStr) planId)) = Inr n"
  shows "node_ok n \<and>
    (\<forall>p. total_used (GPUs n) p = int (length (filter (\<lambda>d. Device_IsUsed d \<and> GetMigProfileName d = p) ds)) \<and>
         total_free (GPUs n) p = int (length (filter (\<lambda>d. Device_IsFree d \<and> GetMigProfileName d = p) ds)))"
  by (rule new_node_of_status [OF assms(1,3,4) _ assms(5)]) (simp add: parse_reported_node [OF assms(1,2)])

text \<open>An A100 node with the devices of \<open>plan_devices\<close>.\<close>

definition a100_node :: "int Node" where
  "a100_node =
     \<lparr>Name = ''node'', Labels = [(''nvidia.com/gpu.product'', GPUModel_A100_SXM4_40GB), (''nvidia.com/gpu.count'', ''1'')],
      Annotations = [(''nos.nebuly.com/spec-gpu-0-1g.5gb'', ''3'')], Taints = [], Capacity = [], Allocatable = []\<rparr>"

lemma plan_devices_mig: "\<forall>d\<in>set plan_devices. mig_device d" "int64_range (int (length plan_devices))"
proof -
  have "AsResourceName ''1g.5gb'' = ''nvidia.com/mig-1g.5gb''" "AsResourceName ''3g.20gb'' = ''nvidia.com/mig-3g.20gb''"
    "canonical_profile ''1g.5gb''" "canonical_profile ''3g.20gb''" by code_simp+
  then show "\<forall>d\<in>set plan_devices. mig_device d"
    by (auto simp: plan_devices_def reportable_device_def mig_resource_def int64_range_def intro: exI [of _ "''1g.5gb''"] exI [of _ "''3g.20gb''"])
  show "int64_range (int (length plan_devices))" by (simp add: plan_devices_def int64_range_def)
qed


theorem report_reaches_partitioner_witness:
  "\<exists>n. NewNode int_k8s (Some knownMigGeometries)
       (newNodeInfo int_k8s (reported_node a100_node (DeviceList_AsStatusAnnotation plan_devices ExtractProfileNameStr) ''7'')) = Inr n \<and>
     total_used (GPUs n) ''1g.5gb'' = 1 \<and> total_free (GPUs n) ''3g.20gb'' = 1"
proof -
  let ?new = "NewNode int_k8s (Some knownMigGeometries)
     (newNodeInfo int_k8s (reported_node a100_node (DeviceList_AsStatusAnnotation plan_devices ExtractProfileNameStr) ''7''))"
  have "\<not> isl ?new" by code_simp
  then obtain n where n: "?new = Inr n" by (cases ?new) simp_all
  have "map GetMigProfileName plan_devices = [''1g.5gb'', ''1g.5gb'', ''3g.20gb'']" by code_simp
  with report_reaches_partitioner [OF plan_devices_mig known_default_ok nodeInfo_law_int_k8s n] n show ?thesis
    by (auto simp: plan_devices_def Device_IsUsed_def Device_IsFree_def)
qed



end
