(* ===== verification/AgentCycle.thy ===== *)
theory AgentCycle
  imports AgentReport
begin

text \<open>
  A cycle of the agent of a MIG node over the API server: the actuator's handler applies a plan, then the reporter's
  handler runs (\<^verbatim>\<open>internal/controllers/migagent\<close>, actuator.go and reporter.go).  What the handlers did is read off the
  node object and the devices of the machine.
\<close>

section \<open>The node object and the machine\<close>

text \<open>
  \<open>nodeOf w\<close> is the node object at the API server: reading shows it, a patch that succeeds stores the patched object
  and changes no device.  Listing the devices only reads.
\<close>

definition node_world_law :: "('w, 'q) agentEnv \<Rightarrow> ('w \<Rightarrow> Device multiset) \<Rightarrow> ('w \<Rightarrow> 'q Node) \<Rightarrow> bool" where
  "node_world_law E devs nodeOf \<longleftrightarrow>
     gpu_world_law E devs \<and>
     (\<forall>w. snd (run_state (mcGetMigDevices (aeMigClient E)) w) = w) \<and>
     (\<forall>name w node w'. getNode (aeClient E) name w = (Inr node, w') \<longrightarrow> node = nodeOf w \<and> w' = w) \<and>
     (\<forall>new w w'. patchNode (aeClient E) (nodeOf w) new w = (None, w') \<longrightarrow> nodeOf w' = new \<and> devs w' = devs w)"

text \<open>Devices as the kubelet lists them: different ids, of MIG resources, in use or free.\<close>

definition machine_ok :: "Device multiset \<Rightarrow> bool" where
  "machine_ok M \<longleftrightarrow>
     (\<forall>i. count (image_mset DeviceId M) i \<le> 1) \<and>
     (\<forall>d\<in>#M. mig_device d \<and> (Device_IsUsed d \<or> Device_IsFree d)) \<and> int64_range (int (size M))"

lemma machine_okD:
  assumes "machine_ok (mset ds)"
  shows "distinct (map DeviceId ds)" "\<forall>d\<in>set ds. mig_device d" "\<forall>d\<in>set ds. Device_IsUsed d \<or> Device_IsFree d"
    "int64_range (int (length ds))"
proof -
  have "count (mset (map DeviceId ds)) i \<le> 1" for i using assms by (simp add: machine_ok_def)
  then have "count (mset (map DeviceId ds)) i = (if i \<in> set (map DeviceId ds) then 1 else 0)" for i
    by (metis One_nat_def count_mset_0_iff le_Suc_eq le_zero_eq not_in_iff set_mset_mset)
  then show "distinct (map DeviceId ds)" unfolding distinct_count_atmost_1 by blast
qed (use assms in \<open>auto simp: machine_ok_def\<close>)

section \<open>The handlers\<close>

lemma ac_plan_planned:
  assumes "fst (run_state (ac_plan E spec) w) = Inr p" "\<not> MigConfigPlan_IsEmpty p"
  obtains ds where "fst (run_state (mcGetMigDevices (aeMigClient E)) w) = Inr ds" "p = NewMigConfigPlan (NewMigState ds) spec"
    "snd (run_state (ac_plan E spec) w) = snd (run_state (mcGetMigDevices (aeMigClient E)) w)"
  using assms
  by (auto simp: ac_plan_def Let_def MigConfigPlan_IsEmpty_def split: sum.splits if_splits option.splits)

lemma actuate_applied:
  assumes "snd (fst (run_state (actuate E p status) s))"
  shows "\<not> MigConfigPlan_IsEmpty p"
    "fst (fst (run_state (actuate E p status) s)) = fst (run_state (ac_apply E p) (agWorld s))"
    "agWorld (snd (run_state (actuate E p status) s)) = snd (run_state (ac_apply E p) (agWorld s))"
  using assms by (auto simp: actuate_def split: if_splits)

text \<open>When the actuator applied a plan, it is the plan from the listed devices to the spec annotations of the node.\<close>

lemma actuator_outcome:
  assumes law: "node_world_law E devs nodeOf" and run: "run_state (actuator_locked E req) s = ((r, True), s')"
  obtains ds where "mset ds = devs (agWorld s)"
    "run_state (ac_apply E (NewMigConfigPlan (NewMigState ds) (snd (ParseNodeAnnotations (nodeOf (agWorld s)))))) (agWorld s) =
      (snd r, agWorld s')"
proof -
  let ?w = "agWorld s" let ?spec = "snd (ParseNodeAnnotations (nodeOf ?w))"
  from run obtain node where "fst (getNode (aeClient E) req ?w) = Inr node"
    by (auto simp: actuator_locked_def split: sum.splits)
  with law have get: "getNode (aeClient E) req ?w = (Inr (nodeOf ?w), ?w)"
    unfolding node_world_law_def by (metis prod.collapse)
  from run obtain p where p: "fst (run_state (ac_plan E ?spec) ?w) = Inr p"
    by (auto simp: actuator_locked_def get split: if_splits sum.splits)
  let ?s = "s\<lparr>sharedState := (sharedState s)\<lparr>lastParsedPlanId :=
      (case map_of (Annotations (nodeOf ?w)) AnnotationPartitioningPlan of Some v \<Rightarrow> v | None \<Rightarrow> '''')\<rparr>,
    agWorld := snd (run_state (ac_plan E ?spec) ?w)\<rparr>"
  let ?a = "run_state (actuate E p (fst (ParseNodeAnnotations (nodeOf ?w)))) ?s"
  have a: "snd (fst ?a)" "snd r = fst (fst ?a)" "agWorld s' = agWorld (snd ?a)"
    using run by (auto simp: actuator_locked_def get p updateLastApplied_def case_prod_beta split: if_splits)
  obtain ds where ds: "fst (run_state (mcGetMigDevices (aeMigClient E)) ?w) = Inr ds" "p = NewMigConfigPlan (NewMigState ds) ?spec"
    "snd (run_state (ac_plan E ?spec) ?w) = snd (run_state (mcGetMigDevices (aeMigClient E)) ?w)"
    by (rule ac_plan_planned [OF p actuate_applied(1) [OF a(1)]])
  with law have "snd (run_state (ac_plan E ?spec) ?w) = ?w" by (simp add: node_world_law_def)
  with actuate_applied(2,3) [OF a(1)] a(2,3) have "run_state (ac_apply E p) ?w = (snd r, agWorld s')" by (simp add: prod_eq_iff)
  moreover have "mset ds = devs ?w"
    using law ds(1) unfolding node_world_law_def gpu_world_law_def by (metis prod.collapse)
  ultimately show thesis using that ds(2) by blast
qed

text \<open>A reporter that returns no error leaves the node with the status of the listed devices.\<close>

lemma reporter_outcome:
  assumes law: "node_world_law E devs nodeOf" and cmp: "cmp_struct_law (cmpStatus E)"
    and run: "run_state (Reporter_Reconcile E req) s = ((res, None), s')" and ok: "machine_ok (devs (agWorld s))"
  obtains ds where "mset ds = devs (agWorld s)" "devs (agWorld s') = devs (agWorld s)"
    "mset (fst (ParseNodeAnnotations (nodeOf (agWorld s')))) = mset (DeviceList_AsStatusAnnotation ds ExtractProfileNameStr)"
    "snd (ParseNodeAnnotations (nodeOf (agWorld s'))) = snd (ParseNodeAnnotations (nodeOf (agWorld s)))"
proof -
  let ?w = "agWorld s" let ?planId = "lastParsedPlanId (sharedState s)"
  have rep: "fst (run_state (report E req ?planId) ?w) = (res, None)" "agWorld s' = snd (run_state (report E req ?planId) ?w)"
    using run by (auto simp: Reporter_Reconcile_def)
  from rep(1) obtain node where "fst (getNode (aeClient E) req ?w) = Inr node"
    by (auto simp: report_def split: sum.splits)
  with law have get: "getNode (aeClient E) req ?w = (Inr (nodeOf ?w), ?w)"
    unfolding node_world_law_def by (metis prod.collapse)
  from rep(1) obtain ds where ds: "fst (run_state (mcGetMigDevices (aeMigClient E)) ?w) = Inr ds"
    by (auto simp: report_def get split: sum.splits)
  then have list: "run_state (mcGetMigDevices (aeMigClient E)) ?w = (Inr ds, ?w)"
    using law unfolding node_world_law_def by (metis prod.collapse)
  then have devs: "mset ds = devs ?w" using law unfolding node_world_law_def gpu_world_law_def by blast
  note ids = machine_okD [OF ok [folded devs]]
  let ?as = "DeviceList_AsStatusAnnotation ds ExtractProfileNameStr"
  let ?new = "reported_node (nodeOf ?w) ?as ?planId"
  have eq: "cmpStatus E = (=)" by (rule cmp_struct_lawD [OF cmp])
  show thesis
  proof (cases "agWorld s' = ?w \<and> mset ?as = mset (fst (ParseNodeAnnotations (nodeOf ?w)))")
    case True
    then show ?thesis by (intro that [of ds]) (simp_all add: devs)
  next
    case False
    with rep have "patchNode (aeClient E) (nodeOf ?w) ?new ?w = (None, agWorld s')"
      by (auto simp: report_def get list Let_def eq StatusAnnotationList_Equal_def UnorderedEqual_mset prod_eq_iff
          split: if_splits option.splits)
    with law have "nodeOf (agWorld s') = ?new" "devs (agWorld s') = devs ?w" unfolding node_world_law_def by blast+
    then show ?thesis by (intro that [of ds]) (simp_all add: devs parse_reported_node [OF ids(2,4)])
  qed
qed

text \<open>A plan that needs a used device only drops the spec annotations of the node.\<close>

lemma reset_spec_parsed: "snd (ParseNodeAnnotations (reset_spec node)) = []"
  by (auto simp: ParseNodeAnnotations_eq reset_spec_def spec_of_other intro!: map_filter_None)

lemma apply_outcome_used:
  assumes law: "node_world_law E devs nodeOf" and run: "run_state (ac_apply E p) w = (None, w')"
    and used: "containsUsedResources (DeleteOperations p)"
  shows "snd (ParseNodeAnnotations (nodeOf w')) = []" "devs w' = devs w"
proof -
  from run used obtain node where "fst (getNode (aeClient E) (aeNodeName E) w) = Inr node"
    by (auto simp: ac_apply_def resetNodeSpec_def split: sum.splits)
  with law have get: "getNode (aeClient E) (aeNodeName E) w = (Inr (nodeOf w), w)"
    unfolding node_world_law_def by (metis prod.collapse)
  with run used have "patchNode (aeClient E) (nodeOf w) (reset_spec (nodeOf w)) w = (None, w')"
    by (simp add: ac_apply_def resetNodeSpec_def prod_eq_iff)
  with law show "snd (ParseNodeAnnotations (nodeOf w')) = []" "devs w' = devs w"
    unfolding node_world_law_def by (metis reset_spec_parsed)+
qed

text \<open>The used devices of a profile.\<close>

definition used_count :: "Device multiset \<Rightarrow> ProfileName \<Rightarrow> int" where
  "used_count M p = int (size (filter_mset (\<lambda>d. Device_IsUsed d \<and> GetMigProfileName d = p) M))"

lemma used_count_mset: "used_count (mset ds) p = int (length (filter (\<lambda>d. Device_IsUsed d \<and> GetMigProfileName d = p) ds))"
  by (simp add: used_count_def size_mset [symmetric] del: size_mset)

lemma used_count_mono:
  assumes "machine_ok M" "\<And>d. d \<in># M \<Longrightarrow> Device_IsUsed d \<Longrightarrow> d \<in># N"
  shows "used_count M p \<le> used_count N p"
proof -
  obtain ds where ds: "M = mset ds" using ex_mset by metis
  obtain es where es: "N = mset es" using ex_mset by metis
  let ?used = "filter (\<lambda>d. Device_IsUsed d \<and> GetMigProfileName d = p)"
  have "distinct (?used ds)" using machine_okD(1) [OF assms(1) [unfolded ds]] by (simp add: distinct_map)
  moreover have "set (?used ds) \<subseteq> set (?used es)" using assms(2) by (auto simp: ds es)
  ultimately have "length (?used ds) \<le> length (?used es)"
    using distinct_subseteq_mset size_mset_mono by (metis size_mset)
  then show ?thesis by (simp add: ds es used_count_mset)
qed

end
