(* ===== verification/NodeController.thy ===== *)
theory NodeController
  imports Partitioning
begin

text \<open>
  Package \<^verbatim>\<open>internal/controllers/gpupartitioner\<close>, node_controller.go: the controller that gives a node with
  MIG partitioning its first geometry.
\<close>

section \<open>Definitions\<close>

definition isNodeInitialized :: "'q Node \<Rightarrow> bool" where
  "isNodeInitialized node \<longleftrightarrow>
     (case GetCount node of
        Inl _ \<Rightarrow> False
      | Inr gpuCount \<Rightarrow> gpuCount = int (length (SpecAnnotationList_GroupByGpuIndex (snd (ParseNodeAnnotations node)))))"

datatype nodeControllerError = GetNodeFailed apiError | InitFailed initError

text \<open>\<^verbatim>\<open>client.IgnoreNotFound\<close>: a node that is gone is no error.\<close>

definition NodeController_Reconcile ::
  "('ni, 'q) k8sLib \<Rightarrow> (Geometry \<Rightarrow> Geometry \<Rightarrow> bool) \<Rightarrow> knownState \<Rightarrow> ('w, 'q) kubeAPI \<Rightarrow> int \<Rightarrow> string \<Rightarrow> 'w \<Rightarrow>
   nodeControllerError option \<times> 'w" where
  "NodeController_Reconcile K cmp known api now name w =
     (case getNode api name w of
        (Inl e, w') \<Rightarrow> (if e = ApiNotFound then None else Some (GetNodeFailed e), w')
      | (Inr node, w') \<Rightarrow>
          (if \<not> IsMigPartitioningEnabled node then (None, w')
           else if isNodeInitialized node then (None, w')
           else case GetModel node of
             Inl _ \<Rightarrow> (None, w')
           | Inr _ \<Rightarrow>
               (case GetCount node of
                  Inl _ \<Rightarrow> (None, w')
                | Inr _ \<Rightarrow>
                    (case InitNodePartitioning K cmp known api now node w' of
                       (Some e, w'') \<Rightarrow> (Some (InitFailed e), w'')
                     | (None, w'') \<Rightarrow> (None, w'')))))"

section \<open>Initialising a node\<close>

definition fresh_gpu :: "Model \<Rightarrow> Geometry list \<Rightarrow> int \<Rightarrow> GPU" where
  "fresh_gpu model gs i =
     \<lparr>gpuIndex = i, gpuModel = model, allowedMigGeometries = gs, usedMigDevices = [], freeMigDevices = []\<rparr>"

lemma missing_fresh:
  "GetAllowedGeometries known model = Some gs \<Longrightarrow> missing_gpus known model is = Inr (map (fresh_gpu model gs) is)"
  by (induction "is") (simp_all add: NewGPU_def fresh_gpu_def)

lemma NewNode_fresh:
  assumes "nodeInfo_law K" "GetModel node = Inr model" "GetCount node = Inr c"
    "GetAllowedGeometries known model = Some gs" "fst (ParseNodeAnnotations node) = []"
  shows "NewNode K known (newNodeInfo K node) =
    Inr \<lparr>nodeName = Name node, nodeInfo = newNodeInfo K node, GPUs = map (fresh_gpu model gs) [0..c - 1]\<rparr>"
  using assms
  by (simp add: NewNode_def nodeInfo_law_def extractGPUs_def StatusAnnotationList_GroupByGpuIndex_def group_by_def
      missing_fresh)

definition initialised :: "(Geometry \<Rightarrow> Geometry \<Rightarrow> bool) \<Rightarrow> GPU \<Rightarrow> GPU" where
  "initialised cmp g = snd (GPU_InitGeometry cmp g)"

lemma initGPUs_all:
  assumes "\<forall>g\<in>set gpus. GPU_GetGeometry g = [] \<and> fst (GPU_InitGeometry cmp g) = None"
  shows "initGPUs cmp k gpus = ((None, k + length gpus), map (initialised cmp) gpus)"
  using assms
  by (induction gpus arbitrary: k) (auto simp: initialised_def split: prod.splits)

text \<open>What initialisation needs of the geometries of the node's model.\<close>

definition writable_geometries :: "Geometry list \<Rightarrow> bool" where
  "writable_geometries gs \<longleftrightarrow>
     gs \<noteq> [] \<and> (\<forall>g\<in>set gs. g \<noteq> [] \<and> gm_ok g \<and> geometry_ok g \<and>
       (\<forall>(s, q)\<in>set g. int64_range q \<and> (case s of MigProfile p \<Rightarrow> canonical_profile p | SlicingProfile _ \<Rightarrow> False)))"

lemma fresh_gpu_simps [simp]:
  "GPU_GetGeometry (fresh_gpu model gs i) = []" "used_of (fresh_gpu model gs i) p = 0" "gpuIndex (fresh_gpu model gs i) = i"
  "allowedMigGeometries (fresh_gpu model gs i) = gs" "freeMigDevices (fresh_gpu model gs i) = []"
  "usedMigDevices (fresh_gpu model gs i) = []"
  by (simp_all add: fresh_gpu_def GPU_GetGeometry_def)

lemma fresh_gpu_ok: "writable_geometries gs \<Longrightarrow> gpu_ok (fresh_gpu model gs i)"
  by (auto simp: gpu_ok_def writable_geometries_def)

lemma fresh_initialised:
  assumes "writable_geometries gs" "cmp_map_law cmp"
  obtains a where "a \<in> set gs" "\<forall>b\<in>set gs. length a \<le> length b"
    "\<forall>i. GPU_InitGeometry cmp (fresh_gpu model gs i) = GPU_ApplyGeometry cmp (fresh_gpu model gs i) a"
    "\<forall>i. GPU_CanApplyGeometry cmp (fresh_gpu model gs i) a = None"
proof -
  have "gs \<noteq> []" using assms(1) by (simp add: writable_geometries_def)
  from GetFewestSlicesGeometry_min [OF this] obtain a where a: "GetFewestSlicesGeometry gs = Some a" "a \<in> set gs"
    "\<forall>b\<in>set gs. length a \<le> length b" by blast
  then have "geometry_ok a" using assms(1) by (auto simp: writable_geometries_def)
  then have can: "GPU_CanApplyGeometry cmp (fresh_gpu model gs i) a = None" for i
    using a(2) geometry_ok_nonneg by (auto simp: CanApply_iff [OF fresh_gpu_ok [OF assms(1)] assms(2)])
  then have "\<forall>i. GPU_InitGeometry cmp (fresh_gpu model gs i) = GPU_ApplyGeometry cmp (fresh_gpu model gs i) a"
    by (simp add: GPU_InitGeometry_def a(1))
  with a can show ?thesis by (intro that [of a]) auto
qed

lemma GetCount_range: "GetCount node = Inr c \<Longrightarrow> int64_range c"
  by (auto simp: GetCount_def Atoi_def split: option.splits if_splits)

lemma ApplyGeometry_keys:
  assumes "GPU_CanApplyGeometry cmp g geometry = None" "gm_has (freeMigDevices (snd (GPU_ApplyGeometry cmp g geometry))) p"
  shows "gm_has geometry (MigProfile p)"
  using assms by (force simp: GPU_ApplyGeometry_def Let_def gm_has_iff)

lemma gm_has_geo: "gm_has (geo l) (MigProfile p) \<longleftrightarrow> gm_has l p"
  by (force simp: gm_has_iff)

lemma initialised_gpu:
  assumes "writable_geometries gs" "cmp_map_law cmp" "a \<in> set gs" "0 \<le> i" "int64_range i"
    "GPU_InitGeometry cmp (fresh_gpu model gs i) = GPU_ApplyGeometry cmp (fresh_gpu model gs i) a"
    "GPU_CanApplyGeometry cmp (fresh_gpu model gs i) a = None"
  shows "gpu_ok (initialised cmp (fresh_gpu model gs i))" (is "gpu_ok ?g")
    and "gpuIndex (initialised cmp (fresh_gpu model gs i)) = i"
    and "used_of (initialised cmp (fresh_gpu model gs i)) p + free_of (initialised cmp (fresh_gpu model gs i)) p = gm_get a (MigProfile p)"
    and "printable_gpu (initialised cmp (fresh_gpu model gs i))"
proof -
  have a: "gm_ok a" "geometry_ok a" "\<forall>(s, q)\<in>set a. int64_range q \<and> (case s of MigProfile p \<Rightarrow> canonical_profile p | SlicingProfile _ \<Rightarrow> False)"
    using assms(1,3) by (auto simp: writable_geometries_def)
  have g: "?g = snd (GPU_ApplyGeometry cmp (fresh_gpu model gs i) a)" by (simp add: initialised_def assms(6))
  show ok: "gpu_ok ?g" unfolding g by (rule ApplyGeometry_ok [OF fresh_gpu_ok [OF assms(1)] assms(2) a(1)])
  show idx: "gpuIndex ?g = i" by (simp add: g ApplyGeometry_frame)
  have "gm_get (GPU_GetGeometry ?g) (MigProfile p) = gm_get a (MigProfile p)" for p
    unfolding g by (rule ApplyGeometry_geometry [OF fresh_gpu_ok [OF assms(1)] assms(2) a(1) assms(7)])
  then show devices: "used_of ?g p + free_of ?g p = gm_get a (MigProfile p)" for p by (simp add: GetGeometry_get [OF ok])
  have "int64_range (gm_get a s)" for s
    using a(3) by (auto simp: gm_get_def int64_range_def split: option.splits dest!: map_of_SomeD)
  moreover have "gm_has a (MigProfile p)" if "gm_has (GPU_GetGeometry ?g) (MigProfile p)" for p
    using that ApplyGeometry_keys [OF assms(7)]
    by (simp add: GPU_GetGeometry_def gomap_simps g ApplyGeometry_frame gm_has_geo)
  then have "canonical_gpu ?g" using a(3) by (fastforce simp: canonical_gpu_def gm_has_iff)
  ultimately show "printable_gpu ?g" using assms(4,5) by (simp add: printable_gpu_def idx devices)
qed

lemma partitioned_node_labels [simp]:
  "Labels (partitioned_node node planId specs) = Labels node"
  "GetCount (partitioned_node node planId specs) = GetCount node"
  by (simp_all add: partitioned_node_def GetCount_def)

lemma fresh_specs_indexes:
  assumes "writable_geometries gs" "a \<in> set gs" "0 < c"
    "\<And>s :: SpecAnnotation. s \<in> S \<longleftrightarrow>
      0 \<le> spIndex s \<and> spIndex s < c \<and> 0 < spQuantity s \<and> spQuantity s = gm_get a (MigProfile (spProfileName s))"
  shows "int (card (spIndex ` S)) = c"
proof -
  obtain s0 q a' where a: "a = (s0, q) # a'" using assms(1,2) by (cases a) (auto simp: writable_geometries_def)
  then obtain p where s0: "s0 = MigProfile p"
    using assms(1,2) by (cases s0) (auto simp: writable_geometries_def)
  have "geometry_ok a" using assms(1,2) by (auto simp: writable_geometries_def)
  then have q: "0 < q" using a s0 by (auto simp: geometry_ok_def)
  have "i \<in> spIndex ` S" if "0 \<le> i" "i < c" for i
  proof -
    have "\<lparr>spProfileName = p, spIndex = i, spQuantity = q\<rparr> \<in> S"
      using that q by (simp add: assms(4) a s0 gm_get_Cons)
    then show ?thesis by (force intro: image_eqI [rotated])
  qed
  then have "spIndex ` S = {0..<c}" using assms(4) by auto
  with assms(3) show ?thesis by simp
qed

section \<open>Properties\<close>

text \<open>C27: A node with MIG enabled and no MIG device yet is initialised by one patch that gives each of its
  GPUs, numbered from 0, an allowed geometry with the fewest profiles; when the patch is accepted, the
  node counts as initialised, so reconciling it again writes nothing.\<close>

theorem init_fresh_node:
  assumes "nodeInfo_law K" "cmp_map_law cmp" "IsMigPartitioningEnabled node" "GetModel node = Inr model"
    "GetCount node = Inr c" "0 < c" "GetAllowedGeometries known model = Some gs" "writable_geometries gs"
    "fst (ParseNodeAnnotations node) = []"
  shows "\<exists>a\<in>set gs. (\<forall>b\<in>set gs. length a \<le> length b) \<and>
    (\<exists>node'. InitNodePartitioning K cmp known api now node w =
        apfst (map_option (\<lambda>e. InitApply (PatchFailed e))) (patchNode api node node' w) \<and>
      isNodeInitialized node' \<and>
      (\<forall>s. s \<in> set (snd (ParseNodeAnnotations node')) \<longleftrightarrow>
        0 \<le> spIndex s \<and> spIndex s < c \<and> 0 < spQuantity s \<and> spQuantity s = gm_get a (MigProfile (spProfileName s))))"
proof -
  obtain a where a: "a \<in> set gs" "\<forall>b\<in>set gs. length a \<le> length b"
    "\<forall>i. GPU_InitGeometry cmp (fresh_gpu model gs i) = GPU_ApplyGeometry cmp (fresh_gpu model gs i) a"
    "\<forall>i. GPU_CanApplyGeometry cmp (fresh_gpu model gs i) a = None"
    using fresh_initialised [OF assms(8,2)] by blast
  have range: "0 \<le> i \<and> int64_range i" if "i \<in> set [0..c - 1]" for i
    using that GetCount_range [OF assms(5)] by (simp add: int64_range_def)
  note gpu = initialised_gpu [OF assms(8,2) a(1) conjunct1 [OF range] conjunct2 [OF range] a(3) [THEN spec] a(4) [THEN spec]]
  let ?gpus = "map (\<lambda>i. initialised cmp (fresh_gpu model gs i)) [0..c - 1]"
  let ?n = "\<lparr>nodeName = Name node, nodeInfo = newNodeInfo K node, GPUs = ?gpus\<rparr>"
  have fresh: "NewNode K known (newNodeInfo K node) =
      Inr \<lparr>nodeName = Name node, nodeInfo = newNodeInfo K node, GPUs = map (fresh_gpu model gs) [0..c - 1]\<rparr>"
    by (rule NewNode_fresh [OF assms(1,4,5,7,9)])
  have "initGPUs cmp 0 (map (fresh_gpu model gs) [0..c - 1]) = ((None, nat c), ?gpus)"
    using a(3,4) by (subst initGPUs_all) (auto simp: GPU_ApplyGeometry_def Let_def comp_def)
  then have init: "InitNodePartitioning K cmp known api now node w =
      apfst (map_option InitApply) (ApplyPartitioning api node (NewPartitioningPlanID now) (BuildNodePartitioning ?n) w)"
    using assms(3,6) by (simp add: InitNodePartitioning_def fresh split: prod.splits option.splits)
  have "map gpuIndex ?gpus = map id [0..c - 1]" using gpu(2) by (simp only: map_map comp_def) (intro map_cong, simp_all)
  then have n: "node_ok ?n" "distinct (map gpuIndex (GPUs ?n))" "list_all printable_gpu (GPUs ?n)"
    using gpu by (simp_all add: node_ok_def list_all_iff del: map_map)
  let ?node = "partitioned_node node (NewPartitioningPlanID now) (concat (map gpu_specs ?gpus))"
  have parse: "snd (ParseNodeAnnotations ?node) = concat (map gpu_specs ?gpus)"
    using node_specs(2) [OF n, of node "NewPartitioningPlanID now"] by simp
  have iff: "s \<in> set (concat (map gpu_specs ?gpus)) \<longleftrightarrow>
      0 \<le> spIndex s \<and> spIndex s < c \<and> 0 < spQuantity s \<and> spQuantity s = gm_get a (MigProfile (spProfileName s))" for s
    using node_specs(3) [OF n, of s] gpu by auto
  have "isNodeInitialized ?node"
    using fresh_specs_indexes [OF assms(8) a(1) assms(6) iff] assms(5,6)
    by (simp add: isNodeInitialized_def parse SpecAnnotationList_GroupByGpuIndex_def length_group_by del: set_concat map_map)
  moreover have "InitNodePartitioning K cmp known api now node w =
      apfst (map_option (\<lambda>e. InitApply (PatchFailed e))) (patchNode api node ?node w)"
    by (cases "patchNode api node ?node w") (simp add: init ApplyPartitioning_def node_specs(1) [OF n] option.map_comp comp_def split: option.splits)
  ultimately show ?thesis using a(1,2) parse iff by (metis (no_types, lifting))
qed

definition fresh_node :: "int Node" where
  "fresh_node =
     \<lparr>Name = ''n1'', Labels = [(''nos.nebuly.com/gpu-partitioning'', ''mig''), (''nvidia.com/gpu.product'', GPUModel_A100_SXM4_40GB),
        (''nvidia.com/gpu.count'', ''2'')],
      Annotations = [(''team'', ''ml'')], Taints = [], Capacity = [], Allocatable = []\<rparr>"

lemma fresh_node_labels:
  "IsMigPartitioningEnabled fresh_node" "GetModel fresh_node = Inr GPUModel_A100_SXM4_40GB" "GetCount fresh_node = Inr 2"
  "fst (ParseNodeAnnotations fresh_node) = []"
  by code_simp+

lemma a100_writable: "writable_geometries (the (map_of knownMigGeometries GPUModel_A100_SXM4_40GB))"
  by code_simp

theorem init_fresh_node_witness:
  "fst (InitNodePartitioning int_k8s gm_equal (Some knownMigGeometries) cluster_api 7 fresh_node
       \<lparr>clNodes = [fresh_node], clPods = [], clLog = []\<rparr>) = None \<and>
   (\<exists>node' :: int Node. isNodeInitialized node' \<and>
     clNodes (snd (InitNodePartitioning int_k8s gm_equal (Some knownMigGeometries) cluster_api 7 fresh_node
       \<lparr>clNodes = [fresh_node], clPods = [], clLog = []\<rparr>)) = [node'])"
proof -
  let ?gs = "the (map_of knownMigGeometries GPUModel_A100_SXM4_40GB)"
  let ?w = "\<lparr>clNodes = [fresh_node], clPods = [], clLog = []\<rparr> :: int cluster"
  let ?r = "InitNodePartitioning int_k8s gm_equal (Some knownMigGeometries) cluster_api 7 fresh_node ?w"
  have gs: "GetAllowedGeometries (Some knownMigGeometries) GPUModel_A100_SXM4_40GB = Some ?gs"
    using known_models(1) by (auto simp: GetAllowedGeometries_def GetKnownGeometries_def)
  from init_fresh_node [OF nodeInfo_law_int_k8s _ fresh_node_labels(1,2,3) _ gs a100_writable fresh_node_labels(4), of gm_equal cluster_api 7 ?w]
  obtain node' :: "int Node" where r: "?r = apfst (map_option (\<lambda>e. InitApply (PatchFailed e))) (patchNode cluster_api fresh_node node' ?w)"
    and init: "isNodeInitialized node'" by auto
  have f: "fst ?r = None" by code_simp
  then have "clNodes (snd ?r) = [node']"
    unfolding r by (auto simp: cluster_api_def split: if_splits)
  with f init show ?thesis by blast
qed

end
