(* ===== verification/Partitioner.thy ===== *)
theory Partitioner
  imports Partitioning
begin

text \<open>
  Package \<^verbatim>\<open>internal/controllers/gpupartitioner\<close>, mig_controller.go: the controller that looks at the
  pending pods, plans a geometry for the pods of the highest priority, writes it to a node, and
  evicts pods of lower priority where that is the only way.  Every function that calls the API
  returns its result and the new world.
\<close>

section \<open>The controller\<close>

record ('ni, 'q, 'w) Controller =
  ctlClient :: "('w, 'q) kubeAPI"
  ctlK8s :: "('ni, 'q) k8sLib"
  ctlCmp :: "Geometry \<Rightarrow> Geometry \<Rightarrow> bool"
  ctlKnown :: knownState
  planIDSource :: "'w \<Rightarrow> string"
  requeueInterval :: int
  preemption :: bool
  evictFunc :: "'q Pod list \<Rightarrow> 'w \<Rightarrow> apiError option \<times> 'w"

fun evictPodsUsingAPI :: "('w, 'q) kubeAPI \<Rightarrow> 'q Pod list \<Rightarrow> 'w \<Rightarrow> apiError option \<times> 'w" where
  "evictPodsUsingAPI api [] w = (None, w)"
| "evictPodsUsingAPI api (pod # pods) w =
     (case evictPod api (PodNamespace pod) (PodName pod) w of
        (Some e, w') \<Rightarrow> (Some e, w')
      | (None, w') \<Rightarrow> evictPodsUsingAPI api pods w')"

definition NewController ::
  "('w, 'q) kubeAPI \<Rightarrow> ('ni, 'q) k8sLib \<Rightarrow> (Geometry \<Rightarrow> Geometry \<Rightarrow> bool) \<Rightarrow> knownState \<Rightarrow> ('w \<Rightarrow> int) \<Rightarrow> int \<Rightarrow> bool \<Rightarrow>
   ('ni, 'q, 'w) Controller" where
  "NewController api K cmp known now interval preemptionEnabled =
     \<lparr>ctlClient = api, ctlK8s = K, ctlCmp = cmp, ctlKnown = known, planIDSource = (\<lambda>w. NewPartitioningPlanID (now w)),
      requeueInterval = interval, preemption = preemptionEnabled, evictFunc = evictPodsUsingAPI api\<rparr>"

text \<open>The tests override the source of the plan ids; a nil function changes nothing.\<close>

definition Controller_InjectFunc :: "('ni, 'q, 'w) Controller \<Rightarrow> ('w \<Rightarrow> string) option \<Rightarrow> ('ni, 'q, 'w) Controller" where
  "Controller_InjectFunc c f = (case f of Some f \<Rightarrow> c\<lparr>planIDSource := f\<rparr> | None \<Rightarrow> c)"

section \<open>Pods\<close>

definition DefaultPriorityClassValue :: int where
  "DefaultPriorityClassValue = 1000"

definition podPriorityOrDefault :: "'q Pod \<Rightarrow> int" where
  "podPriorityOrDefault pod = (case Priority pod of None \<Rightarrow> DefaultPriorityClassValue | Some p \<Rightarrow> p)"

definition pendingBefore :: "'q Pod \<Rightarrow> 'q Pod \<Rightarrow> bool" where
  "pendingBefore a b \<longleftrightarrow>
     (let p1 = podPriorityOrDefault a; p2 = podPriorityOrDefault b in
      if p1 \<noteq> p2 then p1 > p2
      else let t1 = CreationTimestamp a; t2 = CreationTimestamp b in
        if t1 \<noteq> t2 then t1 < t2 else str_less (PodName a) (PodName b))"

definition sortPodsByPriorityAndAge :: "'q Pod list \<Rightarrow> 'q Pod list" where
  "sortPodsByPriorityAndAge pods = sliceStable pendingBefore pods"

definition shouldConsiderPod :: "'q Pod \<Rightarrow> bool" where
  "shouldConsiderPod pod \<longleftrightarrow>
     (if \<not> IsPending pod then False else if IsScheduled pod then False else if \<not> IsUnschedulable pod then False else True)"

definition listMigPartitionedNodes ::
  "('ni, 'q, 'w) Controller \<Rightarrow> 'w \<Rightarrow> (apiError + 'q Node list) \<times> 'w" where
  "listMigPartitionedNodes c w =
     listNodes (ctlClient c) [(LabelGpuPartitioning, PartitioningKind_String PartitioningKindMig)] w"

definition listPendingMigPods :: "('ni, 'q, 'w) Controller \<Rightarrow> 'w \<Rightarrow> (apiError + 'q Pod list) \<times> 'w" where
  "listPendingMigPods c w =
     (case listPods (ctlClient c) w of
        (Inl e, w') \<Rightarrow> (Inl e, w')
      | (Inr pods, w') \<Rightarrow>
          (Inr (filter (\<lambda>pod. shouldConsiderPod pod \<and> length (GetRequestedProfiles (ctlK8s c) pod) \<noteq> 0) pods), w'))"

definition addPodRequestedProfiles ::
  "('ni, 'q) k8sLib \<Rightarrow> (ProfileName, int) gomap \<Rightarrow> 'q Pod \<Rightarrow> (ProfileName, int) gomap" where
  "addPodRequestedProfiles K target pod = gm_add_all target (GetRequestedProfiles K pod)"

definition copyRequestedProfiles :: "(ProfileName, int) gomap \<Rightarrow> (ProfileName, int) gomap" where
  "copyRequestedProfiles source = gm_put_all [] source"

definition convertProfilesToSlices :: "(ProfileName, int) gomap \<Rightarrow> (Slice, int) gomap" where
  "convertProfilesToSlices profiles = gm_put_all [] (geo profiles)"

section \<open>Planning\<close>

definition ctlNewNode :: "('ni, 'q, 'w) Controller \<Rightarrow> 'q Node \<Rightarrow> nodeError + 'ni MigNode" where
  "ctlNewNode c node = NewNode (ctlK8s c) (ctlKnown c) (newNodeInfo (ctlK8s c) node)"

definition providesRequestedProfiles :: "'ni MigNode \<Rightarrow> (ProfileName, int) gomap \<Rightarrow> bool" where
  "providesRequestedProfiles node requested =
     list_all (\<lambda>(profile, quantity). \<not> gm_get (Node_Geometry node) (MigProfile profile) < quantity) requested"

definition hasFreeCapacityFor :: "Geometry \<Rightarrow> (ProfileName, int) gomap \<Rightarrow> bool" where
  "hasFreeCapacityFor free requested =
     list_all (\<lambda>(profile, quantity). \<not> gm_get free (MigProfile profile) < quantity) requested"

definition profilePresentOnAnyNode ::
  "('ni, 'q, 'w) Controller \<Rightarrow> 'q Node list \<Rightarrow> ProfileName \<Rightarrow> int \<Rightarrow> bool" where
  "profilePresentOnAnyNode c nodes profile quantity =
     list_ex (\<lambda>node. case ctlNewNode c node of
        Inl _ \<Rightarrow> False
      | Inr migNode \<Rightarrow> gm_get (Node_FreeGeometry migNode) (MigProfile profile) \<ge> quantity) nodes"

definition profileAlreadyPresent ::
  "('ni, 'q, 'w) Controller \<Rightarrow> 'q Node list \<Rightarrow> (ProfileName, int) gomap \<Rightarrow> bool" where
  "profileAlreadyPresent c nodes requested =
     list_all (\<lambda>(profile, quantity). profilePresentOnAnyNode c nodes profile quantity) requested"

text \<open>\<open>Node_Clone\<close> always returns a \<^verbatim>\<open>*mig.Node\<close>, so the type assertion holds.\<close>

definition canRepartitionNode ::
  "('ni, 'q, 'w) Controller \<Rightarrow> (ProfileName, int) gomap \<Rightarrow> 'q Node \<Rightarrow> bool" where
  "canRepartitionNode c requested node =
     (case ctlNewNode c node of
        Inl _ \<Rightarrow> False
      | Inr migNode \<Rightarrow>
          (let requiredSlices = convertProfilesToSlices requested;
               (updated, clonedNode) =
                 Node_UpdateGeometryFor (ctlK8s c) (ctlCmp c) (Node_Clone (ctlK8s c) migNode) requiredSlices
           in updated \<and> providesRequestedProfiles clonedNode requested))"

definition canRepartition ::
  "('ni, 'q, 'w) Controller \<Rightarrow> 'q Node list \<Rightarrow> (ProfileName, int) gomap \<Rightarrow> bool" where
  "canRepartition c nodes requested =
     (if length requested = 0 then False else list_ex (canRepartitionNode c requested) nodes)"

fun requestedPlan_loop ::
  "('ni, 'q, 'w) Controller \<Rightarrow> 'q Node list \<Rightarrow> (ProfileName, int) gomap \<Rightarrow> (ProfileName, int) gomap \<Rightarrow> 'q Pod list \<Rightarrow>
   (ProfileName, int) gomap" where
  "requestedPlan_loop c nodes requested lastFeasible [] = lastFeasible"
| "requestedPlan_loop c nodes requested lastFeasible (pod # pods) =
     (let requested' = addPodRequestedProfiles (ctlK8s c) requested pod in
      if profileAlreadyPresent c nodes requested'
      then requestedPlan_loop c nodes requested' (copyRequestedProfiles requested') pods
      else if canRepartition c nodes requested'
      then requestedPlan_loop c nodes requested' (copyRequestedProfiles requested') pods
      else lastFeasible)"

definition buildRequestedProfilesPlan ::
  "('ni, 'q, 'w) Controller \<Rightarrow> 'q Node list \<Rightarrow> 'q Pod list \<Rightarrow> (ProfileName, int) gomap" where
  "buildRequestedProfilesPlan c nodes pendingPods = requestedPlan_loop c nodes [] [] pendingPods"

datatype updateError = UpdateNode nodeError | UpdateApply applyError

definition updateNodeGeometry ::
  "('ni, 'q, 'w) Controller \<Rightarrow> 'q Node \<Rightarrow> (ProfileName, int) gomap \<Rightarrow> 'w \<Rightarrow> (updateError + bool) \<times> 'w" where
  "updateNodeGeometry c node requested w =
     (case ctlNewNode c node of
        Inl e \<Rightarrow> (Inl (UpdateNode e), w)
      | Inr migNode \<Rightarrow>
          (let requiredSlices = convertProfilesToSlices requested;
               (anyUpdated, migNode') = Node_UpdateGeometryFor (ctlK8s c) (ctlCmp c) migNode requiredSlices in
           if \<not> anyUpdated then (Inr False, w)
           else if \<not> providesRequestedProfiles migNode' requested then (Inr False, w)
           else
             case ApplyPartitioning (ctlClient c) node (planIDSource c w) (BuildNodePartitioning migNode') w of
               (Some e, w') \<Rightarrow> (Inl (UpdateApply e), w')
             | (None, w') \<Rightarrow> (Inr True, w')))"

fun tryRepartition ::
  "('ni, 'q, 'w) Controller \<Rightarrow> 'q Node list \<Rightarrow> (ProfileName, int) gomap \<Rightarrow> 'w \<Rightarrow> bool \<times> 'w" where
  "tryRepartition c [] requested w = (False, w)"
| "tryRepartition c (node # nodes) requested w =
     (case updateNodeGeometry c node requested w of
        (Inl _, w') \<Rightarrow> tryRepartition c nodes requested w'
      | (Inr True, w') \<Rightarrow> (True, w')
      | (Inr False, w') \<Rightarrow> tryRepartition c nodes requested w')"

section \<open>Taints\<close>

definition nodeHasRepartitioningTaint :: "'q Node \<Rightarrow> bool" where
  "nodeHasRepartitioningTaint node = list_ex (\<lambda>t. TaintKey t = RepartitioningTaintKey) (Taints node)"

definition ensureRepartitioningTaint :: "('w, 'q) kubeAPI \<Rightarrow> 'q Node \<Rightarrow> 'w \<Rightarrow> apiError option \<times> 'w" where
  "ensureRepartitioningTaint api node w =
     (if list_ex (\<lambda>t. TaintKey t = RepartitioningTaintKey) (Taints node) then (None, w)
      else
        let taint = \<lparr>TaintKey = RepartitioningTaintKey, TaintValue = RepartitioningTaintValue, TaintEffect = ''NoSchedule''\<rparr>
        in patchNode api node (node\<lparr>Taints := Taints node @ [taint]\<rparr>) w)"

definition removeRepartitioningTaint :: "('w, 'q) kubeAPI \<Rightarrow> 'q Node \<Rightarrow> 'w \<Rightarrow> apiError option \<times> 'w" where
  "removeRepartitioningTaint api node w =
     (case getNode api (Name node) w of
        (Inl e, w') \<Rightarrow> (Some e, w')
      | (Inr current, w') \<Rightarrow>
          (let newTaints = filter (\<lambda>t. TaintKey t \<noteq> RepartitioningTaintKey) (Taints current) in
           if length newTaints = length (Taints current) then (None, w')
           else patchNode api current (current\<lparr>Taints := newTaints\<rparr>) w'))"

fun cleanupRepartitioningTaints :: "('w, 'q) kubeAPI \<Rightarrow> 'q Node list \<Rightarrow> 'w \<Rightarrow> apiError option \<times> 'w" where
  "cleanupRepartitioningTaints api [] w = (None, w)"
| "cleanupRepartitioningTaints api (node # nodes) w =
     (if \<not> nodeHasRepartitioningTaint node then cleanupRepartitioningTaints api nodes w
      else case removeRepartitioningTaint api node w of
        (Some e, w') \<Rightarrow> (Some e, w')
      | (None, w') \<Rightarrow> cleanupRepartitioningTaints api nodes w')"

definition tryPlanWithoutPreemption ::
  "('ni, 'q, 'w) Controller \<Rightarrow> 'q Node list \<Rightarrow> 'q Pod list \<Rightarrow> 'w \<Rightarrow> (apiError + bool) \<times> 'w" where
  "tryPlanWithoutPreemption c nodes pendingPods w =
     (let requestedForPlan = buildRequestedProfilesPlan c nodes pendingPods in
      if length requestedForPlan = 0 then (Inr False, w)
      else if profileAlreadyPresent c nodes requestedForPlan then
        (case cleanupRepartitioningTaints (ctlClient c) nodes w of
           (Some e, w') \<Rightarrow> (Inl e, w')
         | (None, w') \<Rightarrow> (Inr False, w'))
      else let (updated, w') = tryRepartition c nodes requestedForPlan w in (Inr updated, w'))"

section \<open>Preemption\<close>

definition victimBefore :: "'q Pod \<Rightarrow> 'q Pod \<Rightarrow> bool" where
  "victimBefore a b \<longleftrightarrow>
     (let p1 = podPriorityOrDefault a; p2 = podPriorityOrDefault b in
      if p1 \<noteq> p2 then p1 < p2
      else let t1 = CreationTimestamp a; t2 = CreationTimestamp b in
        if t1 \<noteq> t2 then t2 < t1 else str_less (PodName a) (PodName b))"

definition isCandidateVictim :: "('ni, 'q) k8sLib \<Rightarrow> string \<Rightarrow> int \<Rightarrow> 'q Pod \<Rightarrow> bool" where
  "isCandidateVictim K onNode targetPriority pod \<longleftrightarrow>
     (if NodeName pod \<noteq> onNode then False
      else if DeletionTimestamp pod \<noteq> None then False
      else if IsOwnedByDaemonSet pod \<or> IsOwnedByNode pod then False
      else if length (GetRequestedProfiles K pod) = 0 then False
      else if podPriorityOrDefault pod \<ge> targetPriority then False
      else True)"

definition listCandidateVictims ::
  "('ni, 'q, 'w) Controller \<Rightarrow> string \<Rightarrow> int \<Rightarrow> 'w \<Rightarrow> (apiError + 'q Pod list) \<times> 'w" where
  "listCandidateVictims c onNode targetPriority w =
     (case listPods (ctlClient c) w of
        (Inl e, w') \<Rightarrow> (Inl e, w')
      | (Inr pods, w') \<Rightarrow>
          (Inr (sliceStable victimBefore (filter (isCandidateVictim (ctlK8s c) onNode targetPriority) pods)), w'))"

text \<open>
  The loop over the candidates: the victims so far and the node without them.  A release that fails
  half way leaves the working node as it is then.
\<close>

fun victims_loop ::
  "('ni, 'q, 'w) Controller \<Rightarrow> (ProfileName, int) gomap \<Rightarrow> 'ni MigNode \<Rightarrow> 'q Pod list \<Rightarrow> 'q Pod list \<Rightarrow> 'q Pod list \<times> bool" where
  "victims_loop c targetProfiles working victims [] = ([], False)"
| "victims_loop c targetProfiles working victims (victim # candidates) =
     (let profiles = GetRequestedProfiles (ctlK8s c) victim in
      if length profiles = 0 then victims_loop c targetProfiles working victims candidates
      else
        let (ok, working') = Node_ReleaseProfiles working profiles in
        if \<not> ok then victims_loop c targetProfiles working' victims candidates
        else
          let victims' = victims @ [victim] in
          if hasFreeCapacityFor (Node_FreeGeometry working') targetProfiles then (victims', True)
          else
            let (updated, testClone) =
              Node_UpdateGeometryFor (ctlK8s c) (ctlCmp c) (Node_Clone (ctlK8s c) working')
                (convertProfilesToSlices targetProfiles) in
            if updated \<and> providesRequestedProfiles testClone targetProfiles then (victims', True)
            else victims_loop c targetProfiles working' victims' candidates)"

datatype victimError = VictimNode nodeError | VictimList apiError

definition findVictims ::
  "('ni, 'q, 'w) Controller \<Rightarrow> 'q Node \<Rightarrow> 'q Pod \<Rightarrow> 'w \<Rightarrow> (victimError + 'q Pod list \<times> bool) \<times> 'w" where
  "findVictims c node targetPod w =
     (case ctlNewNode c node of
        Inl e \<Rightarrow> (Inl (VictimNode e), w)
      | Inr migNode \<Rightarrow>
          (let targetProfiles = GetRequestedProfiles (ctlK8s c) targetPod;
               requiredSlices = convertProfilesToSlices targetProfiles in
           if hasFreeCapacityFor (Node_FreeGeometry migNode) targetProfiles then (Inr ([], True), w)
           else
             let (updated, cloned) =
               Node_UpdateGeometryFor (ctlK8s c) (ctlCmp c) (Node_Clone (ctlK8s c) migNode) requiredSlices in
             if updated \<and> providesRequestedProfiles cloned targetProfiles then (Inr ([], True), w)
             else
               case listCandidateVictims c (Name node) (podPriorityOrDefault targetPod) w of
                 (Inl e, w') \<Rightarrow> (Inl (VictimList e), w')
               | (Inr candidates, w') \<Rightarrow>
                   (Inr (victims_loop c targetProfiles (Node_Clone (ctlK8s c) migNode) [] candidates), w')))"

fun preemption_loop :: "('ni, 'q, 'w) Controller \<Rightarrow> 'q Pod \<Rightarrow> 'q Node list \<Rightarrow> 'w \<Rightarrow> bool \<times> 'w" where
  "preemption_loop c targetPod [] w = (False, w)"
| "preemption_loop c targetPod (node # nodes) w =
     (case findVictims c node targetPod w of
        (Inl _, w1) \<Rightarrow> preemption_loop c targetPod nodes w1
      | (Inr (victims, feasible), w1) \<Rightarrow>
          (if \<not> feasible \<or> length victims = 0 then preemption_loop c targetPod nodes w1
           else case ensureRepartitioningTaint (ctlClient c) node w1 of
             (Some _, w2) \<Rightarrow> preemption_loop c targetPod nodes w2
           | (None, w2) \<Rightarrow>
               (case evictFunc c victims w2 of
                  (Some _, w3) \<Rightarrow>
                    preemption_loop c targetPod nodes (snd (removeRepartitioningTaint (ctlClient c) node w3))
                | (None, w3) \<Rightarrow> (True, w3))))"

definition tryPreemption ::
  "('ni, 'q, 'w) Controller \<Rightarrow> 'q Node list \<Rightarrow> 'q Pod list \<Rightarrow> 'w \<Rightarrow> bool \<times> 'w" where
  "tryPreemption c nodes pendingPods w =
     (case pendingPods of [] \<Rightarrow> (False, w) | targetPod # _ \<Rightarrow> preemption_loop c targetPod nodes w)"

section \<open>Reconciling\<close>

definition Reconcile :: "('ni, 'q, 'w) Controller \<Rightarrow> 'w \<Rightarrow> (Result \<times> apiError option) \<times> 'w" where
  "Reconcile c w =
     (let result = \<lparr>RequeueAfter = requeueInterval c\<rparr> in
      case listMigPartitionedNodes c w of
        (Inl e, w1) \<Rightarrow> ((result, Some e), w1)
      | (Inr nodes, w1) \<Rightarrow>
          (if length nodes = 0 then ((result, None), w1)
           else case listPendingMigPods c w1 of
             (Inl e, w2) \<Rightarrow> ((result, Some e), w2)
           | (Inr pendingPods, w2) \<Rightarrow>
               (let sortedPending = sortPodsByPriorityAndAge pendingPods in
                if length sortedPending = 0 then
                  (let (r, w3) = cleanupRepartitioningTaints (ctlClient c) nodes w2 in ((result, r), w3))
                else case tryPlanWithoutPreemption c nodes sortedPending w2 of
                  (Inl e, w3) \<Rightarrow> ((result, Some e), w3)
                | (Inr True, w3) \<Rightarrow> ((result, None), w3)
                | (Inr False, w3) \<Rightarrow>
                    (if preemption c
                     then let (_, w4) = tryPreemption c nodes sortedPending w3 in ((result, None), w4)
                     else ((result, None), w3)))))"

section \<open>What the controller writes\<close>

text \<open>
  A write of the partitioner to a node object leaves alone everything but the spec annotations, the
  plan annotation and the repartitioning taint.
\<close>

definition partitioner_patch :: "'q Node \<Rightarrow> 'q Node \<Rightarrow> bool" where
  "partitioner_patch old new \<longleftrightarrow>
     Name new = Name old \<and> Labels new = Labels old \<and> Capacity new = Capacity old \<and> Allocatable new = Allocatable old \<and>
     (\<forall>k. \<not> HasPrefix k AnnotationGpuSpecPrefix \<and> k \<noteq> AnnotationPartitioningPlan \<longrightarrow>
        map_of (Annotations new) k = map_of (Annotations old) k) \<and>
     filter (\<lambda>t. TaintKey t \<noteq> RepartitioningTaintKey) (Taints new) = filter (\<lambda>t. TaintKey t \<noteq> RepartitioningTaintKey) (Taints old)"

lemma map_of_put_all_other: "k \<notin> fst ` set l \<Longrightarrow> map_of (gm_put_all m l) k = map_of m k"
proof (induction l arbitrary: m)
  case (Cons e l)
  then show ?case by (cases e) (auto simp: gomap_simps)
qed simp

lemma map_of_filter_key: "Q k \<Longrightarrow> map_of (filter (\<lambda>(k, _). Q k) m) k = map_of m k"
  by (induction m) auto

lemma partitioned_node_patch: "partitioner_patch node (partitioned_node node planId specs)"
proof -
  have "map_of (Annotations (partitioned_node node planId specs)) k = map_of (Annotations node) k"
    if k: "\<not> HasPrefix k AnnotationGpuSpecPrefix" "k \<noteq> AnnotationPartitioningPlan" for k
  proof -
    have "k \<notin> fst ` set (map (\<lambda>a. (SpecAnnotation_String a, SpecAnnotation_GetValue a)) specs)"
      using k(1) spec_String_prefix by auto
    with k show ?thesis by (simp add: partitioned_node_def gomap_simps map_of_put_all_other map_of_filter_key)
  qed
  then show ?thesis by (simp add: partitioner_patch_def partitioned_node_def)
qed

lemma add_taint_patch:
  "partitioner_patch node (node\<lparr>Taints := Taints node @ [\<lparr>TaintKey = RepartitioningTaintKey, TaintValue = v, TaintEffect = e\<rparr>]\<rparr>)"
  by (simp add: partitioner_patch_def)

lemma remove_taint_patch:
  "partitioner_patch node (node\<lparr>Taints := filter (\<lambda>t. TaintKey t \<noteq> RepartitioningTaintKey) (Taints node)\<rparr>)"
  by (simp add: partitioner_patch_def)

text \<open>
  A pod of \<open>S\<close> that may be evicted for a pod of \<open>S\<close> that waits: it has a strictly lower priority, uses
  MIG devices, is not being deleted and belongs neither to a daemon set nor to a node.
\<close>

definition lower_priority_victim :: "('ni, 'q) k8sLib \<Rightarrow> 'q Pod set \<Rightarrow> string \<Rightarrow> string \<Rightarrow> bool" where
  "lower_priority_victim K S ns name \<longleftrightarrow>
     (\<exists>pod\<in>S. \<exists>target\<in>S. PodNamespace pod = ns \<and> PodName pod = name \<and>
        IsPending target \<and> \<not> IsScheduled target \<and> IsUnschedulable target \<and>
        podPriorityOrDefault pod < podPriorityOrDefault target \<and> GetRequestedProfiles K pod \<noteq> [] \<and>
        DeletionTimestamp pod = None \<and> \<not> IsOwnedByDaemonSet pod \<and> \<not> IsOwnedByNode pod)"

lemma patch_keeps:
  "api_keeps api partitioner_patch okEvict P \<Longrightarrow> partitioner_patch old new \<Longrightarrow> P w \<Longrightarrow> P (snd (patchNode api old new w))"
  by (simp add: api_keeps_def)

lemma ApplyPartitioning_keeps:
  assumes "api_keeps api partitioner_patch okEvict P" "P w"
  shows "P (snd (ApplyPartitioning api node planId np w))"
  using patch_keeps [OF assms(1) partitioned_node_patch assms(2), of node planId] assms(2)
  by (auto simp: ApplyPartitioning_def case_prod_beta split: sum.splits option.splits)

lemma updateNodeGeometry_keeps:
  assumes "api_keeps (ctlClient c) partitioner_patch okEvict P" "P w"
  shows "P (snd (updateNodeGeometry c node requested w))"
  using ApplyPartitioning_keeps [OF assms] assms(2)
  by (auto simp: updateNodeGeometry_def Let_def case_prod_beta split: sum.splits option.splits)

lemma tryRepartition_keeps:
  assumes "api_keeps (ctlClient c) partitioner_patch okEvict P"
  shows "P w \<Longrightarrow> P (snd (tryRepartition c nodes requested w))"
proof (induction nodes arbitrary: w)
  case (Cons node nodes)
  have "P (snd (updateNodeGeometry c node requested w))" by (rule updateNodeGeometry_keeps [OF assms Cons.prems])
  with Cons.IH show ?case by (auto split: prod.splits sum.splits bool.splits)
qed simp

lemma removeTaint_keeps:
  assumes "api_keeps api partitioner_patch okEvict P" "P w"
  shows "P (snd (removeRepartitioningTaint api node w))"
  using api_keepsD(3) [OF assms, of "Name node"] patch_keeps [OF assms(1) remove_taint_patch]
  by (auto simp: removeRepartitioningTaint_def Let_def split: prod.splits sum.splits)

lemma ensureTaint_keeps:
  assumes "api_keeps api partitioner_patch okEvict P" "P w"
  shows "P (snd (ensureRepartitioningTaint api node w))"
  using assms patch_keeps [OF assms(1) add_taint_patch assms(2)] by (simp add: ensureRepartitioningTaint_def)

lemma cleanupTaints_keeps:
  assumes "api_keeps api partitioner_patch okEvict P"
  shows "P w \<Longrightarrow> P (snd (cleanupRepartitioningTaints api nodes w))"
proof (induction nodes arbitrary: w)
  case (Cons node nodes)
  have "P (snd (removeRepartitioningTaint api node w))" by (rule removeTaint_keeps [OF assms Cons.prems])
  with Cons show ?case by (auto split: prod.splits option.splits)
qed simp

lemma evictPods_keeps:
  assumes "api_keeps api partitioner_patch okEvict P" "\<forall>pod\<in>set pods. okEvict (PodNamespace pod) (PodName pod)"
  shows "P w \<Longrightarrow> P (snd (evictPodsUsingAPI api pods w))"
  using assms(2)
proof (induction pods arbitrary: w)
  case (Cons pod pods)
  have "P (snd (evictPod api (PodNamespace pod) (PodName pod) w))"
    using Cons.prems by (intro api_keepsD(5) [OF assms(1)]) simp_all
  with Cons show ?case by (auto split: prod.splits option.splits)
qed simp

lemma tryPlan_keeps:
  assumes "api_keeps (ctlClient c) partitioner_patch okEvict P" "P w"
  shows "P (snd (tryPlanWithoutPreemption c nodes pods w))"
  using cleanupTaints_keeps [OF assms, of nodes] tryRepartition_keeps [OF assms, of nodes] assms(2)
  by (auto simp: tryPlanWithoutPreemption_def Let_def case_prod_beta split: option.splits)

lemma victims_loop_subset:
  "set (fst (victims_loop c target working victims candidates)) \<subseteq> set victims \<union> set candidates"
proof (induction candidates arbitrary: working victims)
  case (Cons v candidates)
  let ?w = "snd (Node_ReleaseProfiles working (GetRequestedProfiles (ctlK8s c) v))"
  show ?case
    using Cons.IH [of working victims] Cons.IH [of ?w victims] Cons.IH [of ?w "victims @ [v]"]
    by (auto simp: Let_def case_prod_beta)
qed simp

lemma isCandidateVictim_iff:
  "isCandidateVictim K onNode prio pod \<longleftrightarrow>
     NodeName pod = onNode \<and> DeletionTimestamp pod = None \<and> \<not> IsOwnedByDaemonSet pod \<and> \<not> IsOwnedByNode pod \<and>
     GetRequestedProfiles K pod \<noteq> [] \<and> podPriorityOrDefault pod < prio"
  by (auto simp: isCandidateVictim_def)

lemma findVictims_keeps:
  assumes "api_keeps (ctlClient c) partitioner_patch okEvict P" "P w"
  shows "P (snd (findVictims c node target w))"
  using api_keepsD(2) [OF assms] assms(2)
  by (auto simp: findVictims_def listCandidateVictims_def Let_def case_prod_beta split: sum.splits prod.splits)

lemma findVictims_candidates:
  assumes "findVictims c node target w = (Inr (victims, feasible), w')" "v \<in> set victims"
  shows "\<exists>pods. fst (listPods (ctlClient c) w) = Inr pods \<and> v \<in> set pods \<and>
    isCandidateVictim (ctlK8s c) (Name node) (podPriorityOrDefault target) v"
proof -
  from assms obtain pods working where
    pods: "fst (listPods (ctlClient c) w) = Inr pods" and
    v: "victims_loop c (GetRequestedProfiles (ctlK8s c) target) working []
      (sliceStable victimBefore (filter (isCandidateVictim (ctlK8s c) (Name node) (podPriorityOrDefault target)) pods)) =
      (victims, feasible)"
    by (auto simp: findVictims_def listCandidateVictims_def Let_def case_prod_beta split: sum.splits prod.splits if_splits)
  then have "v \<in> set (sliceStable victimBefore (filter (isCandidateVictim (ctlK8s c) (Name node) (podPriorityOrDefault target)) pods))"
    using assms(2) victims_loop_subset [of c _ working "[]"] by (metis Un_iff empty_iff empty_set fst_conv subset_iff)
  with pods show ?thesis by simp
qed

lemma preemption_loop_keeps:
  assumes "api_keeps (ctlClient c) partitioner_patch (lower_priority_victim (ctlK8s c) S) P"
    "\<forall>w pods. P w \<longrightarrow> fst (listPods (ctlClient c) w) = Inr pods \<longrightarrow> set pods \<subseteq> S"
    "evictFunc c = evictPodsUsingAPI (ctlClient c)" "target \<in> S" "shouldConsiderPod target"
  shows "P w \<Longrightarrow> P (snd (preemption_loop c target nodes w))"
proof (induction nodes arbitrary: w)
  case (Cons node nodes)
  have fv: "P (snd (findVictims c node target w))" by (rule findVictims_keeps [OF assms(1) Cons.prems])
  have ens: "P (snd (ensureRepartitioningTaint (ctlClient c) node w'))" if "P w'" for w'
    by (rule ensureTaint_keeps [OF assms(1) that])
  have rem: "P (snd (removeRepartitioningTaint (ctlClient c) node w'))" if "P w'" for w'
    by (rule removeTaint_keeps [OF assms(1) that])
  have ev: "P (snd (evictPodsUsingAPI (ctlClient c) victims w''))"
    if "findVictims c node target w = (Inr (victims, feasible), w')" "P w''" for victims feasible w' w''
  proof (rule evictPods_keeps [OF assms(1) _ that(2)], intro ballI)
    fix v assume "v \<in> set victims"
    from findVictims_candidates [OF that(1) this] assms(2) Cons.prems
    have "v \<in> S" "isCandidateVictim (ctlK8s c) (Name node) (podPriorityOrDefault target) v" by auto
    then show "lower_priority_victim (ctlK8s c) S (PodNamespace v) (PodName v)"
      using assms(4,5) by (auto simp: lower_priority_victim_def isCandidateVictim_iff shouldConsiderPod_def split: if_splits)
  qed
  show ?case
  proof (cases "findVictims c node target w")
    case fw: (Pair r w1)
    show ?thesis
    proof (cases r)
      case (Inl e)
      with fw fv Cons.IH show ?thesis by simp
    next
      case (Inr vf)
      obtain victims feasible where vf: "vf = (victims, feasible)" by fastforce
      have w1: "P w1" using fw fv by simp
      let ?t = "ensureRepartitioningTaint (ctlClient c) node w1"
      let ?e = "evictPodsUsingAPI (ctlClient c) victims (snd ?t)"
      have e: "P (snd ?e)" using ev fw Inr vf ens [OF w1] by blast
      show ?thesis
        using fw Inr vf w1 e Cons.IH ens [OF w1] rem [OF e]
        by (auto simp: assms(3) case_prod_beta split: option.splits)
    qed
  qed
qed simp

lemma listPending_keeps:
  assumes "api_keeps (ctlClient c) partitioner_patch okEvict P" "P w"
  shows "P (snd (listPendingMigPods c w))"
  using api_keepsD(2) [OF assms] by (auto simp: listPendingMigPods_def split: prod.splits sum.splits)

lemma listPending_pods:
  "fst (listPendingMigPods c w) = Inr pods \<Longrightarrow>
   \<exists>all. fst (listPods (ctlClient c) w) = Inr all \<and> (\<forall>p\<in>set pods. p \<in> set all \<and> shouldConsiderPod p)"
  by (auto simp: listPendingMigPods_def split: prod.splits sum.splits)

section \<open>The order of the pods\<close>

lemma pendingBefore_iff:
  "pendingBefore a b \<longleftrightarrow>
     podPriorityOrDefault b < podPriorityOrDefault a \<or>
     podPriorityOrDefault a = podPriorityOrDefault b \<and>
       (CreationTimestamp a < CreationTimestamp b \<or>
        CreationTimestamp a = CreationTimestamp b \<and> str_less (PodName a) (PodName b))"
  by (auto simp: pendingBefore_def Let_def)

lemma victimBefore_iff:
  "victimBefore a b \<longleftrightarrow>
     podPriorityOrDefault a < podPriorityOrDefault b \<or>
     podPriorityOrDefault a = podPriorityOrDefault b \<and>
       (CreationTimestamp b < CreationTimestamp a \<or>
        CreationTimestamp a = CreationTimestamp b \<and> str_less (PodName a) (PodName b))"
  by (auto simp: victimBefore_def Let_def)

interpretation pending_order: strict_weak_order pendingBefore
proof
  fix x y z :: "'q Pod"
  show "pendingBefore x y \<Longrightarrow> \<not> pendingBefore y x"
    by (auto simp: pendingBefore_iff dest: str_order.lt_asym)
  show "\<not> pendingBefore x y \<Longrightarrow> \<not> pendingBefore y z \<Longrightarrow> \<not> pendingBefore x z"
    using str_order.lt_negtrans [of "PodName x" "PodName y" "PodName z"] by (auto simp: pendingBefore_iff)
qed

interpretation victim_order: strict_weak_order victimBefore
proof
  fix x y z :: "'q Pod"
  show "victimBefore x y \<Longrightarrow> \<not> victimBefore y x"
    by (auto simp: victimBefore_iff dest: str_order.lt_asym)
  show "\<not> victimBefore x y \<Longrightarrow> \<not> victimBefore y z \<Longrightarrow> \<not> victimBefore x z"
    using str_order.lt_negtrans [of "PodName x" "PodName y" "PodName z"] by (auto simp: victimBefore_iff)
qed

section \<open>The plan\<close>

text \<open>What the first pods of the queue request together.\<close>

definition requested_by :: "('ni, 'q) k8sLib \<Rightarrow> (ProfileName, int) gomap \<Rightarrow> 'q Pod list \<Rightarrow> (ProfileName, int) gomap" where
  "requested_by K = foldl (addPodRequestedProfiles K)"

definition feasible_request ::
  "('ni, 'q, 'w) Controller \<Rightarrow> 'q Node list \<Rightarrow> (ProfileName, int) gomap \<Rightarrow> bool" where
  "feasible_request c nodes requested \<longleftrightarrow> profileAlreadyPresent c nodes requested \<or> canRepartition c nodes requested"

lemma requested_by_simps [simp]:
  "requested_by K r [] = r" "requested_by K r (pod # pods) = requested_by K (addPodRequestedProfiles K r pod) pods"
  by (simp_all add: requested_by_def)

lemma requested_by_ok: "gm_ok r \<Longrightarrow> gm_ok (requested_by K r pods)"
  by (induction pods arbitrary: r) (simp_all add: addPodRequestedProfiles_def gomap_ok)

lemma requested_by_get:
  "gm_get (requested_by K r pods) p = gm_get r p + (\<Sum>pod\<leftarrow>pods. gm_get (GetRequestedProfiles K pod) p)"
  by (induction pods arbitrary: r) (simp_all add: addPodRequestedProfiles_def gomap_simps GetRequestedProfiles_ok)

lemma requestedPlan_loop_prefix:
  assumes "gm_ok requested" "gm_ok feas"
  shows "\<exists>k\<le>length pods.
    requestedPlan_loop c nodes requested feas pods =
      (if k = 0 then feas else requested_by (ctlK8s c) requested (take k pods)) \<and>
    (\<forall>j. 0 < j \<and> j \<le> k \<longrightarrow> feasible_request c nodes (requested_by (ctlK8s c) requested (take j pods))) \<and>
    (k < length pods \<longrightarrow> \<not> feasible_request c nodes (requested_by (ctlK8s c) requested (take (Suc k) pods)))"
  using assms
proof (induction pods arbitrary: requested feas)
  case (Cons pod pods)
  let ?r = "addPodRequestedProfiles (ctlK8s c) requested pod"
  have ok: "gm_ok ?r" using Cons.prems by (simp add: addPodRequestedProfiles_def gomap_ok)
  show ?case
  proof (cases "feasible_request c nodes ?r")
    case True
    then have step: "requestedPlan_loop c nodes requested feas (pod # pods) = requestedPlan_loop c nodes ?r ?r pods"
      using ok by (auto simp: feasible_request_def Let_def copyRequestedProfiles_def gm_put_all_self)
    obtain k where k: "k \<le> length pods"
      "requestedPlan_loop c nodes ?r ?r pods = (if k = 0 then ?r else requested_by (ctlK8s c) ?r (take k pods))"
      "\<forall>j. 0 < j \<and> j \<le> k \<longrightarrow> feasible_request c nodes (requested_by (ctlK8s c) ?r (take j pods))"
      "k < length pods \<longrightarrow> \<not> feasible_request c nodes (requested_by (ctlK8s c) ?r (take (Suc k) pods))"
      using Cons.IH [OF ok ok] by blast
    have "feasible_request c nodes (requested_by (ctlK8s c) requested (take j (pod # pods)))" if "0 < j" "j \<le> Suc k" for j
      using that k(3) True by (cases j; cases "j - 1") (auto simp: take_Cons')
    then show ?thesis
      using k step by (intro exI [of _ "Suc k"]) auto
  next
    case False
    then show ?thesis by (intro exI [of _ 0]) (auto simp: feasible_request_def Let_def)
  qed
qed simp

section \<open>Acting on the plan\<close>

lemma annotated_devices_maps:
  "gm_ok used \<Longrightarrow> gm_ok free \<Longrightarrow> gm_ok (fst (annotated_devices used free as)) \<and> gm_ok (snd (annotated_devices used free as))"
  by (induction as arbitrary: used free) (simp_all add: gomap_ok)

lemma NewNode_maps:
  assumes "NewNode K known ni = Inr n" "g \<in> set (GPUs n)"
  shows "gm_ok (usedMigDevices g) \<and> gm_ok (freeMigDevices g)"
proof -
  obtain node model gpuCount annot missing where
    annot: "gpus_from_annotations known model (StatusAnnotationList_GroupByGpuIndex (fst (ParseNodeAnnotations (node :: 'b Node)))) = Inr annot" and
    missing: "missing_gpus known model [int (length annot)..gpuCount - 1] = Inr missing" and
    gpus: "GPUs n = annot @ missing"
    using assms(1) by (auto simp: NewNode_def extractGPUs_def split: option.splits sum.splits)
  show ?thesis
  proof (cases "g \<in> set annot")
    case True
    with gpus_from_annotations_each [OF annot] obtain i as where
      "NewGPU known model i (fst (annotated_devices [] [] as)) (snd (annotated_devices [] [] as)) = Inr g"
      by (fastforce simp: list_all2_conv_all_nth in_set_conv_nth)
    from NewGPU_fields [OF this] show ?thesis by (simp add: annotated_devices_maps)
  next
    case False
    with assms(2) gpus missing_gpus_empty [OF missing] show ?thesis by auto
  qed
qed

lemma GPU_Clone_id: "gm_ok (usedMigDevices g) \<Longrightarrow> gm_ok (freeMigDevices g) \<Longrightarrow> GPU_Clone g = g"
  by (simp add: GPU_Clone_def gm_put_all_self)

text \<open>A clone behaves like the node it was made from.\<close>

lemma Clone_GPUs:
  "NewNode K known ni = Inr n \<Longrightarrow> GPUs (Node_Clone K n) = GPUs n"
  by (auto simp: Node_Clone_def intro!: map_idI GPU_Clone_id dest: NewNode_maps)

lemma Node_Update_GPUs:
  assumes "GPUs n = GPUs m"
  shows "fst (Node_UpdateGeometryFor K cmp n slices) = fst (Node_UpdateGeometryFor K cmp m slices)"
    "GPUs (snd (Node_UpdateGeometryFor K cmp n slices)) = GPUs (snd (Node_UpdateGeometryFor K cmp m slices))"
  using assms by (simp_all add: Node_UpdateGeometryFor_def Let_def case_prod_beta)

lemma provides_GPUs: "GPUs n = GPUs m \<Longrightarrow> providesRequestedProfiles n requested = providesRequestedProfiles m requested"
  by (simp add: providesRequestedProfiles_def Node_Geometry_def)

definition plan_writable :: "('ni, 'q, 'w) Controller \<Rightarrow> (ProfileName, int) gomap \<Rightarrow> 'q Node \<Rightarrow> bool" where
  "plan_writable c requested node \<longleftrightarrow>
     (case ctlNewNode c node of
        Inl _ \<Rightarrow> True
      | Inr n \<Rightarrow> list_all canonical_gpu
          (GPUs (snd (Node_UpdateGeometryFor (ctlK8s c) (ctlCmp c) n (convertProfilesToSlices requested)))))"

lemma updateNodeGeometry_acts:
  assumes "canRepartitionNode c requested node" "plan_writable c requested node"
    "\<forall>old new w. fst (patchNode (ctlClient c) old new w) = None"
  shows "fst (updateNodeGeometry c node requested w) = Inr True"
proof -
  from assms(1) obtain n where n: "ctlNewNode c node = Inr n"
    by (auto simp: canRepartitionNode_def split: sum.splits)
  let ?u = "Node_UpdateGeometryFor (ctlK8s c) (ctlCmp c) n (convertProfilesToSlices requested)"
  have clone: "GPUs (Node_Clone (ctlK8s c) n) = GPUs n" using n by (simp add: ctlNewNode_def Clone_GPUs)
  have "fst ?u" "providesRequestedProfiles (snd ?u) requested"
    using assms(1) n Node_Update_GPUs(1) [OF clone]
      provides_GPUs [OF Node_Update_GPUs(2) [OF clone], of "ctlK8s c" "ctlCmp c" "convertProfilesToSlices requested"]
    by (auto simp: canRepartitionNode_def Let_def case_prod_beta)
  moreover have "getGPUSpecAnnotationList (BuildNodePartitioning (snd ?u)) = Inr (concat (map gpu_specs (GPUs (snd ?u))))"
    using assms(2) n by (intro getGPUSpecAnnotationList_eq) (simp add: plan_writable_def)
  ultimately show ?thesis
    using assms(3) n
    by (auto simp: updateNodeGeometry_def Let_def case_prod_beta ApplyPartitioning_def split: option.splits)
qed

lemma tryRepartition_acts:
  assumes "list_ex (canRepartitionNode c requested) nodes" "list_all (plan_writable c requested) nodes"
    "\<forall>old new w. fst (patchNode (ctlClient c) old new w) = None"
  shows "fst (tryRepartition c nodes requested w)"
  using assms(1,2)
proof (induction nodes arbitrary: w)
  case (Cons node nodes)
  show ?case
  proof (cases "canRepartitionNode c requested node")
    case True
    with Cons.prems updateNodeGeometry_acts [OF True _ assms(3), of w] show ?thesis
      by (auto split: prod.splits)
  next
    case False
    with Cons show ?thesis by (auto split: prod.splits sum.splits bool.splits)
  qed
qed simp

section \<open>Victims\<close>

text \<open>The node without the devices of the given pods.\<close>

definition released_from :: "('ni, 'q) k8sLib \<Rightarrow> 'ni MigNode \<Rightarrow> 'q Pod list \<Rightarrow> 'ni MigNode \<Rightarrow> bool" where
  "released_from K n pods n' \<longleftrightarrow>
     node_ok n' \<and> list_all2 same_devices (GPUs n) (GPUs n') \<and>
     (\<forall>p. total_used (GPUs n') p = total_used (GPUs n) p - (\<Sum>pod\<leftarrow>pods. gm_get (GetRequestedProfiles K pod) p))"

definition serves ::
  "('ni, 'q, 'w) Controller \<Rightarrow> (ProfileName, int) gomap \<Rightarrow> 'ni MigNode \<Rightarrow> bool" where
  "serves c targetProfiles n \<longleftrightarrow>
     hasFreeCapacityFor (Node_FreeGeometry n) targetProfiles \<or>
     (let r = Node_UpdateGeometryFor (ctlK8s c) (ctlCmp c) (Node_Clone (ctlK8s c) n) (convertProfilesToSlices targetProfiles)
      in fst r \<and> providesRequestedProfiles (snd r) targetProfiles)"

lemma release_victim:
  assumes "released_from K n victims working" "\<forall>p. 0 \<le> gm_get (GetRequestedProfiles K v) p"
    "\<forall>p. gm_get (GetRequestedProfiles K v) p \<le> total_used (GPUs working) p"
  shows "fst (Node_ReleaseProfiles working (GetRequestedProfiles K v))"
    and "released_from K n (victims @ [v]) (snd (Node_ReleaseProfiles working (GetRequestedProfiles K v)))"
proof -
  let ?l = "GetRequestedProfiles K v"
  have ok: "list_all gpu_ok (GPUs working)" "gm_ok ?l" "\<forall>(p, q)\<in>set ?l. 0 \<le> q" "\<forall>(p, q)\<in>set ?l. q \<le> total_used (GPUs working) p"
    using assms gm_get_entry [OF GetRequestedProfiles_ok, of _ _ K v]
    by (fastforce simp: released_from_def node_ok_def GetRequestedProfiles_ok)+
  note eff = releaseProfiles_loop_effect [OF ok(1-3)] and inv = releaseProfiles_loop_ok [OF ok(1,3)]
  show r: "fst (Node_ReleaseProfiles working ?l)"
    using eff ok(4) by (simp add: Node_ReleaseProfiles_def case_prod_beta)
  have "list_all2 same_devices (GPUs n) (snd (releaseProfiles_loop (GPUs working) ?l))"
    using inv assms(1) by (auto simp: released_from_def intro: list_all2_trans [OF same_devices_trans])
  then show "released_from K n (victims @ [v]) (snd (Node_ReleaseProfiles working ?l))"
    using r eff inv assms(1) by (auto simp: released_from_def node_ok_def Node_ReleaseProfiles_def case_prod_beta)
qed

lemma victims_loop_prefix:
  assumes "released_from (ctlK8s c) n victims working"
    "\<forall>v\<in>set candidates. GetRequestedProfiles (ctlK8s c) v \<noteq> [] \<and> (\<forall>p. 0 \<le> gm_get (GetRequestedProfiles (ctlK8s c) v) p)"
    "\<forall>p. (\<Sum>v\<leftarrow>candidates. gm_get (GetRequestedProfiles (ctlK8s c) v) p) \<le> total_used (GPUs working) p"
    "victims_loop c target working victims candidates = (vs, True)"
  shows "\<exists>k n'. 0 < k \<and> vs = victims @ take k candidates \<and> released_from (ctlK8s c) n vs n' \<and> serves c target n'"
  using assms
proof (induction candidates arbitrary: working victims)
  case (Cons v candidates)
  let ?K = "ctlK8s c" let ?l = "GetRequestedProfiles ?K v" let ?w = "snd (Node_ReleaseProfiles working ?l)"
  have nonneg: "0 \<le> (\<Sum>v\<leftarrow>candidates. gm_get (GetRequestedProfiles ?K v) p)" for p
    using Cons.prems(2) by (intro sum_list_nonneg_int) simp
  have le: "\<forall>p. gm_get ?l p \<le> total_used (GPUs working) p"
  proof
    fix p show "gm_get ?l p \<le> total_used (GPUs working) p"
      using Cons.prems(3) [THEN spec, of p] nonneg [of p] by simp
  qed
  have v: "\<forall>p. 0 \<le> gm_get ?l p" "?l \<noteq> []" using Cons.prems(2) by simp_all
  note rel = release_victim [OF Cons.prems(1) v(1) le]
  have used: "\<forall>p. (\<Sum>v\<leftarrow>candidates. gm_get (GetRequestedProfiles ?K v) p) \<le> total_used (GPUs ?w) p"
  proof
    fix p
    have "total_used (GPUs ?w) p = total_used (GPUs working) p - gm_get ?l p"
      using Cons.prems(1) rel(2) by (simp add: released_from_def)
    with Cons.prems(3) [THEN spec, of p]
    show "(\<Sum>v\<leftarrow>candidates. gm_get (GetRequestedProfiles ?K v) p) \<le> total_used (GPUs ?w) p" by simp
  qed
  show ?case
  proof (cases "serves c target ?w")
    case True
    with Cons.prems(4) v(2) rel have "vs = victims @ [v]"
      by (auto simp: serves_def Let_def case_prod_beta split: if_splits)
    with True rel(2) show ?thesis by (intro exI [of _ 1] exI [of _ ?w]) simp
  next
    case False
    with Cons.prems(4) v(2) rel(1) have "victims_loop c target ?w (victims @ [v]) candidates = (vs, True)"
      by (auto simp: serves_def Let_def case_prod_beta split: if_splits)
    from Cons.IH [OF rel(2) _ used this] Cons.prems(2) obtain k n' where
      "0 < k" "vs = (victims @ [v]) @ take k candidates" "released_from ?K n vs n'" "serves c target n'" by auto
    then show ?thesis by (intro exI [of _ "Suc k"] exI [of _ n']) simp
  qed
qed simp

section \<open>A small cluster\<close>

definition mig_node :: "string \<Rightarrow> (string, string) gomap \<Rightarrow> int Node" where
  "mig_node name annotations =
     \<lparr>Name = name, Labels = [(''nos.nebuly.com/gpu-partitioning'', ''mig''), (''nvidia.com/gpu.product'', GPUModel_A100_SXM4_40GB),
        (''nvidia.com/gpu.count'', ''1'')],
      Annotations = annotations, Taints = [], Capacity = [], Allocatable = []\<rparr>"

definition waiting_pod :: "int Pod" where
  "waiting_pod = (pod_requesting ''high'' [(''nvidia.com/mig-1g.5gb'', 1)])\<lparr>Priority := Some 2000\<rparr>"

definition running_pod :: "int Pod" where
  "running_pod = (pod_requesting ''low'' [(''nvidia.com/mig-1g.5gb'', 1)])\<lparr>Priority := Some 0, NodeName := ''b'', Phase := ''Running''\<rparr>"

text \<open>Node \<open>a\<close> has a free device, node \<open>b\<close> none.\<close>

definition small_cluster :: "int cluster" where
  "small_cluster =
     \<lparr>clNodes =
        [mig_node ''a'' [(''nos.nebuly.com/status-gpu-0-1g.5gb-used'', ''6''), (''nos.nebuly.com/status-gpu-0-1g.5gb-free'', ''1'')],
         mig_node ''b'' [(''nos.nebuly.com/status-gpu-0-1g.5gb-used'', ''7'')]],
      clPods = [waiting_pod, running_pod], clLog = []\<rparr>"

definition small_controller :: "(int Node \<times> (ResourceName, int) gomap \<times> nat, int, int cluster) Controller" where
  "small_controller = NewController cluster_api int_k8s gm_equal (Some knownMigGeometries) (\<lambda>_. 42) 10 True"

section \<open>Properties\<close>

text \<open>C5: Whatever the API answers, reconciling never writes anything but the spec annotations, the plan
  annotation and the repartitioning taint of a node, and never evicts a pod other than one that uses
  MIG devices with a strictly lower priority than some pending, unschedulable pod, and that is neither
  being deleted nor owned by a daemon set or a node.\<close>

theorem reconcile_writes:
  assumes "api_keeps (ctlClient c) partitioner_patch (lower_priority_victim (ctlK8s c) S) P"
    "\<forall>w pods. P w \<longrightarrow> fst (listPods (ctlClient c) w) = Inr pods \<longrightarrow> set pods \<subseteq> S"
    "evictFunc c = evictPodsUsingAPI (ctlClient c)" "P w"
  shows "P (snd (Reconcile c w))"
proof (cases "listMigPartitionedNodes c w")
  case ns: (Pair rn w1)
  have w1: "P w1"
    using api_keepsD(1) [OF assms(1,4), of "[(LabelGpuPartitioning, PartitioningKind_String PartitioningKindMig)]"] ns
    by (simp add: listMigPartitionedNodes_def)
  show ?thesis
  proof (cases "\<exists>nodes pods. rn = Inr nodes \<and> fst (listPendingMigPods c w1) = Inr pods \<and> pods \<noteq> []")
    case False
    have w2: "P (snd (listPendingMigPods c w1))" by (rule listPending_keeps [OF assms(1) w1])
    from False show ?thesis
      using w1 w2 cleanupTaints_keeps [OF assms(1) w2]
      by (auto simp: Reconcile_def ns Let_def case_prod_beta sortPodsByPriorityAndAge_def split: sum.splits prod.splits)
  next
    case True
    then obtain nodes pods where rn: "rn = Inr nodes" and pods: "fst (listPendingMigPods c w1) = Inr pods" "pods \<noteq> []" by blast
    let ?w2 = "snd (listPendingMigPods c w1)" let ?s = "sortPodsByPriorityAndAge pods"
    have "set ?s = set pods" by (simp add: sortPodsByPriorityAndAge_def)
    then obtain t ts where s: "?s = t # ts" "t \<in> set pods" using pods(2) by (cases ?s) auto
    with listPending_pods [OF pods(1)] assms(2) w1 have t: "t \<in> S" "shouldConsiderPod t" by blast+
    have w2: "P ?w2" by (rule listPending_keeps [OF assms(1) w1])
    let ?w3 = "snd (tryPlanWithoutPreemption c nodes ?s ?w2)"
    have w3: "P ?w3" by (rule tryPlan_keeps [OF assms(1) w2])
    have "P (snd (tryPreemption c nodes ?s ?w3))"
      using preemption_loop_keeps [OF assms(1-3) t w3] by (simp add: tryPreemption_def s)
    with w1 w2 w3 pods show ?thesis
      by (auto simp: Reconcile_def ns rn Let_def case_prod_beta s split: sum.splits bool.splits)
  qed
qed

theorem reconcile_writes_witness:
  "list_all (write_ok partitioner_patch (lower_priority_victim int_k8s {waiting_pod, running_pod}))
     (clLog (snd (Reconcile small_controller small_cluster)))"
proof -
  let ?ok = "write_ok partitioner_patch (lower_priority_victim int_k8s {waiting_pod, running_pod})"
  let ?P = "\<lambda>w :: int cluster. (\<forall>call\<in>set (clLog w). ?ok call) \<and> set (clPods w) \<subseteq> {waiting_pod, running_pod}"
  have keeps: "api_keeps (ctlClient small_controller) partitioner_patch
      (lower_priority_victim (ctlK8s small_controller) {waiting_pod, running_pod}) ?P"
    by (auto simp: api_keeps_def small_controller_def NewController_def cluster_api_def)
  have start: "?P small_cluster" by (simp add: small_cluster_def)
  have "?P (snd (Reconcile small_controller small_cluster))"
    by (rule reconcile_writes [OF keeps _ _ start]) (auto simp: small_controller_def NewController_def cluster_api_def)
  then show ?thesis by (simp add: list_all_iff)
qed

text \<open>
  The cluster of the witness also shows that a pod can be evicted in vain: node \<open>a\<close> has a free device for
  the waiting pod, yet the pod that runs on node \<open>b\<close> is evicted.
\<close>

lemma eviction_despite_free_device:
  "profileAlreadyPresent small_controller (clNodes small_cluster) (GetRequestedProfiles int_k8s waiting_pod)"
  "map PodName (clPods (snd (Reconcile small_controller small_cluster))) = [''high'']"
  by code_simp+

text \<open>C26: The queue of pending pods is a reordering of them by descending priority, then oldest first, then by
  name.\<close>

theorem pending_queue_sorted:
  "mset (sortPodsByPriorityAndAge pods) = mset pods \<and>
   sorted_wrt (\<lambda>a b. podPriorityOrDefault b \<le> podPriorityOrDefault a \<and>
     \<not> (podPriorityOrDefault a = podPriorityOrDefault b \<and>
       (CreationTimestamp b < CreationTimestamp a \<or>
        CreationTimestamp a = CreationTimestamp b \<and> str_less (PodName b) (PodName a)))) (sortPodsByPriorityAndAge pods)"
proof -
  have "sorted_wrt (\<lambda>a b. \<not> pendingBefore b a) (sortPodsByPriorityAndAge pods)"
    unfolding sortPodsByPriorityAndAge_def by (rule pending_order.sliceStable_sorted)
  then show ?thesis
    by (auto simp: sortPodsByPriorityAndAge_def pendingBefore_iff elim!: sorted_wrt_mono_rel [rotated])
qed

text \<open>C16: The plan asks for exactly what the longest feasible beginning of the queue requests together: every
  shorter beginning is feasible too, and the next pod of the queue is the first that cannot be added.\<close>

theorem plan_is_longest_feasible_prefix:
  "\<exists>k\<le>length pods.
    buildRequestedProfilesPlan c nodes pods = requested_by (ctlK8s c) [] (take k pods) \<and>
    (\<forall>p. gm_get (buildRequestedProfilesPlan c nodes pods) p =
       (\<Sum>pod\<leftarrow>take k pods. gm_get (GetRequestedProfiles (ctlK8s c) pod) p)) \<and>
    (\<forall>j. 0 < j \<and> j \<le> k \<longrightarrow> feasible_request c nodes (requested_by (ctlK8s c) [] (take j pods))) \<and>
    (k < length pods \<longrightarrow> \<not> feasible_request c nodes (requested_by (ctlK8s c) [] (take (Suc k) pods)))"
proof -
  obtain k where k: "k \<le> length pods"
    "buildRequestedProfilesPlan c nodes pods = (if k = 0 then [] else requested_by (ctlK8s c) [] (take k pods))"
    "\<forall>j. 0 < j \<and> j \<le> k \<longrightarrow> feasible_request c nodes (requested_by (ctlK8s c) [] (take j pods))"
    "k < length pods \<longrightarrow> \<not> feasible_request c nodes (requested_by (ctlK8s c) [] (take (Suc k) pods))"
    using requestedPlan_loop_prefix [of "[]" "[]" pods c nodes] by (auto simp: buildRequestedProfilesPlan_def)
  then have "buildRequestedProfilesPlan c nodes pods = requested_by (ctlK8s c) [] (take k pods)" by simp
  with k show ?thesis by (intro exI [of _ k]) (simp add: requested_by_get)
qed

theorem plan_is_longest_feasible_prefix_witness:
  "\<exists>k\<le>1. buildRequestedProfilesPlan small_controller (clNodes small_cluster) [waiting_pod] =
     requested_by int_k8s [] (take k [waiting_pod]) \<and>
     \<not> (k < 1 \<and> feasible_request small_controller (clNodes small_cluster) (requested_by int_k8s [] [waiting_pod]))"
proof -
  have K: "ctlK8s small_controller = int_k8s" by (simp add: small_controller_def NewController_def)
  from plan_is_longest_feasible_prefix [of "[waiting_pod]" small_controller "clNodes small_cluster"]
  obtain k where "k \<le> 1" "buildRequestedProfilesPlan small_controller (clNodes small_cluster) [waiting_pod] =
      requested_by int_k8s [] (take k [waiting_pod])"
    "k < 1 \<longrightarrow> \<not> feasible_request small_controller (clNodes small_cluster) (requested_by int_k8s [] (take (Suc k) [waiting_pod]))"
    unfolding K by auto
  then show ?thesis by (intro exI [of _ k]) (cases k, auto)
qed


definition accepting_controller :: "(int Node \<times> (ResourceName, int) gomap \<times> nat, int, int cluster) Controller" where
  "accepting_controller =
     small_controller\<lparr>ctlClient := cluster_api\<lparr>patchNode := (\<lambda>old new w. (None, w\<lparr>clLog := clLog w @ [WritePatch old new]\<rparr>))\<rparr>\<rparr>"

lemma canonical_gpu_code [code]:
  "canonical_gpu g \<longleftrightarrow>
     list_all (\<lambda>(s, _). case s of MigProfile p \<Rightarrow> canonical_profile p | SlicingProfile _ \<Rightarrow> True) (GPU_GetGeometry g)"
proof -
  have "gm_has l (MigProfile p) \<longleftrightarrow> (\<exists>q. (MigProfile p, q) \<in> set l)" for l :: Geometry and p
    by (force simp: gm_has_iff)
  then show ?thesis unfolding canonical_gpu_def list_all_iff by (auto split: Slice.splits) blast
qed


text \<open>C11: When the node's used devices cover what the possible victims request, the victims chosen are the
  first candidates in the order of lowest priority and youngest first, and the node without their
  devices can serve the waiting pod, either at once or after an update of its geometry.\<close>

theorem victims_suffice:
  assumes "ctlNewNode c node = Inr n" "node_ok n" "fst (listPods (ctlClient c) w) = Inr pods"
    "candidates = filter (isCandidateVictim (ctlK8s c) (Name node) (podPriorityOrDefault target)) pods"
    "\<forall>v\<in>set candidates. \<forall>p. 0 \<le> gm_get (GetRequestedProfiles (ctlK8s c) v) p"
    "\<forall>p. (\<Sum>v\<leftarrow>candidates. gm_get (GetRequestedProfiles (ctlK8s c) v) p) \<le> total_used (GPUs n) p"
    "findVictims c node target w = (Inr (victims, True), w')" "victims \<noteq> []"
  shows "\<exists>k n'. victims = take k (sliceStable victimBefore candidates) \<and>
    released_from (ctlK8s c) n victims n' \<and> serves c (GetRequestedProfiles (ctlK8s c) target) n'"
proof -
  let ?sorted = "sliceStable victimBefore candidates" let ?K = "ctlK8s c"
  have loop: "victims_loop c (GetRequestedProfiles ?K target) (Node_Clone ?K n) [] ?sorted = (victims, True)"
    using assms(1,3,4,7,8)
    by (auto simp: findVictims_def listCandidateVictims_def Let_def case_prod_beta split: if_splits sum.splits prod.splits)
  have clone: "GPUs (Node_Clone ?K n) = GPUs n" using assms(1) by (simp add: ctlNewNode_def Clone_GPUs)
  have start: "released_from ?K n [] (Node_Clone ?K n)"
    using assms(2) by (simp add: released_from_def clone node_ok_def list_all2_refl)
  have "(\<Sum>v\<leftarrow>?sorted. f v) = (\<Sum>v\<leftarrow>candidates. f v)" for f :: "_ \<Rightarrow> int"
    by (subst (1 2) sum_mset_sum_list [symmetric]) simp
  then have used: "\<forall>p. (\<Sum>v\<leftarrow>?sorted. gm_get (GetRequestedProfiles ?K v) p) \<le> total_used (GPUs (Node_Clone ?K n)) p"
    using assms(6) by (simp add: clone)
  have "\<forall>v\<in>set ?sorted. GetRequestedProfiles ?K v \<noteq> [] \<and> (\<forall>p. 0 \<le> gm_get (GetRequestedProfiles ?K v) p)"
    using assms(4,5) by (simp add: isCandidateVictim_iff)
  from victims_loop_prefix [OF start this used loop] show ?thesis by auto
qed

abbreviation full_node :: "int Node" where
  "full_node \<equiv> mig_node ''b'' [(''nos.nebuly.com/status-gpu-0-1g.5gb-used'', ''7'')]"

lemma full_node_facts:
  "map_sum (\<lambda>_. ()) (\<lambda>n. total_used (GPUs n) Profile1g5gb) (ctlNewNode small_controller full_node) = Inr 7"
  "list_all (\<lambda>a. 0 \<le> stQuantity a) (fst (ParseNodeAnnotations full_node))"
  "\<not> isCandidateVictim int_k8s ''b'' 2000 waiting_pod \<and> isCandidateVictim int_k8s ''b'' 2000 running_pod"
  "GetRequestedProfiles int_k8s running_pod = [(Profile1g5gb, 1)]"
  "map_sum (\<lambda>_. ()) (\<lambda>(vs, f). (map PodName vs, f)) (fst (findVictims small_controller full_node waiting_pod small_cluster)) =
     Inr ([''low''], True)"
  by code_simp+

theorem victims_suffice_witness:
  "\<exists>n n' victims. ctlNewNode small_controller full_node = Inr n \<and> map PodName victims = [''low''] \<and>
     released_from int_k8s n victims n' \<and> serves small_controller (GetRequestedProfiles int_k8s waiting_pod) n'"
proof -
  let ?r = "findVictims small_controller full_node waiting_pod small_cluster"
  obtain n where n: "ctlNewNode small_controller full_node = Inr n" and used: "total_used (GPUs n) Profile1g5gb = 7"
    using full_node_facts(1) by (cases "ctlNewNode small_controller full_node") auto
  obtain victims where r: "?r = (Inr (victims, True), snd ?r)" and v: "map PodName victims = [''low'']"
    using full_node_facts(5) by (cases ?r; cases "fst ?r") auto
  have K: "ctlK8s small_controller = int_k8s" "ctlClient small_controller = cluster_api" "ctlKnown small_controller = Some knownMigGeometries"
    by (simp_all add: small_controller_def NewController_def)
  have ok: "node_ok n"
    using NewNode_ok [OF known_default_ok, of int_k8s _ n full_node] n full_node_facts(2)
    by (simp add: ctlNewNode_def K int_k8s_def list_all_iff)
  have prio: "podPriorityOrDefault waiting_pod = 2000" by (simp add: waiting_pod_def podPriorityOrDefault_def)
  have "(\<Sum>v\<leftarrow>[running_pod]. gm_get (GetRequestedProfiles int_k8s v) p) \<le> total_used (GPUs n) p" for p
    using used total_used_nonneg [of "GPUs n" p] ok by (simp add: full_node_facts(4) gm_get_Cons node_ok_def)
  then have "\<exists>k n'. victims = take k (sliceStable victimBefore [running_pod]) \<and>
      released_from (ctlK8s small_controller) n victims n' \<and>
      serves small_controller (GetRequestedProfiles (ctlK8s small_controller) waiting_pod) n'"
    using v by (intro victims_suffice [OF n ok _ _ _ _ r])
      (auto simp: K cluster_api_def small_cluster_def prio full_node_facts(3,4) gm_get_Cons mig_node_def)
  then obtain n' where "released_from int_k8s n victims n'" "serves small_controller (GetRequestedProfiles int_k8s waiting_pod) n'"
    unfolding K by blast
  with n v show ?thesis by (intro exI [of _ n] exI [of _ n'] exI [of _ victims]) simp
qed

text \<open>
  Without that agreement between annotations and pods the choice can be wrong: a candidate whose release
  fails half way is skipped, but the devices released up to then stay free in the working copy.  Here
  the pod \<open>big\<close> is skipped after its 1g.5gb device counted as free, and only \<open>small\<close>, which
  uses no 1g.5gb device, is chosen.
\<close>

definition big_pod :: "int Pod" where
  "big_pod = (pod_requesting ''big'' [(''nvidia.com/mig-1g.5gb'', 1), (''nvidia.com/mig-2g.10gb'', 1)])
     \<lparr>Priority := Some 0, NodeName := ''b'', Phase := ''Running''\<rparr>"

definition small_pod :: "int Pod" where
  "small_pod = (pod_requesting ''small'' [(''nvidia.com/mig-3g.20gb'', 1)])\<lparr>Priority := Some 1, NodeName := ''b'', Phase := ''Running''\<rparr>"

lemma victims_after_failed_release:
  "map_sum (\<lambda>_. ()) (\<lambda>(vs, f). (map PodName vs, f))
     (fst (findVictims small_controller
       (mig_node ''b'' [(''nos.nebuly.com/status-gpu-0-1g.5gb-used'', ''1''), (''nos.nebuly.com/status-gpu-0-3g.20gb-used'', ''2'')])
       waiting_pod (small_cluster\<lparr>clPods := [big_pod, small_pod]\<rparr>))) = Inr ([''small''], True)"
  by code_simp

end
