(* ===== verification/DevicePlugin.thy ===== *)
theory DevicePlugin
  imports K8s Programs
begin

text \<open>
  File \<^verbatim>\<open>pkg/gpu/client.go\<close>: restarting the NVIDIA device plugin by deleting its pod and waiting until the
  daemon set has recreated it.  The API server, the parent context and the clock are the record
  \<open>pluginApi\<close>; times are seconds.
\<close>

section \<open>Definitions\<close>

text \<open>
  \<open>paList\<close> lists the pods with the label of the plugin's daemon set on a node, \<open>paCancelled\<close> says whether the
  caller's context has been cancelled.
\<close>

record ('w, 'q) pluginApi =
  paList :: "string \<Rightarrow> ('w, string + 'q Pod list) state"
  paDelete :: "'q Pod \<Rightarrow> ('w, string option) state"
  paCancelled :: "('w, bool) state"
  paNow :: "('w, nat) state"
  paSleep :: "nat \<Rightarrow> ('w, unit) state"

definition PodRunning :: string where
  "PodRunning = ''Running''"

definition checkPodRecreated :: "('w, 'q) pluginApi \<Rightarrow> string \<Rightarrow> string \<Rightarrow> ('w, string + bool) state" where
  "checkPodRecreated A nodeName oldPodName = do {
     r \<leftarrow> paList A nodeName;
     State_Monad.return
       (case r of
          Inl e \<Rightarrow> Inl e
        | Inr podList \<Rightarrow>
            if length podList \<noteq> 1 then Inr False
            else let pod = hd podList in
              if PodName pod = oldPodName then Inr False
              else if DeletionTimestamp pod \<noteq> None then Inr False
              else if Phase pod \<noteq> PodRunning then Inr False
              else Inr True)
   }"

text \<open>\<^verbatim>\<open>ctx.Err() != nil\<close> for the context with a deadline.\<close>

definition ctx_err :: "('w, 'q) pluginApi \<Rightarrow> nat \<Rightarrow> ('w, bool) state" where
  "ctx_err A deadline = do {
     c \<leftarrow> paCancelled A;
     now \<leftarrow> paNow A;
     State_Monad.return (c \<or> deadline \<le> now)
   }"

text \<open>The loop may wait for ever if time does not pass, so it is a partial function.\<close>

partial_function (option) wait_loop ::
  "('w, 'q) pluginApi \<Rightarrow> string \<Rightarrow> string \<Rightarrow> nat \<Rightarrow> 'w \<Rightarrow> (string option \<times> 'w) option" where
  [code]: "wait_loop A nodeName oldPodName deadline w =
     (case run_state (checkPodRecreated A nodeName oldPodName) w of
        (Inl e, w1) \<Rightarrow> Some (Some e, w1)
      | (Inr recreated, w1) \<Rightarrow>
          if recreated then Some (None, w1)
          else (case run_state (ctx_err A deadline) w1 of
            (expired, w2) \<Rightarrow>
              if expired then Some (Some (''error waiting for NVIDIA device plugin Pod on node '' @ nodeName @ '': timeout''), w2)
              else wait_loop A nodeName oldPodName deadline (snd (run_state (paSleep A 5) w2))))"

definition WaitUntilRunning ::
  "('w, 'q) pluginApi \<Rightarrow> string \<Rightarrow> string \<Rightarrow> nat \<Rightarrow> 'w \<Rightarrow> (string option \<times> 'w) option" where
  "WaitUntilRunning A nodeName oldPodName timeout w =
     (case run_state (paNow A) w of
        (now, w1) \<Rightarrow> wait_loop A nodeName oldPodName (now + timeout) w1)"

definition Restart :: "('w, 'q) pluginApi \<Rightarrow> string \<Rightarrow> nat \<Rightarrow> 'w \<Rightarrow> (string option \<times> 'w) option" where
  "Restart A nodeName timeout w =
     (case run_state (paList A nodeName) w of
        (Inl e, w1) \<Rightarrow> Some (Some e, w1)
      | (Inr podList, w1) \<Rightarrow>
          if length podList \<noteq> 1
          then Some (Some (''error getting nvidia device plugin pod on node '' @ nodeName @ '': expected exactly 1 but got '' @ Itoa (int (length podList))), w1)
          else (case run_state (paDelete A (hd podList)) w1 of
            (Some e, w2) \<Rightarrow> Some (Some (''error deleting nvidia device plugin pod: '' @ e), w2)
          | (None, w2) \<Rightarrow> WaitUntilRunning A nodeName (PodName (hd podList)) timeout w2))"

section \<open>Time\<close>

text \<open>
  \<open>clock\<close> is the time of the world: \<^verbatim>\<open>time.Now\<close> reads it, no call turns it back, and sleeping lets at least
  the given time pass.
\<close>

definition time_law :: "('w, 'q) pluginApi \<Rightarrow> ('w \<Rightarrow> nat) \<Rightarrow> bool" where
  "time_law A clock \<longleftrightarrow>
     (\<forall>w. fst (run_state (paNow A) w) = clock w \<and> clock w \<le> clock (snd (run_state (paNow A) w))) \<and>
     (\<forall>w n. clock w \<le> clock (snd (run_state (paList A n) w))) \<and>
     (\<forall>w. clock w \<le> clock (snd (run_state (paCancelled A) w))) \<and>
     (\<forall>w n. clock w + n \<le> clock (snd (run_state (paSleep A n) w)))"

lemma check_time: "time_law A clock \<Longrightarrow> clock w \<le> clock (snd (run_state (checkPodRecreated A nodeName old) w))"
  by (simp add: time_law_def checkPodRecreated_def)

lemma ctx_err_time:
  assumes "time_law A clock"
  shows "clock w \<le> clock (snd (run_state (ctx_err A deadline) w))"
    and "\<not> fst (run_state (ctx_err A deadline) w) \<Longrightarrow> clock w < deadline"
proof -
  let ?w1 = "snd (run_state (paCancelled A) w)"
  have c: "clock w \<le> clock ?w1" "fst (run_state (paNow A) ?w1) = clock ?w1" "clock ?w1 \<le> clock (snd (run_state (paNow A) ?w1))"
    using assms by (simp_all add: time_law_def)
  then show "clock w \<le> clock (snd (run_state (ctx_err A deadline) w))" by (simp add: ctx_err_def)
  show "clock w < deadline" if "\<not> fst (run_state (ctx_err A deadline) w)" using that c by (simp add: ctx_err_def)
qed

text \<open>The pod that the last listing showed is a running plugin under a new name.\<close>

definition recreated_in :: "('w, 'q) pluginApi \<Rightarrow> string \<Rightarrow> string \<Rightarrow> 'w \<Rightarrow> bool" where
  "recreated_in A nodeName old w' \<longleftrightarrow>
     (\<exists>w pod. run_state (paList A nodeName) w = (Inr [pod], w') \<and>
        PodName pod \<noteq> old \<and> DeletionTimestamp pod = None \<and> Phase pod = PodRunning)"

lemma check_recreated:
  assumes "run_state (checkPodRecreated A nodeName old) w = (Inr True, w')"
  shows "recreated_in A nodeName old w'"
proof -
  obtain r where r: "run_state (paList A nodeName) w = (r, w')"
    using assms by (cases "run_state (paList A nodeName) w") (simp add: checkPodRecreated_def)
  with assms obtain pods where pods: "r = Inr pods" by (cases r) (simp_all add: checkPodRecreated_def)
  then obtain pod where "pods = [pod]"
    using assms r by (cases pods; cases "tl pods") (simp_all add: checkPodRecreated_def split: if_splits)
  with assms r pods show ?thesis
    by (auto simp: checkPodRecreated_def recreated_in_def Let_def split: if_splits)
qed

lemma wait_loop_returns:
  assumes "time_law A clock"
  shows "\<exists>e w'. wait_loop A nodeName old deadline w = Some (e, w') \<and> (e = None \<longrightarrow> recreated_in A nodeName old w')"
proof (induction "deadline - clock w" arbitrary: w rule: less_induct)
  case less
  obtain c w1 where 1: "run_state (checkPodRecreated A nodeName old) w = (c, w1)" by fastforce
  obtain x w2 where 2: "run_state (ctx_err A deadline) w1 = (x, w2)" by fastforce
  let ?w3 = "snd (run_state (paSleep A 5) w2)"
  have le: "clock w \<le> clock w1" "clock w1 \<le> clock w2"
    using check_time [OF assms, of w nodeName old] ctx_err_time(1) [OF assms, of w1 deadline] by (simp_all add: 1 2)
  have rec: "\<exists>e w'. wait_loop A nodeName old deadline ?w3 = Some (e, w') \<and> (e = None \<longrightarrow> recreated_in A nodeName old w')"
    if "\<not> x"
  proof (rule less)
    have "clock w1 < deadline" using ctx_err_time(2) [OF assms, of deadline w1] that by (simp add: 2)
    moreover have "clock w2 + 5 \<le> clock ?w3" using assms by (simp add: time_law_def)
    ultimately show "deadline - clock ?w3 < deadline - clock w" using le by linarith
  qed
  show ?case
  proof (cases c)
    case (Inl e)
    then show ?thesis by (subst wait_loop.simps) (simp add: 1)
  next
    case (Inr seen)
    with 1 2 rec check_recreated [of A nodeName old w w1] show ?thesis
      by (subst wait_loop.simps) (cases seen; cases x; simp)
  qed
qed

section \<open>Property\<close>

text \<open>C37: As long as time passes, restarting the device plugin returns; it returns no error only after it has
  seen exactly one plugin pod on the node that is running, is not being deleted and is not the old pod.\<close>

theorem restart_returns:
  assumes "time_law A clock"
  shows "\<exists>e w'. Restart A nodeName timeout w = Some (e, w') \<and>
    (e = None \<longrightarrow> (\<exists>pod w1. run_state (paList A nodeName) w = (Inr [pod], w1) \<and> recreated_in A nodeName (PodName pod) w'))"
proof -
  obtain r w1 where 1: "run_state (paList A nodeName) w = (r, w1)" by fastforce
  show ?thesis
  proof (cases "\<exists>pod. r = Inr [pod]")
    case False
    then have "length pods \<noteq> 1" if "r = Inr pods" for pods using that by (cases pods; cases "tl pods") auto
    then show ?thesis by (cases r) (simp_all add: Restart_def 1)
  next
    case True
    then obtain pod where pod: "r = Inr [pod]" by blast
    obtain d w2 where 2: "run_state (paDelete A pod) w1 = (d, w2)" by fastforce
    obtain now w3 where 3: "run_state (paNow A) w2 = (now, w3)" by fastforce
    from wait_loop_returns [OF assms, of nodeName "PodName pod" "now + timeout" w3] 1 2 3 pod show ?thesis
      by (cases d) (auto simp: Restart_def WaitUntilRunning_def)
  qed
qed

text \<open>A cluster that recreates the pod after seven seconds.\<close>

definition plugin_pod :: "string \<Rightarrow> int Pod" where
  "plugin_pod name = (pod_requesting name [])\<lparr>Phase := PodRunning\<rparr>"

definition slow_cluster :: "(nat \<times> nat option, int) pluginApi" where
  "slow_cluster =
     \<lparr>paList = (\<lambda>_. State (\<lambda>(t, deleted). (Inr (case deleted of None \<Rightarrow> [plugin_pod ''old''] | Some d \<Rightarrow> if t < d + 7 then [] else [plugin_pod ''new'']), t, deleted))),
      paDelete = (\<lambda>_. State (\<lambda>(t, deleted). (None, t, Some t))),
      paCancelled = State_Monad.return False, paNow = State (\<lambda>(t, deleted). (t, t, deleted)),
      paSleep = (\<lambda>n. State (\<lambda>(t, deleted). ((), t + n, deleted)))\<rparr>"

theorem restart_returns_witness:
  "\<exists>e w'. Restart slow_cluster ''node'' 60 (0, None) = Some (e, w') \<and> w' = (10, Some 0) \<and> e = None"
proof -
  have "time_law slow_cluster fst" by (auto simp: time_law_def slow_cluster_def)
  from restart_returns [OF this] obtain e w' where r: "Restart slow_cluster ''node'' 60 (0, None) = Some (e, w')" by blast
  moreover have "Restart slow_cluster ''node'' 60 (0, None) = Some (None, 10, Some 0)" by code_simp
  ultimately show ?thesis by simp
qed

end
