(* ===== verification/Predicates.thy ===== *)
theory Predicates
  imports K8s
begin

text \<open>
  The event filters of the agents (\<^verbatim>\<open>pkg/util/predicate/predicates.go\<close>) and their use by the controllers.  The type
  \<^verbatim>\<open>predicate.Funcs\<close> that three of them embed is of controller-runtime: \<open>funcs\<close> is its answer for an event whose
  method the embedding type does not define.  \<open>cmp\<close> is \<^verbatim>\<open>cmp.Equal\<close> on the maps compared.
\<close>

section \<open>Filters\<close>

datatype 'o event = CreateEvent 'o | DeleteEvent 'o | UpdateEvent 'o 'o | GenericEvent 'o

fun MatchingName :: "string \<Rightarrow> 'q Node event \<Rightarrow> bool" where
  "MatchingName name (CreateEvent n) = (name = Name n)"
| "MatchingName name (DeleteEvent n) = (name = Name n)"
| "MatchingName name (UpdateEvent old new) = (name = Name old)"
| "MatchingName name (GenericEvent n) = (name = Name n)"

fun NodeResourcesChanged ::
  "('q Node event \<Rightarrow> bool) \<Rightarrow> ('q ResourceList \<Rightarrow> 'q ResourceList \<Rightarrow> bool) \<Rightarrow> 'q Node event \<Rightarrow> bool" where
  "NodeResourcesChanged funcs cmp (UpdateEvent old new) =
     (if \<not> cmp (Allocatable new) (Allocatable old) then False else \<not> cmp (Capacity new) (Capacity old))"
| "NodeResourcesChanged funcs cmp e = funcs e"

fun AnnotationsChangedPredicate ::
  "('q Node event \<Rightarrow> bool) \<Rightarrow> ((string, string) gomap \<Rightarrow> (string, string) gomap \<Rightarrow> bool) \<Rightarrow> 'q Node event \<Rightarrow> bool" where
  "AnnotationsChangedPredicate funcs cmp (UpdateEvent old new) = (\<not> cmp (Annotations old) (Annotations new))"
| "AnnotationsChangedPredicate funcs cmp e = funcs e"

fun ExcludeDelete :: "('q Node event \<Rightarrow> bool) \<Rightarrow> 'q Node event \<Rightarrow> bool" where
  "ExcludeDelete funcs (DeleteEvent n) = False"
| "ExcludeDelete funcs e = funcs e"

section \<open>What the controllers watch\<close>

text \<open>A controller handles the events that pass all of its filters.\<close>

definition actuator_watches ::
  "('q Node event \<Rightarrow> bool) \<Rightarrow> ((string, string) gomap \<Rightarrow> (string, string) gomap \<Rightarrow> bool) \<Rightarrow> string \<Rightarrow> 'q Node event \<Rightarrow> bool" where
  "actuator_watches funcs cmp nodeName e \<longleftrightarrow>
     ExcludeDelete funcs e \<and> MatchingName nodeName e \<and> AnnotationsChangedPredicate funcs cmp e"

definition mig_reporter_watches ::
  "('q Node event \<Rightarrow> bool) \<Rightarrow> ('q ResourceList \<Rightarrow> 'q ResourceList \<Rightarrow> bool) \<Rightarrow> string \<Rightarrow> 'q Node event \<Rightarrow> bool" where
  "mig_reporter_watches funcs cmp nodeName e \<longleftrightarrow>
     ExcludeDelete funcs e \<and> MatchingName nodeName e \<and> NodeResourcesChanged funcs cmp e"

definition gpu_reporter_watches ::
  "('q Node event \<Rightarrow> bool) \<Rightarrow> ('q ResourceList \<Rightarrow> 'q ResourceList \<Rightarrow> bool) \<Rightarrow> string \<Rightarrow> 'q Node event \<Rightarrow> bool" where
  "gpu_reporter_watches funcs cmp nodeName e \<longleftrightarrow>
     ExcludeDelete funcs e \<and> MatchingName nodeName e \<and> NodeResourcesChanged funcs cmp e"

section \<open>Facts\<close>

text \<open>The documented default of \<^verbatim>\<open>predicate.Funcs\<close>: an event without a function passes.\<close>

definition funcs_law :: "('q Node event \<Rightarrow> bool) \<Rightarrow> bool" where
  "funcs_law funcs \<longleftrightarrow> (\<forall>e. funcs e)"

text \<open>The actuator sees its node appear, and every change of its annotations, and nothing of other nodes.\<close>

lemma actuator_watches_update:
  assumes "funcs_law funcs"
  shows "actuator_watches funcs cmp nodeName (UpdateEvent old new) \<longleftrightarrow> Name old = nodeName \<and> \<not> cmp (Annotations old) (Annotations new)"
    and "actuator_watches funcs cmp nodeName (CreateEvent n) \<longleftrightarrow> Name n = nodeName"
    and "\<not> actuator_watches funcs cmp nodeName (DeleteEvent n)"
  using assms by (auto simp: actuator_watches_def funcs_law_def)

text \<open>
  The reporters see an update only when the capacity of the node changed and its allocatable resources did
  not: a change of both, which is what new devices bring about, does not wake them up.
\<close>

lemma reporter_watches_update:
  assumes "funcs_law funcs"
  shows "mig_reporter_watches funcs cmp nodeName (UpdateEvent old new) \<longleftrightarrow>
      Name old = nodeName \<and> cmp (Allocatable new) (Allocatable old) \<and> \<not> cmp (Capacity new) (Capacity old)"
    and "gpu_reporter_watches funcs cmp nodeName e = mig_reporter_watches funcs cmp nodeName e"
  using assms by (auto simp: mig_reporter_watches_def gpu_reporter_watches_def funcs_law_def)

lemma reporter_misses_new_devices:
  "\<not> mig_reporter_watches (\<lambda>_. True) (=) ''n''
     (UpdateEvent \<lparr>Name = ''n'', Labels = [], Annotations = [], Taints = [], Capacity = [], Allocatable = []\<rparr>
       \<lparr>Name = ''n'', Labels = [], Annotations = [], Taints = [],
        Capacity = [(''nvidia.com/mig-1g.5gb'', 1 :: int)], Allocatable = [(''nvidia.com/mig-1g.5gb'', 1)]\<rparr>)"
  by (simp add: mig_reporter_watches_def)

end
