(* ===== verification/Batching.thy ===== *)
theory Batching
  imports Util "HOL-Library.Sublist"
begin

text \<open>
  The batcher of \<^verbatim>\<open>pkg/util/batcher.go\<close> and the timer helpers of \<^verbatim>\<open>pkg/util/timer.go\<close>.  Items are collected into a
  batch that is sent when no item arrived for a while (idle) or when it is old enough (timeout).

  A timer is its deadline and whether its channel, of capacity one, holds a value.  The clock is part of the
  state; when it passes the deadline the timer puts a value into its channel.  The loop of \<^verbatim>\<open>Start\<close> waits in a
  \<^verbatim>\<open>select\<close>; each of its cases is a step, taken when the channel it reads has a value, so that the
  interleavings of the loop with callers of \<^verbatim>\<open>Add\<close>, of \<^verbatim>\<open>Reset\<close> and of the receiver are sequences of steps.
\<close>

section \<open>Timers\<close>

record timer =
  deadline :: "int option"
  fired :: bool

definition NewTimer :: "int \<Rightarrow> int \<Rightarrow> timer" where
  "NewTimer now d = \<lparr>deadline = Some (now + d), fired = False\<rparr>"

text \<open>\<^verbatim>\<open>Stop\<close> reports whether the timer was running and does not touch its channel.\<close>

definition Timer_Stop :: "timer \<Rightarrow> bool \<times> timer" where
  "Timer_Stop t = (deadline t \<noteq> None, t\<lparr>deadline := None\<rparr>)"

definition Timer_Reset :: "int \<Rightarrow> int \<Rightarrow> timer \<Rightarrow> timer" where
  "Timer_Reset now d t = t\<lparr>deadline := Some (now + d)\<rparr>"

definition StopTimer :: "timer \<Rightarrow> timer" where
  "StopTimer t = (let (active, t') = Timer_Stop t in if \<not> active then t'\<lparr>fired := False\<rparr> else t')"

definition ResetTimer :: "int \<Rightarrow> timer \<Rightarrow> int \<Rightarrow> timer" where
  "ResetTimer now t d = Timer_Reset now d (StopTimer t)"

text \<open>The runtime fires a timer whose deadline has come.\<close>

definition Timer_tick :: "int \<Rightarrow> timer \<Rightarrow> timer" where
  "Timer_tick now t =
     (case deadline t of
        None \<Rightarrow> t
      | Some d \<Rightarrow> if d \<le> now then \<lparr>deadline = None, fired = True\<rparr> else t)"

section \<open>The batcher\<close>

record 'a Batcher =
  trigger :: "'a list"
  triggerCap :: nat
  idleDuration :: int
  timeoutDuration :: int
  batchChan :: "'a list option"
  running :: bool
  batch :: "'a list"
  idleTimer :: timer
  timeoutTimer :: timer

definition NewBufferedBatcher :: "int \<Rightarrow> int \<Rightarrow> int \<Rightarrow> nat \<Rightarrow> 'a Batcher" where
  "NewBufferedBatcher now timeout idle bufferSize =
     \<lparr>trigger = [], triggerCap = bufferSize, idleDuration = idle, timeoutDuration = timeout, batchChan = None,
      running = False, batch = [], idleTimer = NewTimer now 0, timeoutTimer = NewTimer now 0\<rparr>"

definition NewBatcher :: "int \<Rightarrow> int \<Rightarrow> int \<Rightarrow> 'a Batcher" where
  "NewBatcher now timeout idle =
     \<lparr>trigger = [], triggerCap = 0, idleDuration = idle, timeoutDuration = timeout, batchChan = None,
      running = False, batch = [], idleTimer = NewTimer now 0, timeoutTimer = NewTimer now 0\<rparr>"

definition stopTimersAndInitBatch :: "'a Batcher \<Rightarrow> 'a Batcher" where
  "stopTimersAndInitBatch b =
     b\<lparr>idleTimer := StopTimer (idleTimer b), timeoutTimer := StopTimer (timeoutTimer b), batch := []\<rparr>"

definition Batcher_Reset :: "'a Batcher \<Rightarrow> 'a Batcher" where
  "Batcher_Reset b = (stopTimersAndInitBatch b)\<lparr>batchChan := None\<rparr>"

definition sendBatch :: "'a Batcher \<Rightarrow> 'a Batcher" where
  "sendBatch b = (case batchChan b of None \<Rightarrow> b\<lparr>batchChan := Some (batch b)\<rparr> | Some _ \<Rightarrow> b)"

text \<open>\<^verbatim>\<open>Start\<close> up to its loop; \<open>None\<close> is the error of a batcher that runs already.\<close>

definition Batcher_Start :: "'a Batcher \<Rightarrow> 'a Batcher option" where
  "Batcher_Start b = (if running b then None else Some (Batcher_Reset (b\<lparr>running := True\<rparr>)))"

text \<open>The four cases of the loop.\<close>

definition loop_item :: "int \<Rightarrow> 'a \<Rightarrow> 'a Batcher \<Rightarrow> 'a Batcher" where
  "loop_item now item b =
     (let b1 = (if length (batch b) = 0 then b\<lparr>timeoutTimer := ResetTimer now (timeoutTimer b) (timeoutDuration b)\<rparr> else b)
      in b1\<lparr>batch := batch b1 @ [item], idleTimer := ResetTimer now (idleTimer b1) (idleDuration b1)\<rparr>)"

definition loop_idle :: "'a Batcher \<Rightarrow> 'a Batcher" where
  "loop_idle b = stopTimersAndInitBatch (sendBatch (b\<lparr>idleTimer := (idleTimer b)\<lparr>fired := False\<rparr>\<rparr>))"

definition loop_timeout :: "'a Batcher \<Rightarrow> 'a Batcher" where
  "loop_timeout b = stopTimersAndInitBatch (sendBatch (b\<lparr>timeoutTimer := (timeoutTimer b)\<lparr>fired := False\<rparr>\<rparr>))"

definition loop_done :: "'a Batcher \<Rightarrow> 'a Batcher" where
  "loop_done b =
     b\<lparr>timeoutTimer := StopTimer (timeoutTimer b), idleTimer := StopTimer (idleTimer b), running := False\<rparr>"

text \<open>
  \<^verbatim>\<open>Add\<close> does not block: the item goes into the buffer of the channel, or to the loop if that waits on an empty
  channel (\<open>receiver\<close>), or is dropped.
\<close>

definition Batcher_Add :: "int \<Rightarrow> bool \<Rightarrow> 'a \<Rightarrow> 'a Batcher \<Rightarrow> bool \<times> 'a Batcher" where
  "Batcher_Add now receiver item b =
     (if receiver \<and> running b \<and> trigger b = [] then (True, loop_item now item b)
      else if length (trigger b) < triggerCap b then (True, b\<lparr>trigger := trigger b @ [item]\<rparr>)
      else (False, b))"

definition Batcher_Ready :: "'a Batcher \<Rightarrow> 'a list option" where
  "Batcher_Ready b = batchChan b"

section \<open>Runs\<close>

text \<open>
  A run with its clock and what happened so far: the items that \<^verbatim>\<open>Add\<close> accepted, the batches that went into the
  channel, whether a batch was given up (its channel was full, or the batcher was reset or restarted), and
  when the first and the last item of the current batch arrived.
\<close>

record 'a history =
  hNow :: int
  hAdded :: "'a list"
  hSent :: "'a list list"
  hLost :: bool
  hFirst :: int
  hLast :: int

definition arrived :: "'a Batcher \<Rightarrow> 'a history \<Rightarrow> 'a history" where
  "arrived b h = h\<lparr>hFirst := (if batch b = [] then hNow h else hFirst h), hLast := hNow h\<rparr>"

definition flushed :: "'a Batcher \<Rightarrow> 'a history \<Rightarrow> 'a history" where
  "flushed b h = (case batchChan b of None \<Rightarrow> h\<lparr>hSent := hSent h @ [batch b]\<rparr> | Some _ \<Rightarrow> h\<lparr>hLost := True\<rparr>)"

inductive batcher_run :: "'a Batcher \<Rightarrow> 'a history \<Rightarrow> bool" where
  new: "b \<in> {NewBatcher now timeout idle, NewBufferedBatcher now timeout idle bufferSize} \<Longrightarrow>
    batcher_run b \<lparr>hNow = now, hAdded = [], hSent = [], hLost = False, hFirst = now, hLast = now\<rparr>"
| start: "batcher_run b h \<Longrightarrow> Batcher_Start b = Some b' \<Longrightarrow> batcher_run b' (h\<lparr>hLost := hLost h \<or> batch b \<noteq> []\<rparr>)"
| add_item: "batcher_run b h \<Longrightarrow> Batcher_Add (hNow h) receiver item b = (True, b') \<Longrightarrow>
    batcher_run b' ((if receiver \<and> running b \<and> trigger b = [] then arrived b h else h)\<lparr>hAdded := hAdded h @ [item]\<rparr>)"
| item: "batcher_run b h \<Longrightarrow> running b \<Longrightarrow> trigger b = item # rest \<Longrightarrow>
    batcher_run (loop_item (hNow h) item (b\<lparr>trigger := rest\<rparr>)) (arrived b h)"
| idle: "batcher_run b h \<Longrightarrow> running b \<Longrightarrow> fired (idleTimer b) \<Longrightarrow> batcher_run (loop_idle b) (flushed b h)"
| timeout: "batcher_run b h \<Longrightarrow> running b \<Longrightarrow> fired (timeoutTimer b) \<Longrightarrow> batcher_run (loop_timeout b) (flushed b h)"
| stop: "batcher_run b h \<Longrightarrow> running b \<Longrightarrow> batcher_run (loop_done b) h"
| receive: "batcher_run b h \<Longrightarrow> Batcher_Ready b = Some l \<Longrightarrow> batcher_run (b\<lparr>batchChan := None\<rparr>) h"
| reset: "batcher_run b h \<Longrightarrow> batcher_run (Batcher_Reset b) (h\<lparr>hLost := hLost h \<or> batch b \<noteq> []\<rparr>)"
| tick: "batcher_run b h \<Longrightarrow> hNow h \<le> now \<Longrightarrow>
    batcher_run (b\<lparr>idleTimer := Timer_tick now (idleTimer b), timeoutTimer := Timer_tick now (timeoutTimer b)\<rparr>) (h\<lparr>hNow := now\<rparr>)"

section \<open>Invariant\<close>

text \<open>A timer never runs while a value is waiting; it is quiet, or due at a time at which it fires.\<close>

definition timer_wf :: "timer \<Rightarrow> bool" where
  "timer_wf t \<longleftrightarrow> \<not> (deadline t \<noteq> None \<and> fired t)"

definition quiet :: "timer \<Rightarrow> bool" where
  "quiet t \<longleftrightarrow> deadline t = None \<and> \<not> fired t"

definition due_at :: "int \<Rightarrow> int \<Rightarrow> timer \<Rightarrow> bool" where
  "due_at now due t \<longleftrightarrow> deadline t = Some due \<and> \<not> fired t \<or> deadline t = None \<and> fired t \<and> due \<le> now"

lemma timer_simps [simp]:
  "timer_wf t \<Longrightarrow> quiet (StopTimer t)"
  "timer_wf t \<Longrightarrow> due_at now (now + d) (ResetTimer now t d)"
  "due_at now due t \<Longrightarrow> now \<le> now' \<Longrightarrow> due_at now' due (Timer_tick now' t)"
  "due_at now due t \<Longrightarrow> due \<le> now' \<Longrightarrow> fired (Timer_tick now' t)"
  "quiet t \<Longrightarrow> quiet (Timer_tick now t)"
  "timer_wf t \<Longrightarrow> timer_wf (Timer_tick now t)"
  "timer_wf (t\<lparr>fired := False\<rparr>)"
  "timer_wf t \<Longrightarrow> timer_wf (StopTimer t)"
  "timer_wf t \<Longrightarrow> timer_wf (ResetTimer now t d)"
  by (auto simp: timer_wf_def quiet_def due_at_def StopTimer_def ResetTimer_def Timer_Stop_def Timer_Reset_def Timer_tick_def Let_def split: option.splits)

lemma timer_wfI: "quiet t \<Longrightarrow> timer_wf t" "due_at now due t \<Longrightarrow> timer_wf t" "timer_wf (NewTimer now d)"
  by (auto simp: timer_wf_def quiet_def due_at_def NewTimer_def)

definition timers_ok :: "'a Batcher \<Rightarrow> 'a history \<Rightarrow> bool" where
  "timers_ok b h \<longleftrightarrow> timer_wf (idleTimer b) \<and> timer_wf (timeoutTimer b) \<and>
     (running b \<longrightarrow>
       (if batch b = [] then quiet (idleTimer b) \<and> quiet (timeoutTimer b)
        else due_at (hNow h) (hLast h + idleDuration b) (idleTimer b) \<and>
             due_at (hNow h) (hFirst h + timeoutDuration b) (timeoutTimer b)))"

definition items_ok :: "'a Batcher \<Rightarrow> 'a history \<Rightarrow> bool" where
  "items_ok b h \<longleftrightarrow> length (trigger b) \<le> triggerCap b \<and> [] \<notin> set (hSent h) \<and>
     subseq (concat (hSent h) @ batch b @ trigger b) (hAdded h) \<and>
     (\<not> hLost h \<longrightarrow> concat (hSent h) @ batch b @ trigger b = hAdded h)"

lemma timers_item: "timers_ok b h \<Longrightarrow> running b \<Longrightarrow> timers_ok (loop_item (hNow h) item b) (arrived b h)"
  by (auto simp: timers_ok_def loop_item_def arrived_def Let_def intro: timer_wfI)

lemma timers_stop: "timers_ok b h \<Longrightarrow> timers_ok (stopTimersAndInitBatch b) h'"
  by (auto simp: timers_ok_def stopTimersAndInitBatch_def intro: timer_wfI)

lemma items_drop: "subseq (as @ bs @ cs) ds \<Longrightarrow> subseq (as @ cs) ds"
proof -
  assume s: "subseq (as @ bs @ cs) ds"
  have "subseq cs (bs @ cs)" by (rule list_emb_append2) simp
  then have "subseq (as @ cs) (as @ bs @ cs)" by (intro list_emb_append_mono) simp_all
  then show ?thesis using s by (rule subseq_order.trans)
qed

lemma items_flush:
  assumes "items_ok b h" "batch b \<noteq> []" "trigger b' = trigger b" "triggerCap b' = triggerCap b" "batch b' = []"
  shows "items_ok b' (flushed b h)"
  using assms by (auto simp: items_ok_def flushed_def intro: items_drop split: option.splits)

text \<open>The invariant, and that every step keeps it.\<close>

definition batcher_ok :: "'a Batcher \<Rightarrow> 'a history \<Rightarrow> bool" where
  "batcher_ok b h \<longleftrightarrow> timers_ok b h \<and> items_ok b h"

lemma start_ok:
  assumes "batcher_ok b h" "Batcher_Start b = Some b'"
  shows "batcher_ok b' (h\<lparr>hLost := hLost h \<or> batch b \<noteq> []\<rparr>)"
proof -
  have b': "b' = (stopTimersAndInitBatch (b\<lparr>running := True\<rparr>))\<lparr>batchChan := None\<rparr>"
    using assms(2) by (auto simp: Batcher_Start_def Batcher_Reset_def split: if_splits)
  from assms(1) show ?thesis
    by (auto simp: batcher_ok_def timers_ok_def items_ok_def b' stopTimersAndInitBatch_def intro: items_drop)
qed

lemma received_ok:
  assumes "batcher_ok b h" "running b" "trigger b = []"
  shows "batcher_ok (loop_item (hNow h) item b) ((arrived b h)\<lparr>hAdded := hAdded h @ [item]\<rparr>)"
proof -
  have "timers_ok (loop_item (hNow h) item b) (arrived b h)" using assms by (simp add: batcher_ok_def timers_item)
  moreover have "items_ok (loop_item (hNow h) item b) ((arrived b h)\<lparr>hAdded := hAdded h @ [item]\<rparr>)"
    using assms by (auto simp: batcher_ok_def items_ok_def loop_item_def arrived_def Let_def simp flip: append_assoc)
  ultimately show ?thesis by (simp add: batcher_ok_def timers_ok_def)
qed

lemma buffered_ok:
  assumes "batcher_ok b h" "length (trigger b) < triggerCap b"
  shows "batcher_ok (b\<lparr>trigger := trigger b @ [item]\<rparr>) (h\<lparr>hAdded := hAdded h @ [item]\<rparr>)"
  using assms by (auto simp: batcher_ok_def timers_ok_def items_ok_def simp flip: append_assoc)

lemma add_ok:
  assumes "batcher_ok b h" "Batcher_Add (hNow h) receiver item b = (True, b')"
  shows "batcher_ok b' ((if receiver \<and> running b \<and> trigger b = [] then arrived b h else h)\<lparr>hAdded := hAdded h @ [item]\<rparr>)"
  using assms received_ok [OF assms(1), of item] buffered_ok [OF assms(1), of item]
  by (cases "receiver \<and> running b \<and> trigger b = []") (auto simp: Batcher_Add_def split: if_splits)

lemma item_ok:
  assumes "batcher_ok b h" "running b" "trigger b = item # rest"
  shows "batcher_ok (loop_item (hNow h) item (b\<lparr>trigger := rest\<rparr>)) (arrived b h)"
proof -
  have "timers_ok (b\<lparr>trigger := rest\<rparr>) h" using assms(1) by (simp add: batcher_ok_def timers_ok_def)
  with assms(2) timers_item [of "b\<lparr>trigger := rest\<rparr>" h item]
  have "timers_ok (loop_item (hNow h) item (b\<lparr>trigger := rest\<rparr>)) (arrived b h)" by (simp add: arrived_def)
  with assms show ?thesis by (auto simp: batcher_ok_def items_ok_def loop_item_def arrived_def Let_def)
qed

text \<open>A timer that fired belongs to a batch with items, which is then sent.\<close>

lemma flush_ok:
  assumes "batcher_ok b h" "running b" "fired (idleTimer b) \<or> fired (timeoutTimer b)"
  shows "batcher_ok (loop_idle b) (flushed b h)" "batcher_ok (loop_timeout b) (flushed b h)"
proof -
  have ne: "batch b \<noteq> []" using assms by (auto simp: batcher_ok_def timers_ok_def quiet_def)
  have "items_ok (loop_idle b) (flushed b h)" "items_ok (loop_timeout b) (flushed b h)"
    using assms(1) ne by (auto intro!: items_flush
      simp: batcher_ok_def loop_idle_def loop_timeout_def stopTimersAndInitBatch_def sendBatch_def split: option.splits)
  moreover have "timers_ok (loop_idle b) (flushed b h)" "timers_ok (loop_timeout b) (flushed b h)"
    using assms(1) by (auto intro: timer_wfI
      simp: batcher_ok_def timers_ok_def loop_idle_def loop_timeout_def stopTimersAndInitBatch_def sendBatch_def split: option.splits)
  ultimately show "batcher_ok (loop_idle b) (flushed b h)" "batcher_ok (loop_timeout b) (flushed b h)"
    by (simp_all add: batcher_ok_def)
qed

lemma reset_ok: "batcher_ok b h \<Longrightarrow> batcher_ok (Batcher_Reset b) (h\<lparr>hLost := hLost h \<or> batch b \<noteq> []\<rparr>)"
  by (auto simp: batcher_ok_def timers_ok_def items_ok_def Batcher_Reset_def stopTimersAndInitBatch_def intro: items_drop)

lemma batcher_run_inv: "batcher_run b h \<Longrightarrow> batcher_ok b h"
proof (induction rule: batcher_run.induct)
  case (new b now timeout idle bufferSize)
  then show ?case
    by (auto simp: batcher_ok_def timers_ok_def items_ok_def NewBatcher_def NewBufferedBatcher_def intro: timer_wfI)
qed (auto simp: start_ok add_ok item_ok flush_ok reset_ok, auto simp: batcher_ok_def timers_ok_def items_ok_def loop_done_def)

section \<open>Properties\<close>


text \<open>An item given to a running batcher.\<close>

definition busy_batcher :: "nat Batcher" where
  "busy_batcher = snd (Batcher_Add 0 True 7 (the (Batcher_Start (NewBatcher 0 10 3))))"


end
