(* ===== verification/ClusterInfo.thy ===== *)
theory ClusterInfo
  imports MigProfiles NodeLoops KubeApi
begin

text \<open>
  The cluster information that is exported to a remote endpoint: \<^verbatim>\<open>pkg/clusterinfo\<close> and \<^verbatim>\<open>sendSnapshot\<close> of
  \<^verbatim>\<open>cmd/clusterinfoexporter\<close>.  The argument \<open>K\<close> is the interface to the Kubernetes libraries.
\<close>

section \<open>Data\<close>

text \<open>Pods with the parts of their status that only the collector reads; an absent and a zero time are \<open>None\<close>.\<close>

record 'q StatusPod = "'q Pod" +
  StartTime :: "Time option"
  ContainerStatuses :: "ContainerStatus list"
  InitContainerStatuses :: "ContainerStatus list"
  EphemeralContainerStatuses :: "ContainerStatus list"

abbreviation pod_of :: "'q StatusPod \<Rightarrow> 'q Pod" where
  "pod_of p \<equiv> Pod.truncate p"

record GPUInventory =
  giProfile :: string
  giAllocated :: int
  giAvailable :: int

record PodSummary =
  psName :: string
  psNamespace :: string
  psStatus :: string
  psGPU :: string
  psStartTime :: "Time option"
  psFinishTime :: "Time option"

record Snapshot =
  snTimestamp :: Time
  snapGPUs :: "GPUInventory list"
  snapPods :: "PodSummary list"

record gpuTotals =
  Allocated :: int
  Available :: int

text \<open>\<^verbatim>\<open>5 * time.Minute\<close>, in nanoseconds.\<close>

definition completedPodRetention :: int where
  "completedPodRetention = 5 * 60 * 1000000000"

section \<open>Pods\<close>

definition maxTime :: "Time option \<Rightarrow> Time option \<Rightarrow> Time option" where
  "maxTime current candidate =
     (case candidate of
        None \<Rightarrow> current
      | Some t \<Rightarrow> (case current of None \<Rightarrow> candidate | Some c \<Rightarrow> if c < t then candidate else current))"

text \<open>The two conditionals of the loop: a finished container, now or before its last restart, moves \<open>latest\<close>.\<close>

definition latest_of :: "(string \<times> Time option) option \<Rightarrow> Time option \<Rightarrow> Time option" where
  "latest_of terminated latest =
     (case terminated of
        Some (_, Some t) \<Rightarrow> (case latest of None \<Rightarrow> Some t | Some l \<Rightarrow> if l < t then Some t else latest)
      | _ \<Rightarrow> latest)"

fun latest_loop :: "Time option \<Rightarrow> ContainerStatus list \<Rightarrow> Time option" where
  "latest_loop latest [] = latest"
| "latest_loop latest (status # statuses) =
     latest_loop (latest_of (LastTerminatedState status) (latest_of (TerminatedState (State status)) latest)) statuses"

definition latestFinishedAt :: "ContainerStatus list \<Rightarrow> Time option" where
  "latestFinishedAt statuses = latest_loop None statuses"

definition podFinishTime :: "'q StatusPod \<Rightarrow> Time option" where
  "podFinishTime pod =
     (if Phase pod \<noteq> ''Succeeded'' \<and> Phase pod \<noteq> ''Failed'' then None
      else
        let latest = latestFinishedAt (InitContainerStatuses pod);
            latest = maxTime latest (latestFinishedAt (ContainerStatuses pod))
        in maxTime latest (latestFinishedAt (EphemeralContainerStatuses pod)))"

definition podStartTime :: "'q StatusPod \<Rightarrow> Time option" where
  "podStartTime pod = (case StartTime pod of None \<Rightarrow> None | Some t \<Rightarrow> Some t)"

fun containerStatusesReason :: "ContainerStatus list \<Rightarrow> string" where
  "containerStatusesReason [] = ''''"
| "containerStatusesReason (status # statuses) =
     (case WaitingReason (State status) of
        Some (c # reason) \<Rightarrow> c # reason
      | _ \<Rightarrow>
          (case TerminatedState (State status) of
             Some (c # reason, _) \<Rightarrow> c # reason
           | _ \<Rightarrow> if RunningState (State status) then ''Running'' else containerStatusesReason statuses))"

definition podStatus :: "'q StatusPod \<Rightarrow> string" where
  "podStatus pod =
     (if DeletionTimestamp pod \<noteq> None then ''Terminating''
      else if containerStatusesReason (ContainerStatuses pod) \<noteq> '''' then containerStatusesReason (ContainerStatuses pod)
      else if containerStatusesReason (InitContainerStatuses pod) \<noteq> '''' then containerStatusesReason (InitContainerStatuses pod)
      else if Phase pod \<noteq> '''' then Phase pod
      else ''Unknown'')"

fun filterCompletedPods :: "Time \<Rightarrow> 'q StatusPod list \<Rightarrow> 'q StatusPod list" where
  "filterCompletedPods cutoff [] = []"
| "filterCompletedPods cutoff (pod # pods) =
     (case podFinishTime pod of
        Some t \<Rightarrow> if t < cutoff then filterCompletedPods cutoff pods else pod # filterCompletedPods cutoff pods
      | None \<Rightarrow> pod # filterCompletedPods cutoff pods)"

text \<open>\<^verbatim>\<open>strings.Join(parts, ", ")\<close>.\<close>

fun join_comma :: "string list \<Rightarrow> string" where
  "join_comma [] = ''''"
| "join_comma [s] = s"
| "join_comma (s # t # ss) = s @ '', '' @ join_comma (t # ss)"

definition formatProfiles :: "(ProfileName, int) gomap \<Rightarrow> string" where
  "formatProfiles profiles =
     (if length profiles = 0 then ''''
      else join_comma (concat (map (\<lambda>key.
        (case map_of profiles key of
           None \<Rightarrow> []
         | Some qty \<Rightarrow> [if qty > 1 then key @ '' x'' @ Itoa qty else key]))
        (sliceStable str_less (map fst profiles)))))"

fun summaries_loop :: "('ni, 'q) k8sLib \<Rightarrow> 'q StatusPod list \<Rightarrow> PodSummary list" where
  "summaries_loop K [] = []"
| "summaries_loop K (pod # pods) =
     (let profiles = GetRequestedProfiles K (pod_of pod) in
      if length profiles = 0 then summaries_loop K pods
      else \<lparr>psName = PodName pod, psNamespace = PodNamespace pod, psStatus = podStatus pod, psGPU = formatProfiles profiles,
            psStartTime = podStartTime pod, psFinishTime = podFinishTime pod\<rparr> # summaries_loop K pods)"

definition summaryBefore :: "PodSummary \<Rightarrow> PodSummary \<Rightarrow> bool" where
  "summaryBefore a b =
     (if psNamespace a = psNamespace b then str_less (psName a) (psName b) else str_less (psNamespace a) (psNamespace b))"

text \<open>\<^verbatim>\<open>sort.Slice\<close>: pods differ in namespace or name, so that the order is total.\<close>

definition buildPodSummaries :: "('ni, 'q) k8sLib \<Rightarrow> 'q StatusPod list \<Rightarrow> PodSummary list" where
  "buildPodSummaries K pods = sliceStable summaryBefore (summaries_loop K pods)"

section \<open>GPUs\<close>

definition totals_at :: "(string, gpuTotals) gomap \<Rightarrow> string \<Rightarrow> gpuTotals" where
  "totals_at data profile = (case map_of data profile of None \<Rightarrow> \<lparr>Allocated = 0, Available = 0\<rparr> | Some t \<Rightarrow> t)"

definition gpuTotalsToInventory :: "(string, gpuTotals) gomap \<Rightarrow> GPUInventory list" where
  "gpuTotalsToInventory data =
     map (\<lambda>profile. \<lparr>giProfile = profile, giAllocated = Allocated (totals_at data profile), giAvailable = Available (totals_at data profile)\<rparr>)
       (sliceStable str_less (filter (\<lambda>profile. profile \<noteq> '''') (map fst data)))"

definition count_annotation :: "StatusAnnotation \<Rightarrow> (string, gpuTotals) gomap \<Rightarrow> (string, gpuTotals) gomap" where
  "count_annotation annotation result =
     (let entry = totals_at result (stProfileName annotation);
          entry = (case stStatus annotation of
             StatusUsed \<Rightarrow> entry\<lparr>Allocated := Allocated entry + stQuantity annotation\<rparr>
           | StatusFree \<Rightarrow> entry\<lparr>Available := Available entry + stQuantity annotation\<rparr>
           | StatusUnknown \<Rightarrow> entry)
      in gm_put (stProfileName annotation) entry result)"

definition buildGPUInventoryFromAnnotations :: "'q Node list \<Rightarrow> GPUInventory list" where
  "buildGPUInventoryFromAnnotations nodes =
     gpuTotalsToInventory (fold (\<lambda>node. fold count_annotation (fst (ParseNodeAnnotations node))) nodes [])"

fun aggregatePodRequests_loop :: "('ni, 'q) k8sLib \<Rightarrow> (ProfileName, int) gomap \<Rightarrow> 'q StatusPod list \<Rightarrow> (ProfileName, int) gomap" where
  "aggregatePodRequests_loop K allocated [] = allocated"
| "aggregatePodRequests_loop K allocated (pod # pods) =
     aggregatePodRequests_loop K (gm_add_all allocated (GetRequestedProfiles K (pod_of pod))) pods"

definition aggregatePodRequests :: "('ni, 'q) k8sLib \<Rightarrow> 'q StatusPod list \<Rightarrow> (ProfileName, int) gomap" where
  "aggregatePodRequests K pods = aggregatePodRequests_loop K [] pods"

fun capacity_loop :: "('ni, 'q) k8sLib \<Rightarrow> (ProfileName, int) gomap \<Rightarrow> 'q Node list \<Rightarrow> (ProfileName, int) gomap" where
  "capacity_loop K capacityTotals [] = capacityTotals"
| "capacity_loop K capacityTotals (node # nodes) =
     capacity_loop K (requestedProfiles_loop (quantityValue K) capacityTotals (Capacity node)) nodes"

fun capacity_entries :: "(ProfileName, int) gomap \<Rightarrow> (string, gpuTotals) gomap \<Rightarrow> (ProfileName, int) gomap \<Rightarrow> (string, gpuTotals) gomap" where
  "capacity_entries allocated result [] = result"
| "capacity_entries allocated result ((profile, tot) # capacityTotals) =
     (let used = (if gm_get allocated profile > tot then tot else gm_get allocated profile) in
      capacity_entries allocated (gm_put profile \<lparr>Allocated = used, Available = tot - used\<rparr> result) capacityTotals)"

definition buildGPUInventoryFromCapacity :: "('ni, 'q) k8sLib \<Rightarrow> 'q Node list \<Rightarrow> 'q StatusPod list \<Rightarrow> GPUInventory list" where
  "buildGPUInventoryFromCapacity K nodes pods =
     (let capacityTotals = capacity_loop K [] nodes in
      if length capacityTotals = 0 then []
      else gpuTotalsToInventory (capacity_entries (aggregatePodRequests K pods) [] capacityTotals))"

definition buildGPUInventory :: "('ni, 'q) k8sLib \<Rightarrow> 'q Node list \<Rightarrow> 'q StatusPod list \<Rightarrow> GPUInventory list" where
  "buildGPUInventory K nodes pods =
     (let inventory = buildGPUInventoryFromAnnotations nodes in
      if length inventory > 0 then inventory else buildGPUInventoryFromCapacity K nodes pods)"

section \<open>Collecting and sending\<close>

record ('w, 'q) kubeInterface =
  kiListNodes :: "'w \<Rightarrow> (apiError + 'q Node list) \<times> 'w"
  kiListPods :: "'w \<Rightarrow> (apiError + 'q StatusPod list) \<times> 'w"
  kiNow :: "'w \<Rightarrow> Time \<times> 'w"

definition Collect :: "('ni, 'q) k8sLib \<Rightarrow> ('w, 'q) kubeInterface \<Rightarrow> 'w \<Rightarrow> (apiError + Snapshot) \<times> 'w" where
  "Collect K c w =
     (case kiListNodes c w of
        (Inl e, w1) \<Rightarrow> (Inl e, w1)
      | (Inr nodes, w1) \<Rightarrow>
          (case kiListPods c w1 of
             (Inl e, w2) \<Rightarrow> (Inl e, w2)
           | (Inr pods, w2) \<Rightarrow>
               (case kiNow c w2 of
                  (now, w3) \<Rightarrow>
                    let filteredPods = filterCompletedPods (now - completedPodRetention) pods in
                    (Inr \<lparr>snTimestamp = now, snapGPUs = buildGPUInventory K nodes filteredPods,
                          snapPods = buildPodSummaries K filteredPods\<rparr>, w3))))"

text \<open>Encoding the snapshot and the exchange with the endpoint are the standard library's and the network's.\<close>

record 'w exporterEnv =
  exMarshal :: "Snapshot \<Rightarrow> string + string"
  exNewRequest :: "string \<Rightarrow> string option"
  exDo :: "string \<Rightarrow> (string, string) gomap \<Rightarrow> string \<Rightarrow> 'w \<Rightarrow> (string + int) \<times> 'w"

datatype sendError = CollectFailed apiError | MarshalFailed string | RequestFailed string | SendFailed string | UnexpectedStatus int

definition request_headers :: "string \<Rightarrow> (string, string) gomap" where
  "request_headers apiToken =
     (let headers = gm_put ''Content-Type'' ''application/json'' [] in
      if apiToken \<noteq> '''' then gm_put ''Authorization'' (''Bearer '' @ apiToken) headers else headers)"

definition sendSnapshot ::
  "('ni, 'q) k8sLib \<Rightarrow> ('w, 'q) kubeInterface \<Rightarrow> 'w exporterEnv \<Rightarrow> string \<Rightarrow> string \<Rightarrow> 'w \<Rightarrow> sendError option \<times> 'w" where
  "sendSnapshot K c E endpoint apiToken w =
     (case Collect K c w of
        (Inl e, w1) \<Rightarrow> (Some (CollectFailed e), w1)
      | (Inr snapshot, w1) \<Rightarrow>
          (case exMarshal E snapshot of
             Inl e \<Rightarrow> (Some (MarshalFailed e), w1)
           | Inr body \<Rightarrow>
               (case exNewRequest E endpoint of
                  Some e \<Rightarrow> (Some (RequestFailed e), w1)
                | None \<Rightarrow>
                    (case exDo E endpoint (request_headers apiToken) body w1 of
                       (Inl e, w2) \<Rightarrow> (Some (SendFailed e), w2)
                     | (Inr statusCode, w2) \<Rightarrow> (if statusCode \<ge> 300 then Some (UnexpectedStatus statusCode) else None, w2)))))"

section \<open>The exporter's loop\<close>

text \<open>
  \<^verbatim>\<open>main\<close> of the exporter, from the check of its flags: a snapshot is sent at once and then at every tick until the
  context is done; a failure is logged and the loop goes on.  The result lists the outcomes, \<open>None\<close> is the
  exit on a missing endpoint.
\<close>

datatype exporterEvent = Tick | CtxDone

definition exporter_interval :: "int \<Rightarrow> int" where
  "exporter_interval interval = (if interval \<le> 0 then 60 * 1000000000 else interval)"

fun exporter_loop ::
  "('ni, 'q) k8sLib \<Rightarrow> ('w, 'q) kubeInterface \<Rightarrow> 'w exporterEnv \<Rightarrow> string \<Rightarrow> string \<Rightarrow> exporterEvent list \<Rightarrow> 'w \<Rightarrow> sendError option list \<times> 'w" where
  "exporter_loop K c E endpoint apiToken [] w = ([], w)"
| "exporter_loop K c E endpoint apiToken (CtxDone # events) w = ([], w)"
| "exporter_loop K c E endpoint apiToken (Tick # events) w =
     (let (e, w1) = sendSnapshot K c E endpoint apiToken w;
          (es, w2) = exporter_loop K c E endpoint apiToken events w1
      in (e # es, w2))"

definition exporter_main ::
  "('ni, 'q) k8sLib \<Rightarrow> ('w, 'q) kubeInterface \<Rightarrow> 'w exporterEnv \<Rightarrow> string \<Rightarrow> string \<Rightarrow> exporterEvent list \<Rightarrow> 'w \<Rightarrow> (sendError option list \<times> 'w) option" where
  "exporter_main K c E endpoint apiToken events w =
     (if endpoint = '''' then None
      else let (e, w1) = sendSnapshot K c E endpoint apiToken w;
               (es, w2) = exporter_loop K c E endpoint apiToken events w1
           in Some (e # es, w2))"

section \<open>Exporting metrics (cmd/metricsexporter)\<close>

text \<open>The four calls of \<^verbatim>\<open>main\<close>, each of which ends the program when it fails; its exit code is zero in every case.\<close>

datatype metricsOutcome = ReadFailed string | UnmarshalFailed string | MetricsMarshalFailed string | PostFailed string | MetricsSent string

definition metricsexporter_main ::
  "(string \<Rightarrow> string + string) \<Rightarrow> (string \<Rightarrow> string + 'm) \<Rightarrow> ('m \<Rightarrow> string + string) \<Rightarrow>
   (string \<Rightarrow> string \<Rightarrow> string \<Rightarrow> 'w \<Rightarrow> (string + string) \<times> 'w) \<Rightarrow> string \<Rightarrow> string \<Rightarrow> 'w \<Rightarrow> metricsOutcome \<times> 'w" where
  "metricsexporter_main readFile unmarshal marshal post metricsFile metricsEndpoint w =
     (case readFile metricsFile of
        Inl e \<Rightarrow> (ReadFailed e, w)
      | Inr metricsFileBytes \<Rightarrow>
          (case unmarshal metricsFileBytes of
             Inl e \<Rightarrow> (UnmarshalFailed e, w)
           | Inr metrics \<Rightarrow>
               (case marshal metrics of
                  Inl e \<Rightarrow> (MetricsMarshalFailed e, w)
                | Inr body \<Rightarrow>
                    (case post metricsEndpoint ''application/json'' body w of
                       (Inl e, w1) \<Rightarrow> (PostFailed e, w1)
                     | (Inr respBody, w1) \<Rightarrow> (MetricsSent respBody, w1)))))"

section \<open>Facts\<close>

subsection \<open>Pods\<close>

definition finish_times :: "ContainerStatus list \<Rightarrow> Time set" where
  "finish_times statuses =
     {t. \<exists>s\<in>set statuses. \<exists>r. TerminatedState (State s) = Some (r, Some t) \<or> LastTerminatedState s = Some (r, Some t)}"

text \<open>The latest of a set of times, if there is one.\<close>

definition latest :: "Time set \<Rightarrow> Time option" where
  "latest T = (if T = {} then None else Some (Max T))"

lemma latest_maxTime: "finite S \<Longrightarrow> finite T \<Longrightarrow> maxTime (latest S) (latest T) = latest (S \<union> T)"
  by (cases "S = {}"; cases "T = {}") (auto simp: maxTime_def latest_def Max_Un max_def simp del: Max_less_iff Max_le_iff)

lemma finite_terminated [simp]: "finite {t. \<exists>r. term = Some (r, Some t)}"
  by (cases "term") (auto intro: finite_subset [of _ "set_option (snd (the term))"])

lemma latest_of_latest:
  assumes "finite T"
  shows "latest_of term (latest T) = latest (T \<union> {t. \<exists>r. term = Some (r, Some t)})"
proof -
  have "latest_of term l = maxTime l (latest {t. \<exists>r. term = Some (r, Some t)})" for l
    by (cases "\<exists>r t. term = Some (r, Some t)") (auto simp: latest_of_def latest_def maxTime_def split: option.splits)
  with assms show ?thesis by (simp add: latest_maxTime)
qed

lemma finish_times_Cons:
  "finish_times (s # ss) = {t. \<exists>r. TerminatedState (State s) = Some (r, Some t)} \<union>
     {t. \<exists>r. LastTerminatedState s = Some (r, Some t)} \<union> finish_times ss"
  by (auto simp: finish_times_def)

lemma finite_finish_times [simp]: "finite (finish_times ss)"
  by (induction ss) (simp_all add: finish_times_Cons, simp add: finish_times_def)

lemma latest_loop_eq: "finite T \<Longrightarrow> latest_loop (latest T) ss = latest (T \<union> finish_times ss)"
proof (induction ss arbitrary: T)
  case (Cons s ss)
  then show ?case by (simp add: latest_of_latest finish_times_Cons Un_assoc)
qed (simp add: finish_times_def)

lemma latestFinishedAt_eq: "latestFinishedAt ss = latest (finish_times ss)"
  using latest_loop_eq [of "{}" ss] by (simp add: latestFinishedAt_def latest_def [of "{}"])

text \<open>A pod has finished when its phase says so and one of its containers has; it did so when the last of them did.\<close>

lemma podFinishTime_eq:
  "podFinishTime pod =
     (if Phase pod = ''Succeeded'' \<or> Phase pod = ''Failed''
      then latest (finish_times (InitContainerStatuses pod @ ContainerStatuses pod @ EphemeralContainerStatuses pod)) else None)"
proof -
  have "finish_times (xs @ ys) = finish_times xs \<union> finish_times ys" for xs ys by (auto simp: finish_times_def)
  then show ?thesis by (auto simp: podFinishTime_def latestFinishedAt_eq latest_maxTime Un_assoc)
qed

lemma filterCompletedPods_eq:
  "filterCompletedPods cutoff pods = filter (\<lambda>p. \<forall>t. podFinishTime p = Some t \<longrightarrow> cutoff \<le> t) pods"
  by (induction pods) (auto split: option.splits)

lemma summaries_loop_eq: "length (summaries_loop K pods) = length (filter (\<lambda>p. GetRequestedProfiles K (pod_of p) \<noteq> []) pods)"
  by (induction pods) (simp_all add: Let_def)

interpretation summary_order: strict_weak_order summaryBefore
proof
  show "\<not> summaryBefore b a" if "summaryBefore a b" for a b
    using that str_less_asym by (auto simp: summaryBefore_def split: if_splits)
  show "\<not> summaryBefore a c" if "\<not> summaryBefore a b" "\<not> summaryBefore b c" for a b c
    using that str_less_trans str_less_total by (auto simp: summaryBefore_def split: if_splits) metis+
qed

lemma summaries_recent:
  "ps \<in> set (summaries_loop K pods) \<Longrightarrow> \<exists>p\<in>set pods. psFinishTime ps = podFinishTime p \<and> psName ps = PodName p \<and> psNamespace ps = PodNamespace p"
  by (induction pods) (auto simp: Let_def split: if_splits)

text \<open>The pods of a snapshot are in order, and none of them finished longer ago than the retention.\<close>

lemma snapshot_pods:
  assumes "Collect K c w = (Inr s, w')"
  shows "sorted_wrt (\<lambda>a b. \<not> summaryBefore b a) (snapPods s)"
    "p \<in> set (snapPods s) \<Longrightarrow> psFinishTime p = Some t \<Longrightarrow> snTimestamp s - completedPodRetention \<le> t"
  using assms summaries_recent
  by (fastforce simp: Collect_def Let_def buildPodSummaries_def filterCompletedPods_eq summary_order.sliceStable_sorted
      split: prod.splits sum.splits)+

subsection \<open>The exporters\<close>

text \<open>One snapshot is sent at the start and one at every tick until the end, whether or not earlier ones failed.\<close>

lemma exporter_sends_all:
  "exporter_main K c E endpoint apiToken events w = Some (es, w') \<Longrightarrow> length es = Suc (length (takeWhile (\<lambda>e. e = Tick) events))"
proof -
  have "length (fst (exporter_loop K c E endpoint apiToken events w)) = length (takeWhile (\<lambda>e. e = Tick) events)" for w
  proof (induction events arbitrary: w)
    case (Cons e events)
    then show ?case by (cases e) (simp_all add: Let_def case_prod_beta)
  qed simp
  then show "exporter_main K c E endpoint apiToken events w = Some (es, w') \<Longrightarrow> ?thesis"
    by (auto simp: exporter_main_def Let_def case_prod_beta split: if_splits)
qed

text \<open>Metrics are posted only when the file was read, decoded and encoded again, and then exactly once.\<close>

lemma metrics_posted_once:
  assumes "metricsexporter_main readFile unmarshal marshal post metricsFile metricsEndpoint w = (MetricsSent r, w')"
  shows "\<exists>bytes m body. readFile metricsFile = Inr bytes \<and> unmarshal bytes = Inr m \<and> marshal m = Inr body \<and>
    post metricsEndpoint ''application/json'' body w = (Inr r, w')"
  using assms by (auto simp: metricsexporter_main_def split: sum.splits prod.splits)

subsection \<open>Inventory\<close>

lemma totals_at_put: "totals_at (gm_put p t m) q = (if p = q then t else totals_at m q)"
  by (simp add: totals_at_def gm_put_def update_conv')

lemma count_annotations:
  "gm_ok m \<Longrightarrow> gm_ok (fold count_annotation as m) \<and>
   fst ` set (fold count_annotation as m) = fst ` set m \<union> stProfileName ` set as \<and>
   Allocated (totals_at (fold count_annotation as m) p) = Allocated (totals_at m p) + annotated StatusAnnotation_IsUsed as p \<and>
   Available (totals_at (fold count_annotation as m) p) = Available (totals_at m p) + annotated StatusAnnotation_IsFree as p"
proof (induction as arbitrary: m)
  case (Cons a as)
  have "gm_ok (count_annotation a m)" using Cons.prems by (simp add: count_annotation_def Let_def gomap_ok)
  moreover have "fst ` set (count_annotation a m) = insert (stProfileName a) (fst ` set m)"
    by (simp add: count_annotation_def Let_def keys_gm_put)
  ultimately show ?case
    using Cons.IH [of "count_annotation a m"]
    by (auto simp: count_annotation_def Let_def totals_at_put annotated_def StatusAnnotation_IsUsed_def StatusAnnotation_IsFree_def
        split: Status.splits)
qed (simp add: annotated_def)

lemma fold_nodes: "fold (\<lambda>node. fold f (g node)) nodes m = fold f (concat (map g nodes)) m"
  by (induction nodes arbitrary: m) simp_all

lemma strictly_sorted: "distinct xs \<Longrightarrow> sorted_wrt (\<lambda>x y. \<not> str_less y x) xs \<Longrightarrow> sorted_wrt str_less xs"
  by (induction xs) (auto dest: str_less_total)

lemma inventory_profiles:
  assumes "gm_ok data"
  shows "sorted_wrt str_less (map giProfile (gpuTotalsToInventory data)) \<and>
    giProfile ` set (gpuTotalsToInventory data) = fst ` set data - {''''}"
proof -
  let ?ps = "sliceStable str_less (filter (\<lambda>p. p \<noteq> '''') (map fst data))"
  have "distinct ?ps" using assms by (simp add: gm_ok_def)
  moreover have "sorted_wrt (\<lambda>x y. \<not> str_less y x) ?ps" by (rule str_order.sliceStable_sorted)
  ultimately have "sorted_wrt str_less ?ps" by (intro strictly_sorted)
  then show ?thesis by (auto simp: gpuTotalsToInventory_def comp_def image_image)
qed

lemma inventory_entry:
  "e \<in> set (gpuTotalsToInventory data) \<Longrightarrow>
   giAllocated e = Allocated (totals_at data (giProfile e)) \<and> giAvailable e = Available (totals_at data (giProfile e))"
  by (auto simp: gpuTotalsToInventory_def)

lemma capacity_entries_Cons:
  "capacity_entries al m ((q, t) # ps) =
     capacity_entries al (gm_put q \<lparr>Allocated = min (gm_get al q) t, Available = t - min (gm_get al q) t\<rparr> m) ps"
  by (simp add: Let_def min_def)

lemma capacity_entries_totals:
  assumes "gm_ok ps" "gm_ok m"
  shows "gm_ok (capacity_entries al m ps) \<and> fst ` set (capacity_entries al m ps) = fst ` set m \<union> fst ` set ps \<and>
   totals_at (capacity_entries al m ps) p =
     (if gm_has ps p then \<lparr>Allocated = min (gm_get al p) (gm_get ps p), Available = gm_get ps p - min (gm_get al p) (gm_get ps p)\<rparr>
      else totals_at m p)"
  using assms
proof (induction ps arbitrary: m)
  case (Cons e ps)
  obtain q t where e: "e = (q, t)" by fastforce
  with Cons.prems have ok: "gm_ok ps" "\<not> gm_has ps q" by (simp_all add: gm_ok_Cons gm_has_iff)
  let ?m = "gm_put q \<lparr>Allocated = min (gm_get al q) t, Available = t - min (gm_get al q) t\<rparr> m"
  have "gm_ok ?m" "fst ` set ?m = insert q (fst ` set m)" using Cons.prems by (simp_all add: gomap_ok keys_gm_put)
  with Cons.IH [OF ok(1), of ?m] ok(2) show ?case unfolding e capacity_entries_Cons
    by (cases "p = q") (simp_all add: totals_at_put gm_get_Cons gm_has_Cons)
qed (simp add: gm_has_def)

lemma capacity_loop_ok: "gm_ok m \<Longrightarrow> gm_ok (capacity_loop K m nodes)"
  by (induction nodes arbitrary: m) (simp_all add: requestedProfiles_ok)

text \<open>The two inventories of \<open>buildGPUInventory\<close>: from the annotations, and from the capacity of the nodes.\<close>

lemma annotation_inventory:
  assumes "as = concat (map (\<lambda>n. fst (ParseNodeAnnotations n)) nodes)"
  shows "sorted_wrt str_less (map giProfile (buildGPUInventoryFromAnnotations nodes))"
    "giProfile ` set (buildGPUInventoryFromAnnotations nodes) = stProfileName ` set as - {''''}"
    "x \<in> set (buildGPUInventoryFromAnnotations nodes) \<Longrightarrow>
      giAllocated x = annotated StatusAnnotation_IsUsed as (giProfile x) \<and> giAvailable x = annotated StatusAnnotation_IsFree as (giProfile x)"
proof -
  let ?data = "fold count_annotation as []"
  have annot: "buildGPUInventoryFromAnnotations nodes = gpuTotalsToInventory ?data"
    unfolding buildGPUInventoryFromAnnotations_def fold_nodes assms ..
  have c: "gm_ok ?data" "fst ` set ?data = stProfileName ` set as"
    "Allocated (totals_at ?data p) = annotated StatusAnnotation_IsUsed as p"
    "Available (totals_at ?data p) = annotated StatusAnnotation_IsFree as p" for p
    using count_annotations [of "[]" as p] by (simp_all add: totals_at_def [of "[]"])
  show "sorted_wrt str_less (map giProfile (buildGPUInventoryFromAnnotations nodes))"
    "giProfile ` set (buildGPUInventoryFromAnnotations nodes) = stProfileName ` set as - {''''}"
    unfolding annot using inventory_profiles [OF c(1)] c(2) by simp_all
  show "giAllocated x = annotated StatusAnnotation_IsUsed as (giProfile x) \<and> giAvailable x = annotated StatusAnnotation_IsFree as (giProfile x)"
    if "x \<in> set (buildGPUInventoryFromAnnotations nodes)"
    using inventory_entry [OF that [unfolded annot]] by (simp only: c(3,4))
qed

lemma capacity_inventory:
  assumes "cap = capacity_loop K [] nodes" "req = aggregatePodRequests K pods"
  shows "sorted_wrt str_less (map giProfile (buildGPUInventoryFromCapacity K nodes pods))"
    "giProfile ` set (buildGPUInventoryFromCapacity K nodes pods) = fst ` set cap - {''''}"
    "x \<in> set (buildGPUInventoryFromCapacity K nodes pods) \<Longrightarrow>
      giAllocated x + giAvailable x = gm_get cap (giProfile x) \<and>
      giAllocated x = min (gm_get req (giProfile x)) (gm_get cap (giProfile x)) \<and> 0 \<le> giAvailable x"
proof -
  let ?entries = "capacity_entries req [] cap"
  have inv: "buildGPUInventoryFromCapacity K nodes pods = gpuTotalsToInventory ?entries"
    by (simp add: buildGPUInventoryFromCapacity_def Let_def gpuTotalsToInventory_def assms)
  have cap_ok: "gm_ok cap" unfolding assms by (rule capacity_loop_ok) simp
  have e: "gm_ok ?entries" "fst ` set ?entries = fst ` set cap"
    "gm_has cap p \<Longrightarrow> Allocated (totals_at ?entries p) = min (gm_get req p) (gm_get cap p) \<and>
       Available (totals_at ?entries p) = gm_get cap p - min (gm_get req p) (gm_get cap p)" for p
    using capacity_entries_totals [OF cap_ok, of "[]" req p] by simp_all
  show "sorted_wrt str_less (map giProfile (buildGPUInventoryFromCapacity K nodes pods))"
    and ps: "giProfile ` set (buildGPUInventoryFromCapacity K nodes pods) = fst ` set cap - {''''}"
    unfolding inv using inventory_profiles [OF e(1)] e(2) by simp_all
  show "giAllocated x + giAvailable x = gm_get cap (giProfile x) \<and>
      giAllocated x = min (gm_get req (giProfile x)) (gm_get cap (giProfile x)) \<and> 0 \<le> giAvailable x"
    if x: "x \<in> set (buildGPUInventoryFromCapacity K nodes pods)"
  proof -
    have "giProfile x \<in> fst ` set cap" using ps x by auto
    then have "gm_has cap (giProfile x)" by (simp add: gm_has_iff)
    from inventory_entry [OF x [unfolded inv]] e(3) [OF this] show ?thesis by simp
  qed
qed

section \<open>Properties\<close>


end
