(* ===== verification/FrameworkResources.thy ===== *)
theory FrameworkResources
  imports MigProfiles "HOL-Library.Word"
begin

text \<open>
  Arithmetic on the scheduler's resources (\<^verbatim>\<open>pkg/resource/resource.go\<close>) and the GPU memory of a pod
  (\<^verbatim>\<open>pkg/gpu/util/resource.go\<close>).  Quantities are 64-bit integers that wrap around: words, read as signed numbers.
  The type \<^verbatim>\<open>framework.Resource\<close> and the quantities of a resource list are of the Kubernetes libraries; the
  record \<open>resourceLib\<close> holds the functions of theirs that the code calls.
\<close>

section \<open>Definitions\<close>

type_synonym int64 = "64 word"

record fwResource =
  MilliCPU :: int64
  Memory :: int64
  EphemeralStorage :: int64
  AllowedPodNumber :: int64
  ScalarResources :: "(ResourceName, int64) gomap"

record 'q resourceLib =
  setScalar :: "ResourceName \<Rightarrow> int64 \<Rightarrow> (ResourceName, int64) gomap \<Rightarrow> (ResourceName, int64) gomap"
  newMilliQuantity :: "int64 \<Rightarrow> 'q"
  newBinaryQuantity :: "int64 \<Rightarrow> 'q"
  newDecimalQuantity :: "int64 \<Rightarrow> 'q"
  isHugePageResourceName :: "ResourceName \<Rightarrow> bool"
  newResource :: "'q ResourceList \<Rightarrow> fwResource"

definition scalar :: "fwResource \<Rightarrow> ResourceName \<Rightarrow> int64" where
  "scalar r k = (case map_of (ScalarResources r) k of None \<Rightarrow> 0 | Some v \<Rightarrow> v)"

definition max64 :: "int64 \<Rightarrow> int64 \<Rightarrow> int64" where
  "max64 v1 v2 = (if v2 <s v1 then v1 else v2)"

definition emptyResource :: fwResource where
  "emptyResource = \<lparr>MilliCPU = 0, Memory = 0, EphemeralStorage = 0, AllowedPodNumber = 0, ScalarResources = []\<rparr>"

definition set_scalar :: "'q resourceLib \<Rightarrow> ResourceName \<Rightarrow> int64 \<Rightarrow> fwResource \<Rightarrow> fwResource" where
  "set_scalar L k v r = r\<lparr>ScalarResources := setScalar L k v (ScalarResources r)\<rparr>"

definition res_Sum :: "'q resourceLib \<Rightarrow> fwResource \<Rightarrow> fwResource \<Rightarrow> fwResource" where
  "res_Sum L r1 r2 =
     (let res = emptyResource\<lparr>Memory := Memory r1 + Memory r2, MilliCPU := MilliCPU r1 + MilliCPU r2,
            AllowedPodNumber := AllowedPodNumber r1 + AllowedPodNumber r2,
            EphemeralStorage := EphemeralStorage r1 + EphemeralStorage r2\<rparr>
      in fold (\<lambda>r. set_scalar L r (scalar r1 r + scalar r2 r)) (GetKeys [ScalarResources r1, ScalarResources r2]) res)"

definition res_Subtract :: "'q resourceLib \<Rightarrow> fwResource \<Rightarrow> fwResource \<Rightarrow> fwResource" where
  "res_Subtract L r1 r2 =
     (let res = emptyResource\<lparr>Memory := Memory r1 - Memory r2, MilliCPU := MilliCPU r1 - MilliCPU r2,
            AllowedPodNumber := AllowedPodNumber r1 - AllowedPodNumber r2,
            EphemeralStorage := EphemeralStorage r1 - EphemeralStorage r2\<rparr>
      in fold (\<lambda>r. set_scalar L r (scalar r1 r - scalar r2 r)) (GetKeys [ScalarResources r1, ScalarResources r2]) res)"

definition SubtractNonNegative :: "'q resourceLib \<Rightarrow> fwResource \<Rightarrow> fwResource \<Rightarrow> fwResource" where
  "SubtractNonNegative L r1 r2 =
     (let res = res_Subtract L r1 r2;
          res' = res\<lparr>Memory := max64 0 (Memory res), MilliCPU := max64 0 (MilliCPU res),
            AllowedPodNumber := max64 0 (AllowedPodNumber res), EphemeralStorage := max64 0 (EphemeralStorage res)\<rparr>
      in fold (\<lambda>(r, v). set_scalar L r (max64 0 v)) (ScalarResources res) res')"

definition negate_if :: "int64 \<Rightarrow> int64" where
  "negate_if v = (if v <s 0 then - v else v)"

definition res_Abs :: "fwResource \<Rightarrow> fwResource" where
  "res_Abs r =
     r\<lparr>MilliCPU := negate_if (MilliCPU r), Memory := negate_if (Memory r), AllowedPodNumber := negate_if (AllowedPodNumber r),
       EphemeralStorage := negate_if (EphemeralStorage r),
       ScalarResources := map (\<lambda>(k, v). (k, negate_if v)) (ScalarResources r)\<rparr>"

definition FromFrameworkToList :: "'q resourceLib \<Rightarrow> fwResource \<Rightarrow> 'q ResourceList" where
  "FromFrameworkToList L r =
     gm_put_all
       (gm_put_all [] [(''cpu'', newMilliQuantity L (MilliCPU r)), (''memory'', newBinaryQuantity L (Memory r)),
          (''pods'', newBinaryQuantity L (AllowedPodNumber r)), (''ephemeral-storage'', newBinaryQuantity L (EphemeralStorage r))])
       (map (\<lambda>(rName, rQuant).
          (rName, if isHugePageResourceName L rName then newBinaryQuantity L rQuant else newDecimalQuantity L rQuant)) (ScalarResources r))"

definition FromListToFramework :: "'q resourceLib \<Rightarrow> 'q ResourceList \<Rightarrow> fwResource" where
  "FromListToFramework L r = newResource L r"

section \<open>GPU memory (pkg/gpu/util)\<close>

record ResourceCalculator =
  NvidiaGPUDeviceMemoryGB :: int64

definition ResourceNvidiaGPU :: ResourceName where
  "ResourceNvidiaGPU = ''nvidia.com/gpu''"

definition ResourceGPUMemory :: ResourceName where
  "ResourceGPUMemory = ''nos.nebuly.com/gpu-memory''"

text \<open>
  The number that \<^verbatim>\<open>ExtractMemoryGBFromMigFormat\<close> returns beside an error that the caller drops: zero, or the
  largest number when the digits do not fit.
\<close>

definition mig_memory :: "ResourceName \<Rightarrow> int" where
  "mig_memory r =
     (if \<not> MatchString RegexNvidiaMigResource r then 0
      else let matches = FindAllString RegexNvidiaMigFormatMemory r in
        if length matches \<noteq> 1 then 0
        else Atoi_value (case FindString [Digits] (matches ! 0) of None \<Rightarrow> '''' | Some m \<Rightarrow> m))"

fun required_memory :: "ResourceCalculator \<Rightarrow> ('ni, 'q) k8sLib \<Rightarrow> int64 \<Rightarrow> 'q ResourceList \<Rightarrow> int64" where
  "required_memory c K totalRequiredGB [] = totalRequiredGB"
| "required_memory c K totalRequiredGB ((resourceName, quantity) # l) =
     (if resourceName = ResourceNvidiaGPU
      then required_memory c K (totalRequiredGB + NvidiaGPUDeviceMemoryGB c * word_of_int (quantityValue K quantity)) l
      else if IsNvidiaMigDevice resourceName
      then required_memory c K (totalRequiredGB + word_of_int (mig_memory resourceName) * word_of_int (quantityValue K quantity)) l
      else required_memory c K totalRequiredGB l)"

definition ComputeRequiredGPUMemoryGB :: "ResourceCalculator \<Rightarrow> ('ni, 'q) k8sLib \<Rightarrow> 'q ResourceList \<Rightarrow> int64" where
  "ComputeRequiredGPUMemoryGB c K resourceList = required_memory c K 0 resourceList"

definition calculator_ComputePodRequest ::
  "ResourceCalculator \<Rightarrow> ('ni, 'q) k8sLib \<Rightarrow> 'q resourceLib \<Rightarrow> 'q Pod \<Rightarrow> 'q ResourceList" where
  "calculator_ComputePodRequest c K L pod =
     (let res = ComputePodRequest K pod in
      gm_put ResourceGPUMemory (newDecimalQuantity L (ComputeRequiredGPUMemoryGB c K res)) res)"

section \<open>Signed arithmetic\<close>

text \<open>A number that fits the 64-bit integers.\<close>

abbreviation fits64 :: "int \<Rightarrow> bool" where
  "fits64 n \<equiv> - (2 ^ 63) \<le> n \<and> n < 2 ^ 63"

lemma sint_add_fits: "fits64 (sint a + sint b) \<Longrightarrow> sint (a + b :: int64) = sint a + sint b"
  by (simp add: sint_word_ariths signed_take_bit_int_eq_self)

lemma sint_diff_fits: "fits64 (sint a - sint b) \<Longrightarrow> sint (a - b :: int64) = sint a - sint b"
  by (simp add: sint_word_ariths signed_take_bit_int_eq_self)

lemma sint_max64: "sint (max64 a b) = max (sint a) (sint b)"
  by (auto simp: max64_def word_sless_alt max_def)

lemma sint_diff_nonneg:
  assumes "0 \<le> sint (a :: int64)" "0 \<le> sint b"
  shows "sint (max64 0 (a - b)) = max 0 (sint a - sint b)"
proof -
  have "sint a < 2 ^ 63" "sint b < 2 ^ 63" using sint_range_size [of a] sint_range_size [of b] by (simp_all add: word_size)
  with assms show ?thesis by (simp add: sint_max64 sint_diff_fits)
qed

section \<open>Scalar resources\<close>

text \<open>What the documentation of the framework says of \<^verbatim>\<open>SetScalar\<close>: it sets the quantity of one resource.\<close>

definition scalar_law :: "'q resourceLib \<Rightarrow> bool" where
  "scalar_law L \<longleftrightarrow> (\<forall>k v m. map_of (setScalar L k v m) = (map_of m)(k \<mapsto> v) \<and> (gm_ok m \<longrightarrow> gm_ok (setScalar L k v m)))"

lemma set_scalar_frame [simp]:
  "MilliCPU (set_scalar L k v r) = MilliCPU r" "Memory (set_scalar L k v r) = Memory r"
  "EphemeralStorage (set_scalar L k v r) = EphemeralStorage r" "AllowedPodNumber (set_scalar L k v r) = AllowedPodNumber r"
  by (simp_all add: set_scalar_def)

lemma fold_set_scalar_frame:
  "MilliCPU (fold (\<lambda>x. set_scalar L (f x) (g x)) xs r) = MilliCPU r"
  "Memory (fold (\<lambda>x. set_scalar L (f x) (g x)) xs r) = Memory r"
  "EphemeralStorage (fold (\<lambda>x. set_scalar L (f x) (g x)) xs r) = EphemeralStorage r"
  "AllowedPodNumber (fold (\<lambda>x. set_scalar L (f x) (g x)) xs r) = AllowedPodNumber r"
  by (induction xs arbitrary: r) simp_all

lemma fold_set_scalar:
  assumes "scalar_law L" "distinct (map f xs)"
  shows "map_of (ScalarResources (fold (\<lambda>x. set_scalar L (f x) (g x)) xs r)) k =
    (case map_of (map (\<lambda>x. (f x, g x)) xs) k of Some v \<Rightarrow> Some v | None \<Rightarrow> map_of (ScalarResources r) k)"
  using assms(2)
proof (induction xs arbitrary: r)
  case (Cons x xs)
  have "map_of (ScalarResources (set_scalar L (f x) (g x) r)) = (map_of (ScalarResources r))(f x \<mapsto> g x)"
    using assms(1) by (simp add: scalar_law_def set_scalar_def)
  moreover have "map_of (map (\<lambda>x. (f x, g x)) xs) (f x) = None" using Cons.prems by (auto simp: map_of_eq_None_iff)
  ultimately show ?case using Cons by (auto split: option.splits)
qed simp

lemma fold_set_scalar_ok: "scalar_law L \<Longrightarrow> gm_ok (ScalarResources r) \<Longrightarrow> gm_ok (ScalarResources (fold (\<lambda>x. set_scalar L (f x) (g x)) xs r))"
  by (induction xs arbitrary: r) (simp_all add: scalar_law_def set_scalar_def)

lemma map_of_tabulate: "map_of (map (\<lambda>k. (k, g k)) ks) k = (if k \<in> set ks then Some (g k) else None)"
  by (induction ks) auto

lemma map_of_map_snd: "map_of (map (\<lambda>x. (fst x, h (snd x))) m) k = map_option h (map_of m k)"
  by (induction m) auto

lemma subtract_scalars:
  assumes "scalar_law L"
  shows "map_of (ScalarResources (res_Subtract L r1 r2)) k =
      (if k \<in> fst ` set (ScalarResources r1) \<union> fst ` set (ScalarResources r2) then Some (scalar r1 k - scalar r2 k) else None)"
    and "gm_ok (ScalarResources (res_Subtract L r1 r2))"
  using fold_set_scalar [OF assms, of "\<lambda>k. k" "GetKeys [ScalarResources r1, ScalarResources r2]"]
    fold_set_scalar_ok [OF assms, of _ "\<lambda>k. k"]
  by (simp_all add: res_Subtract_def Let_def GetKeys_distinct map_of_tabulate GetKeys_set emptyResource_def)

lemma scalar_absent: "k \<notin> fst ` set (ScalarResources r) \<Longrightarrow> scalar r k = 0"
  by (simp add: scalar_def map_of_eq_None_iff [THEN iffD2])

lemma sum_scalars:
  assumes "scalar_law L"
  shows "scalar (res_Sum L r1 r2) k = scalar r1 k + scalar r2 k"
proof -
  have "map_of (ScalarResources (res_Sum L r1 r2)) k =
      (if k \<in> fst ` set (ScalarResources r1) \<union> fst ` set (ScalarResources r2) then Some (scalar r1 k + scalar r2 k) else None)"
    using fold_set_scalar [OF assms, of "\<lambda>k. k" "GetKeys [ScalarResources r1, ScalarResources r2]"]
    by (simp add: res_Sum_def Let_def GetKeys_distinct map_of_tabulate GetKeys_set emptyResource_def)
  then show ?thesis by (auto simp: scalar_def [of "res_Sum L r1 r2"] scalar_absent)
qed

lemma non_negative_scalars:
  assumes "scalar_law L"
  shows "scalar (SubtractNonNegative L r1 r2) k = max64 0 (scalar r1 k - scalar r2 k)"
proof -
  let ?m = "ScalarResources (res_Subtract L r1 r2)"
  have "distinct (map fst ?m)" using subtract_scalars(2) [OF assms] by (simp add: gm_ok_def)
  from fold_set_scalar [OF assms this, of "\<lambda>x. max64 0 (snd x)"]
  have m: "map_of (ScalarResources (SubtractNonNegative L r1 r2)) k =
      (case map_option (max64 0) (map_of ?m k) of Some v \<Rightarrow> Some v | None \<Rightarrow> map_of ?m k)"
    by (simp add: SubtractNonNegative_def Let_def case_prod_beta' map_of_map_snd split: option.splits)
  show ?thesis
    by (auto simp: scalar_def [of "SubtractNonNegative L r1 r2"] m subtract_scalars(1) [OF assms] scalar_absent max64_def)
qed

section \<open>Properties\<close>

text \<open>C22: Subtracting non-negative resources does not overflow and never goes below zero: every quantity of the result
  is the exact difference, cut off at zero, for the standard resources and for each scalar resource.\<close>

theorem subtract_non_negative:
  assumes "scalar_law L" "0 \<le> sint (Memory r1)" "0 \<le> sint (Memory r2)" "0 \<le> sint (MilliCPU r1)" "0 \<le> sint (MilliCPU r2)"
    "0 \<le> sint (AllowedPodNumber r1)" "0 \<le> sint (AllowedPodNumber r2)"
    "0 \<le> sint (EphemeralStorage r1)" "0 \<le> sint (EphemeralStorage r2)"
    "0 \<le> sint (scalar r1 k)" "0 \<le> sint (scalar r2 k)"
  shows "sint (Memory (SubtractNonNegative L r1 r2)) = max 0 (sint (Memory r1) - sint (Memory r2)) \<and>
    sint (MilliCPU (SubtractNonNegative L r1 r2)) = max 0 (sint (MilliCPU r1) - sint (MilliCPU r2)) \<and>
    sint (AllowedPodNumber (SubtractNonNegative L r1 r2)) = max 0 (sint (AllowedPodNumber r1) - sint (AllowedPodNumber r2)) \<and>
    sint (EphemeralStorage (SubtractNonNegative L r1 r2)) = max 0 (sint (EphemeralStorage r1) - sint (EphemeralStorage r2)) \<and>
    sint (scalar (SubtractNonNegative L r1 r2) k) = max 0 (sint (scalar r1 k) - sint (scalar r2 k))"
proof -
  note frame = fold_set_scalar_frame [where f = fst and g = "\<lambda>x. max64 0 (snd x)"] fold_set_scalar_frame [where f = "\<lambda>k. k"]
  have "Memory (SubtractNonNegative L r1 r2) = max64 0 (Memory r1 - Memory r2)"
    "MilliCPU (SubtractNonNegative L r1 r2) = max64 0 (MilliCPU r1 - MilliCPU r2)"
    "AllowedPodNumber (SubtractNonNegative L r1 r2) = max64 0 (AllowedPodNumber r1 - AllowedPodNumber r2)"
    "EphemeralStorage (SubtractNonNegative L r1 r2) = max64 0 (EphemeralStorage r1 - EphemeralStorage r2)"
    by (simp_all add: SubtractNonNegative_def res_Subtract_def Let_def case_prod_beta' frame emptyResource_def)
  with assms non_negative_scalars [OF assms(1), of r1 r2 k] show ?thesis by (simp only: sint_diff_nonneg)
qed

text \<open>Quantities as plain numbers.\<close>

definition int_lib :: "int resourceLib" where
  "int_lib =
     \<lparr>setScalar = gm_put, newMilliQuantity = sint, newBinaryQuantity = sint, newDecimalQuantity = sint,
      isHugePageResourceName = (\<lambda>_. False), newResource = (\<lambda>_. emptyResource)\<rparr>"

lemma int_lib_law: "scalar_law int_lib"
  by (simp add: scalar_law_def int_lib_def gomap_ok map_of_gm_put)

theorem subtract_non_negative_witness:
  "sint (Memory (SubtractNonNegative int_lib (emptyResource\<lparr>Memory := 3\<rparr>) (emptyResource\<lparr>Memory := 5\<rparr>))) = 0"
  using subtract_non_negative [OF int_lib_law, of "emptyResource\<lparr>Memory := 3\<rparr>" "emptyResource\<lparr>Memory := 5\<rparr>" "''x''"]
  by (simp add: emptyResource_def scalar_def)

text \<open>The smallest number has no absolute value: the result stays negative.\<close>

lemma abs_of_smallest: "res_Abs (emptyResource\<lparr>Memory := - (2 ^ 63)\<rparr>) = emptyResource\<lparr>Memory := - (2 ^ 63)\<rparr>"
  by (simp add: res_Abs_def negate_if_def emptyResource_def)

lemma abs_non_negative: "sint v \<noteq> - (2 ^ 63) \<Longrightarrow> sint (negate_if v) = \<bar>sint v\<bar>"
  using sint_range_size [of v] by (auto simp: word_size negate_if_def word_sless_alt sint_word_ariths signed_take_bit_int_eq_self)

text \<open>
  The GPU memory of a pod is the sum over its GPUs and MIG devices, modulo \<open>2 ^ 64\<close>.
\<close>

definition memory_of :: "ResourceCalculator \<Rightarrow> ResourceName \<Rightarrow> int" where
  "memory_of c r = (if r = ResourceNvidiaGPU then sint (NvidiaGPUDeviceMemoryGB c) else if IsNvidiaMigDevice r then mig_memory r else 0)"

lemma required_memory_eq:
  "required_memory c K tot l = tot + word_of_int (\<Sum>(r, q)\<leftarrow>l. memory_of c r * quantityValue K q)"
  by (induction c K tot l rule: required_memory.induct) (auto simp: memory_of_def algebra_simps)

lemma required_memory_exact:
  assumes "fits64 (\<Sum>(r, q)\<leftarrow>l. memory_of c r * quantityValue K q)"
  shows "sint (ComputeRequiredGPUMemoryGB c K l) = (\<Sum>(r, q)\<leftarrow>l. memory_of c r * quantityValue K q)"
  using assms by (simp add: ComputeRequiredGPUMemoryGB_def required_memory_eq sint_sbintrunc' signed_take_bit_int_eq_self)

end
