(* ===== verification/Helpers.thy ===== *)
theory Helpers
  imports K8s "HOL-Library.Word"
begin

text \<open>
  The remaining helpers of \<^verbatim>\<open>pkg/util/util.go\<close> and \<^verbatim>\<open>pkg/util/pod/pod.go\<close>: boolean environment variables, random
  strings, the FNV-1a hash and the comparison of pods by priority.
\<close>

unbundle bit_operations_syntax

section \<open>Environment\<close>

text \<open>\<^verbatim>\<open>strconv.FormatBool\<close> and \<^verbatim>\<open>strconv.ParseBool\<close>; \<open>None\<close> is the syntax error.\<close>

definition FormatBool :: "bool \<Rightarrow> string" where
  "FormatBool b = (if b then ''true'' else ''false'')"

definition ParseBool :: "string \<Rightarrow> bool option" where
  "ParseBool s =
     (if s \<in> {''1'', ''t'', ''T'', ''true'', ''TRUE'', ''True''} then Some True
      else if s \<in> {''0'', ''f'', ''F'', ''false'', ''FALSE'', ''False''} then Some False
      else None)"

definition GetEnvBool :: "(string, string) gomap \<Rightarrow> string \<Rightarrow> bool \<Rightarrow> bool" where
  "GetEnvBool env key fallback =
     (case ParseBool (GetEnv env key (FormatBool fallback)) of None \<Rightarrow> fallback | Some v \<Rightarrow> v)"

lemma ParseBool_Format: "ParseBool (FormatBool b) = Some b"
  by (simp add: ParseBool_def FormatBool_def)

text \<open>An unset variable and one that is not a boolean both give the fallback.\<close>

lemma GetEnvBool_eq:
  "GetEnvBool env key fallback =
     (case map_of env key of None \<Rightarrow> fallback | Some s \<Rightarrow> (case ParseBool s of None \<Rightarrow> fallback | Some v \<Rightarrow> v))"
  by (simp add: GetEnvBool_def GetEnv_def ParseBool_Format split: option.splits)

section \<open>Random strings\<close>

definition lowercaseLetters :: string where
  "lowercaseLetters = ''abcdefghijklmnopqrstuvwxyz''"

text \<open>\<open>rand\<close> is the source of random numbers: the non-negative number it gives next, and the source after it.\<close>

fun RandomStringLowercase :: "('r \<Rightarrow> nat \<times> 'r) \<Rightarrow> nat \<Rightarrow> 'r \<Rightarrow> string \<times> 'r" where
  "RandomStringLowercase rand 0 r = ([], r)"
| "RandomStringLowercase rand (Suc n) r =
     (let (k, r1) = rand r; (s, r2) = RandomStringLowercase rand n r1
      in (lowercaseLetters ! (k mod length lowercaseLetters) # s, r2))"

lemma RandomStringLowercase_chars:
  "length (fst (RandomStringLowercase rand n r)) = n \<and> set (fst (RandomStringLowercase rand n r)) \<subseteq> set lowercaseLetters"
proof (induction n arbitrary: r)
  case (Suc n)
  have "lowercaseLetters ! (k mod length lowercaseLetters) \<in> set lowercaseLetters" for k
    by (rule nth_mem, rule mod_less_divisor) (simp add: lowercaseLetters_def)
  with Suc show ?case by (simp add: Let_def case_prod_beta)
qed simp

section \<open>Hashing\<close>

text \<open>FNV-1a with 32 bits, byte by byte, and its sum as four bytes, the highest first.\<close>

definition fnv_step :: "char \<Rightarrow> 32 word \<Rightarrow> 32 word" where
  "fnv_step c h = (h XOR of_char c) * 16777619"

definition fnv32a :: "string \<Rightarrow> 32 word" where
  "fnv32a s = fold fnv_step s 2166136261"

definition HashFnv32a :: "string \<Rightarrow> string" where
  "HashFnv32a s = map (\<lambda>i. char_of (unat (drop_bit (8 * i) (fnv32a s) AND 255))) [3, 2, 1, 0]"

text \<open>The hash reads a string from left to right, so that a prefix can be hashed first; it has four bytes.\<close>

lemma fnv32a_append: "fnv32a (s @ t) = fold fnv_step t (fnv32a s)"
  by (simp add: fnv32a_def)

lemma length_HashFnv32a: "length (HashFnv32a s) = 4"
  by (simp add: HashFnv32a_def)

lemma fnv_step_inject: "fnv_step c h = fnv_step c h' \<longleftrightarrow> h = h'"
proof
  assume "fnv_step c h = fnv_step c h'"
  then have "(h XOR of_char c) * 16777619 * 899433627 = (h' XOR of_char c) * 16777619 * 899433627"
    by (simp add: fnv_step_def)
  moreover have "(16777619 :: 32 word) * 899433627 = 1" by (subst word_uint_eq_iff) simp
  ultimately have "h XOR of_char c = h' XOR of_char c" by (simp only: mult.assoc mult_1_right)
  moreover have "(x XOR y) XOR y = x" for x y :: "32 word" by (simp add: xor.assoc)
  ultimately show "h = h'" by metis
qed simp

text \<open>No information is lost by hashing more of the same: two strings whose hashes differ still differ after a common suffix.\<close>

lemma fnv32a_suffix: "fnv32a (s @ u) = fnv32a (t @ u) \<longleftrightarrow> fnv32a s = fnv32a t"
proof -
  have "fold fnv_step u h = fold fnv_step u h' \<longleftrightarrow> h = h'" for h h'
    by (induction u arbitrary: h h') (simp_all add: fnv_step_inject)
  then show ?thesis by (simp add: fnv32a_append)
qed

section \<open>Pods\<close>

text \<open>\<open>podPriority\<close> is \<^verbatim>\<open>PodPriority\<close> of the component helpers of Kubernetes.\<close>

definition IsMoreImportant :: "('q Pod \<Rightarrow> int) \<Rightarrow> 'q Pod \<Rightarrow> 'q Pod \<Rightarrow> bool" where
  "IsMoreImportant podPriority p1 p2 \<longleftrightarrow> podPriority p1 > podPriority p2"

definition GetNamespacedName :: "'q Pod \<Rightarrow> string \<times> string" where
  "GetNamespacedName object = (PodNamespace object, PodName object)"

end
