(* ===== verification/Slicing.thy ===== *)
theory Slicing
  imports GpuCore
begin

text \<open>
  Package \<^verbatim>\<open>pkg/gpu/slicing\<close>: GPUs shared by memory slices (profile.go, util.go, gpu.go).  A slice profile is its
  memory size, as in \<^verbatim>\<open>10gb\<close>; a GPU of \<^verbatim>\<open>MemoryGB\<close> can be cut into slices of any size that fit.
\<close>

section \<open>Profiles (profile.go, util.go)\<close>

type_synonym sliceProfile = string

definition profileNamePrefix :: string where
  "profileNamePrefix = ''nvidia.com/gpu-''"

definition resourceRegexp :: "rx list" where
  "resourceRegexp = [Lit ''nvidia.com/gpu-'', Digits, Lit ''gb'']"

definition MinSliceMemoryGB :: int where
  "MinSliceMemoryGB = 1"

definition NewProfile :: "int \<Rightarrow> sliceProfile" where
  "NewProfile sizeGb = Itoa sizeGb @ ''gb''"

definition GetMemorySizeGB :: "sliceProfile \<Rightarrow> int" where
  "GetMemorySizeGB p =
     (case Atoi (TrimSuffix (TrimPrefix p profileNamePrefix) ''gb'') of Some i \<Rightarrow> i | None \<Rightarrow> 0)"

fun slicing_SmallerThan :: "sliceProfile \<Rightarrow> Slice \<Rightarrow> bool" where
  "slicing_SmallerThan p (MigProfile _) = False"
| "slicing_SmallerThan p (SlicingProfile q) = (GetMemorySizeGB p < GetMemorySizeGB q)"

definition slicing_AsResourceName :: "sliceProfile \<Rightarrow> ResourceName" where
  "slicing_AsResourceName p = profileNamePrefix @ p"

definition slicing_ExtractProfileName :: "ResourceName \<Rightarrow> sliceProfile option" where
  "slicing_ExtractProfileName r =
     (if \<not> MatchString resourceRegexp r then None else Some (TrimPrefix r profileNamePrefix))"

definition slicing_ExtractProfileNameStr :: "ResourceName \<Rightarrow> string option" where
  "slicing_ExtractProfileNameStr r = (case slicing_ExtractProfileName r of None \<Rightarrow> None | Some p \<Rightarrow> Some p)"

text \<open>\<^verbatim>\<open>strings.Cut(s, "::")\<close>: what precedes the first separator.\<close>

fun cut_replica :: "string \<Rightarrow> string option" where
  "cut_replica [] = None"
| "cut_replica (c # s) =
     (if HasPrefix (c # s) ''::'' then Some [] else map_option ((#) c) (cut_replica s))"

definition ExtractGpuId :: "string \<Rightarrow> string" where
  "ExtractGpuId resourceId = (case cut_replica resourceId of None \<Rightarrow> resourceId | Some before \<Rightarrow> before)"

fun slicing_requested :: "('q \<Rightarrow> int) \<Rightarrow> (sliceProfile, int) gomap \<Rightarrow> 'q ResourceList \<Rightarrow> (sliceProfile, int) gomap" where
  "slicing_requested val res [] = res"
| "slicing_requested val res ((r, quantity) # l) =
     (case slicing_ExtractProfileName r of
        Some p \<Rightarrow> slicing_requested val (gm_add p (val quantity) res) l
      | None \<Rightarrow> slicing_requested val res l)"

definition slicing_GetRequestedProfiles :: "('ni, 'q) k8sLib \<Rightarrow> 'q Pod \<Rightarrow> (sliceProfile, int) gomap" where
  "slicing_GetRequestedProfiles K pod = slicing_requested (quantityValue K) [] (ComputePodRequest K pod)"

definition IsGpuSlice :: "ResourceName \<Rightarrow> bool" where
  "IsGpuSlice r = MatchString resourceRegexp r"

definition slicing_AsResources :: "Geometry \<Rightarrow> (ResourceName, int) gomap" where
  "slicing_AsResources g = gm_add_all [] (map (\<lambda>(p, v). (profileNamePrefix @ Slice_String p, v)) g)"

section \<open>A shared GPU (gpu.go)\<close>

record sGPU =
  sModel :: Model
  sIndex :: int
  MemoryGB :: int
  UsedProfiles :: "(sliceProfile, int) gomap"
  FreeProfiles :: "(sliceProfile, int) gomap"

datatype slicingError =
    SliceTooSmall sliceProfile int
  | MemoryExceeded int int
  | NotEnoughFreeSlices sliceProfile int
  | NotEnoughSpareMemory int int

definition NewFullGPU :: "Model \<Rightarrow> int \<Rightarrow> int \<Rightarrow> sGPU" where
  "NewFullGPU model idx memoryGB =
     \<lparr>sModel = model, sIndex = idx, MemoryGB = memoryGB, UsedProfiles = [], FreeProfiles = []\<rparr>"

fun validate_profiles :: "int \<Rightarrow> (sliceProfile, int) gomap \<Rightarrow> slicingError + int" where
  "validate_profiles totalMemoryGB [] = Inr totalMemoryGB"
| "validate_profiles totalMemoryGB ((p, q) # ps) =
     (let mem = GetMemorySizeGB p in
      if mem < MinSliceMemoryGB then Inl (SliceTooSmall p mem)
      else validate_profiles (totalMemoryGB + mem * q) ps)"

definition Validate :: "sGPU \<Rightarrow> slicingError option" where
  "Validate g =
     (case validate_profiles 0 (UsedProfiles g) of
        Inl e \<Rightarrow> Some e
      | Inr used \<Rightarrow>
          (case validate_profiles used (FreeProfiles g) of
             Inl e \<Rightarrow> Some e
           | Inr totalMemoryGB \<Rightarrow>
               if totalMemoryGB > MemoryGB g then Some (MemoryExceeded totalMemoryGB (MemoryGB g)) else None))"

definition slicing_NewGPU ::
  "Model \<Rightarrow> int \<Rightarrow> int \<Rightarrow> (sliceProfile, int) gomap \<Rightarrow> (sliceProfile, int) gomap \<Rightarrow> slicingError + sGPU" where
  "slicing_NewGPU model idx memoryGB usedProfiles freeProfiles =
     (let g = \<lparr>sModel = model, sIndex = idx, MemoryGB = memoryGB, UsedProfiles = usedProfiles, FreeProfiles = freeProfiles\<rparr>
      in case Validate g of Some e \<Rightarrow> Inl e | None \<Rightarrow> Inr g)"

text \<open>\<open>None\<close> is the panic.\<close>

definition slicing_NewGpuOrPanic ::
  "Model \<Rightarrow> int \<Rightarrow> int \<Rightarrow> (sliceProfile, int) gomap \<Rightarrow> (sliceProfile, int) gomap \<Rightarrow> sGPU option" where
  "slicing_NewGpuOrPanic model idx memoryGB usedProfiles freeProfiles =
     (case slicing_NewGPU model idx memoryGB usedProfiles freeProfiles of Inl _ \<Rightarrow> None | Inr g \<Rightarrow> Some g)"

definition sGPU_GetGeometry :: "sGPU \<Rightarrow> (sliceProfile, int) gomap" where
  "sGPU_GetGeometry g = gm_add_all (gm_add_all [] (UsedProfiles g)) (FreeProfiles g)"

definition sGPU_Clone :: "sGPU \<Rightarrow> sGPU" where
  "sGPU_Clone g =
     \<lparr>sModel = sModel g, sIndex = sIndex g, MemoryGB = MemoryGB g,
      UsedProfiles = gm_put_all [] (UsedProfiles g), FreeProfiles = gm_put_all [] (FreeProfiles g)\<rparr>"

definition getTotSlicesMemory :: "sGPU \<Rightarrow> int" where
  "getTotSlicesMemory g =
     (\<Sum>(p, q)\<leftarrow>UsedProfiles g. GetMemorySizeGB p * q) + (\<Sum>(p, q)\<leftarrow>FreeProfiles g. GetMemorySizeGB p * q)"

definition canCreateMoreSlices :: "sGPU \<Rightarrow> bool" where
  "canCreateMoreSlices g \<longleftrightarrow> MemoryGB g - getTotSlicesMemory g \<ge> MinSliceMemoryGB"

definition sGPU_HasFreeCapacity :: "sGPU \<Rightarrow> bool" where
  "sGPU_HasFreeCapacity g \<longleftrightarrow> (if length (FreeProfiles g) > 0 then True else canCreateMoreSlices g)"

fun slicing_addPod_loop :: "sGPU \<Rightarrow> (sliceProfile, int) gomap \<Rightarrow> slicingError option \<times> sGPU" where
  "slicing_addPod_loop g [] = (None, g)"
| "slicing_addPod_loop g ((r, q) # requested) =
     (if gm_get (FreeProfiles g) r < q then (Some (NotEnoughFreeSlices r q), g)
      else slicing_addPod_loop
        (g\<lparr>FreeProfiles := gm_add r (- q) (FreeProfiles g), UsedProfiles := gm_add r q (UsedProfiles g)\<rparr>) requested)"

definition sGPU_AddPod :: "('ni, 'q) k8sLib \<Rightarrow> sGPU \<Rightarrow> 'q Pod \<Rightarrow> slicingError option \<times> sGPU" where
  "sGPU_AddPod K g pod = slicing_addPod_loop g (slicing_GetRequestedProfiles K pod)"

definition createSlices :: "sGPU \<Rightarrow> int \<Rightarrow> int \<Rightarrow> slicingError option \<times> sGPU" where
  "createSlices g sizeGb num =
     (let spareMemory = MemoryGB g - getTotSlicesMemory g in
      if spareMemory < sizeGb * num then (Some (NotEnoughSpareMemory num sizeGb), g)
      else (None, g\<lparr>FreeProfiles := gm_add (NewProfile sizeGb) num (FreeProfiles g)\<rparr>))"

definition createSlice :: "sGPU \<Rightarrow> int \<Rightarrow> slicingError option \<times> sGPU" where
  "createSlice g sizeGb = createSlices g sizeGb 1"

text \<open>
  The keys of the required map are of the interface type \<^verbatim>\<open>gpu.Slice\<close>, and the code asserts that each is a
  slicing profile; \<open>None\<close> is the panic of a failed assertion.
\<close>

fun as_profiles :: "(Slice, int) gomap \<Rightarrow> (sliceProfile, int) gomap option" where
  "as_profiles [] = Some []"
| "as_profiles ((SlicingProfile p, q) # l) = map_option ((#) (p, q)) (as_profiles l)"
| "as_profiles ((MigProfile _, _) # l) = None"

fun missing_loop :: "sGPU \<Rightarrow> (sliceProfile, int) gomap \<Rightarrow> (sliceProfile, int) gomap \<Rightarrow> (sliceProfile, int) gomap" where
  "missing_loop g missingSlices [] = missingSlices"
| "missing_loop g missingSlices ((requiredProfile, requiredQuantity) # required) =
     (let diff = requiredQuantity - gm_get (FreeProfiles g) requiredProfile in
      missing_loop g (if diff > 0 then gm_put requiredProfile diff missingSlices else missingSlices) required)"

definition getMissingSlices :: "sGPU \<Rightarrow> (sliceProfile, int) gomap \<Rightarrow> (sliceProfile, int) gomap" where
  "getMissingSlices g required = missing_loop g [] required"

text \<open>
  The two loops that create slices of one profile: until \<open>n\<close> are created or one does not fit, and, where
  \<open>needSpare\<close> is set, only while the GPU has spare memory.
\<close>

type_synonym slicingState = "(sliceProfile, int) gomap \<times> bool \<times> sGPU"

fun create_loop :: "bool \<Rightarrow> sliceProfile \<Rightarrow> nat \<Rightarrow> slicingState \<Rightarrow> slicingState" where
  "create_loop needSpare p 0 s = s"
| "create_loop needSpare p (Suc n) (missingSlices, updated, g) =
     (if needSpare \<and> \<not> canCreateMoreSlices g then (missingSlices, updated, g)
      else case createSlice g (GetMemorySizeGB p) of
        (Some _, _) \<Rightarrow> (missingSlices, updated, g)
      | (None, g') \<Rightarrow> create_loop needSpare p n (gm_add p (- 1) missingSlices, True, g'))"

fun restore_slices :: "(sliceProfile, int) gomap \<Rightarrow> sGPU \<Rightarrow> sGPU" where
  "restore_slices [] g = g"
| "restore_slices ((k, v) # original) g = restore_slices original (snd (createSlices g (GetMemorySizeGB k) v))"

definition update_step :: "(sliceProfile, int) gomap \<Rightarrow> sliceProfile \<Rightarrow> slicingState \<Rightarrow> slicingState" where
  "update_step originalFreeProfiles p s =
     (case (case s of (missingSlices, updated, g) \<Rightarrow>
              if canCreateMoreSlices g then create_loop False p (nat (gm_get missingSlices p)) s else s) of
        (missingSlices, updated, g) \<Rightarrow>
          let g1 = g\<lparr>FreeProfiles := filter (\<lambda>(k, _). \<not> gm_has originalFreeProfiles k) (FreeProfiles g)\<rparr> in
          case create_loop True p (nat (gm_get missingSlices p)) (missingSlices, updated, g1) of
            (missingSlices', updated', g2) \<Rightarrow> (missingSlices', updated', restore_slices originalFreeProfiles g2))"

fun update_steps :: "(sliceProfile, int) gomap \<Rightarrow> sliceProfile list \<Rightarrow> slicingState \<Rightarrow> slicingState" where
  "update_steps originalFreeProfiles [] s = s"
| "update_steps originalFreeProfiles (p # ps) s = update_steps originalFreeProfiles ps (update_step originalFreeProfiles p s)"

definition update_slices :: "sGPU \<Rightarrow> (sliceProfile, int) gomap \<Rightarrow> bool \<times> sGPU" where
  "update_slices g required =
     (let missingSlices = getMissingSlices g required in
      if length missingSlices = 0 then (False, g)
      else let sorted = sliceStable (\<lambda>a b. GetMemorySizeGB a < GetMemorySizeGB b) (map fst missingSlices) in
        case update_steps (CopyMap (FreeProfiles g)) sorted (missingSlices, False, g) of
          (_, updated, g') \<Rightarrow> (updated, g'))"

definition sGPU_UpdateGeometryFor :: "sGPU \<Rightarrow> (Slice, int) gomap \<Rightarrow> (bool \<times> sGPU) option" where
  "sGPU_UpdateGeometryFor g slices = map_option (update_slices g) (as_profiles slices)"

section \<open>Sizes\<close>

lemma TrimPrefix_profile: "TrimPrefix (Itoa n @ ''gb'') profileNamePrefix = Itoa n @ ''gb''"
proof -
  have "\<not> HasPrefix (Itoa n @ ''gb'') profileNamePrefix"
  proof
    assume "HasPrefix (Itoa n @ ''gb'') profileNamePrefix"
    then obtain r where "Itoa n @ ''gb'' = ''nvidia.com/gpu-'' @ r" by (auto simp: HasPrefix_iff profileNamePrefix_def)
    then have "hd (Itoa n @ ''gb'') = CHR ''n''" by simp
    moreover have "hd (Itoa n @ ''gb'') = CHR ''-'' \<or> is_digit (hd (Itoa n @ ''gb''))"
      using format_nat_digits [of "nat n"] format_nat_digits [of "nat (- n)"] format_nat_not_Nil [of "nat n"]
      by (auto simp: Itoa_def hd_append)
    ultimately show False by (auto simp: is_digit_def)
  qed
  then show ?thesis by (simp add: TrimPrefix_def)
qed

lemma GetMemorySizeGB_NewProfile: "int64_range n \<Longrightarrow> GetMemorySizeGB (NewProfile n) = n"
  by (simp add: GetMemorySizeGB_def NewProfile_def TrimPrefix_profile TrimSuffix_append Atoi_Itoa)

lemma GetMemorySizeGB_range: "int64_range (GetMemorySizeGB p)"
  using Atoi_range by (auto simp: GetMemorySizeGB_def int64_range_def split: option.splits)

lemma NewProfile_size: "GetMemorySizeGB (NewProfile (GetMemorySizeGB p)) = GetMemorySizeGB p"
  by (rule GetMemorySizeGB_NewProfile [OF GetMemorySizeGB_range])

text \<open>The memory of a map of slices.\<close>

definition slice_memory :: "(sliceProfile, int) gomap \<Rightarrow> int" where
  "slice_memory m = (\<Sum>(p, q)\<leftarrow>m. GetMemorySizeGB p * q)"

lemma slice_memory_simps [simp]:
  "slice_memory [] = 0" "slice_memory ((p, q) # m) = GetMemorySizeGB p * q + slice_memory m"
  by (simp_all add: slice_memory_def)

lemma getTotSlicesMemory_eq: "getTotSlicesMemory g = slice_memory (UsedProfiles g) + slice_memory (FreeProfiles g)"
  by (simp add: getTotSlicesMemory_def slice_memory_def)

lemma slice_memory_put:
  "gm_ok m \<Longrightarrow> slice_memory (gm_put p q m) = slice_memory m + GetMemorySizeGB p * (q - gm_get m p)"
proof (induction m)
  case (Cons e m)
  obtain k v where e: "e = (k, v)" by fastforce
  with Cons.prems have ok: "gm_ok m" "k \<notin> fst ` set m" by (simp_all add: gm_ok_Cons)
  then have "gm_get m k = 0" by (simp add: gm_get_not_has gm_has_iff)
  with Cons.IH [OF ok(1)] show ?case by (auto simp: e gm_put_def gm_get_Cons algebra_simps)
qed (simp add: gm_put_def)

lemma slice_memory_add: "gm_ok m \<Longrightarrow> slice_memory (gm_add p q m) = slice_memory m + GetMemorySizeGB p * q"
  by (simp add: gm_add_def slice_memory_put)

section \<open>Well-formed maps of slices\<close>

text \<open>No negative quantities and no slices of negative size.\<close>

definition slices_ok :: "(sliceProfile, int) gomap \<Rightarrow> bool" where
  "slices_ok m \<longleftrightarrow> gm_ok m \<and> (\<forall>(p, q)\<in>set m. 0 \<le> q \<and> 0 \<le> GetMemorySizeGB p)"

definition slicing_ok :: "sGPU \<Rightarrow> bool" where
  "slicing_ok g \<longleftrightarrow> slices_ok (UsedProfiles g) \<and> slices_ok (FreeProfiles g) \<and> getTotSlicesMemory g \<le> MemoryGB g"

lemma slices_ok_map_of: "slices_ok m \<longleftrightarrow> gm_ok m \<and> (\<forall>p q. map_of m p = Some q \<longrightarrow> 0 \<le> q \<and> 0 \<le> GetMemorySizeGB p)"
  using gm_ok_get_iff [of m] by (auto simp: slices_ok_def Ball_def)

lemma slices_ok_nonneg: "slices_ok m \<Longrightarrow> 0 \<le> gm_get m p"
  by (auto simp: slices_ok_map_of gm_get_def split: option.splits)

lemma slices_ok_put: "slices_ok m \<Longrightarrow> 0 \<le> q \<Longrightarrow> 0 \<le> GetMemorySizeGB p \<Longrightarrow> slices_ok (gm_put p q m)"
  by (auto simp: slices_ok_map_of gomap_ok gomap_simps)

lemma slices_ok_filter: "slices_ok m \<Longrightarrow> slices_ok (filter P m)"
  by (auto simp: slices_ok_def gomap_ok)

lemma slice_memory_nonneg: "slices_ok m \<Longrightarrow> 0 \<le> slice_memory m"
  by (induction m) (auto simp: slices_ok_def gm_ok_Cons)

lemma slice_memory_filter: "slices_ok m \<Longrightarrow> slice_memory (filter P m) \<le> slice_memory m"
proof (induction m)
  case (Cons e m)
  then have "slices_ok m" by (auto simp: slices_ok_def gm_ok_Cons)
  moreover have "0 \<le> GetMemorySizeGB (fst e) * snd e" using Cons.prems by (auto simp: slices_ok_def)
  ultimately show ?case using Cons.IH by (cases e) auto
qed simp

section \<open>Updating keeps the GPU within its memory\<close>

lemma createSlices_ok:
  assumes "slicing_ok g" "0 \<le> GetMemorySizeGB p" "0 \<le> n"
  shows "slicing_ok (snd (createSlices g (GetMemorySizeGB p) n))"
proof (cases "MemoryGB g - getTotSlicesMemory g < GetMemorySizeGB p * n")
  case False
  let ?p = "NewProfile (GetMemorySizeGB p)"
  have free: "slices_ok (FreeProfiles g)" using assms(1) by (simp add: slicing_ok_def)
  then have "0 \<le> gm_get (FreeProfiles g) ?p + n" using assms(3) slices_ok_nonneg [OF free, of ?p] by linarith
  then have "slices_ok (gm_add ?p n (FreeProfiles g))" "gm_ok (FreeProfiles g)"
    using free assms(2) by (simp_all add: gm_add_def slices_ok_put NewProfile_size) (simp add: slices_ok_def)
  with False assms(1) show ?thesis
    by (auto simp: createSlices_def Let_def slicing_ok_def getTotSlicesMemory_eq slice_memory_add NewProfile_size)
qed (simp add: createSlices_def assms(1))

lemma createSlices_frame:
  "UsedProfiles (snd (createSlices g s n)) = UsedProfiles g" "MemoryGB (snd (createSlices g s n)) = MemoryGB g"
  "sIndex (snd (createSlices g s n)) = sIndex g" "sModel (snd (createSlices g s n)) = sModel g"
  by (simp_all add: createSlices_def Let_def)

text \<open>What every step of an update keeps: the used slices, the size of the GPU and its identity.\<close>

definition same_gpu :: "sGPU \<Rightarrow> sGPU \<Rightarrow> bool" where
  "same_gpu g g' \<longleftrightarrow> UsedProfiles g' = UsedProfiles g \<and> MemoryGB g' = MemoryGB g \<and> sIndex g' = sIndex g \<and> sModel g' = sModel g"

lemma same_gpu_simps [simp]:
  "same_gpu g g" "same_gpu g (snd (createSlices g' s n)) = same_gpu g g'" "same_gpu g (g'\<lparr>FreeProfiles := f\<rparr>) = same_gpu g g'"
  by (auto simp: same_gpu_def createSlices_frame)

lemma create_loop_step:
  "create_loop needSpare p (Suc n) (m, u, g) =
     (if needSpare \<and> \<not> canCreateMoreSlices g \<or> fst (createSlice g (GetMemorySizeGB p)) \<noteq> None then (m, u, g)
      else create_loop needSpare p n (gm_add p (- 1) m, True, snd (createSlice g (GetMemorySizeGB p))))"
  by (auto split: prod.splits option.splits)

lemma create_loop_inv:
  assumes "\<And>g. I g \<Longrightarrow> I (snd (createSlices g (GetMemorySizeGB p) 1))" "I (snd (snd s))"
  shows "I (snd (snd (create_loop needSpare p n s)))"
  using assms(2)
proof (induction n arbitrary: s)
  case (Suc n)
  obtain m u g where "s = (m, u, g)" by (metis prod.collapse)
  with Suc assms(1) show ?case by (simp add: create_loop_step createSlice_def del: create_loop.simps(2))
qed simp

lemma restore_slices_inv:
  assumes "\<And>k v g. (k, v) \<in> set original \<Longrightarrow> I g \<Longrightarrow> I (snd (createSlices g (GetMemorySizeGB k) v))" "I g"
  shows "I (restore_slices original g)"
  using assms by (induction original arbitrary: g) auto

lemma missing_loop_keys: "fst ` set (missing_loop g m required) \<subseteq> fst ` set m \<union> fst ` set required"
proof (induction g m required rule: missing_loop.induct)
  case (2 g m p q required)
  let ?d = "q - gm_get (FreeProfiles g) p"
  let ?m = "if ?d > 0 then gm_put p ?d m else m"
  have "fst ` set ?m \<subseteq> insert p (fst ` set m)" by (simp add: keys_gm_put subset_insertI)
  from Un_mono [OF this order_refl [of "fst ` set required"]]
  have "fst ` set ?m \<union> fst ` set required \<subseteq> fst ` set m \<union> fst ` set ((p, q) # required)"
    by (simp only: list.set image_insert fst_conv Un_insert_left Un_insert_right)
  then show ?case unfolding missing_loop.simps Let_def by (rule order_trans [OF "2" [OF refl]])
qed simp

text \<open>A property of the GPU that creating and dropping free slices keeps is kept by the whole update.\<close>

lemma update_slices_inv:
  assumes create: "\<And>g p. p \<in> fst ` set required \<Longrightarrow> I g \<Longrightarrow> I (snd (createSlices g (GetMemorySizeGB p) 1))"
    and restore: "\<And>k v g'. (k, v) \<in> set (FreeProfiles g) \<Longrightarrow> I g' \<Longrightarrow> I (snd (createSlices g' (GetMemorySizeGB k) v))"
    and drop: "\<And>g P. I g \<Longrightarrow> I (g\<lparr>FreeProfiles := filter P (FreeProfiles g)\<rparr>)"
    and "gm_ok (FreeProfiles g)" "I g"
  shows "I (snd (update_slices g required))"
proof -
  let ?original = "CopyMap (FreeProfiles g)"
  have copy: "set ?original = set (FreeProfiles g)"
    using assms(4) by (simp add: CopyMap_def gm_put_all_self)
  have step: "I (snd (snd (update_step ?original p s)))" if "p \<in> fst ` set required" "I (snd (snd s))" for p s
  proof -
    obtain m u h where s: "s = (m, u, h)" by (metis prod.collapse)
    let ?s1 = "if canCreateMoreSlices h then create_loop False p (nat (gm_get m p)) s else s"
    have "I (snd (snd (create_loop False p (nat (gm_get m p)) s)))" by (rule create_loop_inv [where I = I]) (simp_all add: create that)
    then have 1: "I (snd (snd ?s1))" using that(2) by simp
    obtain m1 u1 h1 where s1: "?s1 = (m1, u1, h1)" by (metis prod.collapse)
    let ?h = "h1\<lparr>FreeProfiles := filter (\<lambda>(k, _). \<not> gm_has ?original k) (FreeProfiles h1)\<rparr>"
    have "I ?h" using 1 s1 by (intro drop) simp
    then have 2: "I (snd (snd (create_loop True p (nat (gm_get m1 p)) (m1, u1, ?h))))"
      by (intro create_loop_inv [where I = I]) (simp_all add: create that)
    obtain m2 u2 h2 where s2: "create_loop True p (nat (gm_get m1 p)) (m1, u1, ?h) = (m2, u2, h2)" by (metis prod.collapse)
    have "I h2" using 2 by (simp add: s2)
    then have "I (restore_slices ?original h2)" by (intro restore_slices_inv [where I = I]) (simp_all add: copy restore)
    moreover have "(case s of (missingSlices, updated, g) \<Rightarrow>
        if canCreateMoreSlices g then create_loop False p (nat (gm_get missingSlices p)) s else s) = (m1, u1, h1)"
      unfolding s prod.case using s1 unfolding s .
    ultimately show ?thesis unfolding update_step_def by (simp add: Let_def s2)
  qed
  have steps: "I (snd (snd (update_steps ?original ps s)))" if "set ps \<subseteq> fst ` set required" "I (snd (snd s))" for ps s
    using that
  proof (induction ps arbitrary: s)
    case (Cons p ps)
    then have "I (snd (snd (update_step ?original p s)))" by (intro step) simp_all
    with Cons show ?case by simp
  qed simp
  have "fst ` set (getMissingSlices g required) \<subseteq> fst ` set required"
    using missing_loop_keys [of g "[]" required] by (simp add: getMissingSlices_def)
  with steps assms(5) show ?thesis by (auto simp: update_slices_def Let_def case_prod_beta)
qed

lemma update_slices_same: "gm_ok (FreeProfiles g) \<Longrightarrow> same_gpu g (snd (update_slices g required))"
  by (rule update_slices_inv [where I = "same_gpu g"]) simp_all

lemma update_slices_free_ok: "gm_ok (FreeProfiles g) \<Longrightarrow> gm_ok (FreeProfiles (snd (update_slices g required)))"
  by (rule update_slices_inv [where I = "\<lambda>g. gm_ok (FreeProfiles g)"]) (simp_all add: createSlices_def Let_def gomap_ok)

lemma update_slices_ok:
  assumes "slicing_ok g" "\<forall>(p, q)\<in>set required. 0 \<le> GetMemorySizeGB p"
  shows "slicing_ok (snd (update_slices g required))"
proof -
  have free: "slices_ok (FreeProfiles g)" "gm_ok (FreeProfiles g)" using assms(1) by (simp_all add: slicing_ok_def slices_ok_def)
  show ?thesis
  proof (rule update_slices_inv [where I = slicing_ok])
    show "slicing_ok (snd (createSlices h (GetMemorySizeGB p) 1))" if "p \<in> fst ` set required" "slicing_ok h" for h p
      using that assms(2) by (intro createSlices_ok) auto
    show "slicing_ok (snd (createSlices h (GetMemorySizeGB k) v))" if "(k, v) \<in> set (FreeProfiles g)" "slicing_ok h" for k v h
      using that free(1) by (intro createSlices_ok) (auto simp: slices_ok_def)
    show "slicing_ok (h\<lparr>FreeProfiles := filter P (FreeProfiles h)\<rparr>)" if "slicing_ok h" for h P
      using that slice_memory_filter [of "FreeProfiles h" P] slices_ok_filter [of "FreeProfiles h" P]
      by (auto simp: slicing_ok_def getTotSlicesMemory_eq)
  qed (use assms(1) free in auto)
qed

section \<open>Adding pods\<close>

lemma slicing_addPod_frame:
  assumes "gm_ok (UsedProfiles g)" "gm_ok (FreeProfiles g)"
  shows "gm_ok (UsedProfiles (snd (slicing_addPod_loop g l))) \<and> gm_ok (FreeProfiles (snd (slicing_addPod_loop g l))) \<and>
    (\<forall>p. gm_get (UsedProfiles (snd (slicing_addPod_loop g l))) p + gm_get (FreeProfiles (snd (slicing_addPod_loop g l))) p =
      gm_get (UsedProfiles g) p + gm_get (FreeProfiles g) p) \<and>
    getTotSlicesMemory (snd (slicing_addPod_loop g l)) = getTotSlicesMemory g \<and> MemoryGB (snd (slicing_addPod_loop g l)) = MemoryGB g"
  using assms
proof (induction g l rule: slicing_addPod_loop.induct)
  case (2 g r q l)
  let ?g = "g\<lparr>FreeProfiles := gm_add r (- q) (FreeProfiles g), UsedProfiles := gm_add r q (UsedProfiles g)\<rparr>"
  have ok: "gm_ok (UsedProfiles ?g)" "gm_ok (FreeProfiles ?g)" using "2.prems" by (simp_all add: gomap_ok)
  have "getTotSlicesMemory ?g = getTotSlicesMemory g" using "2.prems" by (simp add: getTotSlicesMemory_eq slice_memory_add)
  with "2.IH" ok "2.prems" show ?case by (auto simp: gomap_simps)
qed simp

lemma slicing_addPod_success:
  assumes "gm_ok l"
  shows "fst (slicing_addPod_loop g l) = None \<longleftrightarrow> (\<forall>(p, q)\<in>set l. q \<le> gm_get (FreeProfiles g) p)"
  using assms
proof (induction g l rule: slicing_addPod_loop.induct)
  case (2 g r q l)
  then have "gm_ok l" "r \<notin> fst ` set l" by (simp_all add: gm_ok_Cons)
  then have "(\<forall>(p, v)\<in>set l. v \<le> gm_get (gm_add r (- q) (FreeProfiles g)) p) \<longleftrightarrow> (\<forall>(p, v)\<in>set l. v \<le> gm_get (FreeProfiles g) p)"
    by (intro ball_cong refl) (force simp: gomap_simps)
  with "2" \<open>gm_ok l\<close> show ?case by auto
qed simp

lemma slicing_addPod_effect:
  assumes "gm_ok l" "fst (slicing_addPod_loop g l) = None"
  shows "gm_get (FreeProfiles (snd (slicing_addPod_loop g l))) p = gm_get (FreeProfiles g) p - gm_get l p"
  using assms
proof (induction g l rule: slicing_addPod_loop.induct)
  case (2 g r q l)
  then have "gm_ok l" "gm_get l r = 0" by (simp_all add: gm_ok_Cons gm_get_not_has gm_has_iff)
  with "2" show ?case by (auto simp: gomap_simps gm_get_Cons split: if_splits)
qed simp

lemma sGPU_GetGeometry_get:
  "gm_ok (UsedProfiles g) \<Longrightarrow> gm_ok (FreeProfiles g) \<Longrightarrow>
   gm_get (sGPU_GetGeometry g) p = gm_get (UsedProfiles g) p + gm_get (FreeProfiles g) p"
  by (simp add: sGPU_GetGeometry_def gm_get_add_all_ok)

lemma slicing_requested_ok: "gm_ok res \<Longrightarrow> gm_ok (slicing_requested val res l)"
  by (induction val res l rule: slicing_requested.induct) (auto simp: gomap_ok split: option.splits)

lemma slicing_GetRequestedProfiles_ok [simp]: "gm_ok (slicing_GetRequestedProfiles K pod)"
  by (simp add: slicing_GetRequestedProfiles_def slicing_requested_ok)

section \<open>Properties\<close>

text \<open>C18: Updating the slices of a GPU never promises more memory than the GPU has: slices that fit before the
  update fit after it, no quantity becomes negative, and the used slices and the size of the GPU do not change.\<close>

theorem slicing_memory_bounded:
  assumes "slicing_ok g" "as_profiles slices = Some required" "\<forall>(p, q)\<in>set required. 0 \<le> GetMemorySizeGB p"
  shows "\<exists>updated g'. sGPU_UpdateGeometryFor g slices = Some (updated, g') \<and> slicing_ok g' \<and>
    getTotSlicesMemory g' \<le> MemoryGB g \<and> UsedProfiles g' = UsedProfiles g \<and> MemoryGB g' = MemoryGB g"
proof -
  let ?g = "snd (update_slices g required)"
  have "gm_ok (FreeProfiles g)" using assms(1) by (simp add: slicing_ok_def slices_ok_def)
  then have "same_gpu g ?g" by (rule update_slices_same)
  with update_slices_ok [OF assms(1,3)] show ?thesis
    by (auto simp: sGPU_UpdateGeometryFor_def assms(2) same_gpu_def slicing_ok_def intro!: exI [of _ "fst (update_slices g required)"] exI [of _ ?g])
qed

text \<open>A GPU of 20 GB with a used slice of 10 GB and a free one of 5 GB.\<close>

definition shared_gpu :: sGPU where
  "shared_gpu = \<lparr>sModel = ''A10'', sIndex = 0, MemoryGB = 20, UsedProfiles = [(''10gb'', 1)], FreeProfiles = [(''5gb'', 1)]\<rparr>"

lemma shared_sizes: "GetMemorySizeGB ''10gb'' = 10" "GetMemorySizeGB ''5gb'' = 5" "GetMemorySizeGB ''8gb'' = 8"
  by code_simp+

lemma shared_gpu_ok: "slicing_ok shared_gpu"
  by (simp add: slicing_ok_def slices_ok_def shared_gpu_def gm_ok_def getTotSlicesMemory_def shared_sizes)

theorem slicing_memory_bounded_witness:
  "\<exists>updated g'. sGPU_UpdateGeometryFor shared_gpu [(SlicingProfile ''8gb'', 1)] = Some (updated, g') \<and>
     getTotSlicesMemory g' \<le> 20 \<and> FreeProfiles g' = [(''8gb'', 1)]"
proof -
  have "map_option (\<lambda>(u, g). FreeProfiles g) (sGPU_UpdateGeometryFor shared_gpu [(SlicingProfile ''8gb'', 1)]) = Some [(''8gb'', 1)]"
    by code_simp
  with slicing_memory_bounded [OF shared_gpu_ok, of "[(SlicingProfile ''8gb'', 1)]" "[(''8gb'', 1)]"] show ?thesis
    by (auto simp: shared_sizes) (simp add: shared_gpu_def)
qed

text \<open>A pod fits on a shared GPU exactly when every slice it asks for is free in the quantity it asks for; its
  slices then move from free to used.  Whether or not it fits, the slices of the GPU stay the same in number
  and in memory.\<close>

lemma slicing_add_pod:
  assumes "gm_ok (UsedProfiles g)" "gm_ok (FreeProfiles g)"
  shows "(fst (sGPU_AddPod K g pod) = None \<longleftrightarrow> (\<forall>(p, q)\<in>set (slicing_GetRequestedProfiles K pod). q \<le> gm_get (FreeProfiles g) p)) \<and>
    (\<forall>p. gm_get (sGPU_GetGeometry (snd (sGPU_AddPod K g pod))) p = gm_get (sGPU_GetGeometry g) p) \<and>
    getTotSlicesMemory (snd (sGPU_AddPod K g pod)) = getTotSlicesMemory g \<and>
    (fst (sGPU_AddPod K g pod) = None \<longrightarrow>
      (\<forall>p. gm_get (FreeProfiles (snd (sGPU_AddPod K g pod))) p = gm_get (FreeProfiles g) p - gm_get (slicing_GetRequestedProfiles K pod) p))"
proof -
  let ?l = "slicing_GetRequestedProfiles K pod"
  note frame = slicing_addPod_frame [OF assms, of ?l]
  show ?thesis
    using frame assms slicing_addPod_success [of ?l g] slicing_addPod_effect [of ?l g]
    by (simp add: sGPU_AddPod_def sGPU_GetGeometry_get)
qed

lemma slicing_add_pod_applied:
  "fst (sGPU_AddPod int_k8s shared_gpu (pod_requesting ''p'' [(''nvidia.com/gpu-5gb'', 1)])) = None \<and>
   gm_get (FreeProfiles (snd (sGPU_AddPod int_k8s shared_gpu (pod_requesting ''p'' [(''nvidia.com/gpu-5gb'', 1)])))) ''5gb'' = 0"
proof -
  have "slicing_GetRequestedProfiles int_k8s (pod_requesting ''p'' [(''nvidia.com/gpu-5gb'', 1)]) = [(''5gb'', 1)]" by code_simp
  moreover have "gm_ok (UsedProfiles shared_gpu)" "gm_ok (FreeProfiles shared_gpu)" by (simp_all add: shared_gpu_def gm_ok_def)
  ultimately show ?thesis
    using slicing_add_pod [of shared_gpu int_k8s "pod_requesting ''p'' [(''nvidia.com/gpu-5gb'', 1)]"]
    by (simp add: shared_gpu_def gm_get_def)
qed

text \<open>
  An update can report success and leave the GPU as it was: the new slice of 5 GB is dropped together with the
  original free ones, of which only the original number is restored.  An update can also create slices of no
  size, which \<open>Validate\<close> refuses.
\<close>

lemma update_drops_new_slice:
  "map_option (\<lambda>(u, g). (u, FreeProfiles g)) (sGPU_UpdateGeometryFor shared_gpu [(SlicingProfile ''5gb'', 2)]) = Some (True, [(''5gb'', 1)])"
  by code_simp

lemma update_creates_empty_slice:
  "map_option (\<lambda>(u, g). Validate g) (sGPU_UpdateGeometryFor shared_gpu [(SlicingProfile ''0gb'', 1)]) = Some (Some (SliceTooSmall ''0gb'' 0))"
  by code_simp

end
