(* ===== verification/SlicingNode.thy ===== *)
theory SlicingNode
  imports Slicing NodeLoops
begin

text \<open>
  Nodes whose GPUs are shared by memory slices (\<^verbatim>\<open>pkg/gpu/slicing/node.go\<close>).  The loops over the GPUs are those of
  \<open>NodeLoops\<close>; the argument \<open>K\<close> is the interface to the Kubernetes libraries.
\<close>

section \<open>Definitions\<close>

record 'ni sNode =
  snName :: string
  snGPUs :: "sGPU list"
  snNodeInfo :: 'ni

datatype sNodeError = sNilNode | sBadLabel labelError | sBadGPU slicingError | sNotEnoughFreeSlices

fun sgpus_from_annotations ::
  "Model \<Rightarrow> int \<Rightarrow> (int, StatusAnnotation list) gomap \<Rightarrow> slicingError + sGPU list" where
  "sgpus_from_annotations gpuModel gpuMemoryGB [] = Inr []"
| "sgpus_from_annotations gpuModel gpuMemoryGB ((gpuIdx, gpuAnnotations) # groups) =
     (let (usedProfiles, freeProfiles) = annotated_devices [] [] gpuAnnotations in
      case slicing_NewGPU gpuModel gpuIdx gpuMemoryGB usedProfiles freeProfiles of
        Inl e \<Rightarrow> Inl e
      | Inr g \<Rightarrow>
          (case sgpus_from_annotations gpuModel gpuMemoryGB groups of
             Inl e \<Rightarrow> Inl e
           | Inr gpus \<Rightarrow> Inr (g # gpus)))"

definition slicing_extractGPUs :: "'q Node \<Rightarrow> sNodeError + sGPU list" where
  "slicing_extractGPUs n =
     (case GetModel n of
        Inl e \<Rightarrow> Inl (sBadLabel e)
      | Inr gpuModel \<Rightarrow>
          (case GetCount n of
             Inl e \<Rightarrow> Inl (sBadLabel e)
           | Inr gpuCount \<Rightarrow>
               (case GetMemoryGB n of
                  Inl e \<Rightarrow> Inl (sBadLabel e)
                | Inr gpuMemoryGB \<Rightarrow>
                    (case sgpus_from_annotations gpuModel gpuMemoryGB
                            (StatusAnnotationList_GroupByGpuIndex (fst (ParseNodeAnnotations n))) of
                       Inl e \<Rightarrow> Inl (sBadGPU e)
                     | Inr result \<Rightarrow>
                         Inr (result @ map (\<lambda>i. NewFullGPU gpuModel i gpuMemoryGB) [int (length result)..gpuCount - 1])))))"

definition slicing_NewNode :: "('ni, 'q) k8sLib \<Rightarrow> 'ni \<Rightarrow> sNodeError + 'ni sNode" where
  "slicing_NewNode K n =
     (case nodeInfoNode K n of
        None \<Rightarrow> Inl sNilNode
      | Some node \<Rightarrow>
          (case slicing_extractGPUs node of
             Inl e \<Rightarrow> Inl e
           | Inr gpus \<Rightarrow> Inr \<lparr>snName = Name node, snGPUs = gpus, snNodeInfo = n\<rparr>))"

definition sNode_Clone :: "('ni, 'q) k8sLib \<Rightarrow> 'ni sNode \<Rightarrow> 'ni sNode" where
  "sNode_Clone K n =
     \<lparr>snName = snName n, snGPUs = map sGPU_Clone (snGPUs n), snNodeInfo = nodeInfoClone K (snNodeInfo n)\<rparr>"

definition sNode_Geometry :: "'ni sNode \<Rightarrow> (sliceProfile, int) gomap" where
  "sNode_Geometry n = sumGeometries sGPU_GetGeometry [] (snGPUs n)"

text \<open>The keys of a geometry are slicing profiles, so the assertion on them does not fail.\<close>

definition slicing_computeScalarResources :: "('ni, 'q) k8sLib \<Rightarrow> 'ni sNode \<Rightarrow> (ResourceName, int) gomap" where
  "slicing_computeScalarResources K n =
     scalarResources IsGpuSlice slicing_AsResourceName (allocatableScalarResources K (snNodeInfo n)) (sNode_Geometry n)"

text \<open>
  \<open>None\<close> is the panic of the first GPU's update when a required slice is not a slicing profile; the keys that
  the loop adds afterwards are profiles of the GPUs.
\<close>

definition sNode_UpdateGeometryFor :: "('ni, 'q) k8sLib \<Rightarrow> 'ni sNode \<Rightarrow> (Slice, int) gomap \<Rightarrow> (bool \<times> 'ni sNode) option" where
  "sNode_UpdateGeometryFor K n slices =
     (if length (snGPUs n) = 0 then Some (False, n)
      else if length slices = 0 then Some (False, n)
      else
        (case as_profiles (gm_put_all [] slices) of
           None \<Rightarrow> None
         | Some requiredSlices \<Rightarrow>
             let (anyGpuUpdated, gpus) = updateGPUs update_slices FreeProfiles requiredSlices (snGPUs n);
                 n' = n\<lparr>snGPUs := gpus\<rparr>;
                 resources = slicing_computeScalarResources K n'
             in Some (anyGpuUpdated, n'\<lparr>snNodeInfo := setAllocatableScalarResources K resources (snNodeInfo n')\<rparr>)))"

definition sNode_AddPod :: "('ni, 'q) k8sLib \<Rightarrow> 'ni sNode \<Rightarrow> 'q Pod \<Rightarrow> sNodeError option \<times> 'ni sNode" where
  "sNode_AddPod K n pod =
     (let (ok, gpus) = addPodToGPUs (sGPU_AddPod K) pod (snGPUs n) in
      if ok then (None, n\<lparr>snGPUs := gpus, snNodeInfo := nodeInfoAddPod K pod (snNodeInfo n)\<rparr>)
      else (Some sNotEnoughFreeSlices, n\<lparr>snGPUs := gpus\<rparr>))"

definition sNode_HasFreeCapacity :: "'ni sNode \<Rightarrow> bool" where
  "sNode_HasFreeCapacity n \<longleftrightarrow> list_ex sGPU_HasFreeCapacity (snGPUs n)"

section \<open>Shared GPUs as GPUs of a node\<close>

definition maps_ok :: "sGPU \<Rightarrow> bool" where
  "maps_ok g \<longleftrightarrow> gm_ok (UsedProfiles g) \<and> gm_ok (FreeProfiles g)"

interpretation shared: partitionable_gpu maps_ok update_slices sGPU_GetGeometry FreeProfiles "\<lambda>g p. gm_get (UsedProfiles g) p"
proof
  fix g r assume g: "maps_ok g"
  note same = update_slices_same [of g r]
  show "maps_ok (snd (update_slices g r))"
    using g same update_slices_free_ok [of g r] by (simp add: maps_ok_def same_gpu_def)
  show "(\<lambda>p. gm_get (UsedProfiles (snd (update_slices g r))) p) = (\<lambda>p. gm_get (UsedProfiles g) p)"
    using g same by (simp add: maps_ok_def same_gpu_def)
  show "gm_ok (sGPU_GetGeometry g)" by (simp add: sGPU_GetGeometry_def gomap_ok)
  show "gm_get (sGPU_GetGeometry g) s = gm_get (UsedProfiles g) s + gm_get (FreeProfiles g) s" for s
    using g by (simp add: maps_ok_def sGPU_GetGeometry_get)
qed

section \<open>Validation\<close>

lemma validate_profiles_eq:
  "validate_profiles tot ps = Inr t \<longleftrightarrow> (\<forall>(p, q)\<in>set ps. MinSliceMemoryGB \<le> GetMemorySizeGB p) \<and> t = tot + slice_memory ps"
  by (induction tot ps rule: validate_profiles.induct) (auto simp: Let_def)

lemma Validate_iff:
  "Validate g = None \<longleftrightarrow>
   (\<forall>(p, q)\<in>set (UsedProfiles g @ FreeProfiles g). MinSliceMemoryGB \<le> GetMemorySizeGB p) \<and> getTotSlicesMemory g \<le> MemoryGB g"
proof (cases "validate_profiles 0 (UsedProfiles g)")
  case (Inl e)
  then have "\<not> (\<forall>(p, q)\<in>set (UsedProfiles g). MinSliceMemoryGB \<le> GetMemorySizeGB p)"
    using validate_profiles_eq [of 0 "UsedProfiles g" "slice_memory (UsedProfiles g)"] by auto
  with Inl show ?thesis by (auto simp: Validate_def)
next
  case (Inr used)
  note u = Inr [unfolded validate_profiles_eq]
  show ?thesis
  proof (cases "validate_profiles used (FreeProfiles g)")
    case (Inl e)
    then have "\<not> (\<forall>(p, q)\<in>set (FreeProfiles g). MinSliceMemoryGB \<le> GetMemorySizeGB p)"
      using validate_profiles_eq [of used "FreeProfiles g" "used + slice_memory (FreeProfiles g)"] by auto
    with Inl Inr show ?thesis by (auto simp: Validate_def)
  next
    case r: (Inr t)
    then have "Validate g = None \<longleftrightarrow> t \<le> MemoryGB g" by (auto simp: Validate_def Inr)
    with r [unfolded validate_profiles_eq] u show ?thesis by (auto simp: getTotSlicesMemory_eq)
  qed
qed

lemma sgpus_from_annotations_valid:
  "sgpus_from_annotations model mem groups = Inr gpus \<Longrightarrow>
   map sIndex gpus = map fst groups \<and> (\<forall>g\<in>set gpus. Validate g = None \<and> MemoryGB g = mem \<and> sModel g = model)"
  by (induction groups arbitrary: gpus)
    (auto simp: slicing_NewGPU_def Let_def case_prod_beta split: sum.splits option.splits)

section \<open>Updating\<close>

lemma consume_keys: "gm_has (consume required free) s \<Longrightarrow> gm_has required s \<or> gm_has free s"
  by (induction required free rule: consume.induct) (auto simp: Let_def gomap_simps gm_has_Cons split: if_splits)

lemma updateGPUs_slicing_ok:
  assumes "list_all slicing_ok gpus" "\<forall>(p, q)\<in>set required. 0 \<le> GetMemorySizeGB p"
  shows "list_all slicing_ok (snd (updateGPUs update_slices FreeProfiles required gpus))"
  using assms
proof (induction gpus arbitrary: required)
  case (Cons g gpus)
  let ?g = "snd (update_slices g required)"
  have g: "slicing_ok ?g" using Cons.prems by (intro update_slices_ok) simp_all
  then have "\<forall>(p, q)\<in>set (FreeProfiles ?g). 0 \<le> GetMemorySizeGB p" by (auto simp: slicing_ok_def slices_ok_def)
  then have "\<forall>(p, q)\<in>set (consume required (FreeProfiles ?g)). 0 \<le> GetMemorySizeGB p"
    using consume_keys [of required "FreeProfiles ?g"] Cons.prems(2) by (fastforce simp: gm_has_iff)
  with Cons g show ?case by (simp add: updateGPUs_Cons Let_def del: updateGPUs.simps(2))
qed simp

lemma slicing_ok_maps: "slicing_ok g \<Longrightarrow> maps_ok g"
  by (simp add: slicing_ok_def slices_ok_def maps_ok_def)

lemma updateGPUs_used_profiles:
  assumes "list_all maps_ok gpus"
  shows "map UsedProfiles (snd (updateGPUs update_slices FreeProfiles required gpus)) = map UsedProfiles gpus"
  using assms
proof (induction gpus arbitrary: required)
  case (Cons g gpus)
  then have "same_gpu g (snd (update_slices g required))" by (intro update_slices_same) (simp add: maps_ok_def)
  with Cons show ?case by (simp add: updateGPUs_Cons Let_def same_gpu_def del: updateGPUs.simps(2))
qed simp

section \<open>Properties\<close>


text \<open>A node with two GPUs of 20 GB, of which the first has slices.\<close>

definition shared_node :: "int Node" where
  "shared_node =
     \<lparr>Name = ''n1'', Labels = [(''nvidia.com/gpu.product'', ''A10''), (''nvidia.com/gpu.count'', ''2''), (''nvidia.com/gpu.memory'', ''19500'')],
      Annotations = [(''nos.nebuly.com/status-gpu-0-10gb-used'', ''1''), (''nos.nebuly.com/status-gpu-0-5gb-free'', ''1'')],
      Taints = [], Capacity = [], Allocatable = []\<rparr>"

lemma shared_node_labels: "GetModel shared_node = Inr ''A10''" "GetCount shared_node = Inr 2" "GetMemoryGB shared_node = Inr 20"
proof -
  have "Atoi ''19500'' = Some 19500" "Atoi ''2'' = Some 2"
    by (simp_all add: Atoi_def parse_int_def parse_nat_def is_digit_def digit_val_def int64_range_def)
  then show "GetModel shared_node = Inr ''A10''" "GetCount shared_node = Inr 2" "GetMemoryGB shared_node = Inr 20"
    by (simp_all add: GetModel_def GetCount_def GetMemoryGB_def shared_node_def LabelNvidiaProduct_def LabelNvidiaCount_def LabelNvidiaMemory_def)
qed

lemma shared_node_status:
  "fst (ParseNodeAnnotations shared_node) =
     [\<lparr>stProfileName = ''10gb'', stIndex = 0, stStatus = StatusUsed, stQuantity = 1\<rparr>,
      \<lparr>stProfileName = ''5gb'', stIndex = 0, stStatus = StatusFree, stQuantity = 1\<rparr>]"
  by code_simp

lemma shared_node_gpus: "slicing_extractGPUs shared_node = Inr [shared_gpu, NewFullGPU ''A10'' 1 20]"
proof -
  have "StatusAnnotationList_GroupByGpuIndex (fst (ParseNodeAnnotations shared_node)) = [(0, fst (ParseNodeAnnotations shared_node))]"
    by (simp add: shared_node_status StatusAnnotationList_GroupByGpuIndex_def group_by_def gm_push_def gm_list_def gm_put_def)
  moreover have "annotated_devices [] [] (fst (ParseNodeAnnotations shared_node)) = ([(''10gb'', 1)], [(''5gb'', 1)])"
    by (simp add: shared_node_status StatusAnnotation_IsUsed_def StatusAnnotation_IsFree_def gm_put_def)
  moreover have "Validate shared_gpu = None"
    by (simp add: Validate_iff shared_gpu_def getTotSlicesMemory_def shared_sizes MinSliceMemoryGB_def)
  ultimately show ?thesis
    by (simp add: slicing_extractGPUs_def shared_node_labels slicing_NewGPU_def shared_gpu_def upto.simps)
qed

lemma shared_node_new:
  "\<exists>n. slicing_NewNode int_k8s (newNodeInfo int_k8s shared_node) = Inr n \<and> snGPUs n = [shared_gpu, NewFullGPU ''A10'' 1 20]"
  by (simp add: slicing_NewNode_def int_k8s_def shared_node_gpus)


text \<open>C39: Updating a node for the slices that pods ask for keeps every GPU within its memory and every used slice in
  place, and the node then advertises of each slice as many as its GPUs have, used and free.\<close>

theorem slicing_node_update:
  assumes "list_all slicing_ok (snGPUs n)" "gm_ok slices" "as_profiles slices = Some required"
    "list_all (\<lambda>(p, q). 0 \<le> GetMemorySizeGB p) required" "nodeInfo_law K" "snGPUs n \<noteq> []" "slices \<noteq> []"
  shows "\<exists>updated n'. sNode_UpdateGeometryFor K n slices = Some (updated, n') \<and> list_all slicing_ok (snGPUs n') \<and>
    map UsedProfiles (snGPUs n') = map UsedProfiles (snGPUs n) \<and>
    (\<forall>p. gm_has (sNode_Geometry n') p \<longrightarrow>
      gm_get (allocatableScalarResources K (snNodeInfo n')) (slicing_AsResourceName p) =
        (\<Sum>g\<leftarrow>snGPUs n'. gm_get (UsedProfiles g) p) + (\<Sum>g\<leftarrow>snGPUs n'. gm_get (FreeProfiles g) p))"
proof -
  let ?gpus = "snd (updateGPUs update_slices FreeProfiles required (snGPUs n))"
  let ?n1 = "n\<lparr>snGPUs := ?gpus\<rparr>"
  let ?n = "?n1\<lparr>snNodeInfo := setAllocatableScalarResources K (slicing_computeScalarResources K ?n1) (snNodeInfo n)\<rparr>"
  have maps: "list_all maps_ok (snGPUs n)" using assms(1) by (auto simp: list_all_iff slicing_ok_maps)
  have upd: "sNode_UpdateGeometryFor K n slices = Some (fst (updateGPUs update_slices FreeProfiles required (snGPUs n)), ?n)"
    using assms(2,3,6,7) by (simp add: sNode_UpdateGeometryFor_def gm_put_all_self Let_def case_prod_beta)
  have ok: "list_all slicing_ok (snGPUs ?n)"
    using assms(4) by (simp add: list_all_iff [of _ required] updateGPUs_slicing_ok [OF assms(1)])
  have advertised: "gm_get (allocatableScalarResources K (snNodeInfo ?n)) (slicing_AsResourceName p) =
      (\<Sum>g\<leftarrow>?gpus. gm_get (UsedProfiles g) p) + (\<Sum>g\<leftarrow>?gpus. gm_get (FreeProfiles g) p)" if "gm_has (sNode_Geometry ?n) p" for p
  proof -
    have "gm_get (slicing_computeScalarResources K ?n1) (slicing_AsResourceName p) = gm_get (sNode_Geometry ?n1) p"
      unfolding slicing_computeScalarResources_def
      using that by (intro scalarResources_slice) (auto simp: sNode_Geometry_def gomap_ok inj_on_def slicing_AsResourceName_def)
    with shared.total_geometry [OF shared.updateGPUs_inv [OF maps], of required p] assms(5) show ?thesis
      by (simp add: nodeInfo_law_def sNode_Geometry_def)
  qed
  have used: "map UsedProfiles (snGPUs ?n) = map UsedProfiles (snGPUs n)" using updateGPUs_used_profiles [OF maps] by simp
  show ?thesis
  proof (intro exI conjI allI impI)
    show "sNode_UpdateGeometryFor K n slices = Some (fst (updateGPUs update_slices FreeProfiles required (snGPUs n)), ?n)" by (rule upd)
    show "list_all slicing_ok (snGPUs ?n)" by (rule ok)
    show "map UsedProfiles (snGPUs ?n) = map UsedProfiles (snGPUs n)" by (rule used)
    fix p assume "gm_has (sNode_Geometry ?n) p"
    from advertised [OF this] show "gm_get (allocatableScalarResources K (snNodeInfo ?n)) (slicing_AsResourceName p) =
      (\<Sum>g\<leftarrow>snGPUs ?n. gm_get (UsedProfiles g) p) + (\<Sum>g\<leftarrow>snGPUs ?n. gm_get (FreeProfiles g) p)" by simp
  qed
qed

theorem slicing_node_update_witness:
  "\<exists>n updated n'. slicing_NewNode int_k8s (newNodeInfo int_k8s shared_node) = Inr n \<and>
     sNode_UpdateGeometryFor int_k8s n [(SlicingProfile ''8gb'', 3)] = Some (updated, n') \<and>
     map UsedProfiles (snGPUs n') = [[(''10gb'', 1)], []]"
proof -
  obtain n where n: "slicing_NewNode int_k8s (newNodeInfo int_k8s shared_node) = Inr n"
    "snGPUs n = [shared_gpu, NewFullGPU ''A10'' 1 20]" using shared_node_new by blast
  have ok: "list_all slicing_ok (snGPUs n)" using shared_gpu_ok
    by (simp add: n(2)) (simp add: slicing_ok_def slices_ok_def NewFullGPU_def getTotSlicesMemory_def)
  have "\<exists>updated n'. sNode_UpdateGeometryFor int_k8s n [(SlicingProfile ''8gb'', 3)] = Some (updated, n') \<and>
      map UsedProfiles (snGPUs n') = map UsedProfiles (snGPUs n)"
    using slicing_node_update [OF ok, of "[(SlicingProfile ''8gb'', 3)]" "[(''8gb'', 3)]" int_k8s] nodeInfo_law_int_k8s n(2)
    by (auto simp: gm_ok_def shared_sizes)
  with n show ?thesis by (auto simp: shared_gpu_def NewFullGPU_def)
qed

end
