(* ===== verification/GpuAgent.thy ===== *)
theory GpuAgent
  imports SlicingNode StatusReport MigClient KubeApi
begin

text \<open>
  The agent of nodes with shared GPUs: the client that lists the slices of the node
  (\<^verbatim>\<open>pkg/gpu/slicing/client.go\<close>) and the reporter that writes them to the node's annotations
  (\<^verbatim>\<open>internal/controllers/gpuagent/reporter.go\<close>).
\<close>

section \<open>The client\<close>

fun toGpuDeviceList :: "'w nvmlClient \<Rightarrow> resDevice list \<Rightarrow> ('w, gpuError + Device list) state" where
  "toGpuDeviceList V [] = State_Monad.return (Inr [])"
| "toGpuDeviceList V (r # resources) = do {
     idx \<leftarrow> ncGetGpuIndex V (ExtractGpuId (DeviceId r));
     case idx of
       Inl e \<Rightarrow> State_Monad.return (Inl e)
     | Inr i \<Rightarrow> do {
         res \<leftarrow> toGpuDeviceList V resources;
         State_Monad.return
           (case res of
              Inl e \<Rightarrow> Inl e
            | Inr ds \<Rightarrow>
                Inr (\<lparr>ResourceName = ResourceName r, DeviceId = DeviceId r, DeviceStatus = DeviceStatus r, GpuIndex = i\<rparr> # ds))
       }
   }"

definition ts_GetUsedDevices :: "'w resourceClient \<Rightarrow> 'w nvmlClient \<Rightarrow> ('w, gpuError + Device list) state" where
  "ts_GetUsedDevices R V = do {
     res \<leftarrow> rcGetUsedDevices R;
     case res of
       Inl m \<Rightarrow> State_Monad.return (Inl (NewGenericError m))
     | Inr usedResources \<Rightarrow> toGpuDeviceList V (Filter_go usedResources IsNvidiaResource)
   }"

definition ts_GetAllocatableDevices :: "'w resourceClient \<Rightarrow> 'w nvmlClient \<Rightarrow> ('w, gpuError + Device list) state" where
  "ts_GetAllocatableDevices R V = do {
     res \<leftarrow> rcGetAllocatableDevices R;
     case res of
       Inl m \<Rightarrow> State_Monad.return (Inl (NewGenericError m))
     | Inr allocatableResources \<Rightarrow> toGpuDeviceList V (Filter_go allocatableResources IsNvidiaResource)
   }"

definition ts_GetDevices :: "'w resourceClient \<Rightarrow> 'w nvmlClient \<Rightarrow> ('w, gpuError + Device list) state" where
  "ts_GetDevices R V = do {
     res \<leftarrow> ts_GetUsedDevices R V;
     case res of
       Inl e \<Rightarrow> State_Monad.return (Inl e)
     | Inr used \<Rightarrow> do {
         res \<leftarrow> ts_GetAllocatableDevices R V;
         case res of
           Inl e \<Rightarrow> State_Monad.return (Inl e)
         | Inr allocatable \<Rightarrow> State_Monad.return (Inr (used @ ComputeFreeDevicesAndUpdateStatus used allocatable))
       }
   }"

text \<open>The interface \<^verbatim>\<open>gpu.Client\<close>.\<close>

record 'w gpuClient =
  gcGetDevices :: "('w, gpuError + Device list) state"
  gcGetUsedDevices :: "('w, gpuError + Device list) state"
  gcGetAllocatableDevices :: "('w, gpuError + Device list) state"

definition ts_NewClient :: "'w resourceClient \<Rightarrow> 'w nvmlClient \<Rightarrow> 'w gpuClient" where
  "ts_NewClient R V =
     \<lparr>gcGetDevices = ts_GetDevices R V, gcGetUsedDevices = ts_GetUsedDevices R V,
      gcGetAllocatableDevices = ts_GetAllocatableDevices R V\<rparr>"

section \<open>The reporter\<close>

record ('w, 'q) gpuReporter =
  grClient :: "('w, 'q) kubeAPI"
  grGpuClient :: "'w gpuClient"
  grRefreshInterval :: int
  grCmpStatus :: "StatusAnnotation \<Rightarrow> StatusAnnotation \<Rightarrow> bool"

datatype gpuAgentError = GpuAgentApi apiError | GpuAgentGpu gpuError

definition gpu_reported_node :: "'q Node \<Rightarrow> StatusAnnotation list \<Rightarrow> 'q Node" where
  "gpu_reported_node node currentStatusAnnotations =
     node\<lparr>Annotations :=
       gm_put_all (filter (\<lambda>(k, _). \<not> HasPrefix k AnnotationGpuStatusPrefix) (Annotations node))
         (map (\<lambda>a. (StatusAnnotation_String a, StatusAnnotation_GetValue a)) currentStatusAnnotations)\<rparr>"

definition gpu_Reconcile :: "('w, 'q) gpuReporter \<Rightarrow> string \<Rightarrow> ('w, Result \<times> gpuAgentError option) state" where
  "gpu_Reconcile r reqName = do {
     res \<leftarrow> State (getNode (grClient r) reqName);
     case res of
       Inl e \<Rightarrow> State_Monad.return (\<lparr>RequeueAfter = 0\<rparr>, Some (GpuAgentApi e))
     | Inr instnc \<Rightarrow> do {
         devs \<leftarrow> gcGetDevices (grGpuClient r);
         case devs of
           Inl e \<Rightarrow> State_Monad.return (\<lparr>RequeueAfter = 0\<rparr>, Some (GpuAgentGpu e))
         | Inr devices \<Rightarrow>
             let currentStatusAnnotations = DeviceList_AsStatusAnnotation devices slicing_ExtractProfileNameStr in
             if StatusAnnotationList_Equal (grCmpStatus r) currentStatusAnnotations (fst (ParseNodeAnnotations instnc))
             then State_Monad.return (\<lparr>RequeueAfter = grRefreshInterval r\<rparr>, None)
             else do {
               e \<leftarrow> State (patchNode (grClient r) instnc (gpu_reported_node instnc currentStatusAnnotations));
               State_Monad.return
                 (case e of
                    Some e \<Rightarrow> (\<lparr>RequeueAfter = 0\<rparr>, Some (GpuAgentApi e))
                  | None \<Rightarrow> (\<lparr>RequeueAfter = grRefreshInterval r\<rparr>, None))
             }
       }
   }"

section \<open>Reading profiles\<close>

text \<open>A resource as the device plugin names the slices of a shared GPU.\<close>

definition slice_resource :: "ResourceName \<Rightarrow> bool" where
  "slice_resource r \<longleftrightarrow> (\<exists>n\<ge>0. r = slicing_AsResourceName (NewProfile n))"

lemma slicing_AsResourceName_inject [simp]: "slicing_AsResourceName p = slicing_AsResourceName q \<longleftrightarrow> p = q"
  by (simp add: slicing_AsResourceName_def)

lemma ExtractProfileName_NewProfile:
  assumes "0 \<le> n"
  shows "slicing_ExtractProfileNameStr (slicing_AsResourceName (NewProfile n)) = Some (NewProfile n)"
proof -
  have "rx_match [Digits, Lit ''gb''] (Itoa n @ ''gb'') \<noteq> None"
    using assms format_nat_digits [of "nat n"] by (subst rx_match_Digits_append) (auto simp: Itoa_def is_digit_def HasPrefix_iff)
  then have "rx_match resourceRegexp (slicing_AsResourceName (NewProfile n)) \<noteq> None"
    unfolding resourceRegexp_def slicing_AsResourceName_def profileNamePrefix_def NewProfile_def rx_match_Lit_append by simp
  then have "MatchString resourceRegexp (slicing_AsResourceName (NewProfile n))" by (rule MatchString_prefix)
  then show ?thesis
    by (simp add: slicing_ExtractProfileNameStr_def slicing_ExtractProfileName_def slicing_AsResourceName_def TrimPrefix_append)
qed

lemma slice_resource_profile:
  "slice_resource r \<Longrightarrow> \<exists>p. slicing_ExtractProfileNameStr r = Some p \<and> r = slicing_AsResourceName p \<and> CHR ''-'' \<notin> set p"
  by (auto simp: slice_resource_def ExtractProfileName_NewProfile) (auto simp: NewProfile_def Itoa_no_minus)

interpretation slice_report: profile_reader slicing_ExtractProfileNameStr slice_resource
proof
  show "\<exists>p. slicing_ExtractProfileNameStr r = Some p \<and> CHR ''-'' \<notin> set p" if "slice_resource r" for r
    using slice_resource_profile [OF that] by auto
  show "r = r'" if "slice_resource r" "slice_resource r'" "slicing_ExtractProfileNameStr r = slicing_ExtractProfileNameStr r'" for r r'
    using slice_resource_profile [OF that(1)] slice_resource_profile [OF that(2)] that(3) by auto
qed

abbreviation slice_device :: "Device \<Rightarrow> bool" where
  "slice_device \<equiv> reportable_device slice_resource"

section \<open>Listing slices\<close>

text \<open>The lookup of a GPU by its UUID only reads.\<close>

definition gpu_index_law :: "'w nvmlClient \<Rightarrow> (string \<Rightarrow> gpuError + int) \<Rightarrow> bool" where
  "gpu_index_law V idx \<longleftrightarrow> (\<forall>i w. run_state (ncGetGpuIndex V i) w = (idx i, w))"

lemma toGpuDeviceList_eq:
  assumes "gpu_index_law V idx" "\<forall>r\<in>set rs. \<exists>i. idx (ExtractGpuId (DeviceId r)) = Inr i"
  shows "run_state (toGpuDeviceList V rs) w = (Inr (map (as_device (idx \<circ> ExtractGpuId)) rs), w)"
  using assms by (induction rs) (auto simp: gpu_index_law_def as_device_def)

text \<open>The slices of a node: those in use, then the allocatable ones that are not, marked free.\<close>

lemma slices_used_and_free:
  assumes "gpu_index_law V idx"
    "run_state (rcGetUsedDevices R) w = (Inr used, w1)" "run_state (rcGetAllocatableDevices R) w1 = (Inr allocatable, w2)"
    "\<forall>r\<in>set used \<union> set allocatable. IsNvidiaResource r \<longrightarrow> (\<exists>i. idx (ExtractGpuId (DeviceId r)) = Inr i)"
  shows "run_state (ts_GetDevices R V) w =
    (Inr (map (as_device (idx \<circ> ExtractGpuId)) (filter IsNvidiaResource used) @
      map (\<lambda>r. (as_device (idx \<circ> ExtractGpuId) r)\<lparr>DeviceStatus := StatusFree\<rparr>)
        (filter (\<lambda>r. IsNvidiaResource r \<and> DeviceId r \<notin> DeviceId ` set (filter IsNvidiaResource used)) allocatable)), w2)"
proof -
  have ids: "DeviceId ` set (map (as_device idx) l) = DeviceId ` set l" for idx l
    by (auto simp: as_device_def image_iff)
  have list: "run_state (toGpuDeviceList V (filter IsNvidiaResource rs)) w = (Inr (map (as_device (idx \<circ> ExtractGpuId)) (filter IsNvidiaResource rs)), w)"
    if "set rs \<subseteq> set used \<union> set allocatable" for rs w
    using that assms(4) by (intro toGpuDeviceList_eq [OF assms(1)]) auto
  show ?thesis
    using assms(2,3)
    by (simp add: ts_GetDevices_def ts_GetUsedDevices_def ts_GetAllocatableDevices_def list ComputeFree_eq ids filter_map o_def
        del: set_map set_filter) (simp add: as_device_def conj_commute)
qed

section \<open>Properties\<close>

text \<open>C17: When the reporter of a node with shared GPUs returns no error, the node at the API server carries a status
  that reads back as the slices of the machine: it was so already and nothing was written, or it is so after
  the one write.  The spec annotations stay, and the used and free slices of each profile are as many as listed.\<close>

theorem slice_report_complete:
  assumes "getNode (grClient r) name w = (Inr node, w1)" "run_state (gcGetDevices (grGpuClient r)) w1 = (Inr ds, w2)"
    "\<forall>d\<in>set ds. slice_device d" "int64_range (int (length ds))" "cmp_struct_law (grCmpStatus r)"
    "run_state (gpu_Reconcile r name) w = ((res, None), w')"
  shows "\<exists>node'. (node' = node \<and> w' = w2 \<or> patchNode (grClient r) node node' w2 = (None, w')) \<and>
    mset (fst (ParseNodeAnnotations node')) = mset (DeviceList_AsStatusAnnotation ds slicing_ExtractProfileNameStr) \<and>
    snd (ParseNodeAnnotations node') = snd (ParseNodeAnnotations node) \<and>
    (\<forall>p. annotated StatusAnnotation_IsUsed (fst (ParseNodeAnnotations node')) p =
        int (length (filter (\<lambda>d. Device_IsUsed d \<and> ResourceName d = slicing_AsResourceName p) ds)) \<and>
      annotated StatusAnnotation_IsFree (fst (ParseNodeAnnotations node')) p =
        int (length (filter (\<lambda>d. Device_IsFree d \<and> ResourceName d = slicing_AsResourceName p) ds)))"
proof -
  let ?as = "DeviceList_AsStatusAnnotation ds slicing_ExtractProfileNameStr"
  let ?new = "gpu_reported_node node ?as"
  have eq: "grCmpStatus r = (=)" by (rule cmp_struct_lawD [OF assms(5)])
  have new: "ParseNodeAnnotations ?new = (?as, snd (ParseNodeAnnotations node))"
    using slice_report.report_reads_back [OF assms(3,4,3)] by (simp add: ParseNodeAnnotations_eq gpu_reported_node_def)
  have "\<exists>node'. (node' = node \<and> w' = w2 \<or> patchNode (grClient r) node node' w2 = (None, w')) \<and>
      mset (fst (ParseNodeAnnotations node')) = mset ?as \<and> snd (ParseNodeAnnotations node') = snd (ParseNodeAnnotations node)"
  proof (cases "mset ?as = mset (fst (ParseNodeAnnotations node))")
    case True
    with assms(1,2,6) show ?thesis
      by (auto simp: gpu_Reconcile_def Let_def eq StatusAnnotationList_Equal_def UnorderedEqual_mset)
  next
    case False
    with assms(1,2,6) have "patchNode (grClient r) node ?new w2 = (None, w')"
      by (cases "patchNode (grClient r) node ?new w2")
        (auto simp: gpu_Reconcile_def Let_def eq StatusAnnotationList_Equal_def UnorderedEqual_mset split: option.splits)
    with new show ?thesis by fastforce
  qed
  then obtain node' where node': "node' = node \<and> w' = w2 \<or> patchNode (grClient r) node node' w2 = (None, w')"
    "mset (fst (ParseNodeAnnotations node')) = mset ?as" "snd (ParseNodeAnnotations node') = snd (ParseNodeAnnotations node)" by blast
  have "annotated (\<lambda>a. S (stStatus a)) (fst (ParseNodeAnnotations node')) p =
      int (length (filter (\<lambda>d. S (DeviceStatus d) \<and> ResourceName d = slicing_AsResourceName p) ds))" for S p
    unfolding annotated_mset [OF node'(2)] annotated_status reports_def
    using assms(3) slice_resource_profile
    by (intro arg_cong [where f = "\<lambda>l. int (length l)"] filter_cong refl) (force simp: reportable_device_def)
  from this [of "\<lambda>st. st = StatusUsed"] this [of "\<lambda>st. st = StatusFree"] node' show ?thesis
    by (auto simp: StatusAnnotation_IsUsed_def [abs_def] StatusAnnotation_IsFree_def [abs_def] Device_IsUsed_def Device_IsFree_def)
qed

text \<open>A node on which one slice of a GPU is in use and another is free, none of it reported yet.\<close>

definition two_slices :: "'w resourceClient" where
  "two_slices =
     \<lparr>rcGetAllocatableDevices = State_Monad.return (GetAllocatableDevices
        (Inr [\<lparr>cdResourceName = ''nvidia.com/gpu-10gb'', cdDeviceIds = [''GPU-1::0'', ''GPU-1::1'']\<rparr>])),
      rcGetUsedDevices = State_Monad.return (GetUsedDevices
        (Inr [[[\<lparr>cdResourceName = ''nvidia.com/gpu-10gb'', cdDeviceIds = [''GPU-1::0'']\<rparr>]]]))\<rparr>"

definition first_gpu :: "'w nvmlClient" where
  "first_gpu =
     \<lparr>ncGetGpuIndex = (\<lambda>_. State_Monad.return (Inr 0)), ncGetMigDeviceGpuIndex = (\<lambda>_. State_Monad.return (Inr 0)),
      ncDeleteMigDevice = (\<lambda>_. State_Monad.return None), ncCreateMigDevices = (\<lambda>_ _. State_Monad.return None),
      ncGetMigEnabledGPUs = State_Monad.return (Inr [0]), ncDeleteAllMigDevicesExcept = (\<lambda>_. State_Monad.return None)\<rparr>"

definition slice_reporter :: "(int cluster, int) gpuReporter" where
  "slice_reporter =
     \<lparr>grClient = cluster_api, grGpuClient = ts_NewClient two_slices first_gpu, grRefreshInterval = 10, grCmpStatus = (=)\<rparr>"

definition unreported_cluster :: "int cluster" where
  "unreported_cluster = \<lparr>clNodes = [shared_node\<lparr>Annotations := []\<rparr>], clPods = [], clLog = []\<rparr>"

definition listed_slices :: "Device list" where
  "listed_slices =
     [\<lparr>ResourceName = ''nvidia.com/gpu-10gb'', DeviceId = ''GPU-1::0'', DeviceStatus = StatusUsed, GpuIndex = 0\<rparr>,
      \<lparr>ResourceName = ''nvidia.com/gpu-10gb'', DeviceId = ''GPU-1::1'', DeviceStatus = StatusFree, GpuIndex = 0\<rparr>]"

lemma listed_slices_run: "run_state (gcGetDevices (grGpuClient slice_reporter)) w = (Inr listed_slices, w)"
proof -
  let ?r = "\<lambda>i st. \<lparr>ResourceName = ''nvidia.com/gpu-10gb'', DeviceId = i, DeviceStatus = st\<rparr>"
  have law: "gpu_index_law first_gpu (\<lambda>_. Inr 0)" by (simp add: gpu_index_law_def first_gpu_def)
  have used: "run_state (rcGetUsedDevices two_slices) w = (Inr [?r ''GPU-1::0'' StatusUsed], w)"
    by (simp add: two_slices_def GetUsedDevices_def)
  have all: "run_state (rcGetAllocatableDevices two_slices) w = (Inr [?r ''GPU-1::0'' StatusUnknown, ?r ''GPU-1::1'' StatusUnknown], w)"
    by (simp add: two_slices_def GetAllocatableDevices_def)
  have "HasPrefix ''nvidia.com/gpu-10gb'' NvidiaResourcePrefix" by code_simp
  then show ?thesis
    using slices_used_and_free [OF law used all]
    by (simp add: slice_reporter_def ts_NewClient_def IsNvidiaResource_def as_device_def listed_slices_def)
qed

lemma listed_slices_reportable: "\<forall>d\<in>set listed_slices. slice_device d" "int64_range (int (length listed_slices))"
proof -
  have "slicing_AsResourceName (NewProfile 10) = ''nvidia.com/gpu-10gb''" by code_simp
  then have "slice_resource ''nvidia.com/gpu-10gb''" unfolding slice_resource_def by (intro exI [of _ 10]) simp
  then show "\<forall>d\<in>set listed_slices. slice_device d" by (simp add: listed_slices_def reportable_device_def int64_range_def)
  show "int64_range (int (length listed_slices))" by (simp add: listed_slices_def int64_range_def)
qed

theorem slice_report_complete_witness:
  "\<exists>node w'. patchNode cluster_api (shared_node\<lparr>Annotations := []\<rparr>) node unreported_cluster = (None, w') \<and>
     annotated StatusAnnotation_IsUsed (fst (ParseNodeAnnotations node)) ''10gb'' = 1"
proof -
  let ?node = "shared_node\<lparr>Annotations := []\<rparr>"
  have get: "getNode (grClient slice_reporter) ''n1'' unreported_cluster = (Inr ?node, unreported_cluster)"
    by (simp add: slice_reporter_def cluster_api_def unreported_cluster_def shared_node_def)
  have err: "snd (fst (run_state (gpu_Reconcile slice_reporter ''n1'') unreported_cluster)) = None"
    by (simp add: gpu_Reconcile_def get listed_slices_run Let_def)
      (simp add: slice_reporter_def cluster_api_def unreported_cluster_def gpu_reported_node_def)
  then have run: "run_state (gpu_Reconcile slice_reporter ''n1'') unreported_cluster =
      ((fst (fst (run_state (gpu_Reconcile slice_reporter ''n1'') unreported_cluster)), None),
       snd (run_state (gpu_Reconcile slice_reporter ''n1'') unreported_cluster))" by (metis prod.collapse)
  have as: "slicing_AsResourceName ''10gb'' = ''nvidia.com/gpu-10gb''" by code_simp
  have none: "annotated P (fst (ParseNodeAnnotations ?node)) p = 0" for P p
    by (simp add: ParseNodeAnnotations_eq map_filter_simps annotated_def)
  have cmp: "cmp_struct_law (grCmpStatus slice_reporter)" by (simp add: slice_reporter_def)
  have count: "int (length (filter (\<lambda>d. Device_IsUsed d \<and> ResourceName d = slicing_AsResourceName ''10gb'') listed_slices)) = 1"
    by (simp add: listed_slices_def Device_IsUsed_def as)
  show ?thesis
    using slice_report_complete [OF get listed_slices_run listed_slices_reportable cmp run] none count
    by (auto simp: slice_reporter_def)
qed

end
