(* ===== verification/Startup.thy ===== *)
theory Startup
  imports Predicates MigAgent GpuAgent "HOL-Library.Word"
begin

text \<open>
  The programs (\<^verbatim>\<open>cmd/gpupartitioner\<close>, \<^verbatim>\<open>cmd/migagent\<close>, \<^verbatim>\<open>cmd/gpuagent\<close>): from the environment and the configuration to the
  running manager, with the exits in between; the configuration of the partitioner; and the NVML client of builds
  without NVML (\<^verbatim>\<open>pkg/gpu/nvml/client_stub.go\<close>).  controller-runtime is a record of its calls, reading and decoding
  files are arguments, flags are parsed already.
\<close>

section \<open>Durations\<close>

text \<open>\<^verbatim>\<open>n * time.Second\<close> in 64-bit nanoseconds, which wraps around.\<close>

definition Seconds :: "int \<Rightarrow> int" where
  "Seconds n = sint (word_of_int (n * 1000000000) :: 64 word)"

lemma Seconds_exact:
  assumes "\<bar>n\<bar> \<le> 9223372036"
  shows "Seconds n = n * 1000000000"
proof -
  have "sint (word_of_int (n * 1000000000) :: 64 word) = signed_take_bit 63 (n * 1000000000)"
    by transfer simp
  also have "\<dots> = n * 1000000000"
    using assms by (intro signed_take_bit_int_eq_self) (auto simp: abs_le_iff)
  finally show ?thesis by (simp add: Seconds_def)
qed


section \<open>The partitioner\<close>

record GpuPartitionerConfig =
  KnownMigGeometriesFile :: string
  RequeueIntervalSeconds :: int
  DevicePluginDelaySeconds :: int
  PreemptionEnabled :: bool

text \<open>Durations are whole nanoseconds, so that \<^verbatim>\<open>d.Seconds() <= 0\<close> is \<open>d \<le> 0\<close>.\<close>

definition GpuPartitionerConfig_Validate :: "GpuPartitionerConfig \<Rightarrow> string option" where
  "GpuPartitionerConfig_Validate c =
     (if RequeueIntervalSeconds c \<le> 0 then Some ''requeueIntervalSeconds must be greater than 0''
      else if DevicePluginDelaySeconds c \<le> 0 then Some ''devicePluginDelaySeconds must be greater than 0''
      else None)"

definition defaultRequeueIntervalSeconds :: int where
  "defaultRequeueIntervalSeconds = 10"

definition loadKnownMigGeometriesFromFile ::
  "(string \<Rightarrow> string + string) \<Rightarrow> (string \<Rightarrow> string + AllowedMigGeometries list) \<Rightarrow> string \<Rightarrow> string + AllowedMigGeometries list" where
  "loadKnownMigGeometriesFromFile readFile unmarshal file =
     (case readFile file of
        Inl e \<Rightarrow> Inl e
      | Inr data \<Rightarrow> (case unmarshal data of Inl e \<Rightarrow> Inl e | Inr allowedGeometries \<Rightarrow> Inr allowedGeometries))"

text \<open>
  \<^verbatim>\<open>UnmarshalJSON\<close> of one entry of the file, over the decoders of JSON for an object, the models and the geometries.
  The receiver keeps the models that were read before an error.
\<close>

datatype jsonError = DecodeError string | MissingField string

definition AllowedMigGeometries_UnmarshalJSON ::
  "('j \<Rightarrow> string + (string, 'j) gomap) \<Rightarrow> ('j \<Rightarrow> string + Model list) \<Rightarrow> ('j \<Rightarrow> string + (ProfileName, int) gomap list) \<Rightarrow>
   'j \<Rightarrow> AllowedMigGeometries \<Rightarrow> jsonError option \<times> AllowedMigGeometries" where
  "AllowedMigGeometries_UnmarshalJSON decodeObject decodeModels decodeGeometries b a =
     (case decodeObject b of
        Inl e \<Rightarrow> (Some (DecodeError e), a)
      | Inr rr \<Rightarrow>
          (case map_of rr ''models'' of
             None \<Rightarrow> (Some (MissingField ''models''), a)
           | Some models \<Rightarrow>
               (case decodeModels models of
                  Inl e \<Rightarrow> (Some (DecodeError e), a)
                | Inr ms \<Rightarrow>
                    let a = a\<lparr>amModels := ms\<rparr> in
                    (case map_of rr ''allowedGeometries'' of
                       None \<Rightarrow> (Some (MissingField ''allowedGeometries''), a)
                     | Some geometries \<Rightarrow>
                         (case decodeGeometries geometries of
                            Inl e \<Rightarrow> (Some (DecodeError e), a)
                          | Inr migGeometries \<Rightarrow> (None, a\<lparr>amGeometries := migGeometriesToGpuGeometries migGeometries\<rparr>))))))"

datatype startupError = CannotLoadGeometries string | CannotSetGeometries configError

definition partitioner_setup ::
  "(string \<Rightarrow> string + string) \<Rightarrow> (string \<Rightarrow> string + AllowedMigGeometries list) \<Rightarrow> GpuPartitionerConfig \<Rightarrow> knownState \<Rightarrow>
   startupError + int \<times> knownState" where
  "partitioner_setup readFile unmarshal config known =
     (let seconds = (if RequeueIntervalSeconds config = 0 then defaultRequeueIntervalSeconds else RequeueIntervalSeconds config);
          requeueInterval = Seconds seconds
      in if KnownMigGeometriesFile config \<noteq> '''' then
           (case loadKnownMigGeometriesFromFile readFile unmarshal (KnownMigGeometriesFile config) of
              Inl e \<Rightarrow> Inl (CannotLoadGeometries e)
            | Inr knownGeometries \<Rightarrow>
                (case SetKnownGeometries (AllowedMigGeometriesList_GroupByModel knownGeometries) known of
                   (Some e, _) \<Rightarrow> Inl (CannotSetGeometries e)
                 | (None, known') \<Rightarrow> Inr (requeueInterval, known')))
         else Inr (requeueInterval, known))"

section \<open>The agent of shared GPUs\<close>

definition AnyMigEnabledGpu :: "'w nvmlClient \<Rightarrow> ('w, gpuError + bool) state" where
  "AnyMigEnabledGpu V = do {
     r \<leftarrow> ncGetMigEnabledGPUs V;
     State_Monad.return (case r of Inl e \<Rightarrow> Inl e | Inr migGpus \<Rightarrow> Inr (length migGpus > 0))
   }"

section \<open>Builds without NVML\<close>

definition nvmlDisabledError :: gpuError where
  "nvmlDisabledError = GenericErr ''NVML support disabled: rebuild with the 'nvml' build tag''"

definition noopClient :: "'w nvmlClient" where
  "noopClient =
     \<lparr>ncGetGpuIndex = (\<lambda>_. State_Monad.return (Inl nvmlDisabledError)),
      ncGetMigDeviceGpuIndex = (\<lambda>_. State_Monad.return (Inl nvmlDisabledError)),
      ncDeleteMigDevice = (\<lambda>_. State_Monad.return (Some nvmlDisabledError)),
      ncCreateMigDevices = (\<lambda>_ _. State_Monad.return (Some nvmlDisabledError)),
      ncGetMigEnabledGPUs = State_Monad.return (Inl nvmlDisabledError),
      ncDeleteAllMigDevicesExcept = (\<lambda>_. State_Monad.return (Some nvmlDisabledError))\<rparr>"

text \<open>Without NVML neither agent starts, and the world stays as it was.\<close>

lemma agents_need_nvml:
  "\<exists>e. run_state (initAgent noopClient M) w = (Some e, w)"
  "run_state (AnyMigEnabledGpu noopClient) w = (Inl nvmlDisabledError, w)"
  by (simp_all add: initAgent_def checkAtLeastOneMigGpu_def AnyMigEnabledGpu_def noopClient_def)

text \<open>The two agents never run on the same node: one needs a GPU with MIG enabled, the other needs that there is none.\<close>

lemma agents_exclusive:
  assumes "run_state (ncGetMigEnabledGPUs V) w = (Inr gpus, w)"
  shows "run_state (AnyMigEnabledGpu V) w = (Inr False, w) \<longleftrightarrow> fst (run_state (checkAtLeastOneMigGpu V) w) \<noteq> None"
  using assms by (simp add: AnyMigEnabledGpu_def checkAtLeastOneMigGpu_def)

section \<open>The manager\<close>

text \<open>
  The controllers with the names, nodes and intervals they are set up with.  A call of the record is one of
  controller-runtime that may fail; reading a configuration file starts from the defaults.
\<close>

datatype controller =
    MigReporterController string string int
  | MigActuatorController string string
  | GpuReporterController string string int
  | NodeControllerC string
  | MigControllerC string int bool

record ('w, 'c) runtime =
  rtLoadConfig :: "string \<Rightarrow> 'c \<Rightarrow> ('w, string + 'c) state"
  rtGetConfig :: "('w, string option) state"
  rtNewManager :: "('w, string option) state"
  rtIndexPodsByNode :: "('w, string option) state"
  rtNewKubeClient :: "('w, string option) state"
  rtNewLister :: "('w, string option) state"
  rtSetup :: "controller \<Rightarrow> ('w, string option) state"
  rtAddHealthzCheck :: "('w, string option) state"
  rtAddReadyzCheck :: "('w, string option) state"
  rtStart :: "('w, string option) state"

text \<open>Why a program ends with status 1.\<close>

datatype exitReason =
    NodeNameMissing
  | ConfigNotLoaded
  | GeometriesNotSet startupError
  | NoKubeConfig
  | ManagerNotCreated
  | IndexerNotConfigured
  | KubeClientNotBuilt
  | AgentNotInitialized initAgentError
  | GpusNotFetched gpuError
  | MigEnabledGpus
  | ControllerNotCreated controller
  | HealthCheckNotSet
  | ReadyCheckNotSet
  | ManagerFailed

definition orExit :: "('w, string option) state \<Rightarrow> exitReason \<Rightarrow> ('w, exitReason option) state \<Rightarrow> ('w, exitReason option) state" where
  "orExit call reason rest = do {
     err \<leftarrow> call;
     case err of Some _ \<Rightarrow> State_Monad.return (Some reason) | None \<Rightarrow> rest
   }"

definition load_config :: "('w, 'c) runtime \<Rightarrow> string \<Rightarrow> 'c \<Rightarrow> ('c \<Rightarrow> ('w, exitReason option) state) \<Rightarrow> ('w, exitReason option) state" where
  "load_config RT configFile defaults rest =
     (if configFile \<noteq> '''' then do {
        res \<leftarrow> rtLoadConfig RT configFile defaults;
        case res of Inl _ \<Rightarrow> State_Monad.return (Some ConfigNotLoaded) | Inr config \<Rightarrow> rest config
      }
      else rest defaults)"

definition serve :: "('w, 'c) runtime \<Rightarrow> ('w, exitReason option) state" where
  "serve RT =
     orExit (rtAddHealthzCheck RT) HealthCheckNotSet (
     orExit (rtAddReadyzCheck RT) ReadyCheckNotSet (
     orExit (rtStart RT) ManagerFailed (
     State_Monad.return None)))"

section \<open>The programs\<close>

definition EnvVarNodeName :: string where "EnvVarNodeName = ''NODE_NAME''"
definition ClusterStateNodeControllerName :: string where "ClusterStateNodeControllerName = ''clusterstate-node-controller''"
definition MigPartitionerControllerName :: string where "MigPartitionerControllerName = ''mig-partitioner-controller''"

text \<open>
  The MIG agent.  Its configuration is the reporting interval in seconds, zero by default.  The error of the lister
  is overwritten before it is looked at.
\<close>

definition migagent_main ::
  "('w, int) runtime \<Rightarrow> (string, string) gomap \<Rightarrow> string \<Rightarrow> 'w nvmlClient \<Rightarrow> 'w migClient \<Rightarrow> ('w, exitReason option) state" where
  "migagent_main RT env configFile V M =
     (case GetEnvOrError env EnvVarNodeName of
        Inl _ \<Rightarrow> State_Monad.return (Some NodeNameMissing)
      | Inr agentNode \<Rightarrow>
          load_config RT configFile 0 (\<lambda>reportSeconds.
          orExit (rtGetConfig RT) NoKubeConfig (
          orExit (rtNewManager RT) ManagerNotCreated (
          orExit (rtIndexPodsByNode RT) IndexerNotConfigured (do {
            _ \<leftarrow> rtNewLister RT;
            err \<leftarrow> initAgent V M;
            case err of
              Some e \<Rightarrow> State_Monad.return (Some (AgentNotInitialized e))
            | None \<Rightarrow>
                let reporter = MigReporterController ''reporter'' agentNode (Seconds reportSeconds);
                    actuator = MigActuatorController ''actuator'' agentNode
                in orExit (rtSetup RT reporter) (ControllerNotCreated reporter) (
                   orExit (rtSetup RT actuator) (ControllerNotCreated actuator) (
                   serve RT))
          })))))"

text \<open>The agent of shared GPUs.\<close>

definition gpuagent_main ::
  "('w, int) runtime \<Rightarrow> (string, string) gomap \<Rightarrow> string \<Rightarrow> 'w nvmlClient \<Rightarrow> ('w, exitReason option) state" where
  "gpuagent_main RT env configFile V =
     (case GetEnvOrError env EnvVarNodeName of
        Inl _ \<Rightarrow> State_Monad.return (Some NodeNameMissing)
      | Inr agentNode \<Rightarrow>
          load_config RT configFile 0 (\<lambda>reportSeconds.
          orExit (rtGetConfig RT) NoKubeConfig (
          orExit (rtNewManager RT) ManagerNotCreated (do {
            _ \<leftarrow> rtNewLister RT;
            res \<leftarrow> AnyMigEnabledGpu V;
            case res of
              Inl e \<Rightarrow> State_Monad.return (Some (GpusNotFetched e))
            | Inr anyMigEnabledGpu \<Rightarrow>
                if anyMigEnabledGpu then State_Monad.return (Some MigEnabledGpus)
                else
                  let reporter = GpuReporterController ''reporter'' agentNode (Seconds reportSeconds)
                  in orExit (rtSetup RT reporter) (ControllerNotCreated reporter) (
                     serve RT)
          }))))"

text \<open>The partitioner; the known geometries are a global variable, given and returned next to the exit.\<close>

definition gpupartitioner_main ::
  "('w, GpuPartitionerConfig) runtime \<Rightarrow> (string \<Rightarrow> string + string) \<Rightarrow> (string \<Rightarrow> string + AllowedMigGeometries list) \<Rightarrow>
   string \<Rightarrow> knownState \<Rightarrow> ('w, exitReason option) state" where
  "gpupartitioner_main RT readFile unmarshal configFile known =
     load_config RT configFile
       \<lparr>KnownMigGeometriesFile = '''', RequeueIntervalSeconds = defaultRequeueIntervalSeconds, DevicePluginDelaySeconds = 0,
        PreemptionEnabled = False\<rparr>
       (\<lambda>config.
         case partitioner_setup readFile unmarshal config known of
           Inl e \<Rightarrow> State_Monad.return (Some (GeometriesNotSet e))
         | Inr (requeueInterval, known') \<Rightarrow>
             let nodeController = NodeControllerC ClusterStateNodeControllerName;
                 migController = MigControllerC MigPartitionerControllerName requeueInterval (PreemptionEnabled config)
             in orExit (rtGetConfig RT) NoKubeConfig (
                orExit (rtNewManager RT) ManagerNotCreated (
                orExit (rtNewKubeClient RT) KubeClientNotBuilt (
                orExit (rtSetup RT nodeController) (ControllerNotCreated nodeController) (
                orExit (rtSetup RT migController) (ControllerNotCreated migController) (
                serve RT))))))"

section \<open>Facts\<close>

text \<open>A zero interval becomes the default; the geometries in use have passed validation or are those of before.\<close>

lemma partitioner_setup_known:
  assumes "partitioner_setup readFile unmarshal config known = Inr (interval, known')"
  shows "\<bar>RequeueIntervalSeconds config\<bar> \<le> 9223372036 \<Longrightarrow> interval \<noteq> 0"
    "known' \<noteq> known \<Longrightarrow> \<exists>configs. known' = Some configs \<and> ValidateConfigs configs = None"
  using assms Seconds_exact [of "RequeueIntervalSeconds config"] Seconds_exact [of 10]
  by (auto simp: partitioner_setup_def Let_def SetKnownGeometries_def defaultRequeueIntervalSeconds_def
      split: if_splits sum.splits option.splits)

text \<open>An interval of nearly 300 years in seconds wraps around to zero.\<close>

lemma interval_wraps: "Seconds (2 ^ 55) = 0"
  by (simp add: Seconds_def)

text \<open>Without a configuration file the agents report with interval zero, which controller-runtime does not requeue.\<close>

lemma default_interval: "load_config RT [] 0 rest = rest 0" "Seconds 0 = 0"
  by (simp_all add: load_config_def Seconds_def)

text \<open>Every call but the start of the manager keeps \<open>P\<close>.\<close>

definition setup_keeps :: "('w, 'c) runtime \<Rightarrow> ('w \<Rightarrow> bool) \<Rightarrow> bool" where
  "setup_keeps RT P \<longleftrightarrow>
     (\<forall>file c. keeps P (rtLoadConfig RT file c)) \<and> (\<forall>c. keeps P (rtSetup RT c)) \<and>
     keeps P (rtGetConfig RT) \<and> keeps P (rtNewManager RT) \<and> keeps P (rtIndexPodsByNode RT) \<and> keeps P (rtNewKubeClient RT) \<and>
     keeps P (rtNewLister RT) \<and> keeps P (rtAddHealthzCheck RT) \<and> keeps P (rtAddReadyzCheck RT)"

lemma setup_keepsD:
  assumes "setup_keeps RT P"
  shows "keeps P (rtLoadConfig RT file c)" "keeps P (rtSetup RT ctl)"
    "keeps P (rtGetConfig RT)" "keeps P (rtNewManager RT)" "keeps P (rtIndexPodsByNode RT)" "keeps P (rtNewKubeClient RT)"
    "keeps P (rtNewLister RT)" "keeps P (rtAddHealthzCheck RT)" "keeps P (rtAddReadyzCheck RT)"
  using assms by (simp_all add: setup_keeps_def)

lemma keeps_orExit: "keeps P call \<Longrightarrow> keeps P rest \<Longrightarrow> keeps P (orExit call reason rest)"
  by (auto simp: orExit_def intro!: keeps_rules split: option.splits)

lemma keeps_load_config:
  "setup_keeps RT P \<Longrightarrow> (\<And>c. keeps P (rest c)) \<Longrightarrow> keeps P (load_config RT file d rest)"
  by (auto simp: load_config_def intro!: keeps_rules setup_keepsD split: sum.splits)

lemmas main_keeps = keeps_orExit keeps_load_config keeps_rules setup_keepsD

text \<open>What the calls before the start keep and serving keeps after a successful initialisation, the agents keep.\<close>

lemma migagent_main_keeps:
  assumes "setup_keeps RT P" "triple P (initAgent V M) (\<lambda>e. e = None \<longrightarrow> keeps P (rtStart RT))"
  shows "keeps P (migagent_main RT env configFile V M)"
  using assms(1) unfolding migagent_main_def serve_def Let_def
  by (auto intro!: main_keeps triple_bind [OF assms(2)] split: sum.splits option.splits)

lemma gpuagent_main_keeps:
  assumes "setup_keeps RT P" "triple P (AnyMigEnabledGpu V) (\<lambda>r. r = Inr False \<longrightarrow> keeps P (rtStart RT))"
  shows "keeps P (gpuagent_main RT env configFile V)"
  using assms(1) unfolding gpuagent_main_def serve_def Let_def
  by (auto intro!: main_keeps triple_bind [OF assms(2)] split: sum.splits)

lemma initAgent_started:
  assumes "\<And>w. fst (run_state (ncGetMigEnabledGPUs V) w) = answer" "keeps P (ncGetMigEnabledGPUs V)"
    "keeps P (mcGetMigDevices M)" "\<And>ds. keeps P (mcDeleteAllExcept M ds)"
  shows "triple P (initAgent V M) (\<lambda>e. e = None \<longrightarrow>
    (\<exists>gpus. answer = Inr gpus \<and> gpus \<noteq> []) \<and> (\<exists>w1 w2. run_state (cleanupUnusedMigResources M) w1 = (None, w2)))"
proof -
  have check: "triple P (checkAtLeastOneMigGpu V) (\<lambda>e. e = None \<longrightarrow> (\<exists>gpus. answer = Inr gpus \<and> gpus \<noteq> []))"
    using assms(1,2) by (auto simp: checkAtLeastOneMigGpu_def triple_def split: sum.splits)
  have cleanup: "triple P (cleanupUnusedMigResources M) (\<lambda>e. e = None \<longrightarrow> (\<exists>w1 w2. run_state (cleanupUnusedMigResources M) w1 = (None, w2)))"
  proof -
    have "keeps P (cleanupUnusedMigResources M)"
      unfolding cleanupUnusedMigResources_def by (auto intro!: keeps_rules assms(3,4) split: sum.splits)
    then show ?thesis unfolding triple_def by (metis prod.collapse)
  qed
  show ?thesis
    unfolding initAgent_def
    by (rule triple_bind [OF check]) (auto intro!: triple_return intro: triple_weaken [OF cleanup] split: option.splits)
qed

section \<open>Properties\<close>


text \<open>Calls that succeed; the world is whether the manager was started.\<close>

definition willing_runtime :: "(bool, int) runtime" where
  "willing_runtime =
     \<lparr>rtLoadConfig = (\<lambda>_ c. State_Monad.return (Inr c)), rtGetConfig = State_Monad.return None,
      rtNewManager = State_Monad.return None, rtIndexPodsByNode = State_Monad.return None,
      rtNewKubeClient = State_Monad.return None, rtNewLister = State_Monad.return None,
      rtSetup = (\<lambda>_. State_Monad.return None), rtAddHealthzCheck = State_Monad.return None,
      rtAddReadyzCheck = State_Monad.return None, rtStart = State (\<lambda>_. (None, True))\<rparr>"

definition idle_mig :: "bool migClient" where
  "idle_mig =
     \<lparr>mcGetMigDevices = State_Monad.return (Inr []), mcGetUsedMigDevices = State_Monad.return (Inr []),
      mcGetAllocatableMigDevices = State_Monad.return (Inr []), mcCreateMigDevices = (\<lambda>ps. State_Monad.return (ps, [])),
      mcDeleteMigDevice = (\<lambda>_. State_Monad.return None), mcDeleteAllExcept = (\<lambda>_. State_Monad.return None)\<rparr>"


end
