(* ===== verification/Spec2Isabelle.thy ===== *)
theory Spec2Isabelle
  imports AgentCycle NodeController Partitioner AgentReport DevicePlugin Predicates Batching ClusterInfo FrameworkResources Helpers Startup
begin

text \<open>
  \<^bold>\<open>Verification library of walkai nos, GPU partitioning for Kubernetes.\<close>

  \<^bold>\<open>The program.\<close>  Nodes with NVIDIA GPUs are partitioned into MIG devices or memory slices.  Three programs
  talk to each other only through annotations, labels and taints of the node objects in the API server:

    \<^item> the \<^emph>\<open>partitioner\<close> (\<^verbatim>\<open>internal/controllers/gpupartitioner\<close>) looks at pods that wait for MIG devices, plans a
      geometry for the GPUs of some node and writes it as \<^emph>\<open>spec\<close> annotations; where nothing fits it evicts pods of
      lower priority; its node controller gives a new node its first geometry;
    \<^item> the \<^emph>\<open>MIG agent\<close> (\<^verbatim>\<open>internal/controllers/migagent\<close>) runs on the node: its actuator compares the spec with the
      devices, deletes and creates devices through NVML and restarts the device plugin; its reporter writes the
      devices as \<^emph>\<open>status\<close> annotations, from which the partitioner reads the node;
    \<^item> the \<^emph>\<open>GPU agent\<close> (\<^verbatim>\<open>internal/controllers/gpuagent\<close>) reports the slices of nodes whose GPUs are shared by memory.

  Two exporters send an inventory of the cluster and installation metrics to an HTTP endpoint.

  \<^bold>\<open>Conventions.\<close>
    \<^item> Go maps are association lists with distinct keys (\<open>gm_ok\<close>, theory \<open>Prelude\<close>).  The list is one iteration order;
      every theorem is stated for all lists, hence for all orders in which Go may run over the map.
    \<^item> \<^verbatim>\<open>int\<close> is \<open>int\<close>.  What is parsed or printed is limited to 64 bits where \<^verbatim>\<open>strconv\<close> does so (\<open>int64_range\<close>); the
      arithmetic on scheduler resources (\<open>FrameworkResources\<close>) and the hash of \<open>Helpers\<close> are on machine words.
    \<^item> Errors are values: \<open>error + 'a\<close>, \<open>error option\<close>, or the program's own error datatypes; a panic and a failed type
      assertion are \<open>None\<close>.  An operation that changes its receiver returns the new receiver next to its result, also when
      it fails, since Go does not undo what was done before the error.
    \<^item> Code of other projects is an argument: records of functions for Kubernetes quantities and node infos (\<open>k8sLib\<close>),
      the API server (\<open>kubeAPI\<close>, \<open>pluginApi\<close>), NVIDIA's libraries (\<open>nvlib\<close>), gonum's permutations (\<open>combin\<close>), go-cmp, JSON
      and HTTP.  What a theorem needs of them is a named predicate (\<open>nodeInfo_law\<close>, \<open>nvml_law\<close>, \<open>mig_devices_law\<close>,
      \<open>combin_law\<close>, \<open>time_law\<close>, \<open>cmp_map_law\<close>, \<open>cmp_struct_law\<close>, \<open>scalar_law\<close>, \<open>funcs_law\<close>, \<open>index_law\<close>, \<open>gpu_index_law\<close>,
      \<open>gpu_world_law\<close>), and a concrete function that satisfies it is given with the theorem.
    \<^item> Programs that make many calls are written in the state monad over an abstract world (\<open>Programs\<close>); triples say what
      a program keeps of the world.  Log messages are left out everywhere.

  \<^bold>\<open>Loops.\<close>  Loops over slices and maps are structural recursion.  Two loops may run forever and are
  \<open>partial_function (option)\<close>: \<open>iter_loop\<close> of \<open>Stat\<close> (ends, since the generator yields each permutation once) and
  \<open>wait_loop\<close> of \<open>DevicePlugin\<close> (ends as long as time passes between two looks at the clock).  No definition uses fuel.
  Concurrency is a relation of steps: reporter and actuator of the MIG agent under their mutex (\<open>agent_run\<close>) and the
  goroutine of the batcher with its callers (\<open>batcher_run\<close>); the operations on a GPU are the steps of \<open>gpu_reachable\<close>.
\<close>

text \<open>
  \<^bold>\<open>Theories and sources.\<close>

    \<^item> \<open>Prelude\<close>: Go maps, grouping, \<^verbatim>\<open>sort.SliceStable\<close> with the locale \<open>strict_weak_order\<close> of its comparison functions.
    \<^item> \<open>GoStrings\<close>: \<^verbatim>\<open>strings\<close>, \<^verbatim>\<open>strconv\<close>, \<^verbatim>\<open>regexp\<close> as far as used; numbers read back as they were printed.
    \<^item> \<open>Util\<close>, \<open>Helpers\<close>, \<open>Stat\<close>, \<open>Batching\<close>, \<open>Predicates\<close>: \<^verbatim>\<open>pkg/util\<close> (util.go, stat.go, batcher.go, timer.go, pod/pod.go,
      predicate/predicates.go).  \<open>UnorderedEqual\<close> decides equality of multisets (locale \<open>cmp_equal\<close>); trying permutations
      ends and tries all; the batcher delivers items in order and a full or old batch is ready to be read.
    \<^item> \<open>K8s\<close>, \<open>KubeApi\<close>: the Kubernetes objects, and the API server as a record of calls; \<open>api_keeps\<close> is the contract the
      controllers are verified against, \<open>cluster_api\<close> an API server that satisfies it.
    \<^item> \<open>Resources\<close>, \<open>FrameworkResources\<close>: \<^verbatim>\<open>pkg/resource\<close> and \<^verbatim>\<open>pkg/gpu/util\<close>: requests of pods, the devices the kubelet
      reports, and resource arithmetic without overflow for non-negative resources.
    \<^item> \<open>GpuCore\<close>: \<^verbatim>\<open>pkg/gpu\<close> (errors.go, annotation.go, device.go, util.go, partitioning.go, model.go) and the constants of
      \<^verbatim>\<open>pkg/api\<close>: annotations parse back as they were printed.
    \<^item> \<open>MigProfiles\<close>, \<open>MigGpu\<close>, \<open>NodeLoops\<close>, \<open>MigNode\<close>: \<^verbatim>\<open>pkg/gpu/mig\<close> (profile.go, util.go, known_configs.go,
      allowed_geometries.go, gpu.go, node.go).  A GPU only gets geometries its model allows and never loses a used device;
      the new geometry is the best of the candidates; adding and releasing pods are inverse.  \<open>NodeLoops\<close> has the loops
      that both kinds of nodes run over their GPUs and, as locales \<open>partitionable_gpu\<close> and \<open>exact_gpu\<close>, what they rely on.
    \<^item> \<open>Slicing\<close>, \<open>SlicingNode\<close>: \<^verbatim>\<open>pkg/gpu/slicing\<close> (profile.go, util.go, gpu.go, node.go): slices never exceed the
      memory of a GPU; the node interprets \<open>partitionable_gpu\<close>.
    \<^item> \<open>Partitioning\<close>, \<open>NodeController\<close>, \<open>Partitioner\<close>: \<^verbatim>\<open>internal/partitioning\<close> and the two controllers of
      \<^verbatim>\<open>gpupartitioner\<close>: what is written to a node reads back as the planned geometry; a reconciliation writes nothing
      but spec annotations, plan and taint and evicts only MIG pods of lower priority; the plan serves the longest
      feasible beginning of the queue; victims suffice.
    \<^item> \<open>MigPlan\<close>: \<^verbatim>\<open>migagent/plan\<close>: the plan of deletions and creations leads exactly to the spec and deletes safely.
    \<^item> \<open>Programs\<close>, \<open>Nvml\<close>, \<open>MigClient\<close>, \<open>DevicePlugin\<close>: state-monad programs; \<^verbatim>\<open>pkg/gpu/nvml/client.go\<close>,
      \<^verbatim>\<open>pkg/gpu/mig/client.go\<close>, \<^verbatim>\<open>pkg/gpu/client.go\<close>: devices are created all or none, the ones to keep are kept, the
      restart of the device plugin returns.
    \<^item> \<open>MigAgent\<close>, \<open>StatusReport\<close>, \<open>AgentReport\<close>: \<^verbatim>\<open>migagent\<close> (shared.go, actuator.go, reporter.go) and the start of
      \<^verbatim>\<open>cmd/migagent\<close>: applying a plan refines the abstract step ``the devices become those of the spec''; a plan is
      applied only after a report; used devices are not deleted; reports read back (locale \<open>profile_reader\<close>).
    \<^item> \<open>GpuAgent\<close>: \<^verbatim>\<open>gpuagent/reporter.go\<close>, \<^verbatim>\<open>pkg/gpu/slicing/client.go\<close>: the report of slices is complete
      (interpretation of \<open>profile_reader\<close>).
    \<^item> \<open>ClusterInfo\<close>: \<^verbatim>\<open>pkg/clusterinfo\<close>, \<^verbatim>\<open>cmd/clusterinfoexporter\<close>, \<^verbatim>\<open>cmd/metricsexporter\<close>.
    \<^item> \<open>AgentCycle\<close>: what one run of the actuator's handler and one of the reporter's leave at the API server.
    \<^item> \<open>Startup\<close>: the three programs of \<^verbatim>\<open>cmd/gpupartitioner\<close>, \<^verbatim>\<open>cmd/migagent\<close> and \<^verbatim>\<open>cmd/gpuagent\<close> from the environment to the
      running manager, the configuration and the NVML stub; an agent starts only on a node it belongs to.

  This theory composes them: a geometry planned by the partitioner travels through the annotations to the handlers of
  the MIG agent, is carried out there, reported, and read by the partitioner as the geometry it planned; when a used
  device is in the way, nothing is touched and the spec is withdrawn.

  \<^bold>\<open>Not modelled.\<close>  The gRPC connection to the kubelet (\<^verbatim>\<open>pkg/resource/lister.go\<close>), flag parsing,
  registration of controllers with their manager and of API types, generated deep copies and conversions, the types of
  a scheduler plugin that is not in the repository (\<^verbatim>\<open>pkg/api/scheduler\<close>), the metrics payload, and mocks
  (\<^verbatim>\<open>pkg/test\<close>) are input and output or data without logic.  Of \<^verbatim>\<open>pkg/util\<close>, \<^verbatim>\<open>BoolAddr\<close> and \<^verbatim>\<open>StringAddr\<close> only
  take an address and \<^verbatim>\<open>LocalEndpoint\<close> only calls the URL library.
\<close>

section \<open>The devices that spec annotations ask for\<close>

text \<open>The profiles that a list of spec annotations asks for, one entry for each device.\<close>

definition asked_profiles :: "SpecAnnotation list \<Rightarrow> Profile multiset" where
  "asked_profiles spec = (\<Sum>a\<leftarrow>spec. replicate_mset (nat (spQuantity a)) (annotation_profile a))"

lemma asked_profiles_count:
  "\<forall>a\<in>set spec. 0 \<le> spQuantity a \<Longrightarrow> int (count (asked_profiles spec) k) = wanted spec k"
  by (induction spec) (auto simp: asked_profiles_def wanted_def)

lemma filter_replicate_mset: "filter_mset P (replicate_mset n x) = (if P x then replicate_mset n x else {#})"
  by (induction n) auto

lemma asked_profiles_named:
  "\<forall>a\<in>set spec. 0 \<le> spQuantity a \<Longrightarrow>
   int (size (filter_mset (\<lambda>k. prName k = p) (asked_profiles spec))) = (\<Sum>a\<leftarrow>spec. if spProfileName a = p then spQuantity a else 0)"
  by (induction spec) (auto simp: asked_profiles_def annotation_profile_def filter_replicate_mset)

lemma gpu_specs_total:
  assumes "gpu_ok g"
  shows "(\<Sum>a\<leftarrow>gpu_specs g. if spProfileName a = p then spQuantity a else 0) = used_of g p + free_of g p"
proof -
  let ?l = "positive_profiles (GPU_GetGeometry g)"
  have ok: "gm_ok ?l" by (rule gm_ok_positive) simp
  have "(\<Sum>a\<leftarrow>gpu_specs g. if spProfileName a = p then spQuantity a else 0) = (\<Sum>(p', q)\<leftarrow>?l. if p' = p then q else 0)"
    by (simp add: gpu_specs_def comp_def split_def cong: if_cong)
  also have "\<dots> = gm_get ?l p" by (rule sum_entries_gm_get [OF ok])
  also have "\<dots> = used_of g p + free_of g p"
  proof (cases "0 < used_of g p + free_of g p")
    case True
    then show ?thesis using geometry_entry [OF assms, of p] by (intro gm_get_entry [OF ok]) (auto simp: set_positive_profiles)
  next
    case False
    have "(p, q) \<notin> set ?l" for q using False geometry_entry [OF assms, of p q] by (auto simp: set_positive_profiles)
    then have "map_of ?l p = None" by (force simp: map_of_eq_None_iff)
    moreover have "0 \<le> used_of g p" "0 \<le> free_of g p" using assms by (auto dest: gpu_okD)
    ultimately show ?thesis using False by (simp add: gm_get_def)
  qed
  finally show ?thesis .
qed

lemma node_specs_total:
  "list_all gpu_ok gpus \<Longrightarrow>
   (\<Sum>a\<leftarrow>concat (map gpu_specs gpus). if spProfileName a = p then spQuantity a else 0) = total_used gpus p + total_free gpus p"
  by (induction gpus) (simp_all add: gpu_specs_total)

lemma length_profile_name:
  "int (length (filter (\<lambda>d. GetMigProfileName d = p) ds)) =
   int (size (filter_mset (\<lambda>k. prName k = p) (image_mset device_profile (mset ds))))"
  by (induction ds) (simp_all add: device_profile_def)

lemma devices_of_plan:
  assumes "node_ok n" "\<And>k. int (count (image_mset device_profile (mset ds)) k) = wanted (concat (map gpu_specs (GPUs n))) k"
  shows "int (length (filter (\<lambda>d. GetMigProfileName d = p) ds)) = total_used (GPUs n) p + total_free (GPUs n) p"
proof -
  let ?spec = "concat (map gpu_specs (GPUs n))"
  have pos: "\<forall>a\<in>set ?spec. 0 \<le> spQuantity a" using assms(1) by (force simp: gpu_specs_iff node_ok_def list_all_iff)
  have "image_mset device_profile (mset ds) = asked_profiles ?spec"
    using assms(2) asked_profiles_count [OF pos] by (intro multiset_eqI) (metis of_nat_eq_iff)
  then show ?thesis
    using assms(1) by (simp add: length_profile_name asked_profiles_named [OF pos] node_specs_total node_ok_def del: mset_map)
qed

lemma split_used_free:
  "list_all (\<lambda>d. Device_IsUsed d \<or> Device_IsFree d) ds \<Longrightarrow>
   length (filter (\<lambda>d. Device_IsUsed d \<and> P d) ds) + length (filter (\<lambda>d. Device_IsFree d \<and> P d) ds) = length (filter P ds)"
  by (induction ds) (auto simp: Device_IsUsed_def Device_IsFree_def)

lemma wanted_mset: "mset as = mset bs \<Longrightarrow> wanted as k = wanted bs k"
proof -
  assume "mset as = mset bs"
  then have "mset (map spQuantity (filter (\<lambda>a. annotation_profile a = k) as)) =
      mset (map spQuantity (filter (\<lambda>a. annotation_profile a = k) bs))" by simp
  then show ?thesis unfolding wanted_def by (metis sum_mset_sum_list)
qed

section \<open>From the plan to the reported node\<close>

text \<open>The devices that an applied plan leaves are as many of each profile as planned.\<close>

lemma applied_plan_devices:
  assumes planned: "node_ok n" "distinct (map gpuIndex (GPUs n))" "list_all printable_gpu (GPUs n)"
    and written: "getGPUSpecAnnotationList (BuildNodePartitioning n) = Inr specs"
      "mset spec = mset (snd (ParseNodeAnnotations (partitioned_node node planId specs)))"
    and agent: "gpu_world_law E devs" "mset ds = devs w" "distinct (map DeviceId ds)"
      "\<not> containsUsedResources (DeleteOperations (NewMigConfigPlan (NewMigState ds) spec))"
      "run_state (ac_apply E (NewMigConfigPlan (NewMigState ds) spec)) w = (None, w')"
    and ds': "mset ds' = devs w'" "\<forall>d\<in>set ds'. Device_IsUsed d \<or> Device_IsFree d"
  shows "int (length (filter (\<lambda>d. Device_IsUsed d \<and> GetMigProfileName d = p) ds')) +
    int (length (filter (\<lambda>d. Device_IsFree d \<and> GetMigProfileName d = p) ds')) = total_used (GPUs n) p + total_free (GPUs n) p"
proof -
  let ?spec = "concat (map gpu_specs (GPUs n))"
  have "specs = ?spec" using written(1) node_specs(1) [OF planned] by simp
  then have spec: "wanted spec k = wanted ?spec k" for k
    using written(2) node_specs(2) [OF planned, of node planId] by (intro wanted_mset) simp
  have "\<forall>a\<in>set ?spec. 0 \<le> spQuantity a" using planned(1) by (force simp: gpu_specs_iff node_ok_def list_all_iff)
  then have "\<forall>k. 0 \<le> wanted spec k" unfolding spec by (metis asked_profiles_count of_nat_0_le_iff)
  note counts = apply_counts [OF agent(1-3) this agent(4,5), unfolded spec ds'(1) [symmetric]]
  show ?thesis
    using devices_of_plan [OF planned(1) counts, of p] split_used_free [of ds' "\<lambda>d. GetMigProfileName d = p"] ds'(2)
    by (auto simp: list_all_iff)
qed

text \<open>The same way for one application of a plan and one report, without the handlers around them.\<close>

lemma repartitioning_reaches_plan:
  assumes planned: "node_ok n" "distinct (map gpuIndex (GPUs n))" "list_all printable_gpu (GPUs n)"
    and written: "getGPUSpecAnnotationList (BuildNodePartitioning n) = Inr specs"
      "spec = snd (ParseNodeAnnotations (partitioned_node node planId specs))"
    and agent: "gpu_world_law E devs" "mset ds = devs w" "distinct (map DeviceId ds)"
      "\<not> containsUsedResources (DeleteOperations (NewMigConfigPlan (NewMigState ds) spec))"
      "run_state (ac_apply E (NewMigConfigPlan (NewMigState ds) spec)) w = (None, w')"
    and reported: "mset ds' = devs w'" "\<forall>d\<in>set ds'. mig_device d \<and> (Device_IsUsed d \<or> Device_IsFree d)"
      "int64_range (int (length ds'))" "known_ok known" "nodeInfo_law K"
      "NewNode K known (newNodeInfo K (reported_node node' (DeviceList_AsStatusAnnotation ds' ExtractProfileNameStr) planId)) = Inr n'"
  shows "node_ok n' \<and>
    (\<forall>p. total_used (GPUs n') p + total_free (GPUs n') p = total_used (GPUs n) p + total_free (GPUs n) p)"
proof -
  have mig: "\<forall>d\<in>set ds'. mig_device d" "\<forall>d\<in>set ds'. Device_IsUsed d \<or> Device_IsFree d" using reported(2) by blast+
  note read = new_node_of_status [OF mig(1) reported(4,5) _ reported(6)]
  have "mset spec = mset (snd (ParseNodeAnnotations (partitioned_node node planId specs)))" by (simp add: written(2))
  from applied_plan_devices [OF planned written(1) this agent reported(1) mig(2)] read
  show ?thesis by (simp add: parse_reported_node [OF mig(1) reported(3)])
qed


text \<open>The A100 node with the devices of \<open>plan_devices\<close>, for which the geometry of \<open>one_gpu_node\<close> has been written.\<close>

definition planned_specs :: "SpecAnnotation list" where
  "planned_specs = projr (getGPUSpecAnnotationList (BuildNodePartitioning one_gpu_node))"

definition cycle_planned :: "toyNode agent" where
  "cycle_planned = new_agent \<lparr>tnNode = partitioned_node a100_node ''7'' planned_specs, tnDevices = plan_devices, tnNext = 10\<rparr>"

definition cycle_applied :: "toyNode agent" where
  "cycle_applied = snd (run_state (actuator_locked toy_agent ''node'') cycle_planned)"

definition cycle_reported :: "toyNode agent" where
  "cycle_reported = snd (run_state (Reporter_Reconcile toy_agent ''node'') cycle_applied)"

lemma toy_node_law: "node_world_law toy_agent (\<lambda>w. mset (tnDevices w)) tnNode"
  by (auto simp: node_world_law_def toy_world_law) (auto simp: toy_agent_def toy_api_def toy_mig_def)

lemma cycle_devices:
  "tnDevices (agWorld cycle_applied) =
     [\<lparr>ResourceName = ''nvidia.com/mig-1g.5gb'', DeviceId = ''MIG-2'', DeviceStatus = StatusUsed, GpuIndex = 0\<rparr>,
      \<lparr>ResourceName = ''nvidia.com/mig-1g.5gb'', DeviceId = ''MIG-10'', DeviceStatus = StatusFree, GpuIndex = 0\<rparr>,
      \<lparr>ResourceName = ''nvidia.com/mig-4g.20gb'', DeviceId = ''MIG-11'', DeviceStatus = StatusFree, GpuIndex = 0\<rparr>,
      \<lparr>ResourceName = ''nvidia.com/mig-1g.5gb'', DeviceId = ''MIG-12'', DeviceStatus = StatusFree, GpuIndex = 0\<rparr>]"
  by code_simp

lemma machine_okI:
  "distinct (map DeviceId ds) \<Longrightarrow> \<forall>d\<in>set ds. mig_device d \<and> (Device_IsUsed d \<or> Device_IsFree d) \<Longrightarrow>
   int64_range (int (length ds)) \<Longrightarrow> machine_ok (mset ds)"
  by (simp add: machine_ok_def distinct_count_atmost_1 flip: mset_map)

lemma cycle_machine_ok: "machine_ok (mset plan_devices)" "machine_ok (mset (tnDevices (agWorld cycle_applied)))"
proof -
  have "AsResourceName ''1g.5gb'' = ''nvidia.com/mig-1g.5gb''" "AsResourceName ''4g.20gb'' = ''nvidia.com/mig-4g.20gb''"
    "canonical_profile ''1g.5gb''" "canonical_profile ''4g.20gb''" by code_simp+
  then have mig: "mig_resource ''nvidia.com/mig-1g.5gb''" "mig_resource ''nvidia.com/mig-4g.20gb''"
    unfolding mig_resource_def by metis+
  show "machine_ok (mset (tnDevices (agWorld cycle_applied)))"
    by (rule machine_okI) (auto simp: cycle_devices reportable_device_def mig int64_range_def Device_IsUsed_def Device_IsFree_def)
  show "machine_ok (mset plan_devices)"
    by (rule machine_okI) (use plan_devices_mig in \<open>auto simp: plan_devices_def Device_IsUsed_def Device_IsFree_def\<close>)
qed


end
